(* ===== verification/Prelude.thy ===== *)
theory Prelude
  imports Main "HOL-Library.Word"
begin

text \<open>
  Shared vocabulary of the development: machine words under the names of
  \<^verbatim>\<open>headers/common.h\<close>, little-endian byte encodings, C strings in fixed
  buffers, partial overwriting of a buffer, bounded partial maps, and the collections of
  lemmas the component theories feed to the simplifier.
\<close>

unbundle bit_operations_syntax

named_theorems layout_simps \<open>byte encodings and buffer lengths\<close>
named_theorems frame_simps \<open>what an operation leaves alone\<close>

subsection \<open>Little-endian bytes\<close>

text \<open>
  \<open>le_bytes n w\<close> is the \<open>n\<close>-byte little-endian image of \<open>w\<close>, as the \<^verbatim>\<open>bpfel\<close> target
  stores an integer; \<open>le_word\<close> reads such an image back.
\<close>

definition le_bytes :: "nat \<Rightarrow> 'a::len word \<Rightarrow> 8 word list" where
  "le_bytes n w = map (\<lambda>i. ucast (drop_bit (8 * i) w)) [0..<n]"

primrec le_word :: "8 word list \<Rightarrow> 'a::len word" where
  "le_word [] = 0"
| "le_word (b # bs) = ucast b OR push_bit 8 (le_word bs)"

lemma length_le_bytes [simp, layout_simps]: "length (le_bytes n w) = n"
  by (simp add: le_bytes_def)

lemma bit_le_word:
  "bit (le_word bs :: 'a::len word) i \<longleftrightarrow>
     i < LENGTH('a) \<and> i < 8 * length bs \<and> bit (bs ! (i div 8)) (i mod 8)"
proof (induction bs arbitrary: i)
  case Nil
  then show ?case by simp
next
  case (Cons b bs)
  show ?case
  proof (cases "i < 8")
    case True
    then show ?thesis by (auto simp: bit_simps)
  next
    case False
    then obtain j where j: "i = j + 8" by (metis add.commute le_Suc_ex not_less)
    then have "i div 8 = Suc (j div 8)" "i mod 8 = j mod 8" by simp_all
    with j show ?thesis
      using Cons.IH [of j] by (auto simp: bit_simps dest: bit_imp_le_length)
  qed
qed

lemma le_word_le_bytes:
  assumes "LENGTH('a) \<le> 8 * n"
  shows "le_word (le_bytes n (w :: 'a::len word)) = w"
proof (rule bit_word_eqI)
  fix i assume i: "i < LENGTH('a)"
  with assms have "i div 8 < n" by simp
  with i assms show "bit (le_word (le_bytes n w) :: 'a word) i = bit w i"
    by (simp add: bit_le_word le_bytes_def bit_simps)
qed

text \<open>Reading fewer bytes than were written keeps the low-order part.\<close>

lemma le_word_take_le_bytes:
  assumes "k \<le> n" "8 * k = LENGTH('b)" "8 * n = LENGTH('a)"
  shows "(le_word (take k (le_bytes n (w :: 'a::len word))) :: 'b::len word) = ucast w"
proof (rule bit_word_eqI)
  fix i assume i: "i < LENGTH('b)"
  with assms have "i div 8 < k" by simp
  with i assms show "bit (le_word (take k (le_bytes n w)) :: 'b word) i = bit (ucast w :: 'b word) i"
    by (simp add: bit_le_word le_bytes_def bit_simps)
qed

lemma le_bytes_le_word:
  assumes "length bs = n" "LENGTH('a) = 8 * n"
  shows "le_bytes n (le_word bs :: 'a::len word) = bs"
proof (rule nth_equalityI)
  show "length (le_bytes n (le_word bs :: 'a word)) = length bs" using assms by simp
next
  fix k assume "k < length (le_bytes n (le_word bs :: 'a word))"
  then have k: "k < n" by simp
  show "le_bytes n (le_word bs :: 'a word) ! k = bs ! k"
  proof (rule bit_word_eqI)
    fix i assume i: "i < LENGTH(8)"
    then have "(8 * k + i) div 8 = k" "(8 * k + i) mod 8 = i" by auto
    with i k assms show "bit (le_bytes n (le_word bs :: 'a word) ! k) i = bit (bs ! k) i"
      by (auto simp: le_bytes_def bit_le_word bit_simps add.commute [of i])
  qed
qed

subsection \<open>Buffers and C strings\<close>

text \<open>
  A fixed-size C array is a list; an operation that writes the first bytes of a
  destination buffer and leaves the rest alone is \<open>overwrite\<close>.
\<close>

definition overwrite :: "'a list \<Rightarrow> 'a list \<Rightarrow> 'a list" where
  "overwrite xs dst = take (length dst) xs @ drop (length xs) dst"

lemma length_overwrite [simp, layout_simps]: "length (overwrite xs dst) = length dst"
  by (auto simp: overwrite_def)

lemma overwrite_full: "length xs = length dst \<Longrightarrow> overwrite xs dst = xs"
  by (simp add: overwrite_def)

lemma overwrite_prefix: "length xs \<le> length dst \<Longrightarrow> take (length xs) (overwrite xs dst) = xs"
  by (simp add: overwrite_def)

text \<open>The string a NUL-terminated buffer holds: its bytes before the first NUL.\<close>

definition cstr :: "8 word list \<Rightarrow> 8 word list" where
  "cstr bs = takeWhile (\<lambda>b. b \<noteq> 0) bs"

lemma cstr_append_NUL [simp]: "0 \<notin> set s \<Longrightarrow> cstr (s @ 0 # t) = s"
  by (induction s) (auto simp: cstr_def)

lemma cstr_no_NUL: "0 \<notin> set s \<Longrightarrow> cstr s = s"
  by (induction s) (auto simp: cstr_def)

lemma length_cstr_le: "length (cstr bs) \<le> length bs"
  by (simp add: cstr_def length_takeWhile_le)

lemma NUL_notin_cstr: "0 \<notin> set (cstr bs)"
  by (auto simp: cstr_def dest: set_takeWhileD)

lemma cstr_overwrite:
  assumes "0 \<notin> set s" "length s < length dst"
  shows "cstr (overwrite (s @ [0]) dst) = s"
  using assms by (simp add: overwrite_def)

subsection \<open>Partial maps with a capacity\<close>

lemma card_dom_upd_in: "k \<in> dom m \<Longrightarrow> dom (m(k \<mapsto> v)) = dom m"
  by auto

lemma card_dom_upd_le:
  assumes "finite (dom m)" "card (dom m) < n"
  shows "card (dom (m(k \<mapsto> v))) \<le> n"
  using assms by (simp add: card_insert_if)

lemma finite_dom_upd: "finite (dom m) \<Longrightarrow> finite (dom (m(k \<mapsto> v)))"
  by simp

end
