(* ===== verification/Common_H.thy ===== *)
theory Common_H
  imports Prelude
begin

text \<open>
  \<^verbatim>\<open>headers/common.h\<close> and \<^verbatim>\<open>headers/mysql.h\<close>: the integer types, the
  kernel enumerations and flag words the probe uses, the x86-64 register frame
  \<^verbatim>\<open>struct pt_regs\<close>, the packet headers the file declares, and the two MySQL
  structures the probe copies out of the server's memory. A C array is a list, an unsigned
  integer a word of its width; signed integers are words read with \<^const>\<open>sint\<close>.
\<close>

subsection \<open>Integer types\<close>

type_synonym u8 = "8 word"
type_synonym s8 = "8 word"
type_synonym u16 = "16 word"
type_synonym s16 = "16 word"
type_synonym u32 = "32 word"
type_synonym s32 = "32 word"
type_synonym u64 = "64 word"
type_synonym s64 = "64 word"
type_synonym ulong = "64 word"
type_synonym be16 = "16 word"
type_synonym be32 = "32 word"
type_synonym be64 = "64 word"

subsection \<open>Enumerations and flags\<close>

datatype bpf_map_type =
    BPF_MAP_TYPE_UNSPEC
  | BPF_MAP_TYPE_HASH
  | BPF_MAP_TYPE_ARRAY
  | BPF_MAP_TYPE_PROG_ARRAY
  | BPF_MAP_TYPE_PERF_EVENT_ARRAY
  | BPF_MAP_TYPE_PERCPU_HASH
  | BPF_MAP_TYPE_PERCPU_ARRAY
  | BPF_MAP_TYPE_STACK_TRACE
  | BPF_MAP_TYPE_CGROUP_ARRAY
  | BPF_MAP_TYPE_LRU_HASH
  | BPF_MAP_TYPE_LRU_PERCPU_HASH
  | BPF_MAP_TYPE_LPM_TRIE
  | BPF_MAP_TYPE_ARRAY_OF_MAPS
  | BPF_MAP_TYPE_HASH_OF_MAPS
  | BPF_MAP_TYPE_DEVMAP
  | BPF_MAP_TYPE_SOCKMAP
  | BPF_MAP_TYPE_CPUMAP
  | BPF_MAP_TYPE_XSKMAP
  | BPF_MAP_TYPE_SOCKHASH
  | BPF_MAP_TYPE_CGROUP_STORAGE
  | BPF_MAP_TYPE_REUSEPORT_SOCKARRAY
  | BPF_MAP_TYPE_PERCPU_CGROUP_STORAGE
  | BPF_MAP_TYPE_QUEUE
  | BPF_MAP_TYPE_STACK
  | BPF_MAP_TYPE_SK_STORAGE
  | BPF_MAP_TYPE_DEVMAP_HASH
  | BPF_MAP_TYPE_STRUCT_OPS
  | BPF_MAP_TYPE_RINGBUF
  | BPF_MAP_TYPE_INODE_STORAGE

primrec bpf_map_type_value :: "bpf_map_type \<Rightarrow> u32" where
  "bpf_map_type_value BPF_MAP_TYPE_UNSPEC = 0"
| "bpf_map_type_value BPF_MAP_TYPE_HASH = 1"
| "bpf_map_type_value BPF_MAP_TYPE_ARRAY = 2"
| "bpf_map_type_value BPF_MAP_TYPE_PROG_ARRAY = 3"
| "bpf_map_type_value BPF_MAP_TYPE_PERF_EVENT_ARRAY = 4"
| "bpf_map_type_value BPF_MAP_TYPE_PERCPU_HASH = 5"
| "bpf_map_type_value BPF_MAP_TYPE_PERCPU_ARRAY = 6"
| "bpf_map_type_value BPF_MAP_TYPE_STACK_TRACE = 7"
| "bpf_map_type_value BPF_MAP_TYPE_CGROUP_ARRAY = 8"
| "bpf_map_type_value BPF_MAP_TYPE_LRU_HASH = 9"
| "bpf_map_type_value BPF_MAP_TYPE_LRU_PERCPU_HASH = 10"
| "bpf_map_type_value BPF_MAP_TYPE_LPM_TRIE = 11"
| "bpf_map_type_value BPF_MAP_TYPE_ARRAY_OF_MAPS = 12"
| "bpf_map_type_value BPF_MAP_TYPE_HASH_OF_MAPS = 13"
| "bpf_map_type_value BPF_MAP_TYPE_DEVMAP = 14"
| "bpf_map_type_value BPF_MAP_TYPE_SOCKMAP = 15"
| "bpf_map_type_value BPF_MAP_TYPE_CPUMAP = 16"
| "bpf_map_type_value BPF_MAP_TYPE_XSKMAP = 17"
| "bpf_map_type_value BPF_MAP_TYPE_SOCKHASH = 18"
| "bpf_map_type_value BPF_MAP_TYPE_CGROUP_STORAGE = 19"
| "bpf_map_type_value BPF_MAP_TYPE_REUSEPORT_SOCKARRAY = 20"
| "bpf_map_type_value BPF_MAP_TYPE_PERCPU_CGROUP_STORAGE = 21"
| "bpf_map_type_value BPF_MAP_TYPE_QUEUE = 22"
| "bpf_map_type_value BPF_MAP_TYPE_STACK = 23"
| "bpf_map_type_value BPF_MAP_TYPE_SK_STORAGE = 24"
| "bpf_map_type_value BPF_MAP_TYPE_DEVMAP_HASH = 25"
| "bpf_map_type_value BPF_MAP_TYPE_STRUCT_OPS = 26"
| "bpf_map_type_value BPF_MAP_TYPE_RINGBUF = 27"
| "bpf_map_type_value BPF_MAP_TYPE_INODE_STORAGE = 28"

datatype xdp_action = XDP_ABORTED | XDP_DROP | XDP_PASS | XDP_TX | XDP_REDIRECT

primrec xdp_action_value :: "xdp_action \<Rightarrow> u32" where
  "xdp_action_value XDP_ABORTED = 0"
| "xdp_action_value XDP_DROP = 1"
| "xdp_action_value XDP_PASS = 2"
| "xdp_action_value XDP_TX = 3"
| "xdp_action_value XDP_REDIRECT = 4"

text \<open>The update flags are passed in a 64-bit argument.\<close>

definition BPF_ANY :: u64 where "BPF_ANY = 0"
definition BPF_NOEXIST :: u64 where "BPF_NOEXIST = 1"
definition BPF_EXIST :: u64 where "BPF_EXIST = 2"
definition BPF_F_LOCK :: u64 where "BPF_F_LOCK = 4"

lemmas bpf_flag_defs = BPF_ANY_def BPF_NOEXIST_def BPF_EXIST_def BPF_F_LOCK_def

definition BPF_F_INDEX_MASK :: u64 where "BPF_F_INDEX_MASK = 0xffffffff"
definition BPF_F_CURRENT_CPU :: u64 where "BPF_F_CURRENT_CPU = BPF_F_INDEX_MASK"

subsection \<open>Structures\<close>

record pt_regs =
  r15 :: ulong
  r14 :: ulong
  r13 :: ulong
  r12 :: ulong
  rbp :: ulong
  rbx :: ulong
  r11 :: ulong
  r10 :: ulong
  r9 :: ulong
  r8 :: ulong
  rax :: ulong
  rcx :: ulong
  rdx :: ulong
  rsi :: ulong
  rdi :: ulong
  orig_rax :: ulong
  rip :: ulong
  cs :: ulong
  eflags :: ulong
  rsp :: ulong
  ss :: ulong

record xdp_md =
  data :: u32
  data_end :: u32
  data_meta :: u32
  ingress_ifindex :: u32
  rx_queue_index :: u32
  egress_ifindex :: u32

definition ETH_P_IP :: be16 where "ETH_P_IP = 0x0800"

record ethhdr =
  h_dest :: "u8 list"
  h_source :: "u8 list"
  h_proto :: be16

text \<open>\<^verbatim>\<open>ihl\<close> and \<^verbatim>\<open>version\<close> are four-bit fields.\<close>

record iphdr =
  ihl :: "4 word"
  version :: "4 word"
  tos :: u8
  tot_len :: be16
  ident :: be16
  frag_off :: be16
  ttl :: u8
  protocol :: u8
  check :: u16
  saddr :: be32
  daddr :: be32

subsection \<open>MySQL definitions\<close>

definition COM_QUERY :: u64 where "COM_QUERY = 3"

definition DISPATCH_COMMAND_V57_FAILED :: s32 where "DISPATCH_COMMAND_V57_FAILED = - 2"

record COM_QUERY_DATA =
  qd_query :: u64
  qd_length :: u32

record st_mysql_const_lex_string =
  ls_str :: u64
  ls_length :: ulong

text \<open>
  The two structures as the probe finds them in memory (x86-64 ABI): an 8-byte pointer, then
  a 4-byte count and 4 bytes of padding, respectively an 8-byte count.
\<close>

definition sizeof_COM_QUERY_DATA :: nat where "sizeof_COM_QUERY_DATA = 16"
definition sizeof_lex_string :: nat where "sizeof_lex_string = 16"

definition COM_QUERY_DATA_of_bytes :: "u8 list \<Rightarrow> COM_QUERY_DATA" where
  "COM_QUERY_DATA_of_bytes bs =
     \<lparr>qd_query = le_word (take 8 bs), qd_length = le_word (take 4 (drop 8 bs))\<rparr>"

definition lex_string_of_bytes :: "u8 list \<Rightarrow> st_mysql_const_lex_string" where
  "lex_string_of_bytes bs =
     \<lparr>ls_str = le_word (take 8 bs), ls_length = le_word (take 8 (drop 8 bs))\<rparr>"

definition MIN_STR_LEN :: "ulong \<Rightarrow> ulong \<Rightarrow> ulong" where
  "MIN_STR_LEN a b = (if a + 1 < b then a + 1 else b)"

subsection \<open>Facts\<close>

text \<open>The map types are numbered without a gap, so a type is recovered from its number.\<close>

definition bpf_map_types :: "bpf_map_type list" where
  "bpf_map_types = [BPF_MAP_TYPE_UNSPEC, BPF_MAP_TYPE_HASH, BPF_MAP_TYPE_ARRAY, BPF_MAP_TYPE_PROG_ARRAY, BPF_MAP_TYPE_PERF_EVENT_ARRAY, BPF_MAP_TYPE_PERCPU_HASH, BPF_MAP_TYPE_PERCPU_ARRAY, BPF_MAP_TYPE_STACK_TRACE, BPF_MAP_TYPE_CGROUP_ARRAY, BPF_MAP_TYPE_LRU_HASH, BPF_MAP_TYPE_LRU_PERCPU_HASH, BPF_MAP_TYPE_LPM_TRIE, BPF_MAP_TYPE_ARRAY_OF_MAPS, BPF_MAP_TYPE_HASH_OF_MAPS, BPF_MAP_TYPE_DEVMAP, BPF_MAP_TYPE_SOCKMAP, BPF_MAP_TYPE_CPUMAP, BPF_MAP_TYPE_XSKMAP, BPF_MAP_TYPE_SOCKHASH, BPF_MAP_TYPE_CGROUP_STORAGE, BPF_MAP_TYPE_REUSEPORT_SOCKARRAY, BPF_MAP_TYPE_PERCPU_CGROUP_STORAGE, BPF_MAP_TYPE_QUEUE, BPF_MAP_TYPE_STACK, BPF_MAP_TYPE_SK_STORAGE, BPF_MAP_TYPE_DEVMAP_HASH, BPF_MAP_TYPE_STRUCT_OPS, BPF_MAP_TYPE_RINGBUF, BPF_MAP_TYPE_INODE_STORAGE]"

lemma bpf_map_type_numbering: "map bpf_map_type_value bpf_map_types = map of_nat [0..<29]"
  by (simp add: bpf_map_types_def upt_rec)

lemma MIN_STR_LEN_le: "MIN_STR_LEN a b \<le> b"
  by (simp add: MIN_STR_LEN_def less_imp_le)

lemma MIN_STR_LEN_no_wrap:
  assumes "a \<noteq> - 1"
  shows "unat (MIN_STR_LEN a b) = min (unat a + 1) (unat b)"
proof -
  have "1 + a \<noteq> 0" using assms by (metis add.commute add_eq_0_iff)
  then have "unat (a + 1) = unat a + 1" by (simp add: unatSuc add.commute)
  then show ?thesis by (auto simp: MIN_STR_LEN_def word_less_nat_alt)
qed

end
