(* ===== verification/Bpf_Maps.thy ===== *)
theory Bpf_Maps
  imports Common_H "HOL-Library.AList"
begin

text \<open>
  The maps \<^verbatim>\<open>mysqld_probe.c\<close> declares and the helpers it calls on them, as the comments
  of \<^verbatim>\<open>headers/bpf_helper_defs.h\<close> describe them: a hash map of bounded size, a bounded
  queue, a one-element per-CPU array and a perf event array. A hash map is an association
  list with distinct keys. What a comment leaves open (a failure of the kernel's own) is an
  argument. Two interfaces, \<^verbatim>\<open>bounded_store\<close> and \<^verbatim>\<open>bounded_fifo\<close>, carry the facts
  the probe's proofs use; both are interpreted on these operations.
\<close>

text \<open>The result of a helper: 0 on success, or a negative error.\<close>

datatype bpf_rc = RC_OK | RC_ERR

subsection \<open>Hash maps\<close>

type_synonym 'v bpf_hash = "(u32 \<times> 'v) list"

definition bpf_map_lookup_elem :: "'v bpf_hash \<Rightarrow> u32 \<Rightarrow> 'v option" where
  "bpf_map_lookup_elem m k = map_of m k"

text \<open>
  \<^verbatim>\<open>bpf_map_update_elem\<close> on a map of at most \<open>cap\<close> entries; \<open>refuse\<close> is a failure for a
  reason of the kernel's own. The comment speaks of the flags only. That a new key is refused
  when the map holds \<open>cap\<close> entries is what \<^verbatim>\<open>max_entries\<close>, which the program declares for each
  map, means for a hash map of the kernel; it is an assumption here.
\<close>

definition bpf_map_update_elem ::
  "nat \<Rightarrow> bool \<Rightarrow> 'v bpf_hash \<Rightarrow> u32 \<Rightarrow> 'v \<Rightarrow> u64 \<Rightarrow> bpf_rc \<times> 'v bpf_hash" where
  "bpf_map_update_elem cap refuse m k v flags =
     (if refuse then (RC_ERR, m)
      else if flags = BPF_NOEXIST \<and> map_of m k \<noteq> None then (RC_ERR, m)
      else if flags = BPF_EXIST \<and> map_of m k = None then (RC_ERR, m)
      else if map_of m k = None \<and> cap \<le> length m then (RC_ERR, m)
      else (RC_OK, AList.update k v m))"

definition bpf_map_delete_elem :: "'v bpf_hash \<Rightarrow> u32 \<Rightarrow> bpf_rc \<times> 'v bpf_hash" where
  "bpf_map_delete_elem m k =
     (if map_of m k = None then (RC_ERR, m) else (RC_OK, AList.delete k m))"

text \<open>Storing through the pointer a lookup returned: the entry is overwritten in place.\<close>

definition hash_write :: "'v bpf_hash \<Rightarrow> u32 \<Rightarrow> 'v \<Rightarrow> 'v bpf_hash" where
  "hash_write m k v = AList.update k v m"

definition hash_ok :: "nat \<Rightarrow> 'v bpf_hash \<Rightarrow> bool" where
  "hash_ok cap m \<longleftrightarrow> distinct (map fst m) \<and> length m \<le> cap"

subsection \<open>Queue, per-CPU array, perf events\<close>

definition bpf_map_push_elem :: "nat \<Rightarrow> 'v list \<Rightarrow> 'v \<Rightarrow> u64 \<Rightarrow> bpf_rc \<times> 'v list" where
  "bpf_map_push_elem cap q v flags =
     (if length q < cap then (RC_OK, q @ [v])
      else if flags = BPF_EXIST then (RC_OK, tl q @ [v])
      else (RC_ERR, q))"

text \<open>User space takes the oldest element; on an empty queue the call fails.\<close>

definition queue_lookup_and_delete :: "'v list \<Rightarrow> ('v \<times> 'v list) option" where
  "queue_lookup_and_delete q = (case q of [] \<Rightarrow> None | v # q' \<Rightarrow> Some (v, q'))"

text \<open>A per-CPU array of \<open>n\<close> elements, seen from one CPU.\<close>

definition percpu_array_lookup_elem :: "nat \<Rightarrow> (u32 \<Rightarrow> 'v) \<Rightarrow> u32 \<Rightarrow> u32 \<Rightarrow> 'v option" where
  "percpu_array_lookup_elem n arr cpu idx = (if unat idx < n then Some (arr cpu) else None)"

text \<open>
  A perf event array: the records delivered so far, each with the CPU whose ring took it.
  With \<^const>\<open>BPF_F_CURRENT_CPU\<close> the index is the current CPU. A full ring loses the record.
\<close>

definition bpf_perf_event_output ::
  "bool \<Rightarrow> (u32 \<times> 'd) list \<Rightarrow> u32 \<Rightarrow> u64 \<Rightarrow> 'd \<Rightarrow> bpf_rc \<times> (u32 \<times> 'd) list" where
  "bpf_perf_event_output lost evs cpu flags d =
     (let idx = flags AND BPF_F_INDEX_MASK;
          target = (if idx = BPF_F_CURRENT_CPU then cpu else ucast idx)
      in if lost then (RC_ERR, evs) else (RC_OK, evs @ [(target, d)]))"

subsection \<open>The store interface\<close>

locale bounded_store =
  fixes lookup :: "'m \<Rightarrow> 'k \<Rightarrow> 'v option"
    and update :: "'m \<Rightarrow> 'k \<Rightarrow> 'v \<Rightarrow> u64 \<Rightarrow> bpf_rc \<times> 'm"
    and store :: "'m \<Rightarrow> 'k \<Rightarrow> 'v \<Rightarrow> 'm"
    and entries :: "'m \<Rightarrow> nat"
    and cap :: nat
    and invar :: "'m \<Rightarrow> bool"
  assumes update_OK: "update m k v f = (RC_OK, m') \<Longrightarrow> lookup m' = (lookup m)(k \<mapsto> v)"
    and update_ERR: "update m k v f = (RC_ERR, m') \<Longrightarrow> m' = m"
    and update_invar: "invar m \<Longrightarrow> invar (snd (update m k v f))"
    and update_full: "lookup m k = None \<Longrightarrow> cap \<le> entries m \<Longrightarrow> update m k v f = (RC_ERR, m)"
    and store_lookup: "lookup (store m k v) = (lookup m)(k \<mapsto> v)"
    and store_invar: "invar m \<Longrightarrow> lookup m k \<noteq> None \<Longrightarrow> invar (store m k v)"
    and entries_le: "invar m \<Longrightarrow> entries m \<le> cap"
begin

lemma update_cases:
  obtains (stored) m' where "update m k v f = (RC_OK, m')" "lookup m' = (lookup m)(k \<mapsto> v)"
  | (kept) "update m k v f = (RC_ERR, m)"
proof (cases "update m k v f")
  case (Pair rc m')
  then show ?thesis
    using update_OK [of m k v f m'] update_ERR [of m k v f m'] stored [of m'] kept
    by (cases rc) simp_all
qed

lemma lookup_update_other:
  "k' \<noteq> k \<Longrightarrow> lookup (snd (update m k v f)) k' = lookup m k'"
  by (rule update_cases [where m = m and k = k and v = v and f = f]) auto

lemma lookup_update_this:
  "lookup (snd (update m k v f)) k =
     (if fst (update m k v f) = RC_OK then Some v else lookup m k)"
  by (rule update_cases [where m = m and k = k and v = v and f = f]) auto

lemma lookup_update_mono:
  "lookup m k' \<noteq> None \<Longrightarrow> lookup (snd (update m k v f)) k' \<noteq> None"
  by (rule update_cases [where m = m and k = k and v = v and f = f]) auto

lemma lookup_store_other: "k' \<noteq> k \<Longrightarrow> lookup (store m k v) k' = lookup m k'"
  and lookup_store_this: "lookup (store m k v) k = Some v"
  by (simp_all add: store_lookup)

lemma full_stays_out:
  assumes "lookup m k = None" "cap \<le> entries m"
  shows "lookup (snd (update m k v f)) k = None"
  using update_full [OF assms] assms by simp

end

text \<open>A store whose updates without conditions fail only for lack of room.\<close>

locale reliable_store = bounded_store +
  assumes update_ANY: "lookup m k \<noteq> None \<or> entries m < cap \<Longrightarrow> fst (update m k v BPF_ANY) = RC_OK"
begin

lemma lookup_update_ANY:
  assumes "lookup m k \<noteq> None \<or> entries m < cap"
  shows "lookup (snd (update m k v BPF_ANY)) = (lookup m)(k \<mapsto> v)"
proof -
  obtain rc m' where u: "update m k v BPF_ANY = (rc, m')"
    by (cases "update m k v BPF_ANY")
  with update_ANY [OF assms, of v] have "rc = RC_OK" by simp
  with u update_OK [of m k v BPF_ANY m'] show ?thesis by simp
qed

end

lemma map_of_AList_update: "map_of (AList.update k v m) = (map_of m)(k \<mapsto> v)"
  by (rule update_conv')

lemma length_AList_update:
  "length (AList.update k v m) = (if map_of m k = None then Suc (length m) else length m)"
  by (induction m) auto

lemma hash_ok_length: "hash_ok cap m \<Longrightarrow> length m \<le> cap"
  by (simp add: hash_ok_def)

lemma hash_write_ok: "hash_ok cap m \<Longrightarrow> map_of m k \<noteq> None \<Longrightarrow> hash_ok cap (hash_write m k v)"
  by (cases "map_of m k") (simp_all add: hash_ok_def hash_write_def distinct_update length_AList_update)

lemma hash_update_ok: "hash_ok cap m \<Longrightarrow> hash_ok cap (snd (bpf_map_update_elem cap r m k v f))"
  by (auto simp: hash_ok_def bpf_map_update_elem_def distinct_update length_AList_update)

lemma hash_delete_ok: "hash_ok cap m \<Longrightarrow> hash_ok cap (snd (bpf_map_delete_elem m k))"
  by (auto simp: hash_ok_def bpf_map_delete_elem_def distinct_delete
      intro: order_trans [OF length_delete_le])

lemma hash_lookup_delete:
  "bpf_map_lookup_elem (snd (bpf_map_delete_elem m k)) = (bpf_map_lookup_elem m)(k := None)"
  by (auto simp: bpf_map_lookup_elem_def bpf_map_delete_elem_def delete_conv')

interpretation hash: bounded_store bpf_map_lookup_elem "bpf_map_update_elem cap refuse"
  hash_write length cap "hash_ok cap" for cap refuse
proof
  fix m :: "'v bpf_hash" and k v f m'
  show "bpf_map_update_elem cap refuse m k v f = (RC_OK, m') \<Longrightarrow>
      bpf_map_lookup_elem m' = (bpf_map_lookup_elem m)(k \<mapsto> v)"
    by (auto simp: bpf_map_update_elem_def bpf_map_lookup_elem_def map_of_AList_update
        split: if_splits)
  show "bpf_map_update_elem cap refuse m k v f = (RC_ERR, m') \<Longrightarrow> m' = m"
    by (auto simp: bpf_map_update_elem_def split: if_splits)
  show "bpf_map_lookup_elem (hash_write m k v) = (bpf_map_lookup_elem m)(k \<mapsto> v)"
    by (simp add: bpf_map_lookup_elem_def hash_write_def map_of_AList_update fun_eq_iff)
  show "bpf_map_lookup_elem m k = None \<Longrightarrow> cap \<le> length m \<Longrightarrow>
      bpf_map_update_elem cap refuse m k v f = (RC_ERR, m)"
    by (simp add: bpf_map_lookup_elem_def bpf_map_update_elem_def)
  show "hash_ok cap m \<Longrightarrow> bpf_map_lookup_elem m k \<noteq> None \<Longrightarrow> hash_ok cap (hash_write m k v)"
    by (simp add: hash_write_ok bpf_map_lookup_elem_def)
qed (simp_all add: hash_update_ok hash_ok_length)

interpretation hash_sure: reliable_store bpf_map_lookup_elem "bpf_map_update_elem cap False"
  hash_write length cap "hash_ok cap" for cap
  by unfold_locales
     (auto simp: bpf_map_update_elem_def bpf_map_lookup_elem_def bpf_flag_defs)

subsection \<open>The queue interface\<close>

locale bounded_fifo =
  fixes push :: "'q \<Rightarrow> 'v \<Rightarrow> 'q"
    and pop :: "'q \<Rightarrow> ('v \<times> 'q) option"
    and content :: "'q \<Rightarrow> 'v list"
    and cap :: nat
  assumes content_push: "content (push q v) =
      (if length (content q) < cap then content q @ [v] else tl (content q) @ [v])"
    and pop_empty: "content q = [] \<Longrightarrow> pop q = None"
    and pop_head: "content q \<noteq> [] \<Longrightarrow> \<exists>q'. pop q = Some (hd (content q), q')"
    and pop_rest: "pop q = Some (v, q') \<Longrightarrow> content q' = tl (content q)"
    and cap_pos: "0 < cap"
begin

lemma length_push: "length (content q) \<le> cap \<Longrightarrow> length (content (push q v)) \<le> cap"
  using cap_pos by (auto simp: content_push)

lemma pop_None: "pop q = None \<longleftrightarrow> content q = []"
  using pop_empty [of q] pop_head [of q] by (cases "content q = []") auto

lemma pop_Some: "pop q = Some (v, q') \<Longrightarrow> content q = v # content q'"
  using pop_empty [of q] pop_head [of q] pop_rest [of q v q'] by (cases "content q") auto

text \<open>Pushing a sequence keeps the newest \<open>cap\<close> values in their order.\<close>

lemma content_pushes:
  assumes "length (content q) \<le> cap"
  shows "content (foldl push q vs) =
    drop (length (content q) + length vs - cap) (content q @ vs)"
  using assms
proof (induction vs arbitrary: q)
  case Nil
  then show ?case by simp
next
  case (Cons v vs)
  have "content (foldl push q (v # vs)) =
      drop (length (content (push q v)) + length vs - cap) (content (push q v) @ vs)"
    using Cons.IH [OF length_push [OF Cons.prems]] by simp
  also have "\<dots> = drop (length (content q) + length (v # vs) - cap) (content q @ v # vs)"
  proof (cases "length (content q) < cap")
    case True
    then show ?thesis by (simp add: content_push)
  next
    case False
    with Cons.prems have full: "length (content q) = cap" by simp
    with cap_pos obtain x xs where "content q = x # xs" by (cases "content q") auto
    with False full show ?thesis by (auto simp: content_push)
  qed
  finally show ?case .
qed

end

definition queue_push :: "nat \<Rightarrow> 'v list \<Rightarrow> 'v \<Rightarrow> 'v list" where
  "queue_push cap q v = snd (bpf_map_push_elem cap q v BPF_EXIST)"

lemma queue_push_eq: "queue_push cap q v = (if length q < cap then q @ [v] else tl q @ [v])"
  by (simp add: queue_push_def bpf_map_push_elem_def)

text \<open>The queue of the program has room for 5120 records.\<close>

interpretation rec_queue: bounded_fifo "queue_push 5120" queue_lookup_and_delete "\<lambda>q. q" 5120
  by unfold_locales
     (auto simp: queue_push_eq queue_lookup_and_delete_def split: list.splits)

end
