(* ===== verification/Helpers_H.thy ===== *)
theory Helpers_H
  imports Common_H
begin

text \<open>
  \<^verbatim>\<open>headers/bpf_helpers.h\<close>: the declarations for the loader and the variadic macro
  machinery (\<^verbatim>\<open>___bpf_nth\<close>, \<^verbatim>\<open>___bpf_narg\<close>, \<^verbatim>\<open>___bpf_fill\<close>, the choice of
  the printing helper, the printing macros). A macro argument list is a list of preprocessor tokens and an
  expansion that the preprocessor would reject is \<^const>\<open>None\<close>. The lemmas show what the
  counting, filling and selecting macros compute for every argument list they support.
\<close>

subsection \<open>Loader declarations\<close>

record bpf_map_def =
  md_type :: u32
  md_key_size :: u32
  md_value_size :: u32
  md_max_entries :: u32
  md_map_flags :: u32

datatype libbpf_pin_type = LIBBPF_PIN_NONE | LIBBPF_PIN_BY_NAME

datatype libbpf_tristate = TRI_NO | TRI_YES | TRI_MODULE

primrec libbpf_tristate_value :: "libbpf_tristate \<Rightarrow> u32" where
  "libbpf_tristate_value TRI_NO = 0"
| "libbpf_tristate_value TRI_YES = 1"
| "libbpf_tristate_value TRI_MODULE = 2"

text \<open>\<^verbatim>\<open>KERNEL_VERSION(a, b, c)\<close>, with the sub-level saturated at 255.\<close>

definition KERNEL_VERSION :: "u32 \<Rightarrow> u32 \<Rightarrow> u32 \<Rightarrow> u32" where
  "KERNEL_VERSION a b c = push_bit 16 a + push_bit 8 b + (if 255 < c then 255 else c)"

text \<open>\<^verbatim>\<open>container_of\<close>: back from the address of a member at a known offset.\<close>

definition container_of :: "u64 \<Rightarrow> u64 \<Rightarrow> u64" where
  "container_of ptr offset = ptr - offset"

text \<open>
  \<^verbatim>\<open>bpf_tail_call_static\<close>: a slot that is not a compile-time constant traps
  (\<^const>\<open>None\<close>); otherwise registers r1 to r3 are loaded and helper number 12 is called.
\<close>

definition bpf_tail_call_static :: "bool \<Rightarrow> u64 \<Rightarrow> u64 \<Rightarrow> u32 \<Rightarrow> (nat \<times> u64 list) option" where
  "bpf_tail_call_static constant ctx_ptr map_ptr slot =
     (if \<not> constant then None else Some (12, [ctx_ptr, map_ptr, ucast slot]))"

subsection \<open>Variadic macros\<close>

datatype pp_token = Ident string | Num nat

text \<open>The fourteenth argument; fewer than fourteen is an error of the preprocessor.\<close>

definition bpf_nth :: "pp_token list \<Rightarrow> pp_token option" where
  "bpf_nth args = (if length args < 14 then None else Some (args ! 13))"

definition bpf_narg :: "pp_token list \<Rightarrow> pp_token option" where
  "bpf_narg args = bpf_nth ([Ident ''_''] @ args @
     [Num 12, Num 11, Num 10, Num 9, Num 8, Num 7, Num 6, Num 5, Num 4, Num 3, Num 2, Num 1, Num 0])"

text \<open>
  \<^verbatim>\<open>___bpf_apply(fn, n)\<close> pastes \<open>n\<close> to the name \<open>fn\<close>; the result is usable when the
  header defines that numbered macro, which for a family with members 0 to \<open>m\<close> is when
  \<open>n \<le> m\<close>.
\<close>

definition bpf_apply :: "nat \<Rightarrow> (nat \<Rightarrow> 'a) \<Rightarrow> pp_token option \<Rightarrow> 'a option" where
  "bpf_apply m family n = (case n of
     Some (Num k) \<Rightarrow> (if k \<le> m then Some (family k) else None)
   | _ \<Rightarrow> None)"

text \<open>The family \<^verbatim>\<open>___bpf_fill0\<close> to \<^verbatim>\<open>___bpf_fill12\<close>: store and step on.\<close>

primrec bpf_fill_n :: "nat \<Rightarrow> u64 list \<Rightarrow> nat \<Rightarrow> u64 list \<Rightarrow> u64 list" where
  "bpf_fill_n 0 arr p xs = arr"
| "bpf_fill_n (Suc n) arr p xs =
     (case xs of [] \<Rightarrow> arr | x # rest \<Rightarrow> bpf_fill_n n (arr[p := x]) (p + 1) rest)"

text \<open>An argument is a token together with the value the expression has at run time.\<close>

definition bpf_fill :: "u64 list \<Rightarrow> (pp_token \<times> u64) list \<Rightarrow> u64 list option" where
  "bpf_fill arr args =
     bpf_apply 12 (\<lambda>n. bpf_fill_n n arr 0 (map snd args)) (bpf_narg (map fst args))"

text \<open>
  The parameter block of \<^verbatim>\<open>BPF_SEQ_PRINTF\<close>, \<^verbatim>\<open>BPF_SNPRINTF\<close> and
  \<^verbatim>\<open>__bpf_vprintk\<close>: an uninitialised array of as many elements as there are arguments,
  filled from index 0. The function \<open>junk\<close> is what the stack held.
\<close>

definition printf_params :: "(nat \<Rightarrow> u64) \<Rightarrow> (pp_token \<times> u64) list \<Rightarrow> u64 list option" where
  "printf_params junk args = (case bpf_narg (map fst args) of
     Some (Num n) \<Rightarrow> bpf_fill (map junk [0..<n]) args
   | _ \<Rightarrow> None)"

text \<open>The helpers the printing macros call, with the sizes they pass: that of the format, a
  character array with its NUL, and that of the parameter block.\<close>

datatype printf_call =
    Trace_Printk string u32 "u64 list"
  | Trace_Vprintk string u32 "u64 list" u32
  | Seq_Printf u64 string u32 "u64 list" u32
  | Snprintf u64 u32 string "u64 list" u32

definition sizeof_fmt :: "string \<Rightarrow> u32" where
  "sizeof_fmt fmt = of_nat (length fmt + 1)"

definition sizeof_params :: "u64 list \<Rightarrow> u32" where
  "sizeof_params params = of_nat (8 * length params)"

definition BPF_SEQ_PRINTF ::
  "(nat \<Rightarrow> u64) \<Rightarrow> u64 \<Rightarrow> string \<Rightarrow> (pp_token \<times> u64) list \<Rightarrow> printf_call option" where
  "BPF_SEQ_PRINTF junk sq fmt args =
     map_option (\<lambda>params. Seq_Printf sq fmt (sizeof_fmt fmt) params (sizeof_params params))
       (printf_params junk args)"

definition BPF_SNPRINTF ::
  "(nat \<Rightarrow> u64) \<Rightarrow> u64 \<Rightarrow> u32 \<Rightarrow> string \<Rightarrow> (pp_token \<times> u64) list \<Rightarrow> printf_call option" where
  "BPF_SNPRINTF junk out out_size fmt args =
     map_option (\<lambda>params. Snprintf out out_size fmt params (sizeof_params params))
       (printf_params junk args)"

definition bpf_printk_direct :: "string \<Rightarrow> (pp_token \<times> u64) list \<Rightarrow> printf_call" where
  "bpf_printk_direct fmt args = Trace_Printk fmt (sizeof_fmt fmt) (map snd args)"

definition bpf_vprintk ::
  "(nat \<Rightarrow> u64) \<Rightarrow> string \<Rightarrow> (pp_token \<times> u64) list \<Rightarrow> printf_call option" where
  "bpf_vprintk junk fmt args =
     map_option (\<lambda>params. Trace_Vprintk fmt (sizeof_fmt fmt) params (sizeof_params params))
       (printf_params junk args)"

definition bpf_pick_printk :: "pp_token list \<Rightarrow> pp_token option" where
  "bpf_pick_printk args = bpf_nth ([Ident ''_''] @ args @
     replicate 9 (Ident ''__bpf_vprintk'') @ replicate 4 (Ident ''__bpf_printk''))"

definition bpf_printk ::
  "(nat \<Rightarrow> u64) \<Rightarrow> string \<Rightarrow> (pp_token \<times> u64) list \<Rightarrow> printf_call option" where
  "bpf_printk junk fmt args =
     (if bpf_pick_printk (map fst args) = Some (Ident ''__bpf_printk'')
      then Some (bpf_printk_direct fmt args)
      else if bpf_pick_printk (map fst args) = Some (Ident ''__bpf_vprintk'')
      then bpf_vprintk junk fmt args
      else None)"

subsection \<open>What the macros compute\<close>

lemma bpf_nth_append:
  assumes "length xs \<le> 12" "length ys = 13"
  shows "bpf_nth ([t] @ xs @ ys) = Some (ys ! (12 - length xs))"
  using assms by (simp add: bpf_nth_def nth_append)

lemma bpf_narg_eq:
  "bpf_narg args = Some (if length args \<le> 12 then Num (length args) else args ! 12)"
proof (cases "length args \<le> 12")
  case True
  have tail: "[Num 12, Num 11, Num 10, Num 9, Num 8, Num 7, Num 6, Num 5, Num 4, Num 3, Num 2,
      Num 1, Num 0] = map (\<lambda>i. Num (12 - i)) [0..<13]"
    by (simp add: upt_rec)
  from True show ?thesis
    unfolding bpf_narg_def tail by (subst bpf_nth_append) auto
next
  case False
  then show ?thesis by (simp add: bpf_narg_def bpf_nth_def nth_append)
qed

lemma bpf_pick_printk_eq:
  assumes "length args \<le> 12"
  shows "bpf_pick_printk args =
    Some (Ident (if length args \<le> 3 then ''__bpf_printk'' else ''__bpf_vprintk''))"
  unfolding bpf_pick_printk_def
  using assms by (subst bpf_nth_append) (auto simp: nth_append)

lemma bpf_fill_n_eq:
  "length xs = n \<Longrightarrow> p + n \<le> length arr \<Longrightarrow>
     bpf_fill_n n arr p xs = take p arr @ xs @ drop (p + n) arr"
proof (induction n arbitrary: arr p xs)
  case 0
  then show ?case by simp
next
  case (Suc n)
  then obtain x rest where xs: "xs = x # rest" by (cases xs) auto
  with Suc.prems have "bpf_fill_n (Suc n) arr p xs =
      take (p + 1) (arr[p := x]) @ rest @ drop (p + 1 + n) (arr[p := x])"
    by (simp add: Suc.IH)
  also have "\<dots> = take p arr @ xs @ drop (p + Suc n) arr"
    using Suc.prems xs by (simp add: take_Suc_conv_app_nth)
  finally show ?case .
qed

lemma printf_params_eq:
  assumes "length args \<le> 12"
  shows "printf_params junk args = Some (map snd args)"
  using assms
  by (simp add: printf_params_def bpf_narg_eq bpf_fill_def bpf_apply_def bpf_fill_n_eq)

text \<open>C37: For every format and every list of at most twelve arguments the printing macros
  expand, and the helper receives all the argument values, in order, with the size of exactly
  these, whatever the uninitialised parameter block held; \<^verbatim>\<open>bpf_printk\<close> uses the direct helper
  exactly when there are at most three arguments.\<close>

theorem printf_macros_pass_all_arguments:
  assumes "length args \<le> 12"
  shows "bpf_printk junk fmt args = Some
      (if length args \<le> 3 then Trace_Printk fmt (sizeof_fmt fmt) (map snd args)
       else Trace_Vprintk fmt (sizeof_fmt fmt) (map snd args) (of_nat (8 * length args))) \<and>
    BPF_SEQ_PRINTF junk sq fmt args =
      Some (Seq_Printf sq fmt (sizeof_fmt fmt) (map snd args) (of_nat (8 * length args))) \<and>
    BPF_SNPRINTF junk out out_size fmt args =
      Some (Snprintf out out_size fmt (map snd args) (of_nat (8 * length args)))"
  using assms
  by (simp add: bpf_printk_def bpf_pick_printk_eq printf_params_eq bpf_printk_direct_def
      bpf_vprintk_def BPF_SEQ_PRINTF_def BPF_SNPRINTF_def sizeof_params_def)

lemma unat_KERNEL_VERSION:
  assumes "unat a < 2 ^ 16" "unat b < 2 ^ 8"
  shows "unat (KERNEL_VERSION a b c) = unat a * 65536 + unat b * 256 + min (unat c) 255"
proof -
  have a: "unat (push_bit 16 a) = unat a * 65536"
    using assms by (simp add: push_bit_eq_mult unat_word_ariths)
  have b: "unat (push_bit 8 b) = unat b * 256"
    using assms by (simp add: push_bit_eq_mult unat_word_ariths)
  have c: "unat (if 255 < c then 255 else c :: u32) = min (unat c) 255"
    by (simp add: word_less_nat_alt min_def)
  have "unat (push_bit 16 a + push_bit 8 b) = unat a * 65536 + unat b * 256"
    using assms by (simp add: unat_word_ariths a b)
  then show ?thesis
    using assms by (simp add: KERNEL_VERSION_def unat_word_ariths c)
qed

text \<open>With the version and patch-level fields in range, comparing two
  \<^verbatim>\<open>KERNEL_VERSION\<close> codes compares the versions, sub-levels above 255 counting as 255.\<close>

theorem KERNEL_VERSION_order:
  assumes "unat a < 2 ^ 16" "unat b < 2 ^ 8" "unat a' < 2 ^ 16" "unat b' < 2 ^ 8"
  shows "KERNEL_VERSION a b c < KERNEL_VERSION a' b' c' \<longleftrightarrow>
    a < a' \<or> a = a' \<and> (b < b' \<or> b = b' \<and> min (unat c) 255 < min (unat c') 255)"
proof -
  let ?m = "min (unat c) 255" and ?m' = "min (unat c') 255"
  have "KERNEL_VERSION a b c < KERNEL_VERSION a' b' c' \<longleftrightarrow>
      unat a * 65536 + unat b * 256 + ?m < unat a' * 65536 + unat b' * 256 + ?m'"
    using assms by (simp add: word_less_nat_alt unat_KERNEL_VERSION)
  moreover have "?m < 256" "?m' < 256" by simp_all
  ultimately show ?thesis
    using assms by (auto simp: word_less_nat_alt word_unat_eq_iff)
qed

theorem printf_macros_pass_all_arguments_witness:
  "bpf_printk (\<lambda>_. 7) ''fmt'' [(Ident ''a'', 1), (Ident ''b'', 2), (Ident ''c'', 3), (Ident ''d'', 4)]
     = Some (Trace_Vprintk ''fmt'' 4 [1, 2, 3, 4] 32)"
  using printf_macros_pass_all_arguments
    [of "[(Ident ''a'', 1), (Ident ''b'', 2), (Ident ''c'', 3), (Ident ''d'', 4)]" "\<lambda>_. 7" "''fmt''"]
  by (simp add: sizeof_fmt_def)

theorem KERNEL_VERSION_order_witness:
  "KERNEL_VERSION 4 14 300 < KERNEL_VERSION 4 15 0"
proof -
  have "unat (4 :: u32) < 2 ^ 16" "unat (14 :: u32) < 2 ^ 8" "unat (15 :: u32) < 2 ^ 8"
    by simp_all
  then show ?thesis
    using KERNEL_VERSION_order [of 4 14 4 15 300 0] by simp
qed

end
