(* ===== verification/Tracing_H.thy ===== *)
theory Tracing_H
  imports Helpers_H
begin

text \<open>
  \<^verbatim>\<open>headers/bpf_tracing.h\<close>: the choice of the target architecture from the predefined
  macros, the register accessors \<^verbatim>\<open>PT_REGS_PARM1\<close> to \<^verbatim>\<open>PT_REGS_IP\<close> of every
  target in their plain and CO-RE forms, the return-address readers, and the argument
  wrappers \<^verbatim>\<open>BPF_PROG\<close>, \<^verbatim>\<open>BPF_KPROBE\<close> and \<^verbatim>\<open>BPF_KRETPROBE\<close>. One function
  per branch of the conditional block maps an accessor to the member it reads; an accessor
  the branch does not define is \<^const>\<open>None\<close>.
\<close>

subsection \<open>Targets\<close>

datatype bpf_target = X86 | S390 | ARM | ARM64 | MIPS | POWERPC | SPARC | RISCV

text \<open>
  The predefined macros are a predicate on names; \<open>xlen\<close> is the value of
  \<^verbatim>\<open>__riscv_xlen\<close>. The names of the build (\<^verbatim>\<open>__TARGET_ARCH_...\<close>) come before what
  the compiler says.
\<close>

definition bpf_target :: "(string \<Rightarrow> bool) \<Rightarrow> nat \<Rightarrow> bpf_target option" where
  "bpf_target defd xlen =
    (if defd ''__TARGET_ARCH_x86'' then Some X86
     else if defd ''__TARGET_ARCH_s390'' then Some S390
     else if defd ''__TARGET_ARCH_arm'' then Some ARM
     else if defd ''__TARGET_ARCH_arm64'' then Some ARM64
     else if defd ''__TARGET_ARCH_mips'' then Some MIPS
     else if defd ''__TARGET_ARCH_powerpc'' then Some POWERPC
     else if defd ''__TARGET_ARCH_sparc'' then Some SPARC
     else if defd ''__TARGET_ARCH_riscv'' then Some RISCV
     else if defd ''__x86_64__'' then Some X86
     else if defd ''__s390__'' then Some S390
     else if defd ''__arm__'' then Some ARM
     else if defd ''__aarch64__'' then Some ARM64
     else if defd ''__mips__'' then Some MIPS
     else if defd ''__powerpc__'' then Some POWERPC
     else if defd ''__sparc__'' then Some SPARC
     else if defd ''__riscv'' \<and> xlen = 64 then Some RISCV
     else None)"

subsection \<open>Register accessors\<close>

datatype reg_acc = PARM1 | PARM2 | PARM3 | PARM4 | PARM5 | RET | FP | RC | SP | IP

datatype reg_index = Lit nat | Sym string

datatype access =
    Member string           \<comment> \<open>\<^verbatim>\<open>(x)->name\<close>\<close>
  | Elem string reg_index   \<comment> \<open>\<^verbatim>\<open>(x)->name[index]\<close>\<close>
  | Zero                    \<comment> \<open>the literal \<^verbatim>\<open>0\<close>\<close>
  | TargetMissing           \<comment> \<open>\<^verbatim>\<open>_Pragma(__BPF_TARGET_MISSING)\<close>, a build error\<close>

primrec PT_REGS_x86_kernel :: "reg_acc \<Rightarrow> access option" where
  "PT_REGS_x86_kernel PARM1 = Some (Member ''di'')"
| "PT_REGS_x86_kernel PARM2 = Some (Member ''si'')"
| "PT_REGS_x86_kernel PARM3 = Some (Member ''dx'')"
| "PT_REGS_x86_kernel PARM4 = Some (Member ''cx'')"
| "PT_REGS_x86_kernel PARM5 = Some (Member ''r8'')"
| "PT_REGS_x86_kernel RET = Some (Member ''sp'')"
| "PT_REGS_x86_kernel FP = Some (Member ''bp'')"
| "PT_REGS_x86_kernel RC = Some (Member ''ax'')"
| "PT_REGS_x86_kernel SP = Some (Member ''sp'')"
| "PT_REGS_x86_kernel IP = Some (Member ''ip'')"

primrec PT_REGS_x86_kernel_CORE :: "reg_acc \<Rightarrow> access option" where
  "PT_REGS_x86_kernel_CORE PARM1 = Some (Member ''di'')"
| "PT_REGS_x86_kernel_CORE PARM2 = Some (Member ''si'')"
| "PT_REGS_x86_kernel_CORE PARM3 = Some (Member ''dx'')"
| "PT_REGS_x86_kernel_CORE PARM4 = Some (Member ''cx'')"
| "PT_REGS_x86_kernel_CORE PARM5 = Some (Member ''r8'')"
| "PT_REGS_x86_kernel_CORE RET = Some (Member ''sp'')"
| "PT_REGS_x86_kernel_CORE FP = Some (Member ''bp'')"
| "PT_REGS_x86_kernel_CORE RC = Some (Member ''ax'')"
| "PT_REGS_x86_kernel_CORE SP = Some (Member ''sp'')"
| "PT_REGS_x86_kernel_CORE IP = Some (Member ''ip'')"

primrec PT_REGS_i386 :: "reg_acc \<Rightarrow> access option" where
  "PT_REGS_i386 PARM1 = Some (Member ''eax'')"
| "PT_REGS_i386 PARM2 = Some (Member ''edx'')"
| "PT_REGS_i386 PARM3 = Some (Member ''ecx'')"
| "PT_REGS_i386 PARM4 = Some Zero"
| "PT_REGS_i386 PARM5 = Some Zero"
| "PT_REGS_i386 RET = Some (Member ''esp'')"
| "PT_REGS_i386 FP = Some (Member ''ebp'')"
| "PT_REGS_i386 RC = Some (Member ''eax'')"
| "PT_REGS_i386 SP = Some (Member ''esp'')"
| "PT_REGS_i386 IP = Some (Member ''eip'')"

primrec PT_REGS_i386_CORE :: "reg_acc \<Rightarrow> access option" where
  "PT_REGS_i386_CORE PARM1 = Some (Member ''eax'')"
| "PT_REGS_i386_CORE PARM2 = Some (Member ''edx'')"
| "PT_REGS_i386_CORE PARM3 = Some (Member ''ecx'')"
| "PT_REGS_i386_CORE PARM4 = Some Zero"
| "PT_REGS_i386_CORE PARM5 = Some Zero"
| "PT_REGS_i386_CORE RET = Some (Member ''esp'')"
| "PT_REGS_i386_CORE FP = Some (Member ''ebp'')"
| "PT_REGS_i386_CORE RC = Some (Member ''eax'')"
| "PT_REGS_i386_CORE SP = Some (Member ''esp'')"
| "PT_REGS_i386_CORE IP = Some (Member ''eip'')"

primrec PT_REGS_x86_64 :: "reg_acc \<Rightarrow> access option" where
  "PT_REGS_x86_64 PARM1 = Some (Member ''rdi'')"
| "PT_REGS_x86_64 PARM2 = Some (Member ''rsi'')"
| "PT_REGS_x86_64 PARM3 = Some (Member ''rdx'')"
| "PT_REGS_x86_64 PARM4 = Some (Member ''rcx'')"
| "PT_REGS_x86_64 PARM5 = Some (Member ''r8'')"
| "PT_REGS_x86_64 RET = Some (Member ''rsp'')"
| "PT_REGS_x86_64 FP = Some (Member ''rbp'')"
| "PT_REGS_x86_64 RC = Some (Member ''rax'')"
| "PT_REGS_x86_64 SP = Some (Member ''rsp'')"
| "PT_REGS_x86_64 IP = Some (Member ''rip'')"

primrec PT_REGS_x86_64_CORE :: "reg_acc \<Rightarrow> access option" where
  "PT_REGS_x86_64_CORE PARM1 = Some (Member ''rdi'')"
| "PT_REGS_x86_64_CORE PARM2 = Some (Member ''rsi'')"
| "PT_REGS_x86_64_CORE PARM3 = Some (Member ''rdx'')"
| "PT_REGS_x86_64_CORE PARM4 = Some (Member ''rcx'')"
| "PT_REGS_x86_64_CORE PARM5 = Some (Member ''r8'')"
| "PT_REGS_x86_64_CORE RET = Some (Member ''rsp'')"
| "PT_REGS_x86_64_CORE FP = Some (Member ''rbp'')"
| "PT_REGS_x86_64_CORE RC = Some (Member ''rax'')"
| "PT_REGS_x86_64_CORE SP = Some (Member ''rsp'')"
| "PT_REGS_x86_64_CORE IP = Some (Member ''rip'')"

primrec PT_REGS_s390 :: "reg_acc \<Rightarrow> access option" where
  "PT_REGS_s390 PARM1 = Some (Elem ''gprs'' (Lit 2))"
| "PT_REGS_s390 PARM2 = Some (Elem ''gprs'' (Lit 3))"
| "PT_REGS_s390 PARM3 = Some (Elem ''gprs'' (Lit 4))"
| "PT_REGS_s390 PARM4 = Some (Elem ''gprs'' (Lit 5))"
| "PT_REGS_s390 PARM5 = Some (Elem ''gprs'' (Lit 6))"
| "PT_REGS_s390 RET = Some (Elem ''gprs'' (Lit 14))"
| "PT_REGS_s390 FP = Some (Elem ''gprs'' (Lit 11))"
| "PT_REGS_s390 RC = Some (Elem ''gprs'' (Lit 2))"
| "PT_REGS_s390 SP = Some (Elem ''gprs'' (Lit 15))"
| "PT_REGS_s390 IP = Some (Member ''psw.addr'')"

primrec PT_REGS_s390_CORE :: "reg_acc \<Rightarrow> access option" where
  "PT_REGS_s390_CORE PARM1 = Some (Elem ''gprs'' (Lit 2))"
| "PT_REGS_s390_CORE PARM2 = Some (Elem ''gprs'' (Lit 3))"
| "PT_REGS_s390_CORE PARM3 = Some (Elem ''gprs'' (Lit 4))"
| "PT_REGS_s390_CORE PARM4 = Some (Elem ''gprs'' (Lit 5))"
| "PT_REGS_s390_CORE PARM5 = Some (Elem ''gprs'' (Lit 6))"
| "PT_REGS_s390_CORE RET = Some (Elem ''gprs'' (Lit 14))"
| "PT_REGS_s390_CORE FP = Some (Elem ''gprs'' (Lit 11))"
| "PT_REGS_s390_CORE RC = Some (Elem ''gprs'' (Lit 2))"
| "PT_REGS_s390_CORE SP = Some (Elem ''gprs'' (Lit 15))"
| "PT_REGS_s390_CORE IP = Some (Member ''psw.addr'')"

primrec PT_REGS_arm :: "reg_acc \<Rightarrow> access option" where
  "PT_REGS_arm PARM1 = Some (Elem ''uregs'' (Lit 0))"
| "PT_REGS_arm PARM2 = Some (Elem ''uregs'' (Lit 1))"
| "PT_REGS_arm PARM3 = Some (Elem ''uregs'' (Lit 2))"
| "PT_REGS_arm PARM4 = Some (Elem ''uregs'' (Lit 3))"
| "PT_REGS_arm PARM5 = Some (Elem ''uregs'' (Lit 4))"
| "PT_REGS_arm RET = Some (Elem ''uregs'' (Lit 14))"
| "PT_REGS_arm FP = Some (Elem ''uregs'' (Lit 11))"
| "PT_REGS_arm RC = Some (Elem ''uregs'' (Lit 0))"
| "PT_REGS_arm SP = Some (Elem ''uregs'' (Lit 13))"
| "PT_REGS_arm IP = Some (Elem ''uregs'' (Lit 12))"

primrec PT_REGS_arm_CORE :: "reg_acc \<Rightarrow> access option" where
  "PT_REGS_arm_CORE PARM1 = Some (Elem ''uregs'' (Lit 0))"
| "PT_REGS_arm_CORE PARM2 = Some (Elem ''uregs'' (Lit 1))"
| "PT_REGS_arm_CORE PARM3 = Some (Elem ''uregs'' (Lit 2))"
| "PT_REGS_arm_CORE PARM4 = Some (Elem ''uregs'' (Lit 3))"
| "PT_REGS_arm_CORE PARM5 = Some (Elem ''uregs'' (Lit 4))"
| "PT_REGS_arm_CORE RET = Some (Elem ''uregs'' (Lit 14))"
| "PT_REGS_arm_CORE FP = Some (Elem ''uregs'' (Lit 11))"
| "PT_REGS_arm_CORE RC = Some (Elem ''uregs'' (Lit 0))"
| "PT_REGS_arm_CORE SP = Some (Elem ''uregs'' (Lit 13))"
| "PT_REGS_arm_CORE IP = Some (Elem ''uregs'' (Lit 12))"

primrec PT_REGS_arm64 :: "reg_acc \<Rightarrow> access option" where
  "PT_REGS_arm64 PARM1 = Some (Elem ''regs'' (Lit 0))"
| "PT_REGS_arm64 PARM2 = Some (Elem ''regs'' (Lit 1))"
| "PT_REGS_arm64 PARM3 = Some (Elem ''regs'' (Lit 2))"
| "PT_REGS_arm64 PARM4 = Some (Elem ''regs'' (Lit 3))"
| "PT_REGS_arm64 PARM5 = Some (Elem ''regs'' (Lit 4))"
| "PT_REGS_arm64 RET = Some (Elem ''regs'' (Lit 30))"
| "PT_REGS_arm64 FP = Some (Elem ''regs'' (Lit 29))"
| "PT_REGS_arm64 RC = Some (Elem ''regs'' (Lit 0))"
| "PT_REGS_arm64 SP = Some (Member ''sp'')"
| "PT_REGS_arm64 IP = Some (Member ''pc'')"

primrec PT_REGS_arm64_CORE :: "reg_acc \<Rightarrow> access option" where
  "PT_REGS_arm64_CORE PARM1 = Some (Elem ''regs'' (Lit 0))"
| "PT_REGS_arm64_CORE PARM2 = Some (Elem ''regs'' (Lit 1))"
| "PT_REGS_arm64_CORE PARM3 = Some (Elem ''regs'' (Lit 2))"
| "PT_REGS_arm64_CORE PARM4 = Some (Elem ''regs'' (Lit 3))"
| "PT_REGS_arm64_CORE PARM5 = Some (Elem ''regs'' (Lit 4))"
| "PT_REGS_arm64_CORE RET = Some (Elem ''regs'' (Lit 30))"
| "PT_REGS_arm64_CORE FP = Some (Elem ''regs'' (Lit 29))"
| "PT_REGS_arm64_CORE RC = Some (Elem ''regs'' (Lit 0))"
| "PT_REGS_arm64_CORE SP = Some (Member ''sp'')"
| "PT_REGS_arm64_CORE IP = Some (Member ''pc'')"

primrec PT_REGS_mips :: "reg_acc \<Rightarrow> access option" where
  "PT_REGS_mips PARM1 = Some (Elem ''regs'' (Lit 4))"
| "PT_REGS_mips PARM2 = Some (Elem ''regs'' (Lit 5))"
| "PT_REGS_mips PARM3 = Some (Elem ''regs'' (Lit 6))"
| "PT_REGS_mips PARM4 = Some (Elem ''regs'' (Lit 7))"
| "PT_REGS_mips PARM5 = Some (Elem ''regs'' (Lit 8))"
| "PT_REGS_mips RET = Some (Elem ''regs'' (Lit 31))"
| "PT_REGS_mips FP = Some (Elem ''regs'' (Lit 30))"
| "PT_REGS_mips RC = Some (Elem ''regs'' (Lit 2))"
| "PT_REGS_mips SP = Some (Elem ''regs'' (Lit 29))"
| "PT_REGS_mips IP = Some (Member ''cp0_epc'')"

primrec PT_REGS_mips_CORE :: "reg_acc \<Rightarrow> access option" where
  "PT_REGS_mips_CORE PARM1 = Some (Elem ''regs'' (Lit 4))"
| "PT_REGS_mips_CORE PARM2 = Some (Elem ''regs'' (Lit 5))"
| "PT_REGS_mips_CORE PARM3 = Some (Elem ''regs'' (Lit 6))"
| "PT_REGS_mips_CORE PARM4 = Some (Elem ''regs'' (Lit 7))"
| "PT_REGS_mips_CORE PARM5 = Some (Elem ''regs'' (Lit 8))"
| "PT_REGS_mips_CORE RET = Some (Elem ''regs'' (Lit 31))"
| "PT_REGS_mips_CORE FP = Some (Elem ''regs'' (Lit 30))"
| "PT_REGS_mips_CORE RC = Some (Elem ''regs'' (Lit 2))"
| "PT_REGS_mips_CORE SP = Some (Elem ''regs'' (Lit 29))"
| "PT_REGS_mips_CORE IP = Some (Member ''cp0_epc'')"

primrec PT_REGS_powerpc :: "reg_acc \<Rightarrow> access option" where
  "PT_REGS_powerpc PARM1 = Some (Elem ''gpr'' (Lit 3))"
| "PT_REGS_powerpc PARM2 = Some (Elem ''gpr'' (Lit 4))"
| "PT_REGS_powerpc PARM3 = Some (Elem ''gpr'' (Lit 5))"
| "PT_REGS_powerpc PARM4 = Some (Elem ''gpr'' (Lit 6))"
| "PT_REGS_powerpc PARM5 = Some (Elem ''gpr'' (Lit 7))"
| "PT_REGS_powerpc RET = None"
| "PT_REGS_powerpc FP = None"
| "PT_REGS_powerpc RC = Some (Elem ''gpr'' (Lit 3))"
| "PT_REGS_powerpc SP = Some (Member ''sp'')"
| "PT_REGS_powerpc IP = Some (Member ''nip'')"

primrec PT_REGS_powerpc_CORE :: "reg_acc \<Rightarrow> access option" where
  "PT_REGS_powerpc_CORE PARM1 = Some (Elem ''gpr'' (Lit 3))"
| "PT_REGS_powerpc_CORE PARM2 = Some (Elem ''gpr'' (Lit 4))"
| "PT_REGS_powerpc_CORE PARM3 = Some (Elem ''gpr'' (Lit 5))"
| "PT_REGS_powerpc_CORE PARM4 = Some (Elem ''gpr'' (Lit 6))"
| "PT_REGS_powerpc_CORE PARM5 = Some (Elem ''gpr'' (Lit 7))"
| "PT_REGS_powerpc_CORE RET = None"
| "PT_REGS_powerpc_CORE FP = None"
| "PT_REGS_powerpc_CORE RC = Some (Elem ''gpr'' (Lit 3))"
| "PT_REGS_powerpc_CORE SP = Some (Member ''sp'')"
| "PT_REGS_powerpc_CORE IP = Some (Member ''nip'')"

fun PT_REGS_sparc :: "bool \<Rightarrow> reg_acc \<Rightarrow> access option" where
  "PT_REGS_sparc arch64 PARM1 = Some (Elem ''u_regs'' (Sym ''UREG_I0''))"
| "PT_REGS_sparc arch64 PARM2 = Some (Elem ''u_regs'' (Sym ''UREG_I1''))"
| "PT_REGS_sparc arch64 PARM3 = Some (Elem ''u_regs'' (Sym ''UREG_I2''))"
| "PT_REGS_sparc arch64 PARM4 = Some (Elem ''u_regs'' (Sym ''UREG_I3''))"
| "PT_REGS_sparc arch64 PARM5 = Some (Elem ''u_regs'' (Sym ''UREG_I4''))"
| "PT_REGS_sparc arch64 RET = Some (Elem ''u_regs'' (Sym ''UREG_I7''))"
| "PT_REGS_sparc arch64 FP = None"
| "PT_REGS_sparc arch64 RC = Some (Elem ''u_regs'' (Sym ''UREG_I0''))"
| "PT_REGS_sparc arch64 SP = Some (Elem ''u_regs'' (Sym ''UREG_FP''))"
| "PT_REGS_sparc arch64 IP = Some (Member (if arch64 then ''tpc'' else ''pc''))"

fun PT_REGS_sparc_CORE :: "bool \<Rightarrow> reg_acc \<Rightarrow> access option" where
  "PT_REGS_sparc_CORE arch64 PARM1 = Some (Elem ''u_regs'' (Sym ''UREG_I0''))"
| "PT_REGS_sparc_CORE arch64 PARM2 = Some (Elem ''u_regs'' (Sym ''UREG_I1''))"
| "PT_REGS_sparc_CORE arch64 PARM3 = Some (Elem ''u_regs'' (Sym ''UREG_I2''))"
| "PT_REGS_sparc_CORE arch64 PARM4 = Some (Elem ''u_regs'' (Sym ''UREG_I3''))"
| "PT_REGS_sparc_CORE arch64 PARM5 = Some (Elem ''u_regs'' (Sym ''UREG_I4''))"
| "PT_REGS_sparc_CORE arch64 RET = Some (Elem ''u_regs'' (Sym ''UREG_I7''))"
| "PT_REGS_sparc_CORE arch64 FP = None"
| "PT_REGS_sparc_CORE arch64 RC = Some (Elem ''u_regs'' (Sym ''UREG_I0''))"
| "PT_REGS_sparc_CORE arch64 SP = Some (Elem ''u_regs'' (Sym ''UREG_FP''))"
| "PT_REGS_sparc_CORE arch64 IP = Some (Member (if arch64 then ''tpc'' else ''pc''))"

primrec PT_REGS_riscv :: "reg_acc \<Rightarrow> access option" where
  "PT_REGS_riscv PARM1 = Some (Member ''a0'')"
| "PT_REGS_riscv PARM2 = Some (Member ''a1'')"
| "PT_REGS_riscv PARM3 = Some (Member ''a2'')"
| "PT_REGS_riscv PARM4 = Some (Member ''a3'')"
| "PT_REGS_riscv PARM5 = Some (Member ''a4'')"
| "PT_REGS_riscv RET = Some (Member ''ra'')"
| "PT_REGS_riscv FP = Some (Member ''s5'')"
| "PT_REGS_riscv RC = Some (Member ''a5'')"
| "PT_REGS_riscv SP = Some (Member ''sp'')"
| "PT_REGS_riscv IP = Some (Member ''epc'')"

primrec PT_REGS_riscv_CORE :: "reg_acc \<Rightarrow> access option" where
  "PT_REGS_riscv_CORE PARM1 = Some (Member ''a0'')"
| "PT_REGS_riscv_CORE PARM2 = Some (Member ''a1'')"
| "PT_REGS_riscv_CORE PARM3 = Some (Member ''a2'')"
| "PT_REGS_riscv_CORE PARM4 = Some (Member ''a3'')"
| "PT_REGS_riscv_CORE PARM5 = Some (Member ''a4'')"
| "PT_REGS_riscv_CORE RET = Some (Member ''ra'')"
| "PT_REGS_riscv_CORE FP = Some (Member ''fp'')"
| "PT_REGS_riscv_CORE RC = Some (Member ''a5'')"
| "PT_REGS_riscv_CORE SP = Some (Member ''sp'')"
| "PT_REGS_riscv_CORE IP = Some (Member ''epc'')"

primrec PT_REGS_missing :: "reg_acc \<Rightarrow> access option" where
  "PT_REGS_missing PARM1 = Some TargetMissing"
| "PT_REGS_missing PARM2 = Some TargetMissing"
| "PT_REGS_missing PARM3 = Some TargetMissing"
| "PT_REGS_missing PARM4 = Some TargetMissing"
| "PT_REGS_missing PARM5 = Some TargetMissing"
| "PT_REGS_missing RET = Some TargetMissing"
| "PT_REGS_missing FP = Some TargetMissing"
| "PT_REGS_missing RC = Some TargetMissing"
| "PT_REGS_missing SP = Some TargetMissing"
| "PT_REGS_missing IP = Some TargetMissing"

primrec PT_REGS_missing_CORE :: "reg_acc \<Rightarrow> access option" where
  "PT_REGS_missing_CORE PARM1 = Some TargetMissing"
| "PT_REGS_missing_CORE PARM2 = Some TargetMissing"
| "PT_REGS_missing_CORE PARM3 = Some TargetMissing"
| "PT_REGS_missing_CORE PARM4 = Some TargetMissing"
| "PT_REGS_missing_CORE PARM5 = Some TargetMissing"
| "PT_REGS_missing_CORE RET = Some TargetMissing"
| "PT_REGS_missing_CORE FP = Some TargetMissing"
| "PT_REGS_missing_CORE RC = Some TargetMissing"
| "PT_REGS_missing_CORE SP = Some TargetMissing"
| "PT_REGS_missing_CORE IP = Some TargetMissing"

text \<open>The accessor in force under the given predefined macros.\<close>

definition PT_REGS :: "(string \<Rightarrow> bool) \<Rightarrow> nat \<Rightarrow> bool \<Rightarrow> reg_acc \<Rightarrow> access option" where
  "PT_REGS defd xlen core acc = (case bpf_target defd xlen of
     Some X86 \<Rightarrow>
       (if defd ''__KERNEL__'' \<or> defd ''__VMLINUX_H__''
        then (if core then PT_REGS_x86_kernel_CORE acc else PT_REGS_x86_kernel acc)
        else if defd ''__i386__''
        then (if core then PT_REGS_i386_CORE acc else PT_REGS_i386 acc)
        else (if core then PT_REGS_x86_64_CORE acc else PT_REGS_x86_64 acc))
   | Some S390 \<Rightarrow> (if core then PT_REGS_s390_CORE acc else PT_REGS_s390 acc)
   | Some ARM \<Rightarrow> (if core then PT_REGS_arm_CORE acc else PT_REGS_arm acc)
   | Some ARM64 \<Rightarrow> (if core then PT_REGS_arm64_CORE acc else PT_REGS_arm64 acc)
   | Some MIPS \<Rightarrow> (if core then PT_REGS_mips_CORE acc else PT_REGS_mips acc)
   | Some POWERPC \<Rightarrow> (if core then PT_REGS_powerpc_CORE acc else PT_REGS_powerpc acc)
   | Some SPARC \<Rightarrow> (if core then PT_REGS_sparc_CORE (defd ''__arch64__'') acc
                      else PT_REGS_sparc (defd ''__arch64__'') acc)
   | Some RISCV \<Rightarrow> (if core then PT_REGS_riscv_CORE acc else PT_REGS_riscv acc)
   | None \<Rightarrow> (if core then PT_REGS_missing_CORE acc else PT_REGS_missing acc))"

text \<open>
  The return-address readers: a register of the frame (\<^verbatim>\<open>link\<close>), the return accessor
  itself, or a kernel read at the address an accessor gives, plus a displacement.
\<close>

datatype ret_ip_read =
    Read_Member string
  | Read_Acc reg_acc
  | Probe_Read_Kernel reg_acc nat
  | Ret_Ip_Missing

definition BPF_KPROBE_READ_RET_IP :: "bpf_target option \<Rightarrow> ret_ip_read" where
  "BPF_KPROBE_READ_RET_IP t = (case t of
     Some POWERPC \<Rightarrow> Read_Member ''link''
   | Some SPARC \<Rightarrow> Read_Acc RET
   | Some _ \<Rightarrow> Probe_Read_Kernel RET 0
   | None \<Rightarrow> Ret_Ip_Missing)"

definition BPF_KRETPROBE_READ_RET_IP :: "bpf_target option \<Rightarrow> ret_ip_read" where
  "BPF_KRETPROBE_READ_RET_IP t = (case t of
     Some POWERPC \<Rightarrow> Read_Member ''link''
   | Some SPARC \<Rightarrow> Read_Acc RET
   | Some _ \<Rightarrow> Probe_Read_Kernel FP 8
   | None \<Rightarrow> Ret_Ip_Missing)"

text \<open>Reading a member of the user-mode x86-64 frame by its name.\<close>

definition pt_regs_member :: "pt_regs \<Rightarrow> string \<Rightarrow> ulong option" where
  "pt_regs_member regs name = map_of
     [(''r15'', r15 regs), (''r14'', r14 regs), (''r13'', r13 regs), (''r12'', r12 regs),
      (''rbp'', rbp regs), (''rbx'', rbx regs), (''r11'', r11 regs), (''r10'', r10 regs),
      (''r9'', r9 regs), (''r8'', r8 regs), (''rax'', rax regs), (''rcx'', rcx regs),
      (''rdx'', rdx regs), (''rsi'', rsi regs), (''rdi'', rdi regs),
      (''orig_rax'', orig_rax regs), (''rip'', rip regs), (''cs'', cs regs),
      (''eflags'', eflags regs), (''rsp'', rsp regs), (''ss'', ss regs)] name"

text \<open>
  What an accessor evaluates to on such a frame; a member the frame lacks does not compile.
\<close>

definition PT_REGS_value :: "(string \<Rightarrow> bool) \<Rightarrow> nat \<Rightarrow> pt_regs \<Rightarrow> reg_acc \<Rightarrow> ulong option" where
  "PT_REGS_value defd xlen regs acc = (case PT_REGS defd xlen False acc of
     Some (Member name) \<Rightarrow> pt_regs_member regs name
   | Some Zero \<Rightarrow> Some 0
   | _ \<Rightarrow> None)"

text \<open>The three accessors \<^verbatim>\<open>mysqld_probe.c\<close> uses, as its build expands them.\<close>

definition PT_REGS_PARM1 :: "pt_regs \<Rightarrow> ulong" where "PT_REGS_PARM1 regs = rdi regs"
definition PT_REGS_PARM2 :: "pt_regs \<Rightarrow> ulong" where "PT_REGS_PARM2 regs = rsi regs"
definition PT_REGS_PARM3 :: "pt_regs \<Rightarrow> ulong" where "PT_REGS_PARM3 regs = rdx regs"

subsection \<open>Argument wrappers\<close>

datatype wrap_arg = Ctx | Ctx_Elem nat | Parm reg_acc

text \<open>\<^verbatim>\<open>___bpf_ctx_cast0\<close> to \<^verbatim>\<open>___bpf_ctx_cast12\<close>.\<close>

primrec bpf_ctx_cast_n :: "nat \<Rightarrow> wrap_arg list" where
  "bpf_ctx_cast_n 0 = [Ctx]"
| "bpf_ctx_cast_n (Suc n) = bpf_ctx_cast_n n @ [Ctx_Elem n]"

definition bpf_ctx_cast :: "pp_token list \<Rightarrow> wrap_arg list option" where
  "bpf_ctx_cast args = bpf_apply 12 bpf_ctx_cast_n (bpf_narg args)"

text \<open>\<^verbatim>\<open>___bpf_kprobe_args0\<close> to \<^verbatim>\<open>___bpf_kprobe_args5\<close>.\<close>

definition bpf_kprobe_args_n :: "nat \<Rightarrow> wrap_arg list" where
  "bpf_kprobe_args_n n =
     (if n = 0 then [Ctx]
      else if n = 1 then [Ctx, Parm PARM1]
      else if n = 2 then [Ctx, Parm PARM1, Parm PARM2]
      else if n = 3 then [Ctx, Parm PARM1, Parm PARM2, Parm PARM3]
      else if n = 4 then [Ctx, Parm PARM1, Parm PARM2, Parm PARM3, Parm PARM4]
      else [Ctx, Parm PARM1, Parm PARM2, Parm PARM3, Parm PARM4, Parm PARM5])"

definition bpf_kprobe_args :: "pp_token list \<Rightarrow> wrap_arg list option" where
  "bpf_kprobe_args args = bpf_apply 5 bpf_kprobe_args_n (bpf_narg args)"

text \<open>\<^verbatim>\<open>___bpf_kretprobe_args0\<close> and \<^verbatim>\<open>___bpf_kretprobe_args1\<close>.\<close>

definition bpf_kretprobe_args_n :: "nat \<Rightarrow> wrap_arg list" where
  "bpf_kretprobe_args_n n = (if n = 0 then [Ctx] else [Ctx, Parm RC])"

definition bpf_kretprobe_args :: "pp_token list \<Rightarrow> wrap_arg list option" where
  "bpf_kretprobe_args args = bpf_apply 1 bpf_kretprobe_args_n (bpf_narg args)"

text \<open>
  The call \<^verbatim>\<open>BPF_PROG\<close> generates: the context pointer and the casts of the elements of
  the context array.
\<close>

definition BPF_PROG :: "u64 \<Rightarrow> u64 list \<Rightarrow> pp_token list \<Rightarrow> u64 list option" where
  "BPF_PROG ctx_ptr ctx args = map_option
     (map (\<lambda>a. case a of Ctx_Elem i \<Rightarrow> ctx ! i | _ \<Rightarrow> ctx_ptr)) (bpf_ctx_cast args)"

text \<open>
  The calls \<^verbatim>\<open>BPF_KPROBE\<close> and \<^verbatim>\<open>BPF_KRETPROBE\<close> generate, on the frame
  \<open>regs\<close> behind \<open>ctx_ptr\<close>; an accessor without a value makes the build fail.
\<close>

definition wrap_value ::
  "(string \<Rightarrow> bool) \<Rightarrow> nat \<Rightarrow> u64 \<Rightarrow> pt_regs \<Rightarrow> wrap_arg \<Rightarrow> u64 option" where
  "wrap_value defd xlen ctx_ptr regs a = (case a of
     Parm acc \<Rightarrow> PT_REGS_value defd xlen regs acc
   | _ \<Rightarrow> Some ctx_ptr)"

definition BPF_KPROBE ::
  "(string \<Rightarrow> bool) \<Rightarrow> nat \<Rightarrow> u64 \<Rightarrow> pt_regs \<Rightarrow> pp_token list \<Rightarrow> u64 list option" where
  "BPF_KPROBE defd xlen ctx_ptr regs args = (case bpf_kprobe_args args of
     None \<Rightarrow> None
   | Some ws \<Rightarrow> those (map (wrap_value defd xlen ctx_ptr regs) ws))"

definition BPF_KRETPROBE ::
  "(string \<Rightarrow> bool) \<Rightarrow> nat \<Rightarrow> u64 \<Rightarrow> pt_regs \<Rightarrow> pp_token list \<Rightarrow> u64 list option" where
  "BPF_KRETPROBE defd xlen ctx_ptr regs args = (case bpf_kretprobe_args args of
     None \<Rightarrow> None
   | Some ws \<Rightarrow> those (map (wrap_value defd xlen ctx_ptr regs) ws))"

subsection \<open>Facts\<close>

lemmas pt_regs_tables =
  PT_REGS_x86_kernel.simps PT_REGS_x86_kernel_CORE.simps PT_REGS_i386.simps
  PT_REGS_i386_CORE.simps PT_REGS_x86_64.simps PT_REGS_x86_64_CORE.simps PT_REGS_s390.simps
  PT_REGS_s390_CORE.simps PT_REGS_arm.simps PT_REGS_arm_CORE.simps PT_REGS_arm64.simps
  PT_REGS_arm64_CORE.simps PT_REGS_mips.simps PT_REGS_mips_CORE.simps PT_REGS_powerpc.simps
  PT_REGS_powerpc_CORE.simps PT_REGS_sparc.simps PT_REGS_sparc_CORE.simps PT_REGS_riscv.simps
  PT_REGS_riscv_CORE.simps PT_REGS_missing.simps PT_REGS_missing_CORE.simps

text \<open>The macros of the build of \<^verbatim>\<open>mysqld_probe.c\<close>: x86, user-mode register names.\<close>

definition probe_build :: "(string \<Rightarrow> bool) \<Rightarrow> bool" where
  "probe_build defd \<longleftrightarrow> defd ''__TARGET_ARCH_x86'' \<and> \<not> defd ''__KERNEL__'' \<and>
     \<not> defd ''__VMLINUX_H__'' \<and> \<not> defd ''__i386__''"

lemma PT_REGS_probe_build:
  "probe_build defd \<Longrightarrow> PT_REGS defd xlen False acc = PT_REGS_x86_64 acc"
  by (simp add: PT_REGS_def probe_build_def bpf_target_def)

lemma PT_REGS_value_probe_build:
  assumes "probe_build defd"
  shows "PT_REGS_value defd xlen regs PARM1 = Some (PT_REGS_PARM1 regs)"
    "PT_REGS_value defd xlen regs PARM2 = Some (PT_REGS_PARM2 regs)"
    "PT_REGS_value defd xlen regs PARM3 = Some (PT_REGS_PARM3 regs)"
    "PT_REGS_value defd xlen regs PARM4 = Some (rcx regs)"
    "PT_REGS_value defd xlen regs PARM5 = Some (r8 regs)"
    "PT_REGS_value defd xlen regs RC = Some (rax regs)"
  by (simp_all add: PT_REGS_value_def PT_REGS_probe_build assms pt_regs_member_def
      PT_REGS_PARM1_def PT_REGS_PARM2_def PT_REGS_PARM3_def)

lemma bpf_ctx_cast_n_eq: "bpf_ctx_cast_n n = Ctx # map Ctx_Elem [0..<n]"
  by (induction n) simp_all

lemma bpf_ctx_cast_eq:
  "length args \<le> 12 \<Longrightarrow> bpf_ctx_cast args = Some (Ctx # map Ctx_Elem [0..<length args])"
  by (simp add: bpf_ctx_cast_def bpf_apply_def bpf_narg_eq bpf_ctx_cast_n_eq)

text \<open>C36: under every combination of predefined macros, the plain and the CO-RE form of an
  accessor read the same place of the register frame, with one exception: on RISC-V the frame
  pointer is \<^verbatim>\<open>s5\<close> in the plain form and \<^verbatim>\<open>fp\<close> in the CO-RE form.\<close>

theorem PT_REGS_CORE_same_register:
  "PT_REGS defd xlen True acc = PT_REGS defd xlen False acc \<longleftrightarrow>
     \<not> (bpf_target defd xlen = Some RISCV \<and> acc = FP)"
  by (cases acc) (simp_all add: PT_REGS_def split: option.split bpf_target.split)

text \<open>On every target, two parameter accessors that read a register read different
  ones, so no two arguments of a probed function are confused.\<close>

theorem PT_REGS_parameters_distinct:
  assumes "PT_REGS defd xlen core i = Some a" "PT_REGS defd xlen core j = Some a"
    and "i \<in> {PARM1, PARM2, PARM3, PARM4, PARM5}" "j \<in> {PARM1, PARM2, PARM3, PARM4, PARM5}"
    and "a \<noteq> Zero" "bpf_target defd xlen \<noteq> None"
  shows "i = j"
  using assms
  by (cases core) (auto simp: PT_REGS_def split: option.splits bpf_target.splits if_splits)

text \<open>For a program of at most twelve arguments \<^verbatim>\<open>BPF_PROG\<close> passes the context
  pointer and the first elements of the context array in order; for a probe of at most five
  arguments in the build of this repository \<^verbatim>\<open>BPF_KPROBE\<close> passes the context pointer and
  the argument registers in the order of the x86-64 calling convention; and six arguments do
  not compile.\<close>

theorem wrappers_pass_arguments_in_order:
  "(length args \<le> 12 \<longrightarrow> BPF_PROG p ctx args = Some (p # map (\<lambda>i. ctx ! i) [0..<length args])) \<and>
   (length args \<le> 5 \<and> probe_build defd \<longrightarrow> BPF_KPROBE defd xlen p regs args =
      Some (p # take (length args) [rdi regs, rsi regs, rdx regs, rcx regs, r8 regs])) \<and>
   (5 < length args \<and> length args \<le> 12 \<longrightarrow> BPF_KPROBE defd xlen p regs args = None)"
proof (intro conjI impI)
  assume "length args \<le> 12"
  then show "BPF_PROG p ctx args = Some (p # map (\<lambda>i. ctx ! i) [0..<length args])"
    by (simp add: BPF_PROG_def bpf_ctx_cast_eq)
next
  assume l: "length args \<le> 5 \<and> probe_build defd"
  then have b: "probe_build defd" by simp
  from l have "length args = 0 \<or> length args = 1 \<or> length args = 2 \<or> length args = 3 \<or>
      length args = 4 \<or> length args = 5" by linarith
  then show "BPF_KPROBE defd xlen p regs args =
      Some (p # take (length args) [rdi regs, rsi regs, rdx regs, rcx regs, r8 regs])"
    by (elim disjE) (simp_all add: BPF_KPROBE_def bpf_kprobe_args_def bpf_apply_def bpf_narg_eq
        bpf_kprobe_args_n_def wrap_value_def PT_REGS_value_probe_build [OF b]
        PT_REGS_PARM1_def PT_REGS_PARM2_def PT_REGS_PARM3_def)
next
  assume "5 < length args \<and> length args \<le> 12"
  then show "BPF_KPROBE defd xlen p regs args = None"
    by (simp add: BPF_KPROBE_def bpf_kprobe_args_def bpf_apply_def bpf_narg_eq)
qed

theorem PT_REGS_parameters_distinct_witness:
  "PT_REGS (\<lambda>n. n = ''__aarch64__'') 0 False PARM2 = Some (Elem ''regs'' (Lit 1)) \<and>
   PARM2 = (PARM2 :: reg_acc)"
proof -
  have a: "PT_REGS (\<lambda>n. n = ''__aarch64__'') 0 False PARM2 = Some (Elem ''regs'' (Lit 1))"
    "bpf_target (\<lambda>n. n = ''__aarch64__'') 0 \<noteq> None"
    by (simp_all add: PT_REGS_def bpf_target_def)
  then show ?thesis
    using PT_REGS_parameters_distinct [OF a(1) a(1) _ _ _ a(2)] by simp
qed

theorem wrappers_pass_arguments_in_order_witness:
  "BPF_PROG 9 [5, 6, 7] [Ident ''a'', Ident ''b''] = Some [9, 5, 6]"
  using wrappers_pass_arguments_in_order [of "[Ident ''a'', Ident ''b'']" 9 "[5, 6, 7]"]
  by (simp add: upt_rec)

end
