(* ===== verification/Mysqld_Probe.thy ===== *)
theory Mysqld_Probe
  imports Bpf_Maps Tracing_H
begin

text \<open>
  \<^verbatim>\<open>mysqld_probe.c\<close>: the map declarations, the record of a query, and the two probes on
  \<^verbatim>\<open>dispatch_command\<close>. What the kernel and the traced server supply to one run of a probe
  (task, clock, registers, readable memory) is a record \<open>env\<close>, an argument of the probes.
  A probe takes the state of the maps to the state after it; it always returns 0.
\<close>

subsection \<open>Data\<close>

datatype field_offset =
    m_thread_id_offset | m_query_id_offset | m_db_offset | tv_sec_offset | m_user_offset
  | m_priv_user_offset | m_host_offset | m_ip_offset | peer_port_offset
  | previous_found_rows_offset | current_found_rows_offset | m_affected_rows_offset
  | m_sent_row_count_offset | m_row_count_func_offset | m_mysql_errno_offset | killed_offset

primrec field_index :: "field_offset \<Rightarrow> nat" where
  "field_index m_thread_id_offset = 0"
| "field_index m_query_id_offset = 1"
| "field_index m_db_offset = 2"
| "field_index tv_sec_offset = 3"
| "field_index m_user_offset = 4"
| "field_index m_priv_user_offset = 5"
| "field_index m_host_offset = 6"
| "field_index m_ip_offset = 7"
| "field_index peer_port_offset = 8"
| "field_index previous_found_rows_offset = 9"
| "field_index current_found_rows_offset = 10"
| "field_index m_affected_rows_offset = 11"
| "field_index m_sent_row_count_offset = 12"
| "field_index m_row_count_func_offset = 13"
| "field_index m_mysql_errno_offset = 14"
| "field_index killed_offset = 15"

text \<open>C compares enumerators as the integers they stand for.\<close>

instantiation field_offset :: linorder
begin

definition less_eq_field_offset :: "field_offset \<Rightarrow> field_offset \<Rightarrow> bool" where
  "less_eq_field_offset f g \<longleftrightarrow> field_index f \<le> field_index g"

definition less_field_offset :: "field_offset \<Rightarrow> field_offset \<Rightarrow> bool" where
  "less_field_offset f g \<longleftrightarrow> field_index f < field_index g"

instance
proof
  fix f g h :: field_offset
  show "f < g \<longleftrightarrow> f \<le> g \<and> \<not> g \<le> f" and "f \<le> f" and "f \<le> g \<Longrightarrow> g \<le> h \<Longrightarrow> f \<le> h"
    and "f \<le> g \<or> g \<le> f"
    by (auto simp: less_eq_field_offset_def less_field_offset_def)
  show "f \<le> g \<Longrightarrow> g \<le> f \<Longrightarrow> f = g"
    by (cases f; cases g) (simp_all add: less_eq_field_offset_def)
qed

end

record event =
  et_gtid :: u64

definition MAX_COMM_LEN :: nat where "MAX_COMM_LEN = 16"
definition MAX_CLUSTER_NAME_LEN :: nat where "MAX_CLUSTER_NAME_LEN = 64"
definition MAX_USER_LEN :: nat where "MAX_USER_LEN = 32"
definition MAX_HOST_LEN :: nat where "MAX_HOST_LEN = 64"
definition MAX_IP_LEN :: nat where "MAX_IP_LEN = 46"
definition MAX_DATABASE_LEN :: nat where "MAX_DATABASE_LEN = 64"
definition MAX_QUERY_LEN :: nat where "MAX_QUERY_LEN = 1024"

lemmas max_len_defs = MAX_COMM_LEN_def MAX_CLUSTER_NAME_LEN_def MAX_USER_LEN_def
  MAX_HOST_LEN_def MAX_IP_LEN_def MAX_DATABASE_LEN_def MAX_QUERY_LEN_def

record db_ctx =
  gtid :: u64
  cost_time :: u64
  thd_addr :: s64
  timestamp :: ulong
  comm :: "u8 list"
  cluster_name :: "u8 list"
  user :: "u8 list"
  priv_user :: "u8 list"
  host :: "u8 list"
  ipaddr :: "u8 list"
  database :: "u8 list"
  thread_id :: u32
  query_id :: s64
  query_len :: u64
  query :: "u8 list"
  previous_found_rows :: u64
  current_found_rows :: u64
  affected_rows :: u64
  sent_row_count :: ulong
  row_count_func :: u64
  sql_errno :: u32
  killed :: s32
  peer_port :: u16
  processed :: s8

text \<open>The arrays of the record; \<^verbatim>\<open>database\<close> is declared with the length of an IP address.\<close>

definition db_ctx_ok :: "db_ctx \<Rightarrow> bool" where
  "db_ctx_ok c \<longleftrightarrow> length (comm c) = MAX_COMM_LEN \<and>
     length (cluster_name c) = MAX_CLUSTER_NAME_LEN \<and> length (user c) = MAX_USER_LEN \<and>
     length (priv_user c) = MAX_USER_LEN \<and> length (host c) = MAX_HOST_LEN \<and>
     length (ipaddr c) = MAX_IP_LEN \<and> length (database c) = MAX_IP_LEN \<and>
     length (query c) = MAX_QUERY_LEN"

record cluster =
  cl_cluster_name :: "u8 list"
  offsets :: "u64 list"

definition cluster_ok :: "cluster \<Rightarrow> bool" where
  "cluster_ok cl \<longleftrightarrow> length (cl_cluster_name cl) = 64 \<and> length (offsets cl) = 32"

text \<open>The five maps. The per-CPU array has one element, so a CPU selects it.\<close>

record bpf_state =
  var_holder :: "u32 \<Rightarrow> db_ctx"
  clusters :: "cluster bpf_hash"
  thread_db_ctx_hash :: "db_ctx bpf_hash"
  db_ctx_queue :: "db_ctx list"
  events :: "(u32 \<times> event) list"

definition var_holder_max :: nat where "var_holder_max = 1"
definition clusters_max :: nat where "clusters_max = 1024"
definition thread_db_ctx_hash_max :: nat where "thread_db_ctx_hash_max = 1024"
definition db_ctx_queue_max :: nat where "db_ctx_queue_max = 5120"

lemmas map_max_defs = var_holder_max_def clusters_max_def thread_db_ctx_hash_max_def
  db_ctx_queue_max_def

subsection \<open>The environment of one run\<close>

text \<open>
  \<open>e_user\<close> is the memory \<^verbatim>\<open>bpf_probe_read_user\<close> can read (\<^const>\<open>None\<close>: the read fails)
  and \<open>e_str\<close> the memory \<^verbatim>\<open>bpf_probe_read_str\<close> can read. The comments do not say what a
  failed read leaves in the destination, so that is an argument: \<open>e_fill\<close> gives, for the
  address read, the position in the destination and the byte there before, the byte left
  there, so the destination may be partly copied, cleared or untouched. \<open>e_comm_fill\<close> says
  the same of the bytes of the process name after its NUL. \<open>e_cluster_ptr\<close> is the kernel address of the entry found in
  \<^verbatim>\<open>clusters\<close>, \<open>e_query_ptr\<close> the address of the local variable \<^verbatim>\<open>query\<close> on the
  BPF stack, and \<open>e_stack\<close> the bytes the stack held. \<open>e_comm\<close> is the name of the task, or
  \<^const>\<open>None\<close> if the helper fails. \<open>e_refuse\<close> and \<open>e_lost\<close> are failures of the map
  update and of the event output.
\<close>

record env =
  e_pid_tgid :: u64
  e_ktime :: u64
  e_cpu :: u32
  e_comm :: "u8 list option"
  e_regs :: pt_regs
  e_user :: "u64 \<Rightarrow> u8 option"
  e_str :: "u64 \<Rightarrow> u8 option"
  e_fill :: "u64 \<Rightarrow> nat \<Rightarrow> u8 \<Rightarrow> u8"
  e_comm_fill :: "nat \<Rightarrow> u8 \<Rightarrow> u8"
  e_cluster_ptr :: u64
  e_query_ptr :: u64
  e_stack :: "nat \<Rightarrow> u8"
  e_refuse :: bool
  e_lost :: bool

subsection \<open>Reading helpers\<close>

definition read_bytes :: "(u64 \<Rightarrow> u8 option) \<Rightarrow> u64 \<Rightarrow> nat \<Rightarrow> u8 list option" where
  "read_bytes mem a n = those (map (\<lambda>i. mem (a + of_nat i)) [0..<n])"

text \<open>What is left in a buffer where \<open>f\<close> gives the new byte of each position.\<close>

definition left_in :: "(nat \<Rightarrow> u8 \<Rightarrow> u8) \<Rightarrow> u8 list \<Rightarrow> u8 list" where
  "left_in f dst = map (\<lambda>i. f i (dst ! i)) [0..<length dst]"

text \<open>\<^verbatim>\<open>bpf_probe_read_user\<close> into a buffer: all of it, or a failure.\<close>

definition bpf_probe_read_user :: "env \<Rightarrow> u8 list \<Rightarrow> u64 \<Rightarrow> u8 list" where
  "bpf_probe_read_user e dst a = (case read_bytes (e_user e) a (length dst) of
     Some bs \<Rightarrow> bs
   | None \<Rightarrow> left_in (e_fill e a) dst)"

text \<open>The same into an integer of \<open>n\<close> bytes.\<close>

definition read_user_word :: "env \<Rightarrow> nat \<Rightarrow> 'a::len word \<Rightarrow> u64 \<Rightarrow> 'a word" where
  "read_user_word e n old a = le_word (bpf_probe_read_user e (le_bytes n old) a)"

text \<open>The bytes of a string before its NUL, at most \<open>n\<close> of them.\<close>

primrec read_str :: "(u64 \<Rightarrow> u8 option) \<Rightarrow> u64 \<Rightarrow> nat \<Rightarrow> u8 list option" where
  "read_str mem a 0 = Some []"
| "read_str mem a (Suc n) = (case mem a of
     None \<Rightarrow> None
   | Some b \<Rightarrow> (if b = 0 then Some [] else map_option ((#) b) (read_str mem (a + 1) n)))"

text \<open>
  \<^verbatim>\<open>bpf_probe_read_str\<close>, whose comment refers to \<^verbatim>\<open>bpf_probe_read_kernel_str\<close> and this to
  \<^verbatim>\<open>bpf_probe_read_user_str\<close> for the details: a string longer than the buffer is cut so that
  the NUL fits; the bytes after the NUL are not written.
\<close>

definition bpf_probe_read_str :: "env \<Rightarrow> u8 list \<Rightarrow> u64 \<Rightarrow> u8 list" where
  "bpf_probe_read_str e dst a = (case read_str (e_str e) a (length dst - 1) of
     Some s \<Rightarrow> overwrite (s @ [0]) dst
   | None \<Rightarrow> left_in (e_fill e a) dst)"

text \<open>
  \<^verbatim>\<open>bpf_get_current_comm\<close>: on success the buffer is NUL-terminated, on failure it is
  filled with zeroes.
\<close>

definition bpf_get_current_comm :: "env \<Rightarrow> u8 list \<Rightarrow> u8 list" where
  "bpf_get_current_comm e dst = (case e_comm e of
     Some c \<Rightarrow> overwrite (take (length dst - 1) (cstr c) @ [0]) (left_in (e_comm_fill e) dst)
   | None \<Rightarrow> replicate (length dst) 0)"

definition field_addr :: "cluster \<Rightarrow> u64 \<Rightarrow> field_offset \<Rightarrow> u64" where
  "field_addr cl arg f = arg + offsets cl ! field_index f"

subsection \<open>Keys\<close>

text \<open>
  \<^verbatim>\<open>clusters\<close> is looked up with the upper half of the task's identifier, as a 32-bit value.
  \<^verbatim>\<open>thread_db_ctx_hash\<close> is looked up through a pointer to the whole 64-bit identifier, of
  which the map reads as many bytes as its key has.
\<close>

definition cluster_key :: "u64 \<Rightarrow> u32" where
  "cluster_key g = ucast (drop_bit 32 g)"

definition thread_key :: "u64 \<Rightarrow> u32" where
  "thread_key g = le_word (take 4 (le_bytes 8 g))"

lemma length_left_in [simp]: "length (left_in f dst) = length dst"
  by (simp add: left_in_def)

lemma thread_key_eq: "thread_key g = ucast g"
  by (simp add: thread_key_def le_word_take_le_bytes)

subsection \<open>The entry probe\<close>

text \<open>
  The stores of the entry probe into the record of its CPU, in their order; \<open>db_ctx\<close> is what
  the record held.
\<close>

definition fill_entry :: "env \<Rightarrow> cluster \<Rightarrow> u64 \<Rightarrow> db_ctx \<Rightarrow> db_ctx" where
  "fill_entry e cl g db_ctx =
    (let c = db_ctx\<lparr>gtid := g\<rparr>;
         c = c\<lparr>cost_time := e_ktime e\<rparr>;
         c = c\<lparr>comm := bpf_get_current_comm e (comm c)\<rparr>;
         c = c\<lparr>cluster_name := bpf_probe_read_user e (cluster_name c) (e_cluster_ptr e)\<rparr>;
         arg = PT_REGS_PARM2 (e_regs e);
         qd = COM_QUERY_DATA_of_bytes
                (bpf_probe_read_user e (map (e_stack e) [0..<sizeof_COM_QUERY_DATA]) arg);
         c = c\<lparr>query := bpf_probe_read_user e (query c) (qd_query qd)\<rparr>;
         c = c\<lparr>query_len := read_user_word e 8 (query_len c) (e_query_ptr e + 8)\<rparr>;
         arg = PT_REGS_PARM1 (e_regs e);
         c = c\<lparr>thd_addr := arg\<rparr>;
         c = c\<lparr>thread_id := read_user_word e 4 (thread_id c) (field_addr cl arg m_thread_id_offset)\<rparr>;
         c = c\<lparr>query_id := read_user_word e 8 (query_id c) (field_addr cl arg m_query_id_offset)\<rparr>;
         m_db = lex_string_of_bytes (bpf_probe_read_user e
                  (map (e_stack e) [sizeof_COM_QUERY_DATA..<sizeof_COM_QUERY_DATA + sizeof_lex_string])
                  (field_addr cl arg m_db_offset));
         c = c\<lparr>database := bpf_probe_read_user e (database c) (ls_str m_db)\<rparr>;
         c = c\<lparr>timestamp := read_user_word e 8 (timestamp c) (field_addr cl arg tv_sec_offset)\<rparr>;
         cnt = (0 :: u64);
         cnt = read_user_word e 8 cnt (field_addr cl arg m_user_offset);
         c = c\<lparr>user := bpf_probe_read_str e (user c) cnt\<rparr>;
         cnt = read_user_word e 8 cnt (field_addr cl arg m_priv_user_offset);
         c = c\<lparr>priv_user := bpf_probe_read_str e (priv_user c) cnt\<rparr>;
         cnt = read_user_word e 8 cnt (field_addr cl arg m_host_offset);
         c = c\<lparr>host := bpf_probe_read_user e (host c) cnt\<rparr>;
         cnt = read_user_word e 8 cnt (field_addr cl arg m_ip_offset);
         c = c\<lparr>ipaddr := bpf_probe_read_user e (ipaddr c) cnt\<rparr>;
         c = c\<lparr>peer_port := read_user_word e 2 (peer_port c) (field_addr cl arg peer_port_offset)\<rparr>
     in c\<lparr>processed := 0xf\<rparr>)"

definition mysql57_query :: "env \<Rightarrow> bpf_state \<Rightarrow> int \<times> bpf_state" where
  "mysql57_query e s =
    (let g = e_pid_tgid e in
     case bpf_map_lookup_elem (clusters s) (cluster_key g) of
       None \<Rightarrow> (0, s)
     | Some cl \<Rightarrow>
        if PT_REGS_PARM3 (e_regs e) \<noteq> COM_QUERY then (0, s)
        else (case percpu_array_lookup_elem var_holder_max (var_holder s) (e_cpu e) 0 of
            None \<Rightarrow> (0, s)
          | Some db_ctx \<Rightarrow>
             let c = fill_entry e cl g db_ctx;
                 s = s\<lparr>var_holder := (var_holder s)(e_cpu e := c)\<rparr>
             in (0, s\<lparr>thread_db_ctx_hash := snd (bpf_map_update_elem thread_db_ctx_hash_max
                        (e_refuse e) (thread_db_ctx_hash s) (thread_key (gtid c)) c BPF_ANY)\<rparr>)))"

subsection \<open>The return probe\<close>

definition fill_return :: "env \<Rightarrow> cluster \<Rightarrow> db_ctx \<Rightarrow> db_ctx" where
  "fill_return e cl db_ctx =
    (let arg = thd_addr db_ctx;
         c = db_ctx\<lparr>previous_found_rows := read_user_word e 8 (previous_found_rows db_ctx)
                     (field_addr cl arg previous_found_rows_offset)\<rparr>;
         c = c\<lparr>current_found_rows := read_user_word e 8 (current_found_rows c)
                     (field_addr cl arg current_found_rows_offset)\<rparr>;
         c = c\<lparr>affected_rows := read_user_word e 8 (affected_rows c)
                     (field_addr cl arg m_affected_rows_offset)\<rparr>;
         c = c\<lparr>sent_row_count := read_user_word e 8 (sent_row_count c)
                     (field_addr cl arg m_sent_row_count_offset)\<rparr>;
         c = c\<lparr>row_count_func := read_user_word e 8 (row_count_func c)
                     (field_addr cl arg m_row_count_func_offset)\<rparr>;
         c = c\<lparr>sql_errno := read_user_word e 4 (sql_errno c)
                     (field_addr cl arg m_mysql_errno_offset)\<rparr>;
         c = c\<lparr>killed := read_user_word e 4 (killed c) (field_addr cl arg killed_offset)\<rparr>;
         c = c\<lparr>cost_time := e_ktime e - cost_time c\<rparr>
     in c\<lparr>processed := 0\<rparr>)"

definition mysql57_query_return :: "env \<Rightarrow> bpf_state \<Rightarrow> int \<times> bpf_state" where
  "mysql57_query_return e s =
    (let et = \<lparr>et_gtid = e_pid_tgid e\<rparr> in
     case bpf_map_lookup_elem (clusters s) (cluster_key (et_gtid et)) of
       None \<Rightarrow> (0, s)
     | Some cl \<Rightarrow>
        (case bpf_map_lookup_elem (thread_db_ctx_hash s) (thread_key (et_gtid et)) of
           None \<Rightarrow> (0, s)
         | Some db_ctx \<Rightarrow>
             if processed db_ctx \<noteq> 0xf then (0, s)
             else let c = fill_return e cl db_ctx;
                      s = s\<lparr>thread_db_ctx_hash :=
                              hash_write (thread_db_ctx_hash s) (thread_key (et_gtid et)) c\<rparr>;
                      s = s\<lparr>db_ctx_queue :=
                              snd (bpf_map_push_elem db_ctx_queue_max (db_ctx_queue s) c BPF_EXIST)\<rparr>;
                      s = s\<lparr>events := snd (bpf_perf_event_output (e_lost e) (events s) (e_cpu e)
                              BPF_F_CURRENT_CPU et)\<rparr>
                  in (0, s)))"

end
