(* ===== verification/Probe_Facts.thy ===== *)
theory Probe_Facts
  imports Mysqld_Probe
begin

text \<open>
  One run of a probe: what the reading helpers return, which runs change nothing, which
  fields a recorded query takes and from where, what a run leaves alone, and the invariant
  of the maps that both probes keep.
\<close>

subsection \<open>Reading helpers\<close>

lemma those_length: "those xs = Some ys \<Longrightarrow> length ys = length xs"
  by (induction xs arbitrary: ys) (auto split: option.splits)

lemma those_all_Some:
  "(\<And>x. x \<in> set xs \<Longrightarrow> f x = Some (g x)) \<Longrightarrow> those (map f xs) = Some (map g xs)"
  by (induction xs) auto

lemma those_None: "None \<in> set xs \<Longrightarrow> those xs = None"
  by (induction xs) (auto split: option.splits)

lemma read_bytes_length: "read_bytes mem a n = Some bs \<Longrightarrow> length bs = n"
  unfolding read_bytes_def by (drule those_length) simp

lemma read_bytes_all:
  "(\<And>i. i < n \<Longrightarrow> mem (a + of_nat i) = Some (f i)) \<Longrightarrow> read_bytes mem a n = Some (map f [0..<n])"
  unfolding read_bytes_def by (rule those_all_Some) simp

lemma read_bytes_fault:
  "i < n \<Longrightarrow> mem (a + of_nat i) = None \<Longrightarrow> read_bytes mem a n = None"
  unfolding read_bytes_def by (rule those_None) force

lemma length_bpf_probe_read_user [simp, layout_simps]:
  "length (bpf_probe_read_user e dst a) = length dst"
  by (auto simp: bpf_probe_read_user_def dest: read_bytes_length split: option.split)

lemma length_bpf_probe_read_str [simp, layout_simps]:
  "length (bpf_probe_read_str e dst a) = length dst"
  by (simp add: bpf_probe_read_str_def split: option.split)

lemma length_bpf_get_current_comm [simp, layout_simps]:
  "length (bpf_get_current_comm e dst) = length dst"
  by (simp add: bpf_get_current_comm_def split: option.split)

lemma read_str_props:
  "read_str mem a n = Some s \<Longrightarrow> length s \<le> n \<and> 0 \<notin> set s"
  by (induction n arbitrary: a s) (auto split: option.splits if_splits)

text \<open>
  A string read replaces the C string of the buffer completely: what follows the NUL may be
  left from an earlier query, but is not part of the string.
\<close>

lemma cstr_bpf_probe_read_str:
  assumes "read_str (e_str e) a (length dst - 1) = Some s" "dst \<noteq> []"
  shows "cstr (bpf_probe_read_str e dst a) = s"
proof -
  from read_str_props [OF assms(1)] assms(2) have "length s < length dst" "0 \<notin> set s"
    by (cases dst; simp)+
  with assms(1) show ?thesis by (simp add: bpf_probe_read_str_def cstr_overwrite)
qed

lemma cstr_bpf_get_current_comm:
  assumes "e_comm e = Some name" "dst \<noteq> []"
  shows "cstr (bpf_get_current_comm e dst) = take (length dst - 1) (cstr name)"
proof -
  have "0 \<notin> set (take (length dst - 1) (cstr name))"
    using NUL_notin_cstr set_take_subset by fast
  moreover have "length (take (length dst - 1) (cstr name)) < length dst"
    using assms(2) by (cases dst) auto
  ultimately show ?thesis
    using assms(1) by (simp add: bpf_get_current_comm_def cstr_overwrite)
qed

subsection \<open>The stores of the two probes\<close>

lemma fill_entry_fields [simp]:
  "gtid (fill_entry e cl g c) = g"
  "cost_time (fill_entry e cl g c) = e_ktime e"
  "thd_addr (fill_entry e cl g c) = PT_REGS_PARM1 (e_regs e)"
  "processed (fill_entry e cl g c) = 0xf"
  "comm (fill_entry e cl g c) = bpf_get_current_comm e (comm c)"
  "previous_found_rows (fill_entry e cl g c) = previous_found_rows c"
  "current_found_rows (fill_entry e cl g c) = current_found_rows c"
  "affected_rows (fill_entry e cl g c) = affected_rows c"
  "sent_row_count (fill_entry e cl g c) = sent_row_count c"
  "row_count_func (fill_entry e cl g c) = row_count_func c"
  "sql_errno (fill_entry e cl g c) = sql_errno c"
  "killed (fill_entry e cl g c) = killed c"
  by (simp_all add: fill_entry_def Let_def)

lemma fill_return_fields [simp]:
  "gtid (fill_return e cl c) = gtid c"
  "cost_time (fill_return e cl c) = e_ktime e - cost_time c"
  "thd_addr (fill_return e cl c) = thd_addr c"
  "processed (fill_return e cl c) = 0"
  "timestamp (fill_return e cl c) = timestamp c"
  "comm (fill_return e cl c) = comm c"
  "cluster_name (fill_return e cl c) = cluster_name c"
  "user (fill_return e cl c) = user c"
  "priv_user (fill_return e cl c) = priv_user c"
  "host (fill_return e cl c) = host c"
  "ipaddr (fill_return e cl c) = ipaddr c"
  "database (fill_return e cl c) = database c"
  "thread_id (fill_return e cl c) = thread_id c"
  "query_id (fill_return e cl c) = query_id c"
  "query_len (fill_return e cl c) = query_len c"
  "query (fill_return e cl c) = query c"
  "peer_port (fill_return e cl c) = peer_port c"
  by (simp_all add: fill_return_def Let_def)

lemma fill_entry_ok: "db_ctx_ok c \<Longrightarrow> db_ctx_ok (fill_entry e cl g c)"
  by (simp add: db_ctx_ok_def fill_entry_def Let_def)

lemma fill_return_ok: "db_ctx_ok c \<Longrightarrow> db_ctx_ok (fill_return e cl c)"
  by (simp add: db_ctx_ok_def)

subsection \<open>The cases of a run\<close>

abbreviation tgid_of :: "env \<Rightarrow> u32" where "tgid_of e \<equiv> cluster_key (e_pid_tgid e)"
abbreviation tid_of :: "env \<Rightarrow> u32" where "tid_of e \<equiv> thread_key (e_pid_tgid e)"

abbreviation session :: "bpf_state \<Rightarrow> u32 \<Rightarrow> db_ctx option" where
  "session s k \<equiv> bpf_map_lookup_elem (thread_db_ctx_hash s) k"

abbreviation cluster_at :: "bpf_state \<Rightarrow> u32 \<Rightarrow> cluster option" where
  "cluster_at s k \<equiv> bpf_map_lookup_elem (clusters s) k"

text \<open>An entry run is one of a traced process about to execute a query.\<close>

definition traced_query :: "env \<Rightarrow> bpf_state \<Rightarrow> bool" where
  "traced_query e s \<longleftrightarrow> cluster_at s (tgid_of e) \<noteq> None \<and> PT_REGS_PARM3 (e_regs e) = COM_QUERY"

text \<open>A thread has an open session when its entry is marked as not yet processed.\<close>

definition open_session :: "bpf_state \<Rightarrow> u32 \<Rightarrow> bool" where
  "open_session s k \<longleftrightarrow> (\<exists>c. session s k = Some c \<and> processed c = 0xf)"

definition entry_ctx :: "env \<Rightarrow> bpf_state \<Rightarrow> db_ctx" where
  "entry_ctx e s = fill_entry e (the (cluster_at s (tgid_of e))) (e_pid_tgid e) (var_holder s (e_cpu e))"

definition return_ctx :: "env \<Rightarrow> bpf_state \<Rightarrow> db_ctx" where
  "return_ctx e s = fill_return e (the (cluster_at s (tgid_of e))) (the (session s (tid_of e)))"

lemma mysql57_query_skip: "\<not> traced_query e s \<Longrightarrow> mysql57_query e s = (0, s)"
  by (auto simp: traced_query_def mysql57_query_def Let_def split: option.splits)

lemma mysql57_query_record:
  assumes "traced_query e s"
  shows "mysql57_query e s = (0, s
    \<lparr>var_holder := (var_holder s)(e_cpu e := entry_ctx e s),
     thread_db_ctx_hash := snd (bpf_map_update_elem 1024 (e_refuse e) (thread_db_ctx_hash s)
       (tid_of e) (entry_ctx e s) BPF_ANY)\<rparr>)"
  using assms
  by (auto simp: traced_query_def mysql57_query_def Let_def percpu_array_lookup_elem_def
      map_max_defs entry_ctx_def)

lemma mysql57_query_return_skip:
  "cluster_at s (tgid_of e) = None \<or> \<not> open_session s (tid_of e) \<Longrightarrow>
     mysql57_query_return e s = (0, s)"
  by (auto simp: open_session_def mysql57_query_return_def Let_def split: option.splits)

lemma perf_output_current_cpu:
  "snd (bpf_perf_event_output lost evs cpu BPF_F_CURRENT_CPU d) = evs @ (if lost then [] else [(cpu, d)])"
  by (simp add: bpf_perf_event_output_def BPF_F_CURRENT_CPU_def BPF_F_INDEX_MASK_def Let_def)

lemma mysql57_query_return_record:
  assumes "cluster_at s (tgid_of e) \<noteq> None" "open_session s (tid_of e)"
  shows "mysql57_query_return e s = (0, s
    \<lparr>thread_db_ctx_hash := hash_write (thread_db_ctx_hash s) (tid_of e) (return_ctx e s),
     db_ctx_queue := queue_push 5120 (db_ctx_queue s) (return_ctx e s),
     events := events s @ (if e_lost e then [] else [(e_cpu e, \<lparr>et_gtid = e_pid_tgid e\<rparr>)])\<rparr>)"
  using assms
  by (auto simp: open_session_def mysql57_query_return_def Let_def map_max_defs return_ctx_def
      queue_push_def perf_output_current_cpu)

text \<open>The two probes as functions of the state alone; the returned number is always 0.\<close>

definition after_query :: "env \<Rightarrow> bpf_state \<Rightarrow> bpf_state" where
  "after_query e s = snd (mysql57_query e s)"

definition after_return :: "env \<Rightarrow> bpf_state \<Rightarrow> bpf_state" where
  "after_return e s = snd (mysql57_query_return e s)"

subsection \<open>Frames\<close>

lemma clusters_after [simp, frame_simps]:
  "clusters (after_query e s) = clusters s" "clusters (after_return e s) = clusters s"
  by (auto simp: after_query_def after_return_def mysql57_query_def mysql57_query_return_def
      Let_def split: option.splits)

lemma queue_after_query [simp, frame_simps]:
  "db_ctx_queue (after_query e s) = db_ctx_queue s" "events (after_query e s) = events s"
  by (auto simp: after_query_def mysql57_query_def Let_def split: option.splits)

lemma var_holder_after_return [simp, frame_simps]:
  "var_holder (after_return e s) = var_holder s"
  by (auto simp: after_return_def mysql57_query_return_def Let_def split: option.splits)

lemma session_after_query:
  "session (after_query e s) k =
     (if k = tid_of e \<and> traced_query e s \<and>
         fst (bpf_map_update_elem 1024 (e_refuse e) (thread_db_ctx_hash s) (tid_of e)
           (entry_ctx e s) BPF_ANY) = RC_OK
      then Some (entry_ctx e s) else session s k)"
proof (cases "traced_query e s")
  case True
  then show ?thesis
    by (cases "k = tid_of e") (simp_all add: after_query_def mysql57_query_record
        hash.lookup_update_this hash.lookup_update_other)
next
  case False
  then show ?thesis by (simp add: after_query_def mysql57_query_skip)
qed

lemma session_after_return:
  "session (after_return e s) k =
     (if k = tid_of e \<and> cluster_at s (tgid_of e) \<noteq> None \<and> open_session s (tid_of e)
      then Some (return_ctx e s) else session s k)"
proof (cases "cluster_at s (tgid_of e) \<noteq> None \<and> open_session s (tid_of e)")
  case True
  then show ?thesis
    by (simp add: after_return_def mysql57_query_return_record hash.store_lookup)
next
  case False
  then have "after_return e s = s"
    by (auto simp: after_return_def mysql57_query_return_skip)
  with False show ?thesis by auto
qed

lemma session_other_thread [frame_simps]:
  "k \<noteq> tid_of e \<Longrightarrow> session (after_query e s) k = session s k"
  "k \<noteq> tid_of e \<Longrightarrow> session (after_return e s) k = session s k"
  by (simp_all add: session_after_query session_after_return)

lemma open_session_iff: "open_session s k \<longleftrightarrow> (case session s k of None \<Rightarrow> False | Some c \<Rightarrow> processed c = 0xf)"
  by (simp add: open_session_def split: option.split)

lemma not_open_after_return:
  assumes "cluster_at s (tgid_of e) \<noteq> None"
  shows "\<not> open_session (after_return e s) (tid_of e)"
  using assms
  by (auto simp: open_session_iff session_after_return return_ctx_def split: option.splits)

subsection \<open>The invariant of the maps\<close>

definition ctx_in_table_ok :: "u32 \<Rightarrow> db_ctx \<Rightarrow> bool" where
  "ctx_in_table_ok k c \<longleftrightarrow> db_ctx_ok c \<and> thread_key (gtid c) = k \<and>
     (processed c = 0xf \<or> processed c = 0)"

definition state_ok :: "bpf_state \<Rightarrow> bool" where
  "state_ok s \<longleftrightarrow>
     hash_ok 1024 (clusters s) \<and> hash_ok 1024 (thread_db_ctx_hash s) \<and>
     (\<forall>cpu. db_ctx_ok (var_holder s cpu)) \<and>
     (\<forall>k c. session s k = Some c \<longrightarrow> ctx_in_table_ok k c) \<and>
     length (db_ctx_queue s) \<le> 5120 \<and>
     (\<forall>c \<in> set (db_ctx_queue s). db_ctx_ok c \<and> processed c = 0)"

lemma state_okD:
  assumes "state_ok s"
  shows "hash_ok 1024 (clusters s)" "hash_ok 1024 (thread_db_ctx_hash s)"
    "db_ctx_ok (var_holder s cpu)" "session s k = Some c \<Longrightarrow> ctx_in_table_ok k c"
    "length (db_ctx_queue s) \<le> 5120"
    "c \<in> set (db_ctx_queue s) \<Longrightarrow> db_ctx_ok c \<and> processed c = 0"
  using assms by (auto simp: state_ok_def)

lemma state_okI:
  assumes "hash_ok 1024 (clusters s)" "hash_ok 1024 (thread_db_ctx_hash s)"
    "\<And>cpu. db_ctx_ok (var_holder s cpu)"
    "\<And>k c. session s k = Some c \<Longrightarrow> ctx_in_table_ok k c"
    "length (db_ctx_queue s) \<le> 5120"
    "\<And>c. c \<in> set (db_ctx_queue s) \<Longrightarrow> db_ctx_ok c \<and> processed c = 0"
  shows "state_ok s"
  using assms by (auto simp: state_ok_def)

lemma entry_ctx_ok: "state_ok s \<Longrightarrow> ctx_in_table_ok (tid_of e) (entry_ctx e s)"
  by (simp add: ctx_in_table_ok_def entry_ctx_def fill_entry_ok state_okD)

lemma return_ctx_ok:
  assumes "state_ok s" "open_session s (tid_of e)"
  shows "ctx_in_table_ok (tid_of e) (return_ctx e s)" "processed (return_ctx e s) = 0"
proof -
  from assms obtain c where "session s (tid_of e) = Some c" "ctx_in_table_ok (tid_of e) c"
    by (auto simp: open_session_def dest: state_okD(4))
  then show "ctx_in_table_ok (tid_of e) (return_ctx e s)"
    by (simp add: return_ctx_def ctx_in_table_ok_def fill_return_ok)
  show "processed (return_ctx e s) = 0" by (simp add: return_ctx_def)
qed

lemma thread_table_after_query_ok:
  "state_ok s \<Longrightarrow> hash_ok 1024 (thread_db_ctx_hash (after_query e s))"
  by (cases "traced_query e s")
     (simp_all add: after_query_def mysql57_query_record mysql57_query_skip state_okD
       hash_update_ok)

lemma var_holder_after_query:
  "var_holder (after_query e s) cpu =
     (if cpu = e_cpu e \<and> traced_query e s then entry_ctx e s else var_holder s cpu)"
  by (cases "traced_query e s")
     (simp_all add: after_query_def mysql57_query_record mysql57_query_skip)

lemma after_query_ok:
  assumes ok: "state_ok s"
  shows "state_ok (after_query e s)"
proof (rule state_okI)
  note new = entry_ctx_ok [OF ok, of e]
  show "hash_ok 1024 (thread_db_ctx_hash (after_query e s))"
    using ok by (rule thread_table_after_query_ok)
  show "db_ctx_ok (var_holder (after_query e s) cpu)" for cpu
    using new state_okD(3) [OF ok] by (simp add: var_holder_after_query ctx_in_table_ok_def)
  show "ctx_in_table_ok k c" if "session (after_query e s) k = Some c" for k c
    using that new state_okD(4) [OF ok] by (auto simp: session_after_query split: if_splits)
qed (use state_okD [OF ok] in auto)

lemma set_queue_push: "set (queue_push n q v) \<subseteq> insert v (set q)"
  by (cases q) (auto simp: queue_push_eq)

lemma after_return_ok:
  assumes "state_ok s"
  shows "state_ok (after_return e s)"
proof (cases "cluster_at s (tgid_of e) \<noteq> None \<and> open_session s (tid_of e)")
  case False
  then have "after_return e s = s"
    by (auto simp: after_return_def mysql57_query_return_skip)
  with assms show ?thesis by simp
next
  case True
  let ?s = "after_return e s"
  from True have s': "?s = s
    \<lparr>thread_db_ctx_hash := hash_write (thread_db_ctx_hash s) (tid_of e) (return_ctx e s),
     db_ctx_queue := queue_push 5120 (db_ctx_queue s) (return_ctx e s),
     events := events s @ (if e_lost e then [] else [(e_cpu e, \<lparr>et_gtid = e_pid_tgid e\<rparr>)])\<rparr>"
    by (simp add: after_return_def mysql57_query_return_record)
  note new = return_ctx_ok [OF assms conjunct2 [OF True]] and ok = state_okD [OF assms]
  show ?thesis
  proof (rule state_okI)
    show "hash_ok 1024 (thread_db_ctx_hash ?s)"
      using True ok(2) hash.store_invar [of 1024 "thread_db_ctx_hash s" "tid_of e"]
      by (auto simp: s' open_session_def)
    show "ctx_in_table_ok k c" if "session ?s k = Some c" for k c
      using that ok(4) new(1) by (auto simp: session_after_return split: if_splits)
    show "length (db_ctx_queue ?s) \<le> 5120"
      using rec_queue.length_push [OF ok(5)] by (simp add: s')
    show "db_ctx_ok c \<and> processed c = 0" if "c \<in> set (db_ctx_queue ?s)" for c
      using that new ok(6) set_queue_push [of 5120 "db_ctx_queue s" "return_ctx e s"]
      by (auto simp: s' ctx_in_table_ok_def)
  qed (use ok(1,3) in \<open>auto simp: s'\<close>)
qed

end
