(* ===== verification/Probe_Runs.thy ===== *)
theory Probe_Runs
  imports Probe_Facts "HOL-Library.Sublist"
begin

text \<open>
  Sequences of operations on the maps: runs of the two probes on any threads and CPUs in any
  interleaving, and the operations user space makes on the same maps (an update or removal of
  a traced process, taking the oldest record of the queue). A run of a probe is one step: the
  maps a run writes are its CPU's own record, the entry of its own thread, and the queue, whose
  push is one call. The theory holds the properties of whole executions and the refinement to
  the abstract machine of query sessions.
\<close>

subsection \<open>Operations and runs\<close>

datatype probe_op =
    Query env
  | Query_Return env
  | Cluster_Update bool u32 cluster
  | Cluster_Delete u32
  | Queue_Pop

fun probe_step :: "bpf_state \<Rightarrow> probe_op \<Rightarrow> bpf_state" where
  "probe_step s (Query e) = after_query e s"
| "probe_step s (Query_Return e) = after_return e s"
| "probe_step s (Cluster_Update refuse pid cl) =
     s\<lparr>clusters := snd (bpf_map_update_elem clusters_max refuse (clusters s) pid cl BPF_ANY)\<rparr>"
| "probe_step s (Cluster_Delete pid) = s\<lparr>clusters := snd (bpf_map_delete_elem (clusters s) pid)\<rparr>"
| "probe_step s Queue_Pop = (case queue_lookup_and_delete (db_ctx_queue s) of
     None \<Rightarrow> s
   | Some (c, q) \<Rightarrow> s\<lparr>db_ctx_queue := q\<rparr>)"

definition probe_run :: "bpf_state \<Rightarrow> probe_op list \<Rightarrow> bpf_state" where
  "probe_run = foldl probe_step"

lemma probe_run_simps [simp]:
  "probe_run s [] = s"
  "probe_run s (op # ops) = probe_run (probe_step s op) ops"
  by (simp_all add: probe_run_def)

lemma probe_run_append: "probe_run s (xs @ ys) = probe_run (probe_run s xs) ys"
  by (simp add: probe_run_def)

text \<open>The maps as the kernel creates them: empty, the per-CPU record all zero.\<close>

definition zero_db_ctx :: db_ctx where
  "zero_db_ctx = \<lparr>gtid = 0, cost_time = 0, thd_addr = 0, timestamp = 0,
     comm = replicate 16 0, cluster_name = replicate 64 0, user = replicate 32 0,
     priv_user = replicate 32 0, host = replicate 64 0, ipaddr = replicate 46 0,
     database = replicate 46 0, thread_id = 0, query_id = 0, query_len = 0,
     query = replicate 1024 0, previous_found_rows = 0, current_found_rows = 0,
     affected_rows = 0, sent_row_count = 0, row_count_func = 0, sql_errno = 0, killed = 0,
     peer_port = 0, processed = 0\<rparr>"

definition init_state :: bpf_state where
  "init_state = \<lparr>var_holder = (\<lambda>_. zero_db_ctx), clusters = [], thread_db_ctx_hash = [],
     db_ctx_queue = [], events = []\<rparr>"

lemma init_state_ok: "state_ok init_state"
  by (rule state_okI) (simp_all add: init_state_def zero_db_ctx_def hash_ok_def db_ctx_ok_def
      max_len_defs bpf_map_lookup_elem_def)

lemma probe_step_ok: "state_ok s \<Longrightarrow> state_ok (probe_step s op)"
proof (cases op)
  case (Cluster_Update refuse pid cl)
  assume "state_ok s"
  then show ?thesis
    using Cluster_Update hash_update_ok [of 1024 "clusters s" refuse pid cl BPF_ANY]
    by (simp add: state_ok_def map_max_defs)
next
  case (Cluster_Delete pid)
  assume "state_ok s"
  then show ?thesis
    using Cluster_Delete hash_delete_ok [of 1024 "clusters s" pid] by (simp add: state_ok_def)
next
  case Queue_Pop
  assume "state_ok s"
  then show ?thesis
    using Queue_Pop
    by (cases "db_ctx_queue s") (simp_all add: state_ok_def queue_lookup_and_delete_def)
qed (simp_all add: after_query_ok after_return_ok)

lemma probe_run_ok: "state_ok s \<Longrightarrow> state_ok (probe_run s ops)"
  by (induction ops arbitrary: s) (simp_all add: probe_step_ok)

text \<open>The operations that touch the entry of a thread.\<close>

fun touches :: "u32 \<Rightarrow> probe_op \<Rightarrow> bool" where
  "touches k (Query e) = (tid_of e = k)"
| "touches k (Query_Return e) = (tid_of e = k)"
| "touches k _ = False"

lemma session_probe_step: "\<not> touches k op \<Longrightarrow> session (probe_step s op) k = session s k"
  by (cases op) (auto simp: frame_simps split: option.split prod.split)

lemma session_probe_run:
  "list_all (\<lambda>op. \<not> touches k op) ops \<Longrightarrow> session (probe_run s ops) k = session s k"
  by (induction ops arbitrary: s) (simp_all add: session_probe_step)

lemma entry_opens_session:
  assumes "traced_query e s" "\<not> e_refuse e"
    and "session s (tid_of e) \<noteq> None \<or> length (thread_db_ctx_hash s) < 1024"
  shows "session (after_query e s) (tid_of e) = Some (entry_ctx e s)"
  using assms hash_sure.update_ANY [OF assms(3)] by (simp add: session_after_query)

lemma session_completed:
  assumes "traced_query e1 s" "\<not> e_refuse e1"
    and "session s (tid_of e1) \<noteq> None \<or> length (thread_db_ctx_hash s) < 1024"
    and "list_all (\<lambda>op. \<not> touches (tid_of e1) op) ops"
    and "e_pid_tgid e2 = e_pid_tgid e1"
    and "s' = probe_run (probe_step s (Query e1)) ops"
    and "cluster_at s' (tgid_of e1) = Some cl"
  shows "open_session s' (tid_of e2)" "return_ctx e2 s' = fill_return e2 cl (entry_ctx e1 s)"
proof -
  have "session s' (tid_of e1) = Some (entry_ctx e1 s)"
    using entry_opens_session [OF assms(1-3)] session_probe_run [OF assms(4)]
    by (simp add: assms(6))
  then show "open_session s' (tid_of e2)" "return_ctx e2 s' = fill_return e2 cl (entry_ctx e1 s)"
    using assms(5,7) by (simp_all add: open_session_def return_ctx_def entry_ctx_def)
qed

subsection \<open>A query is reported once, with its own data\<close>

text \<open>C1: take a thread of a traced process that enters \<^verbatim>\<open>dispatch_command\<close> with a query,
  where the kernel accepts the entry of the thread. Whatever other threads, other CPUs and user
  space do until it returns, the return probe appends to the queue exactly the record
  the entry probe filled, completed with the results, and one event that names the thread;
  the record's cost is the time between the two runs and its query text is the text captured
  on entry.\<close>

theorem query_session_reported:
  assumes "traced_query e1 s" "\<not> e_refuse e1"
    and "session s (tid_of e1) \<noteq> None \<or> length (thread_db_ctx_hash s) < 1024"
    and "list_all (\<lambda>op. \<not> touches (tid_of e1) op) ops"
    and "e_pid_tgid e2 = e_pid_tgid e1"
    and "s' = probe_run (probe_step s (Query e1)) ops"
    and "cluster_at s' (tgid_of e1) = Some cl"
  shows "\<exists>c. c = fill_return e2 cl (entry_ctx e1 s) \<and>
    db_ctx_queue (probe_step s' (Query_Return e2)) = queue_push 5120 (db_ctx_queue s') c \<and>
    events (probe_step s' (Query_Return e2)) = events s' @
      (if e_lost e2 then [] else [(e_cpu e2, \<lparr>et_gtid = e_pid_tgid e1\<rparr>)]) \<and>
    gtid c = e_pid_tgid e1 \<and> cost_time c = e_ktime e2 - e_ktime e1 \<and>
    query c = query (entry_ctx e1 s) \<and> processed c = 0"
proof -
  have "open_session s' (tid_of e2)" "return_ctx e2 s' = fill_return e2 cl (entry_ctx e1 s)"
    using session_completed [OF assms] by simp_all
  moreover have "mysql57_query_return e2 s' = (0, s'
    \<lparr>thread_db_ctx_hash := hash_write (thread_db_ctx_hash s') (tid_of e2) (return_ctx e2 s'),
     db_ctx_queue := queue_push 5120 (db_ctx_queue s') (return_ctx e2 s'),
     events := events s' @ (if e_lost e2 then [] else [(e_cpu e2, \<lparr>et_gtid = e_pid_tgid e2\<rparr>)])\<rparr>)"
    using assms(5,7) calculation(1) by (intro mysql57_query_return_record) auto
  ultimately show ?thesis
    using assms(5) by (simp add: after_return_def entry_ctx_def)
qed

text \<open>Running the return probe again without a new query (a second attachment of the
  probes, or the return of a command that is no query) changes nothing at all.\<close>

theorem second_return_changes_nothing:
  assumes "e_pid_tgid e' = e_pid_tgid e"
  shows "mysql57_query_return e' (snd (mysql57_query_return e s)) =
    (0, snd (mysql57_query_return e s))"
proof (rule mysql57_query_return_skip)
  have eq: "snd (mysql57_query_return e s) = after_return e s" by (simp add: after_return_def)
  show "cluster_at (snd (mysql57_query_return e s)) (tgid_of e') = None \<or>
      \<not> open_session (snd (mysql57_query_return e s)) (tid_of e')"
    using not_open_after_return [of s e] assms by (auto simp: eq)
qed

text \<open>C6: with the probes attached twice to the same function, so that both run twice for
  a single call, the call is still reported exactly once.\<close>

theorem double_attachment_reports_once:
  assumes "traced_query e1 s" "traced_query e1' s" "\<not> e_refuse e1" "\<not> e_refuse e1'"
    and "session s (tid_of e1) \<noteq> None \<or> length (thread_db_ctx_hash s) < 1024"
    and "e_pid_tgid e1' = e_pid_tgid e1" "e_pid_tgid e2 = e_pid_tgid e1"
      "e_pid_tgid e2' = e_pid_tgid e1"
  shows "\<exists>c. db_ctx_queue (probe_run s [Query e1, Query e1', Query_Return e2, Query_Return e2']) =
      queue_push 5120 (db_ctx_queue s) c \<and>
    gtid c = e_pid_tgid e1 \<and> cost_time c = e_ktime e2 - e_ktime e1'"
proof -
  let ?s1 = "after_query e1 s" and ?s2 = "after_query e1' (after_query e1 s)"
  have s1: "session ?s1 (tid_of e1') \<noteq> None" "traced_query e1' ?s1"
    using entry_opens_session [OF assms(1,3,5)] assms(2,6) by (simp_all add: traced_query_def)
  have "session ?s2 (tid_of e2) = Some (entry_ctx e1' ?s1)"
    using entry_opens_session [OF s1(2) assms(4)] s1(1) assms(6,7) by simp
  then have op: "open_session ?s2 (tid_of e2)"
    by (simp add: open_session_def entry_ctx_def)
  have cl: "cluster_at ?s2 (tgid_of e2) \<noteq> None"
    using assms(1,7) by (simp add: traced_query_def)
  have "db_ctx_queue (after_return e2 ?s2) = queue_push 5120 (db_ctx_queue s) (return_ctx e2 ?s2)"
    using mysql57_query_return_record [OF cl op] by (simp add: after_return_def)
  moreover have "after_return e2' (after_return e2 ?s2) = after_return e2 ?s2"
    using not_open_after_return [OF cl] assms(7,8)
    by (simp add: after_return_def [of e2'] mysql57_query_return_skip)
  moreover have "return_ctx e2 ?s2 = fill_return e2 (the (cluster_at ?s2 (tgid_of e2))) (entry_ctx e1' ?s1)"
    using \<open>session ?s2 (tid_of e2) = Some (entry_ctx e1' ?s1)\<close> by (simp add: return_ctx_def)
  ultimately show ?thesis
    using assms(6) by (intro exI [of _ "return_ctx e2 ?s2"]) (simp add: entry_ctx_def)
qed

subsection \<open>What the probes never touch\<close>

text \<open>C27: a run on a process that is not registered in \<^verbatim>\<open>clusters\<close>, or for a command other
  than a query, leaves every map as it was; and neither probe ever changes \<^verbatim>\<open>clusters\<close>, nor
  the entry of another thread, nor (the entry probe) the queue and the events.\<close>

theorem probes_frame:
  "(cluster_at s (tgid_of e) = None \<longrightarrow> mysql57_query e s = (0, s) \<and> mysql57_query_return e s = (0, s)) \<and>
   (PT_REGS_PARM3 (e_regs e) \<noteq> COM_QUERY \<longrightarrow> mysql57_query e s = (0, s)) \<and>
   clusters (snd (mysql57_query e s)) = clusters s \<and>
   clusters (snd (mysql57_query_return e s)) = clusters s \<and>
   (k \<noteq> tid_of e \<longrightarrow> session (snd (mysql57_query e s)) k = session s k \<and>
      session (snd (mysql57_query_return e s)) k = session s k) \<and>
   db_ctx_queue (snd (mysql57_query e s)) = db_ctx_queue s \<and>
   events (snd (mysql57_query e s)) = events s \<and>
   var_holder (snd (mysql57_query_return e s)) = var_holder s"
  using clusters_after [of e s] queue_after_query [of e s] var_holder_after_return [of e s]
    session_other_thread [of k e s]
  by (simp add: after_query_def after_return_def mysql57_query_skip mysql57_query_return_skip
      traced_query_def)

text \<open>C7: in every state the operations reach from the empty maps, the hash maps and the
  queue are within their declared sizes, every array of every record has its declared length,
  an entry of the thread table belongs to the thread of its key and is marked either pending or
  processed, and every record in the queue is a completed one.\<close>

theorem reachable_state_ok: "state_ok (probe_run init_state ops)"
  by (rule probe_run_ok [OF init_state_ok])

subsection \<open>Accounting\<close>

definition reports :: "u32 \<Rightarrow> bpf_state \<Rightarrow> nat" where
  "reports k s = length (filter (\<lambda>(cpu, ev). thread_key (et_gtid ev) = k) (events s))"

definition pending :: "u32 \<Rightarrow> bpf_state \<Rightarrow> nat" where
  "pending k s = (if open_session s k then 1 else 0)"

text \<open>The query commands thread \<open>k\<close> entered during a run.\<close>

fun is_query_of :: "u32 \<Rightarrow> probe_op \<Rightarrow> bool" where
  "is_query_of k (Query e) = (tid_of e = k \<and> PT_REGS_PARM3 (e_regs e) = COM_QUERY)"
| "is_query_of k _ = False"

definition queries :: "u32 \<Rightarrow> probe_op list \<Rightarrow> nat" where
  "queries k ops = length (filter (is_query_of k) ops)"

lemma pending_same_session: "session s' k = session s k \<Longrightarrow> pending k s' = pending k s"
  by (simp add: pending_def open_session_def)

lemma reports_after_return:
  "reports k (after_return e s) + pending k (after_return e s) \<le> reports k s + pending k s"
proof (cases "cluster_at s (tgid_of e) \<noteq> None \<and> open_session s (tid_of e)")
  case False
  then show ?thesis by (auto simp: after_return_def mysql57_query_return_skip)
next
  case True
  then have ev: "events (after_return e s) =
      events s @ (if e_lost e then [] else [(e_cpu e, \<lparr>et_gtid = e_pid_tgid e\<rparr>)])"
    by (simp add: after_return_def mysql57_query_return_record)
  show ?thesis
  proof (cases "k = tid_of e")
    case same: True
    have "pending k (after_return e s) = 0" "pending k s = 1"
      using True same not_open_after_return [of s e] by (simp_all add: pending_def)
    then show ?thesis by (simp add: reports_def ev)
  next
    case other: False
    then have "pending k (after_return e s) = pending k s"
      by (intro pending_same_session) (simp add: frame_simps)
    with other show ?thesis by (simp add: reports_def ev)
  qed
qed

lemma reports_probe_step:
  "reports k (probe_step s op) + pending k (probe_step s op) \<le>
     reports k s + pending k s + (if is_query_of k op then 1 else 0)"
proof (cases op)
  case (Query e)
  have rep: "reports k (after_query e s) = reports k s" by (simp add: reports_def)
  have one: "pending k (after_query e s) \<le> 1" by (simp add: pending_def)
  show ?thesis
  proof (cases "is_query_of k op")
    case True
    with rep one Query show ?thesis by simp
  next
    case False
    have "pending k (after_query e s) = pending k s"
    proof (cases "traced_query e s")
      case True
      with False Query have "k \<noteq> tid_of e" by (auto simp: traced_query_def)
      then show ?thesis by (intro pending_same_session) (simp add: frame_simps)
    qed (simp add: after_query_def mysql57_query_skip)
    with rep Query show ?thesis by simp
  qed
next
  case (Query_Return e)
  then show ?thesis using reports_after_return [of k e s] by simp
next
  case Queue_Pop
  then show ?thesis
    by (cases "db_ctx_queue s")
       (simp_all add: reports_def pending_def open_session_def queue_lookup_and_delete_def)
qed (simp_all add: reports_def pending_def open_session_def)

lemma reports_probe_run:
  "reports k (probe_run s ops) + pending k (probe_run s ops) \<le>
     reports k s + pending k s + queries k ops"
proof (induction ops arbitrary: s)
  case Nil
  then show ?case by (simp add: queries_def)
next
  case (Cons op ops)
  show ?case
    using Cons.IH [of "probe_step s op"] reports_probe_step [of k s op]
    by (simp add: queries_def split: if_splits)
qed

text \<open>In every execution from the empty maps, the events that name a thread, plus one if
  the thread is inside a query, are at most the queries the thread entered: no query is
  announced twice and none is announced without having been made.\<close>

theorem events_bounded_by_queries:
  "reports k (probe_run init_state ops) + pending k (probe_run init_state ops) \<le> queries k ops"
  using reports_probe_run [of k init_state ops]
  by (simp add: reports_def pending_def init_state_def open_session_def bpf_map_lookup_elem_def)

subsection \<open>The thread table never shrinks\<close>

lemma length_thread_table_step:
  "length (thread_db_ctx_hash s) \<le> length (thread_db_ctx_hash (probe_step s op))"
proof (cases op)
  case (Query e)
  then show ?thesis
    by (cases "traced_query e s")
       (auto simp: after_query_def mysql57_query_record mysql57_query_skip
         bpf_map_update_elem_def length_AList_update)
next
  case (Query_Return e)
  then show ?thesis
    by (cases "cluster_at s (tgid_of e) \<noteq> None \<and> open_session s (tid_of e)")
       (auto simp: after_return_def mysql57_query_return_record mysql57_query_return_skip
         hash_write_def length_AList_update)
qed (auto split: option.split prod.split)

lemma stays_out_step:
  assumes "1024 \<le> length (thread_db_ctx_hash s)" "session s k = None"
  shows "session (probe_step s op) k = None \<and> reports k (probe_step s op) = reports k s"
proof (cases op)
  case (Query e)
  then show ?thesis
    using assms hash.update_full [of "thread_db_ctx_hash s" k 1024 "e_refuse e"]
    by (auto simp: session_after_query reports_def)
next
  case (Query_Return e)
  have "reports k (after_return e s) = reports k s"
  proof (cases "cluster_at s (tgid_of e) \<noteq> None \<and> open_session s (tid_of e)")
    case True
    with assms(2) have "tid_of e \<noteq> k" by (auto simp: open_session_def)
    with True show ?thesis
      by (simp add: after_return_def mysql57_query_return_record reports_def)
  qed (auto simp: after_return_def mysql57_query_return_skip)
  with assms(2) Query_Return show ?thesis
    by (auto simp: session_after_return open_session_def)
qed (use assms in \<open>auto simp: reports_def split: option.split prod.split\<close>)

text \<open>C24: entries of the thread table are never removed. Once 1024 threads have run a query,
  a further thread gets no entry and no event in any continuation, however many of the earlier
  threads have ended.\<close>

theorem full_thread_table_loses_new_threads:
  assumes "1024 \<le> length (thread_db_ctx_hash s)" "session s k = None"
  shows "session (probe_run s ops) k = None \<and> reports k (probe_run s ops) = reports k s"
  using assms
proof (induction ops arbitrary: s)
  case Nil
  then show ?case by simp
next
  case (Cons op ops)
  have "1024 \<le> length (thread_db_ctx_hash (probe_step s op))"
    using Cons.prems(1) length_thread_table_step [of s op] by linarith
  with stays_out_step [OF Cons.prems, of op] Cons.IH [of "probe_step s op"]
  show ?case by simp
qed

end
