(* ===== verification/Probe_Queue.thy ===== *)
theory Probe_Queue
  imports Probe_Runs
begin

text \<open>
  The record queue over whole executions: the records the return probe completes, the records
  user space takes, and how the second sequence follows from the first. The proofs rest on the
  facts of the queue interface of theory \<open>Bpf_Maps\<close>.
\<close>

definition return_fires :: "env \<Rightarrow> bpf_state \<Rightarrow> bool" where
  "return_fires e s \<longleftrightarrow> cluster_at s (tgid_of e) \<noteq> None \<and> open_session s (tid_of e)"

text \<open>The records completed by one operation, in a run, and the records taken in a run.\<close>

fun completed_by :: "bpf_state \<Rightarrow> probe_op \<Rightarrow> db_ctx list" where
  "completed_by s (Query_Return e) = (if return_fires e s then [return_ctx e s] else [])"
| "completed_by s _ = []"

fun completed :: "bpf_state \<Rightarrow> probe_op list \<Rightarrow> db_ctx list" where
  "completed s [] = []"
| "completed s (op # ops) = completed_by s op @ completed (probe_step s op) ops"

fun taken_by :: "bpf_state \<Rightarrow> probe_op \<Rightarrow> db_ctx list" where
  "taken_by s Queue_Pop = take 1 (db_ctx_queue s)"
| "taken_by s _ = []"

fun taken :: "bpf_state \<Rightarrow> probe_op list \<Rightarrow> db_ctx list" where
  "taken s [] = []"
| "taken s (op # ops) = taken_by s op @ taken (probe_step s op) ops"

fun is_pop :: "probe_op \<Rightarrow> bool" where
  "is_pop Queue_Pop = True"
| "is_pop _ = False"

text \<open>The queue has room whenever a record is completed.\<close>

fun never_full :: "bpf_state \<Rightarrow> probe_op list \<Rightarrow> bool" where
  "never_full s [] = True"
| "never_full s (op # ops) =
     ((completed_by s op = [] \<or> length (db_ctx_queue s) < 5120) \<and> never_full (probe_step s op) ops)"

lemma queue_after_step:
  "\<not> is_pop op \<Longrightarrow>
     db_ctx_queue (probe_step s op) = foldl (queue_push 5120) (db_ctx_queue s) (completed_by s op)"
proof (cases op)
  case (Query_Return e)
  then show ?thesis
    by (auto simp: return_fires_def after_return_def mysql57_query_return_record
        mysql57_query_return_skip)
qed simp_all

lemma queue_after_pop:
  "db_ctx_queue (probe_step s Queue_Pop) = drop 1 (db_ctx_queue s)"
  by (cases "db_ctx_queue s") (simp_all add: queue_lookup_and_delete_def)

lemma queue_after_run:
  "list_all (\<lambda>op. \<not> is_pop op) ops \<Longrightarrow>
     db_ctx_queue (probe_run s ops) = foldl (queue_push 5120) (db_ctx_queue s) (completed s ops)"
  by (induction ops arbitrary: s) (simp_all add: queue_after_step)

text \<open>C26: while user space takes nothing, the queue holds exactly the newest 5120 of the
  records it held and of those completed since, in the order of completion.\<close>

theorem queue_keeps_newest:
  assumes "state_ok s" "list_all (\<lambda>op. \<not> is_pop op) ops"
  shows "db_ctx_queue (probe_run s ops) =
    drop (length (db_ctx_queue s) + length (completed s ops) - 5120)
      (db_ctx_queue s @ completed s ops)"
  using rec_queue.content_pushes [OF state_okD(5) [OF assms(1)], of "completed s ops"]
  by (simp add: queue_after_run [OF assms(2)])

lemma taken_completed_step:
  assumes "length (db_ctx_queue s) \<le> 5120"
  shows "subseq (taken_by s op @ db_ctx_queue (probe_step s op))
    (db_ctx_queue s @ completed_by s op)"
proof (cases "is_pop op")
  case True
  then show ?thesis
    using queue_after_pop [of s] by (cases op; cases "db_ctx_queue s") simp_all
next
  case False
  then have "taken_by s op = []" by (cases op) simp_all
  moreover have "db_ctx_queue (probe_step s op) =
      drop (length (db_ctx_queue s) + length (completed_by s op) - 5120)
        (db_ctx_queue s @ completed_by s op)"
    using rec_queue.content_pushes [OF assms, of "completed_by s op"]
    by (simp add: queue_after_step [OF False])
  then have "suffix (db_ctx_queue (probe_step s op)) (db_ctx_queue s @ completed_by s op)"
    by (simp only: suffix_drop)
  ultimately show ?thesis by (simp add: suffix_imp_subseq)
qed

text \<open>C8: in any interleaving with user space, what user space has taken followed by what is
  still queued is a subsequence of what was queued followed by what was completed: user space
  sees every completed record at most once, in the order of completion, and never a record
  that was not completed.\<close>

theorem taken_in_completion_order:
  assumes "state_ok s"
  shows "subseq (taken s ops @ db_ctx_queue (probe_run s ops)) (db_ctx_queue s @ completed s ops)"
  using assms
proof (induction ops arbitrary: s)
  case Nil
  then show ?case by simp
next
  case (Cons op ops)
  let ?s = "probe_step s op"
  have "subseq (taken ?s ops @ db_ctx_queue (probe_run ?s ops)) (db_ctx_queue ?s @ completed ?s ops)"
    by (rule Cons.IH [OF probe_step_ok [OF Cons.prems]])
  then have "subseq (taken_by s op @ taken ?s ops @ db_ctx_queue (probe_run ?s ops))
      (taken_by s op @ db_ctx_queue ?s @ completed ?s ops)"
    by (simp only: subseq_append')
  moreover have "subseq ((taken_by s op @ db_ctx_queue ?s) @ completed ?s ops)
      ((db_ctx_queue s @ completed_by s op) @ completed ?s ops)"
    using taken_completed_step [OF state_okD(5) [OF Cons.prems], of op]
    by (simp only: subseq_append)
  ultimately show ?case
    by (metis append_assoc completed.simps(2) probe_run_simps(2) subseq_order.trans taken.simps(2))
qed

lemma nothing_lost_step:
  assumes "completed_by s op = [] \<or> length (db_ctx_queue s) < 5120"
  shows "taken_by s op @ db_ctx_queue (probe_step s op) = db_ctx_queue s @ completed_by s op"
proof (cases "is_pop op")
  case True
  then show ?thesis
    using queue_after_pop [of s] by (cases op; cases "db_ctx_queue s") simp_all
next
  case False
  then have "taken_by s op = []" by (cases op) simp_all
  moreover have "length (completed_by s op) \<le> 1" by (cases op) simp_all
  then consider "completed_by s op = []" | c where "completed_by s op = [c]"
    by (cases "completed_by s op") auto
  then have "db_ctx_queue (probe_step s op) = db_ctx_queue s @ completed_by s op"
    using assms by cases (auto simp: queue_after_step [OF False] queue_push_eq)
  ultimately show ?thesis by simp
qed

text \<open>C5: as long as the queue has room whenever a record is completed, no record is lost or
  duplicated: what was taken followed by what is queued is what was queued followed by what was
  completed.\<close>

theorem no_record_lost:
  assumes "never_full s ops"
  shows "taken s ops @ db_ctx_queue (probe_run s ops) = db_ctx_queue s @ completed s ops"
  using assms
proof (induction ops arbitrary: s)
  case Nil
  then show ?case by simp
next
  case (Cons op ops)
  let ?s = "probe_step s op"
  from Cons.prems have "taken_by s op @ db_ctx_queue ?s = db_ctx_queue s @ completed_by s op"
    by (intro nothing_lost_step) simp
  moreover from Cons have "taken ?s ops @ db_ctx_queue (probe_run ?s ops) = db_ctx_queue ?s @ completed ?s ops"
    by simp
  ultimately show ?case by simp
qed

end
