(* ===== verification/Probe_Content.thy ===== *)
theory Probe_Content
  imports Probe_Runs
begin

text \<open>
  What a record says about a query: the keys the identifier of the task splits into, the
  strings the entry probe copies, and the two fields it reads through kernel addresses.
\<close>

subsection \<open>Keys\<close>

text \<open>The two keys the probes derive from the identifier of the task are its upper and
  its lower half: together they determine it, and the thread key is the value user space prints
  as \<^verbatim>\<open>pthread_id\<close>, computed there by shifting left and right by 32.\<close>

theorem keys_split_pid_tgid:
  "push_bit 32 (ucast (cluster_key g)) OR ucast (thread_key g) = g \<and>
   ucast (thread_key g) = drop_bit 32 (push_bit 32 g) \<and>
   ucast (cluster_key g) = drop_bit 32 g"
proof (intro conjI)
  show "push_bit 32 (ucast (cluster_key g)) OR ucast (thread_key g) = g"
    by (rule bit_word_eqI) (auto simp: cluster_key_def thread_key_eq bit_simps)
  show "ucast (thread_key g) = drop_bit 32 (push_bit 32 g)"
    by (rule bit_word_eqI) (auto simp: thread_key_eq bit_simps)
  show "ucast (cluster_key g) = drop_bit 32 g"
    by (rule bit_word_eqI) (auto simp: cluster_key_def bit_simps dest: bit_imp_le_length)
qed

subsection \<open>Strings\<close>

text \<open>The pointer the entry probe reads at an offset of the server's thread object.\<close>

definition field_ptr :: "env \<Rightarrow> cluster \<Rightarrow> field_offset \<Rightarrow> u64 option" where
  "field_ptr e cl f = map_option le_word (read_bytes (e_user e) (field_addr cl (PT_REGS_PARM1 (e_regs e)) f) 8)"

lemma read_user_word_ptr:
  "read_bytes (e_user e) a 8 = Some bs \<Longrightarrow> read_user_word e 8 old a = le_word bs"
  by (simp add: read_user_word_def bpf_probe_read_user_def)

lemma fill_entry_user:
  "field_ptr e cl m_user_offset = Some p \<Longrightarrow> user (fill_entry e cl g c) = bpf_probe_read_str e (user c) p"
  by (auto simp: fill_entry_def Let_def field_ptr_def read_user_word_ptr)

lemma fill_entry_priv_user:
  "field_ptr e cl m_priv_user_offset = Some p \<Longrightarrow>
     priv_user (fill_entry e cl g c) = bpf_probe_read_str e (priv_user c) p"
  by (auto simp: fill_entry_def Let_def field_ptr_def read_user_word_ptr)

text \<open>C9: the record is reused from query to query without being cleared, and the string
  helper does not pad. Still, when the two name pointers can be followed, the names a record
  shows are the first 31 bytes of the server's strings, and the process name is the task's,
  whatever the record of the CPU held before.\<close>

theorem names_not_stale:
  assumes "db_ctx_ok c"
    and "field_ptr e cl m_user_offset = Some p" "read_str (e_str e) p 31 = Some u"
    and "field_ptr e cl m_priv_user_offset = Some q" "read_str (e_str e) q 31 = Some v"
    and "e_comm e = Some name"
  shows "cstr (user (fill_entry e cl g c)) = u \<and> cstr (priv_user (fill_entry e cl g c)) = v \<and>
    cstr (comm (fill_entry e cl g c)) = take 15 (cstr name)"
proof -
  have len: "length (user c) = 32" "length (priv_user c) = 32" "length (comm c) = 16"
    using assms(1) by (simp_all add: db_ctx_ok_def max_len_defs)
  then have "user c \<noteq> []" "priv_user c \<noteq> []" "comm c \<noteq> []" by auto
  with len assms show ?thesis
    by (simp add: fill_entry_user fill_entry_priv_user cstr_bpf_probe_read_str
        cstr_bpf_get_current_comm)
qed

text \<open>The query text of a record is the \<^verbatim>\<open>MAX_QUERY_LEN\<close> bytes at the pointer in the
  server's command data, whenever these two reads succeed; a longer text is cut at 1024 bytes.\<close>

theorem query_text_captured:
  assumes "db_ctx_ok c"
    and "read_bytes (e_user e) (PT_REGS_PARM2 (e_regs e)) 16 = Some qd"
    and "read_bytes (e_user e) (le_word (take 8 qd)) 1024 = Some text"
  shows "query (fill_entry e cl g c) = text"
proof -
  have "length (query c) = 1024" using assms(1) by (simp add: db_ctx_ok_def max_len_defs)
  with assms(2,3) show ?thesis
    by (simp add: fill_entry_def Let_def sizeof_COM_QUERY_DATA_def COM_QUERY_DATA_of_bytes_def
        bpf_probe_read_user_def)
qed

subsection \<open>Reads through kernel addresses\<close>

text \<open>
  \<^verbatim>\<open>bpf_probe_read_user\<close> reads user space addresses. The entry of \<^verbatim>\<open>clusters\<close> and the
  local variable \<^verbatim>\<open>query\<close> lie at kernel addresses, where such a read fails; \<open>e_fill\<close> then
  says what is left in the destination. Both a helper that clears the destination and one that
  leaves it alone keep its zero bytes zero.
\<close>

definition kernel_pointers_unreadable :: "env \<Rightarrow> bool" where
  "kernel_pointers_unreadable e \<longleftrightarrow>
     e_user e (e_cluster_ptr e) = None \<and> e_user e (e_query_ptr e + 8) = None \<and>
     list_all (\<lambda>i. e_fill e (e_cluster_ptr e) i 0 = 0) [0..<64] \<and>
     list_all (\<lambda>i. e_fill e (e_query_ptr e + 8) i 0 = 0) [0..<8]"

fun op_kernel_unreadable :: "probe_op \<Rightarrow> bool" where
  "op_kernel_unreadable (Query e) = kernel_pointers_unreadable e"
| "op_kernel_unreadable _ = True"

definition unnamed :: "db_ctx \<Rightarrow> bool" where
  "unnamed c \<longleftrightarrow> cluster_name c = replicate 64 0 \<and> query_len c = 0"

lemma unreadable_read:
  assumes "e_user e a = None" "dst \<noteq> []"
  shows "bpf_probe_read_user e dst a = left_in (e_fill e a) dst"
proof -
  have "read_bytes (e_user e) a (length dst) = None"
    using assms by (intro read_bytes_fault [of 0]) auto
  then show ?thesis by (simp add: bpf_probe_read_user_def)
qed

lemma le_bytes_zero: "le_bytes n 0 = replicate n 0"
  by (simp add: le_bytes_def map_replicate_const)

lemma le_word_zeros: "le_word (replicate n 0) = 0"
  by (induction n) simp_all

lemma left_in_zeros:
  "list_all (\<lambda>i. f i 0 = 0) [0..<n] \<Longrightarrow> left_in f (replicate n 0) = replicate n 0"
  by (rule nth_equalityI) (simp_all add: left_in_def list_all_iff)

lemma fill_entry_unnamed:
  assumes "kernel_pointers_unreadable e" "unnamed c"
  shows "unnamed (fill_entry e cl g c)"
proof -
  have "cluster_name (fill_entry e cl g c) = bpf_probe_read_user e (cluster_name c) (e_cluster_ptr e)"
    "query_len (fill_entry e cl g c) = read_user_word e 8 (query_len c) (e_query_ptr e + 8)"
    by (simp_all add: fill_entry_def Let_def)
  moreover have "bpf_probe_read_user e (replicate 64 0) (e_cluster_ptr e) = replicate 64 0"
    using assms(1)
    by (subst unreadable_read) (simp_all add: kernel_pointers_unreadable_def left_in_zeros)
  moreover have "bpf_probe_read_user e (replicate 8 0) (e_query_ptr e + 8) = replicate 8 0"
    using assms(1)
    by (subst unreadable_read) (simp_all add: kernel_pointers_unreadable_def left_in_zeros)
  ultimately show ?thesis
    using assms(2) by (simp add: unnamed_def read_user_word_def le_bytes_zero le_word_zeros)
qed

lemma fill_return_unnamed: "unnamed c \<Longrightarrow> unnamed (fill_return e cl c)"
  by (simp add: unnamed_def)

definition all_unnamed :: "bpf_state \<Rightarrow> bool" where
  "all_unnamed s \<longleftrightarrow> (\<forall>cpu. unnamed (var_holder s cpu)) \<and>
     (\<forall>k c. session s k = Some c \<longrightarrow> unnamed c) \<and> (\<forall>c \<in> set (db_ctx_queue s). unnamed c)"

lemma all_unnamed_step:
  assumes "all_unnamed s" "op_kernel_unreadable op"
  shows "all_unnamed (probe_step s op)"
proof (cases op)
  case (Query e)
  then have "unnamed (entry_ctx e s)"
    using assms by (simp add: entry_ctx_def all_unnamed_def fill_entry_unnamed)
  with assms(1) Query show ?thesis
    by (auto simp: all_unnamed_def var_holder_after_query session_after_query)
next
  case (Query_Return e)
  show ?thesis
  proof (cases "cluster_at s (tgid_of e) \<noteq> None \<and> open_session s (tid_of e)")
    case True
    then have "unnamed (return_ctx e s)"
      using assms(1) by (auto simp: return_ctx_def all_unnamed_def open_session_def
          intro: fill_return_unnamed)
    with True assms(1) Query_Return show ?thesis
      using set_queue_push [of 5120 "db_ctx_queue s" "return_ctx e s"]
      by (auto simp: all_unnamed_def session_after_return)
         (auto simp: after_return_def mysql57_query_return_record)
  next
    case False
    then have "after_return e s = s"
      by (auto simp: after_return_def mysql57_query_return_skip)
    with assms(1) Query_Return show ?thesis by simp
  qed
next
  case Queue_Pop
  with assms(1) show ?thesis
    by (cases "db_ctx_queue s") (simp_all add: all_unnamed_def queue_lookup_and_delete_def)
qed (use assms(1) in \<open>simp_all add: all_unnamed_def\<close>)

lemma all_unnamed_run:
  "all_unnamed s \<Longrightarrow> list_all op_kernel_unreadable ops \<Longrightarrow> all_unnamed (probe_run s ops)"
  by (induction ops arbitrary: s) (simp_all add: all_unnamed_step)

text \<open>C12: where the helper cannot read kernel addresses, no record ever carries the name of its
  cluster or the length of its query: in every execution from the empty maps, every queued
  record has an all-zero cluster name and a zero query length, whatever names user space
  registered.\<close>

theorem cluster_name_never_recorded:
  assumes "list_all op_kernel_unreadable ops" "c \<in> set (db_ctx_queue (probe_run init_state ops))"
  shows "cstr (cluster_name c) = [] \<and> query_len c = 0"
proof -
  have "all_unnamed init_state"
    by (simp add: all_unnamed_def unnamed_def init_state_def zero_db_ctx_def
        bpf_map_lookup_elem_def)
  with assms have "unnamed c"
    using all_unnamed_run [of init_state ops] by (simp add: all_unnamed_def)
  then show ?thesis by (simp add: unnamed_def cstr_def)
qed

end
