(* ===== verification/Probe_Spec.thy ===== *)
theory Probe_Spec
  imports Probe_Runs
begin

text \<open>
  What the probes promise, without maps, records and memory: an abstract machine of query
  sessions. A thread of a traced process opens a session at a time and closes it at a later
  time; closing logs the identifier of the opening task and the difference of the two clock
  readings, and announces the closing task; the log keeps the newest 5120 entries. Both tables
  have room for 1024 keys and a key once known to the table of threads stays known, so an
  opening or a registration is lost exactly when the kernel refuses it or a new key finds the
  table full. The machine is deterministic, and its runs are exactly the images of the runs of
  the probes.
\<close>

subsection \<open>The machine\<close>

record spec =
  sp_open :: "u32 \<Rightarrow> (u64 \<times> u64) option"
  sp_known :: "u32 set"
  sp_traced :: "u32 set"
  sp_log :: "(u64 \<times> u64) list"
  sp_told :: "u64 list"

text \<open>The flag of an operation says that the kernel refuses its store or loses its event.\<close>

datatype spec_op =
    Begin bool u64 u64
  | Finish bool u64 u64
  | Trace bool u32
  | Untrace u32
  | Take_One
  | Skip

definition has_room :: "bool \<Rightarrow> u32 set \<Rightarrow> u32 \<Rightarrow> bool" where
  "has_room refuse K k \<longleftrightarrow> \<not> refuse \<and> (k \<in> K \<or> card K < 1024)"

definition opens :: "bool \<Rightarrow> u64 \<Rightarrow> spec \<Rightarrow> bool" where
  "opens refuse g a \<longleftrightarrow> cluster_key g \<in> sp_traced a \<and> has_room refuse (sp_known a) (thread_key g)"

inductive spec_step :: "spec \<Rightarrow> spec_op \<Rightarrow> spec \<Rightarrow> bool" where
  sp_begin: "opens refuse g a \<Longrightarrow>
     spec_step a (Begin refuse g t) (a\<lparr>sp_open := (sp_open a)(thread_key g \<mapsto> (g, t)),
       sp_known := insert (thread_key g) (sp_known a)\<rparr>)"
| sp_begin_lost: "\<not> opens refuse g a \<Longrightarrow> spec_step a (Begin refuse g t) a"
| sp_finish: "cluster_key g \<in> sp_traced a \<Longrightarrow> sp_open a (thread_key g) = Some (g', t') \<Longrightarrow>
     spec_step a (Finish lost g t) (a\<lparr>sp_open := (sp_open a)(thread_key g := None),
       sp_log := queue_push 5120 (sp_log a) (g', t - t'),
       sp_told := sp_told a @ (if lost then [] else [g])\<rparr>)"
| sp_finish_none: "cluster_key g \<notin> sp_traced a \<or> sp_open a (thread_key g) = None \<Longrightarrow>
     spec_step a (Finish lost g t) a"
| sp_trace: "has_room refuse (sp_traced a) p \<Longrightarrow>
     spec_step a (Trace refuse p) (a\<lparr>sp_traced := insert p (sp_traced a)\<rparr>)"
| sp_trace_lost: "\<not> has_room refuse (sp_traced a) p \<Longrightarrow> spec_step a (Trace refuse p) a"
| sp_untrace: "spec_step a (Untrace p) (a\<lparr>sp_traced := sp_traced a - {p}\<rparr>)"
| sp_take: "spec_step a Take_One (a\<lparr>sp_log := drop 1 (sp_log a)\<rparr>)"
| sp_skip: "spec_step a Skip a"

inductive_cases spec_stepE:
  "spec_step a (Begin refuse g t) b"
  "spec_step a (Finish lost g t) b"
  "spec_step a (Trace refuse p) b"
  "spec_step a (Untrace p) b"
  "spec_step a Take_One b"
  "spec_step a Skip b"

lemma spec_step_deterministic: "spec_step a op b \<Longrightarrow> spec_step a op c \<Longrightarrow> b = c"
  by (cases op) (auto elim!: spec_stepE)

inductive spec_run :: "spec \<Rightarrow> spec_op list \<Rightarrow> spec \<Rightarrow> bool" where
  run_nil: "spec_run a [] a"
| run_step: "spec_run a ops b \<Longrightarrow> spec_step b op c \<Longrightarrow> spec_run a (ops @ [op]) c"

inductive_cases spec_run_nilE: "spec_run a [] b"
inductive_cases spec_run_snocE: "spec_run a (ops @ [op]) c"

lemma spec_run_deterministic: "spec_run a ops b \<Longrightarrow> spec_run a ops c \<Longrightarrow> b = c"
proof (induction arbitrary: c rule: spec_run.induct)
  case (run_nil a)
  then show ?case by (auto elim: spec_run_nilE)
next
  case (run_step a ops b op d)
  from run_step.prems obtain b' where "spec_run a ops b'" "spec_step b' op c"
    by (auto elim: spec_run_snocE)
  with run_step.IH run_step.hyps(2) show ?case by (metis spec_step_deterministic)
qed

definition spec_init :: spec where
  "spec_init = \<lparr>sp_open = (\<lambda>_. None), sp_known = {}, sp_traced = {}, sp_log = [], sp_told = []\<rparr>"

text \<open>
  Every open session stems from an opening of the run by a task of that thread, every log entry
  from an opening and a later closing by the same thread.
\<close>

definition began :: "spec_op list \<Rightarrow> u64 \<Rightarrow> u64 \<Rightarrow> bool" where
  "began ops g t \<longleftrightarrow> (\<exists>r. Begin r g t \<in> set ops)"

definition log_justified :: "spec_op list \<Rightarrow> u64 \<times> u64 \<Rightarrow> bool" where
  "log_justified ops l \<longleftrightarrow> (\<exists>g t r h u. began ops g t \<and> Finish r h u \<in> set ops \<and>
     thread_key h = thread_key g \<and> l = (g, u - t))"

definition spec_inv :: "spec_op list \<Rightarrow> spec \<Rightarrow> bool" where
  "spec_inv ops a \<longleftrightarrow>
     (\<forall>k g t. sp_open a k = Some (g, t) \<longrightarrow> began ops g t \<and> thread_key g = k) \<and>
     (\<forall>l \<in> set (sp_log a). log_justified ops l)"

lemma began_mono: "began ops g t \<Longrightarrow> began (ops @ ops') g t"
  by (auto simp: began_def)

lemma began_last: "began (ops @ [Begin r g t]) g t"
  by (auto simp: began_def)

lemma log_justified_mono: "log_justified ops l \<Longrightarrow> log_justified (ops @ [op]) l"
  unfolding log_justified_def using began_mono by (metis UnCI set_append)

lemma spec_inv_weaken: "spec_inv ops a \<Longrightarrow> spec_inv (ops @ [op]) a"
  by (simp add: spec_inv_def began_mono log_justified_mono)

lemma set_queue_push_sub: "l \<in> set (queue_push n q v) \<Longrightarrow> l = v \<or> l \<in> set q"
  by (cases q) (auto simp: queue_push_eq split: if_splits)

lemma spec_step_inv:
  assumes "spec_step a op b" "spec_inv ops a"
  shows "spec_inv (ops @ [op]) b"
  using assms(1) spec_inv_weaken [OF assms(2), of op]
proof cases
  case (sp_begin r g t)
  with spec_inv_weaken [OF assms(2), of op] show ?thesis
    by (simp add: spec_inv_def began_last)
next
  case (sp_finish g g' t' lost t)
  then have "began ops g' t'" "thread_key g' = thread_key g"
    using assms(2) by (simp_all add: spec_inv_def)
  then have "log_justified (ops @ [op]) (g', t - t')"
    unfolding log_justified_def sp_finish(1)
    by (intro exI [of _ g'] exI [of _ t'] exI [of _ lost] exI [of _ g] exI [of _ t])
       (simp add: began_mono)
  with spec_inv_weaken [OF assms(2), of op] show ?thesis
    unfolding sp_finish(2) by (auto simp: spec_inv_def dest!: set_queue_push_sub)
next
  case sp_take
  with spec_inv_weaken [OF assms(2), of op] show ?thesis
    by (auto simp: spec_inv_def dest: in_set_dropD)
qed (simp_all add: spec_inv_def)

lemma spec_run_inv: "spec_run a ops b \<Longrightarrow> a = spec_init \<Longrightarrow> spec_inv ops b"
proof (induction rule: spec_run.induct)
  case (run_nil a)
  then show ?case by (simp add: spec_inv_def spec_init_def)
next
  case (run_step a ops b op c)
  then show ?case by (blast intro: spec_step_inv)
qed

subsection \<open>The maps refine the machine\<close>

definition abs_open :: "db_ctx \<Rightarrow> (u64 \<times> u64) option" where
  "abs_open c = (if processed c = 0xf then Some (gtid c, cost_time c) else None)"

definition abs_log :: "db_ctx \<Rightarrow> u64 \<times> u64" where
  "abs_log c = (gtid c, cost_time c)"

definition abs_state :: "bpf_state \<Rightarrow> spec" where
  "abs_state s = \<lparr>sp_open = (\<lambda>k. Option.bind (session s k) abs_open),
     sp_known = {k. session s k \<noteq> None}, sp_traced = {p. cluster_at s p \<noteq> None},
     sp_log = map abs_log (db_ctx_queue s), sp_told = map (\<lambda>(cpu, ev). et_gtid ev) (events s)\<rparr>"

fun abs_op :: "probe_op \<Rightarrow> spec_op" where
  "abs_op (Query e) =
     (if PT_REGS_PARM3 (e_regs e) = COM_QUERY then Begin (e_refuse e) (e_pid_tgid e) (e_ktime e)
      else Skip)"
| "abs_op (Query_Return e) = Finish (e_lost e) (e_pid_tgid e) (e_ktime e)"
| "abs_op (Cluster_Update refuse p cl) = Trace refuse p"
| "abs_op (Cluster_Delete p) = Untrace p"
| "abs_op Queue_Pop = Take_One"

lemma map_queue_push: "map f (queue_push n q v) = queue_push n (map f q) (f v)"
  by (simp add: queue_push_eq map_tl)

lemma hash_card:
  assumes "hash_ok cap m"
  shows "card {k. bpf_map_lookup_elem m k \<noteq> None} = length m"
proof -
  have "{k. bpf_map_lookup_elem m k \<noteq> None} = set (map fst m)"
    by (auto simp: bpf_map_lookup_elem_def map_of_eq_None_iff)
  moreover have "card (set (map fst m)) = length m"
    using assms distinct_card [of "map fst m"] by (simp add: hash_ok_def)
  ultimately show ?thesis by metis
qed

lemma update_ANY_iff:
  assumes "hash_ok 1024 m"
  shows "fst (bpf_map_update_elem 1024 refuse m k v BPF_ANY) = RC_OK \<longleftrightarrow>
    has_room refuse {k. bpf_map_lookup_elem m k \<noteq> None} k"
  using hash_card [OF assms]
  by (auto simp: has_room_def bpf_map_update_elem_def bpf_map_lookup_elem_def bpf_flag_defs)

lemma update_lost: "fst (bpf_map_update_elem cap r m k v f) \<noteq> RC_OK \<Longrightarrow>
    snd (bpf_map_update_elem cap r m k v f) = m"
  by (auto simp: bpf_map_update_elem_def)

lemma refine_query:
  assumes ok: "state_ok s"
  shows "spec_step (abs_state s) (abs_op (Query e)) (abs_state (after_query e s))"
proof (cases "traced_query e s")
  case False
  then have "after_query e s = s" by (simp add: after_query_def mysql57_query_skip)
  with False show ?thesis
    by (auto simp: traced_query_def sp_skip opens_def abs_state_def intro!: sp_begin_lost)
next
  case True
  then have op: "abs_op (Query e) = Begin (e_refuse e) (e_pid_tgid e) (e_ktime e)"
    by (simp add: traced_query_def)
  have room: "opens (e_refuse e) (e_pid_tgid e) (abs_state s) \<longleftrightarrow>
      fst (bpf_map_update_elem 1024 (e_refuse e) (thread_db_ctx_hash s) (tid_of e)
        (entry_ctx e s) BPF_ANY) = RC_OK"
    using True update_ANY_iff [OF state_okD(2) [OF ok]]
    by (simp add: opens_def abs_state_def traced_query_def)
  show ?thesis
  proof (cases "opens (e_refuse e) (e_pid_tgid e) (abs_state s)")
    case ok: True
    then have "abs_state (after_query e s) = (abs_state s)\<lparr>sp_open :=
        (sp_open (abs_state s))(tid_of e \<mapsto> (e_pid_tgid e, e_ktime e)),
        sp_known := insert (tid_of e) (sp_known (abs_state s))\<rparr>"
      using True room
      by (auto simp: abs_state_def session_after_query abs_open_def entry_ctx_def fun_eq_iff)
    with op sp_begin [OF ok] show ?thesis by simp
  next
    case lost: False
    then have "abs_state (after_query e s) = abs_state s"
      using room by (simp add: abs_state_def session_after_query)
    with op sp_begin_lost [OF lost] show ?thesis by simp
  qed
qed

lemma refine_return:
  "spec_step (abs_state s) (abs_op (Query_Return e)) (abs_state (after_return e s))"
proof (cases "cluster_at s (tgid_of e) \<noteq> None \<and> open_session s (tid_of e)")
  case False
  then have "after_return e s = s"
    by (auto simp: after_return_def mysql57_query_return_skip)
  moreover have "tgid_of e \<notin> sp_traced (abs_state s) \<or> sp_open (abs_state s) (tid_of e) = None"
    using False by (cases "session s (tid_of e)")
      (auto simp: abs_state_def open_session_def abs_open_def)
  ultimately show ?thesis by (simp add: sp_finish_none)
next
  case True
  then obtain c where c: "session s (tid_of e) = Some c" "processed c = 0xf"
    by (auto simp: open_session_def)
  let ?a = "abs_state s"
  have "tgid_of e \<in> sp_traced ?a" "sp_open ?a (tid_of e) = Some (gtid c, cost_time c)"
    using True c by (simp_all add: abs_state_def abs_open_def)
  note step = sp_finish [OF this, of "e_lost e" "e_ktime e"]
  have "sp_open (abs_state (after_return e s)) = (sp_open ?a)(tid_of e := None)"
    "sp_known (abs_state (after_return e s)) = sp_known ?a"
    using True c by (auto simp: abs_state_def session_after_return return_ctx_def abs_open_def)
  moreover have "db_ctx_queue (after_return e s) = queue_push 5120 (db_ctx_queue s) (return_ctx e s)"
    "events (after_return e s) =
      events s @ (if e_lost e then [] else [(e_cpu e, \<lparr>et_gtid = e_pid_tgid e\<rparr>)])"
    using True by (simp_all add: after_return_def mysql57_query_return_record)
  moreover have "abs_log (return_ctx e s) = (gtid c, e_ktime e - cost_time c)"
    using c by (simp add: return_ctx_def abs_log_def)
  ultimately have "abs_state (after_return e s) = ?a\<lparr>sp_open := (sp_open ?a)(tid_of e := None),
      sp_log := queue_push 5120 (sp_log ?a) (gtid c, e_ktime e - cost_time c),
      sp_told := sp_told ?a @ (if e_lost e then [] else [e_pid_tgid e])\<rparr>"
    by (simp add: abs_state_def map_queue_push)
  with step show ?thesis by simp
qed

lemma refine_step:
  assumes ok: "state_ok s"
  shows "spec_step (abs_state s) (abs_op op) (abs_state (probe_step s op))"
proof (cases op)
  case (Cluster_Update r p cl)
  let ?u = "bpf_map_update_elem 1024 r (clusters s) p cl BPF_ANY"
  have room: "has_room r (sp_traced (abs_state s)) p \<longleftrightarrow> fst ?u = RC_OK"
    using update_ANY_iff [OF state_okD(1) [OF ok]] by (simp add: abs_state_def)
  show ?thesis
  proof (cases "has_room r (sp_traced (abs_state s)) p")
    case True
    with room have "bpf_map_lookup_elem (snd ?u) = (bpf_map_lookup_elem (clusters s))(p \<mapsto> cl)"
      by (metis hash.update_OK prod.collapse)
    then have "abs_state (probe_step s op) =
        (abs_state s)\<lparr>sp_traced := insert p (sp_traced (abs_state s))\<rparr>"
      using Cluster_Update by (auto simp: abs_state_def clusters_max_def fun_eq_iff)
    with Cluster_Update sp_trace [OF True] show ?thesis by simp
  next
    case False
    with room have "probe_step s op = s"
      using Cluster_Update by (simp add: update_lost clusters_max_def)
    with Cluster_Update sp_trace_lost [OF False] show ?thesis by simp
  qed
next
  case (Cluster_Delete p)
  have "abs_state (probe_step s op) =
      (abs_state s)\<lparr>sp_traced := sp_traced (abs_state s) - {p}\<rparr>"
    using Cluster_Delete by (auto simp: abs_state_def hash_lookup_delete fun_eq_iff)
  with Cluster_Delete show ?thesis by (simp add: sp_untrace)
next
  case Queue_Pop
  have abs: "abs_state (probe_step s op) = (abs_state s)\<lparr>sp_log := drop 1 (sp_log (abs_state s))\<rparr>"
    using Queue_Pop
    by (cases "db_ctx_queue s") (simp_all add: abs_state_def queue_lookup_and_delete_def)
  show ?thesis
    unfolding abs using Queue_Pop sp_take [of "abs_state s"] by (simp only: abs_op.simps)
qed (simp_all only: probe_step.simps refine_query [OF ok] refine_return)

lemma refine_run:
  "state_ok s \<Longrightarrow> spec_run (abs_state s) (map abs_op ops) (abs_state (probe_run s ops))"
proof (induction ops rule: rev_induct)
  case Nil
  show ?case by (simp add: run_nil)
next
  case (snoc op ops)
  have "probe_run s (ops @ [op]) = probe_step (probe_run s ops) op"
    by (simp add: probe_run_append)
  with run_step [OF snoc.IH [OF snoc.prems] refine_step [OF probe_run_ok [OF snoc.prems]]]
  show ?case by simp
qed

lemma abs_init: "abs_state init_state = spec_init"
  by (simp add: abs_state_def spec_init_def init_state_def bpf_map_lookup_elem_def)

lemma refine_init: "spec_run spec_init (map abs_op ops) (abs_state (probe_run init_state ops))"
  using refine_run [OF init_state_ok] by (simp add: abs_init)

text \<open>C2: the two probes and the operations of user space implement the machine of query
  sessions exactly: from the empty maps, the machine ends a run of the abstract operations in
  the abstract image of the maps, and in no other state.\<close>

theorem probes_refine_sessions:
  "spec_run spec_init (map abs_op ops) a \<longleftrightarrow> a = abs_state (probe_run init_state ops)"
  using refine_init spec_run_deterministic by blast

fun_cases abs_op_BeginE: "abs_op op = Begin r g t"
fun_cases abs_op_FinishE: "abs_op op = Finish r g t"

lemma BeginD: "Begin r g t \<in> set (map abs_op ops) \<Longrightarrow>
    \<exists>e. Query e \<in> set ops \<and> e_pid_tgid e = g \<and> e_ktime e = t \<and> PT_REGS_PARM3 (e_regs e) = COM_QUERY"
  by (auto simp: in_set_conv_nth dest!: sym [of "Begin r g t"] elim!: abs_op_BeginE split: if_splits)

lemma FinishD: "Finish r g t \<in> set (map abs_op ops) \<Longrightarrow>
    \<exists>e. Query_Return e \<in> set ops \<and> e_pid_tgid e = g \<and> e_ktime e = t"
  by (auto simp: in_set_conv_nth dest!: sym [of "Finish r g t"] elim!: abs_op_FinishE split: if_splits)

text \<open>C4: no record is made up: in every execution from the empty maps, a record in the
  queue names a task that entered a query during the execution, and its cost is the difference
  of the clock at a return and at that entry, both of the same thread.\<close>

theorem queued_records_are_real:
  assumes "c \<in> set (db_ctx_queue (probe_run init_state ops))"
  shows "\<exists>e1 e2. Query e1 \<in> set ops \<and> Query_Return e2 \<in> set ops \<and>
    PT_REGS_PARM3 (e_regs e1) = COM_QUERY \<and> tid_of e2 = tid_of e1 \<and>
    gtid c = e_pid_tgid e1 \<and> cost_time c = e_ktime e2 - e_ktime e1"
proof -
  have "spec_inv (map abs_op ops) (abs_state (probe_run init_state ops))"
    using refine_init by (rule spec_run_inv) simp
  then have "log_justified (map abs_op ops) (abs_log c)"
    using assms by (simp add: spec_inv_def abs_state_def)
  then obtain r g t r' h u where "Begin r g t \<in> set (map abs_op ops)"
    "Finish r' h u \<in> set (map abs_op ops)" "thread_key h = thread_key g" "abs_log c = (g, u - t)"
    unfolding log_justified_def began_def by blast
  then show ?thesis
    using BeginD [of r g t ops] FinishD [of r' h u ops] unfolding abs_log_def by fastforce
qed

end
