(* ===== verification/Probe_Witnesses.thy ===== *)
theory Probe_Witnesses
  imports Probe_Queue Probe_Content Probe_Spec
begin

text \<open>
  Concrete inputs for the properties of the probes: process 42 is registered, its thread 7
  enters a query at time 100 and returns from it at time 350, and the memory of the server is
  all zero. Each theorem here applies a property at such an input.
\<close>

definition demo_cluster :: cluster where
  "demo_cluster = \<lparr>cl_cluster_name = replicate 64 0x61, offsets = replicate 32 0\<rparr>"

definition demo_regs :: "u64 \<Rightarrow> pt_regs" where
  "demo_regs command = \<lparr>r15 = 0, r14 = 0, r13 = 0, r12 = 0, rbp = 0, rbx = 0, r11 = 0, r10 = 0,
     r9 = 0, r8 = 0, rax = 0, rcx = 0, rdx = command, rsi = 0x2000, rdi = 0x1000, orig_rax = 0,
     rip = 0, cs = 0, eflags = 0, rsp = 0, ss = 0\<rparr>"

definition demo_env :: "u64 \<Rightarrow> u64 \<Rightarrow> env" where
  "demo_env g t = \<lparr>e_pid_tgid = g, e_ktime = t, e_cpu = 1, e_comm = Some [0x6D, 0x79],
     e_regs = demo_regs COM_QUERY, e_user = (\<lambda>a. if a < 0x8000000000000000 then Some 0 else None),
     e_str = (\<lambda>a. Some 0), e_fill = (\<lambda>a i b. b), e_comm_fill = (\<lambda>i b. b), e_cluster_ptr = 0xFFFF888000000000,
     e_query_ptr = 0xFFFFC90000000000, e_stack = (\<lambda>i. 0), e_refuse = False, e_lost = False\<rparr>"

abbreviation demo_task :: u64 where "demo_task \<equiv> 0x2A00000007"
abbreviation demo_in :: env where "demo_in \<equiv> demo_env demo_task 100"
abbreviation demo_out :: env where "demo_out \<equiv> demo_env demo_task 350"
abbreviation other_in :: env where "other_in \<equiv> demo_env 0x2A00000008 120"

definition demo_state :: bpf_state where
  "demo_state = init_state\<lparr>clusters := [(42, demo_cluster)]\<rparr>"

lemma demo_env_simps [simp]:
  "e_pid_tgid (demo_env g t) = g" "e_ktime (demo_env g t) = t" "e_cpu (demo_env g t) = 1"
  "e_comm (demo_env g t) = Some [0x6D, 0x79]"
  "PT_REGS_PARM3 (e_regs (demo_env g t)) = COM_QUERY"
  "PT_REGS_PARM2 (e_regs (demo_env g t)) = 0x2000" "PT_REGS_PARM1 (e_regs (demo_env g t)) = 0x1000"
  "e_user (demo_env g t) = (\<lambda>a. if a < 0x8000000000000000 then Some 0 else None)"
  "e_str (demo_env g t) = (\<lambda>a. Some 0)" "e_fill (demo_env g t) = (\<lambda>a i b. b)"
  "e_cluster_ptr (demo_env g t) = 0xFFFF888000000000"
  "e_query_ptr (demo_env g t) = 0xFFFFC90000000000"
  "\<not> e_refuse (demo_env g t)" "\<not> e_lost (demo_env g t)"
  by (simp_all add: demo_env_def demo_regs_def PT_REGS_PARM1_def PT_REGS_PARM2_def
      PT_REGS_PARM3_def)

lemma demo_keys [simp]:
  "cluster_key 0x2A00000007 = 42" "thread_key 0x2A00000007 = 7"
  "cluster_key 0x2A00000008 = 42" "thread_key 0x2A00000008 = 8"
  by (simp_all add: cluster_key_def thread_key_eq drop_bit_eq_div)

lemma demo_state_simps [simp]:
  "clusters demo_state = [(42, demo_cluster)]" "thread_db_ctx_hash demo_state = []"
  "db_ctx_queue demo_state = []" "events demo_state = []"
  "var_holder demo_state cpu = zero_db_ctx"
  by (simp_all add: demo_state_def init_state_def)

lemma demo_lookup [simp]:
  "cluster_at demo_state 42 = Some demo_cluster" "session demo_state k = None"
  "bpf_map_lookup_elem [(42, demo_cluster)] 42 = Some demo_cluster"
  by (simp_all add: bpf_map_lookup_elem_def)

lemma demo_traced [simp]: "traced_query demo_in demo_state"
  by (simp add: traced_query_def)

theorem query_session_reported_witness:
  "\<exists>c. c = fill_return demo_out demo_cluster (entry_ctx demo_in demo_state) \<and>
    db_ctx_queue (probe_run demo_state [Query demo_in, Query other_in, Query_Return demo_out]) =
      queue_push 5120 (db_ctx_queue (probe_run demo_state [Query demo_in, Query other_in])) c \<and>
    events (probe_run demo_state [Query demo_in, Query other_in, Query_Return demo_out]) =
      [(1, \<lparr>et_gtid = demo_task\<rparr>)] \<and>
    gtid c = demo_task \<and> cost_time c = 250 \<and>
    query c = query (entry_ctx demo_in demo_state) \<and> processed c = 0"
  using query_session_reported [of demo_in demo_state "[Query other_in]" demo_out
      "probe_run demo_state [Query demo_in, Query other_in]" demo_cluster]
  by simp

theorem second_return_changes_nothing_witness:
  "mysql57_query_return demo_out (snd (mysql57_query_return demo_out (after_query demo_in demo_state))) =
    (0, snd (mysql57_query_return demo_out (after_query demo_in demo_state)))"
  by (rule second_return_changes_nothing) (rule refl)

theorem double_attachment_reports_once_witness:
  "\<exists>c. db_ctx_queue (probe_run demo_state
      [Query demo_in, Query demo_in, Query_Return demo_out, Query_Return demo_out]) = [c] \<and>
    gtid c = demo_task \<and> cost_time c = 250"
  using double_attachment_reports_once [of demo_in demo_state demo_in demo_out demo_out]
  by (simp add: queue_push_eq)

theorem probes_frame_witness:
  "mysql57_query demo_in init_state = (0, init_state) \<and>
   mysql57_query_return demo_in init_state = (0, init_state) \<and>
   session (snd (mysql57_query demo_in demo_state)) 8 = None"
  using probes_frame [of init_state demo_in 8] probes_frame [of demo_state demo_in 8]
  by (simp add: init_state_def bpf_map_lookup_elem_def)

definition full_table :: "nat \<Rightarrow> db_ctx bpf_hash" where
  "full_table n = map (\<lambda>i. (of_nat (1000 + i), zero_db_ctx)) [0..<n]"

definition full_state :: bpf_state where
  "full_state = demo_state\<lparr>thread_db_ctx_hash := full_table 1024\<rparr>"

lemma full_table_no_7:
  assumes "n \<le> 1024"
  shows "bpf_map_lookup_elem (full_table n) 7 = None"
proof -
  have "(of_nat (1000 + i) :: u32) \<noteq> 7" if "i < n" for i
  proof
    assume "(of_nat (1000 + i) :: u32) = 7"
    then have "unat (of_nat (1000 + i) :: u32) = unat (7 :: u32)" by (rule arg_cong)
    with that assms show False by (simp only: unat_of_nat) simp
  qed
  then show ?thesis
    by (force simp: full_table_def bpf_map_lookup_elem_def map_of_eq_None_iff)
qed

lemma length_full_table: "length (full_table n) = n"
  by (simp add: full_table_def)

theorem full_thread_table_loses_new_threads_witness:
  "session (probe_run full_state [Query demo_in, Query_Return demo_out]) 7 = None \<and>
   reports 7 (probe_run full_state [Query demo_in, Query_Return demo_out]) = reports 7 full_state"
  by (rule full_thread_table_loses_new_threads)
     (simp_all add: full_state_def length_full_table full_table_no_7)

lemma zero_db_ctx_ok: "db_ctx_ok zero_db_ctx"
  by (simp add: db_ctx_ok_def zero_db_ctx_def max_len_defs)

lemma demo_read [simp]:
  assumes "a < 0x7000000000000000" "n \<le> 1024"
  shows "read_bytes (e_user (demo_env g t)) a n = Some (replicate n 0)"
proof -
  have "a + of_nat i < 0x8000000000000000" if "i < n" for i
  proof -
    have "(of_nat i :: u64) < 1024"
      using that assms(2) by (simp add: word_less_nat_alt unat_of_nat)
    with assms(1) show ?thesis
      by (simp add: word_less_nat_alt unat_word_ariths)
  qed
  then show ?thesis
    using read_bytes_all [of n "e_user (demo_env g t)" a "\<lambda>_. 0"]
    by (simp add: map_replicate_const)
qed

lemma demo_read_str: "0 < n \<Longrightarrow> read_str (e_str (demo_env g t)) a n = Some []"
  by (cases n) simp_all

lemma demo_field_ptr: "field_ptr demo_in demo_cluster f = Some 0"
  by (cases f)
     (simp_all add: field_ptr_def field_addr_def demo_cluster_def le_word_zeros del: demo_env_simps(8))

theorem names_not_stale_witness:
  "cstr (user (fill_entry demo_in demo_cluster demo_task zero_db_ctx)) = [] \<and>
   cstr (priv_user (fill_entry demo_in demo_cluster demo_task zero_db_ctx)) = [] \<and>
   cstr (comm (fill_entry demo_in demo_cluster demo_task zero_db_ctx)) = take 15 (cstr [0x6D, 0x79])"
  by (rule names_not_stale [OF zero_db_ctx_ok demo_field_ptr demo_read_str demo_field_ptr demo_read_str])
     simp_all

theorem query_text_captured_witness:
  "query (fill_entry demo_in demo_cluster demo_task zero_db_ctx) = replicate 1024 0"
  by (rule query_text_captured [OF zero_db_ctx_ok, where qd = "replicate 16 0"])
     (simp_all add: le_word_zeros del: demo_env_simps(8))

text \<open>
  Two threads of the registered process: thread 7 and thread 8 enter a query, thread 7 returns,
  user space takes its record, thread 8 returns.
\<close>

abbreviation other_out :: env where "other_out \<equiv> demo_env 0x2A00000008 500"

abbreviation demo_ops :: "probe_op list" where
  "demo_ops \<equiv> [Cluster_Update False 42 demo_cluster, Query demo_in, Query_Return demo_out]"

abbreviation two_queries :: "probe_op list" where
  "two_queries \<equiv> [Query demo_in, Query other_in, Query_Return demo_out, Queue_Pop, Query_Return other_out]"

abbreviation demo_record :: db_ctx where
  "demo_record \<equiv> fill_return demo_out demo_cluster (entry_ctx demo_in demo_state)"

abbreviation other_record :: db_ctx where
  "other_record \<equiv> fill_return other_out demo_cluster (entry_ctx other_in (after_query demo_in demo_state))"

lemma demo_register: "probe_step init_state (Cluster_Update False 42 demo_cluster) = demo_state"
  by (simp add: demo_state_def init_state_def bpf_map_update_elem_def bpf_flag_defs clusters_max_def)

lemma demo_state_ok: "state_ok demo_state"
  using probe_step_ok [OF init_state_ok, of "Cluster_Update False 42 demo_cluster"]
  by (simp add: demo_register del: probe_step.simps)

lemma return_step:
  assumes "cluster_at s (tgid_of e) = Some cl" "session s (tid_of e) = Some c" "processed c = 0xf"
  shows "completed_by s (Query_Return e) = [fill_return e cl c]"
    and "db_ctx_queue (after_return e s) = queue_push 5120 (db_ctx_queue s) (fill_return e cl c)"
proof -
  have "open_session s (tid_of e)" "return_ctx e s = fill_return e cl c"
    using assms by (simp_all add: open_session_def return_ctx_def)
  with assms(1) show "completed_by s (Query_Return e) = [fill_return e cl c]"
    "db_ctx_queue (after_return e s) = queue_push 5120 (db_ctx_queue s) (fill_return e cl c)"
    by (simp_all add: return_fires_def after_return_def mysql57_query_return_record)
qed

lemma processed_entry_ctx: "processed (entry_ctx e s) = 0xf"
  by (simp add: entry_ctx_def)

lemma demo_session: "session (after_query demo_in demo_state) 7 = Some (entry_ctx demo_in demo_state)"
  using entry_opens_session [of demo_in demo_state] by simp

lemma other_session:
  "session (after_query other_in (after_query demo_in demo_state)) 8 =
     Some (entry_ctx other_in (after_query demo_in demo_state))"
proof -
  have "thread_db_ctx_hash (after_query demo_in demo_state) = [(7, entry_ctx demo_in demo_state)]"
    by (simp add: after_query_def mysql57_query_record bpf_map_update_elem_def bpf_flag_defs
        del: demo_keys) simp
  then show ?thesis
    using entry_opens_session [of other_in "after_query demo_in demo_state"]
    by (simp add: traced_query_def)
qed

lemma demo_return:
  "completed_by (after_query demo_in demo_state) (Query_Return demo_out) = [demo_record]"
  "db_ctx_queue (after_return demo_out (after_query demo_in demo_state)) = [demo_record]"
  using return_step [of "after_query demo_in demo_state" demo_out demo_cluster "entry_ctx demo_in demo_state"]
    demo_session
  by (simp_all add: processed_entry_ctx queue_push_eq)

lemma demo_queue: "demo_record \<in> set (db_ctx_queue (probe_run init_state demo_ops))"
  using demo_return(2) by (simp add: demo_register del: probe_step.simps(3))

theorem queue_keeps_newest_witness:
  "db_ctx_queue (probe_run init_state demo_ops) = [demo_record]"
proof -
  have "completed init_state demo_ops = [demo_record]"
    using demo_return(1) by (simp add: demo_register del: probe_step.simps(3) completed_by.simps(1))
  moreover have "db_ctx_queue init_state = []" by (simp add: init_state_def)
  ultimately show ?thesis
    using queue_keeps_newest [OF init_state_ok, of demo_ops] by simp
qed

text \<open>What the two threads complete, what is taken, and that the queue has room.\<close>

lemma two_queries_run:
  "completed demo_state two_queries = [demo_record, other_record]"
  "taken demo_state two_queries = [demo_record]"
  "never_full demo_state two_queries"
proof -
  let ?s2 = "after_query other_in (after_query demo_in demo_state)"
  let ?s4 = "probe_step (after_return demo_out ?s2) Queue_Pop"
  have s2: "session ?s2 7 = Some (entry_ctx demo_in demo_state)"
    using demo_session by (simp add: session_after_query)
  have r1: "completed_by ?s2 (Query_Return demo_out) = [demo_record]"
    and q3: "db_ctx_queue (after_return demo_out ?s2) = [demo_record]"
    using return_step [of ?s2 demo_out demo_cluster "entry_ctx demo_in demo_state"] s2
    by (simp_all add: processed_entry_ctx queue_push_eq del: completed_by.simps(1))
  have s4: "session ?s4 8 = Some (entry_ctx other_in (after_query demo_in demo_state))"
    "db_ctx_queue ?s4 = []" "cluster_at ?s4 42 = Some demo_cluster"
    using other_session q3
    by (simp_all add: session_after_return queue_lookup_and_delete_def)
  have r2: "completed_by ?s4 (Query_Return other_out) = [other_record]"
    using return_step(1) [of ?s4 other_out demo_cluster "entry_ctx other_in (after_query demo_in demo_state)"]
      s4 by (simp add: processed_entry_ctx del: probe_step.simps completed_by.simps(1))
  have step: "probe_step ?s2 (Query_Return demo_out) = after_return demo_out ?s2" by simp
  show "completed demo_state two_queries = [demo_record, other_record]"
    "taken demo_state two_queries = [demo_record]" "never_full demo_state two_queries"
    using r1 r2 q3 s4(2)
    by (simp_all add: step del: probe_step.simps(5) completed_by.simps(1))
qed

theorem taken_in_completion_order_witness:
  "completed demo_state two_queries = [demo_record, other_record] \<and>
   subseq (demo_record # db_ctx_queue (probe_run demo_state two_queries)) [demo_record, other_record]"
  using taken_in_completion_order [OF demo_state_ok, of two_queries] two_queries_run
  by (simp del: probe_run_simps completed.simps taken.simps)

theorem no_record_lost_witness:
  "taken demo_state two_queries = [demo_record] \<and>
   completed demo_state two_queries = [demo_record, other_record] \<and>
   db_ctx_queue (probe_run demo_state two_queries) = [other_record]"
  using no_record_lost [OF two_queries_run(3)] two_queries_run
  by (simp del: probe_run_simps completed.simps taken.simps)

theorem cluster_name_never_recorded_witness:
  "cstr (cluster_name demo_record) = [] \<and> query_len demo_record = 0"
  by (rule cluster_name_never_recorded [OF _ demo_queue])
     (simp add: kernel_pointers_unreadable_def list_all_iff)

theorem queued_records_are_real_witness:
  "\<exists>e1 e2. Query e1 \<in> set demo_ops \<and> Query_Return e2 \<in> set demo_ops \<and>
    PT_REGS_PARM3 (e_regs e1) = COM_QUERY \<and> tid_of e2 = tid_of e1 \<and>
    gtid (fill_return demo_out demo_cluster (entry_ctx demo_in demo_state)) = e_pid_tgid e1 \<and>
    cost_time (fill_return demo_out demo_cluster (entry_ctx demo_in demo_state)) =
      e_ktime e2 - e_ktime e1"
  by (rule queued_records_are_real [OF demo_queue])

end
