(* ===== verification/Go_Tools.thy ===== *)
theory Go_Tools
  imports Common_H
begin

text \<open>
  \<^verbatim>\<open>pkg/tool\<close>: the conversions between Go strings and the fixed arrays of the maps
  (\<^verbatim>\<open>tools.go\<close>), the parsers of image names and container identifiers
  (\<^verbatim>\<open>container.go\<close>), of the list of child processes (\<^verbatim>\<open>sys.go\<close>), and the
  computation of the file offset of a function in an ELF file (\<^verbatim>\<open>offset.go\<close>). A Go string
  is a list of bytes, written as a \<^typ>\<open>string\<close>; a panic and a returned error are values of
  \<open>go_error\<close>. The file system and the ELF reader are arguments.
\<close>

datatype go_error = Slice_Out_Of_Range | Error string

text \<open>A byte of a Go string as an unsigned 8-bit integer, and back.\<close>

definition byte_of_char :: "char \<Rightarrow> u8" where
  "byte_of_char c = of_nat (of_char c)"

definition char_of_byte :: "u8 \<Rightarrow> char" where
  "char_of_byte b = char_of (unat b)"

subsection \<open>tools.go\<close>

text \<open>\<^verbatim>\<open>for i := 0; i < n; i++ { bs[i] = s[i] }\<close>, and the loop that clears the rest.\<close>

definition copy_bytes :: "nat \<Rightarrow> string \<Rightarrow> u8 list \<Rightarrow> u8 list" where
  "copy_bytes n s bs = foldl (\<lambda>bs i. bs[i := byte_of_char (s ! i)]) bs [0..<n]"

definition clear_bytes :: "nat \<Rightarrow> u8 list \<Rightarrow> u8 list" where
  "clear_bytes slen bs = foldl (\<lambda>bs i. bs[slen + i := 0]) bs [0..<64 - slen]"

definition S264B :: "string \<Rightarrow> u8 list" where
  "S264B s = (let bs = replicate 64 0; slen = length s in
     if slen = 0 then bs
     else if 64 \<le> slen then copy_bytes 64 s bs
     else clear_bytes slen (copy_bytes slen s bs))"

fun B642S_loop :: "u8 list \<Rightarrow> string \<Rightarrow> string" where
  "B642S_loop [] ba = ba"
| "B642S_loop (b # bs) ba = (if b = 0 then ba else B642S_loop bs (ba @ [char_of_byte b]))"

definition B642S :: "u8 list \<Rightarrow> string" where
  "B642S bs = B642S_loop bs []"

subsection \<open>container.go\<close>

text \<open>\<^verbatim>\<open>strings.Split\<close> at a non-empty separator.\<close>

function split_from :: "string \<Rightarrow> string \<Rightarrow> string \<Rightarrow> string list" where
  "split_from sep cur s =
     (case s of
        [] \<Rightarrow> [cur]
      | c # rest \<Rightarrow>
          if sep \<noteq> [] \<and> take (length sep) s = sep
          then cur # split_from sep [] (drop (length sep) s)
          else split_from sep (cur @ [c]) rest)"
  by pat_completeness auto
termination
  by (relation "measure (\<lambda>(sep, cur, s). length s)") auto

declare split_from.simps [simp del]

definition strings_Split :: "string \<Rightarrow> string \<Rightarrow> string list" where
  "strings_Split s sep = split_from sep [] s"

definition ParseImage :: "string \<Rightarrow> string" where
  "ParseImage img = (let parts = strings_Split img ''/'' in
     if length parts = 1 then parts ! 0 else parts ! (length parts - 1))"

definition Docker :: string where "Docker = ''docker''"
definition Containerd :: string where "Containerd = ''containerd''"

definition ParseContainerId :: "string \<Rightarrow> go_error + string" where
  "ParseContainerId containerId = (let parts = strings_Split containerId ''://'' in
     if length parts = 1 then Inr (parts ! 0)
     else if length parts = 2
     then (if parts ! 0 = Docker
           then (if 12 \<le> length (parts ! 1) then Inr (take 12 (parts ! 1))
                 else Inl Slice_Out_Of_Range)
           else Inr (parts ! 1))
     else Inr containerId)"

subsection \<open>sys.go\<close>

definition newline :: char where "newline = CHR 0x0A"

text \<open>\<^verbatim>\<open>strings.Trim(spec, "\n")\<close>.\<close>

definition trim_newlines :: "string \<Rightarrow> string" where
  "trim_newlines s = rev (dropWhile (\<lambda>c. c = newline) (rev (dropWhile (\<lambda>c. c = newline) s)))"

definition is_digit :: "char \<Rightarrow> bool" where
  "is_digit c \<longleftrightarrow> c \<in> set ''0123456789''"

definition digit_value :: "char \<Rightarrow> int" where
  "digit_value c = int (of_char c) - 48"

definition decimal_value :: "string \<Rightarrow> int" where
  "decimal_value ds = foldl (\<lambda>n c. 10 * n + digit_value c) 0 ds"

text \<open>
  \<^verbatim>\<open>fmt.Sscanf(spec, "%d", &pid)\<close>: blanks are skipped (a line end is not a blank here), a
  sign and at least one digit are read, and the number has to fit 64 bits; what follows is not
  read. The result is the number, or \<^const>\<open>None\<close> for an error.
\<close>

definition is_blank :: "char \<Rightarrow> bool" where
  "is_blank c \<longleftrightarrow> c = CHR '' '' \<or> c = CHR 0x09 \<or> c = CHR 0x0B \<or> c = CHR 0x0C"

definition Sscanf_d :: "string \<Rightarrow> int option" where
  "Sscanf_d spec =
     (let s = dropWhile is_blank spec;
          neg = (s \<noteq> [] \<and> hd s = CHR ''-'');
          s = (if s \<noteq> [] \<and> (hd s = CHR ''-'' \<or> hd s = CHR ''+'') then tl s else s);
          ds = takeWhile is_digit s;
          n = (if neg then - decimal_value ds else decimal_value ds)
      in if ds = [] then None
         else if - (2 ^ 63) \<le> n \<and> n < 2 ^ 63 then Some n else None)"

definition parsePID :: "string \<Rightarrow> go_error + int" where
  "parsePID spec =
     (if trim_newlines spec = ''0'' then Inl (Error ''no child process found'')
      else case Sscanf_d spec of
        None \<Rightarrow> Inl (Error (''invalid format: '' @ spec))
      | Some pid \<Rightarrow> Inr pid)"

text \<open>
  \<open>children\<close> is what reading \<^verbatim>\<open>/proc/<pid>/task/<pid>/children\<close> gives.
\<close>

definition GetChildPid :: "(int \<Rightarrow> go_error + string) \<Rightarrow> int \<Rightarrow> go_error + int" where
  "GetChildPid children pid = (case children pid of
     Inl err \<Rightarrow> Inl err
   | Inr spec \<Rightarrow>
       if length spec = 0 then Inr pid
       else case parsePID spec of
         Inl err \<Rightarrow> Inl (Error ''can't parse'')
       | Inr n \<Rightarrow> Inr n)"

subsection \<open>offset.go\<close>

record elf_symbol =
  sym_name :: string
  sym_info :: u8
  sym_value :: u64

text \<open>A program header; the code does not read \<^verbatim>\<open>Filesz\<close>, the part of the segment that comes
  from the file.\<close>

record elf_prog =
  prog_type :: u32
  prog_flags :: u32
  prog_off :: u64
  prog_vaddr :: u64
  prog_filesz :: u64
  prog_memsz :: u64

definition STT_FUNC :: u8 where "STT_FUNC = 2"
definition PT_LOAD :: u32 where "PT_LOAD = 1"
definition PF_X :: u32 where "PF_X = 1"

definition ST_TYPE :: "u8 \<Rightarrow> u8" where "ST_TYPE info = info AND 15"

text \<open>The loop over the segments; \<open>off\<close> is the offset so far.\<close>

fun segment_loop :: "u64 \<Rightarrow> elf_prog list \<Rightarrow> u64 \<Rightarrow> u64" where
  "segment_loop v [] off = off"
| "segment_loop v (p # ps) off =
     (if prog_type p \<noteq> PT_LOAD \<or> prog_flags p AND PF_X = 0 then segment_loop v ps off
      else if prog_vaddr p \<le> v \<and> v < prog_vaddr p + prog_memsz p
      then v - prog_vaddr p + prog_off p
      else segment_loop v ps off)"

fun symbol_loop :: "string \<Rightarrow> elf_prog list \<Rightarrow> elf_symbol list \<Rightarrow> u64 option" where
  "symbol_loop symbol progs [] = None"
| "symbol_loop symbol progs (s # ss') =
     (if sym_name s = symbol
      then (if ST_TYPE (sym_info s) \<noteq> STT_FUNC then symbol_loop symbol progs ss'
            else Some (segment_loop (sym_value s) progs (sym_value s)))
      else symbol_loop symbol progs ss')"

text \<open>
  What opening and parsing the file gives: an error, or the segments and the two symbol tables.
  A table is \<^const>\<open>None\<close> when reading it failed, and empty when the file has none.
\<close>

definition GetOffsetBySymbol ::
  "(string \<Rightarrow> go_error + (elf_prog list \<times> elf_symbol list option \<times> elf_symbol list option)) \<Rightarrow>
    string \<Rightarrow> string \<Rightarrow> go_error + u64" where
  "GetOffsetBySymbol open_elf binPath symbol = (case open_elf binPath of
     Inl err \<Rightarrow> Inl err
   | Inr (progs, syms, dynsyms) \<Rightarrow>
      (case syms of None \<Rightarrow> Inl (Error ''symbols'')
       | Some syms \<Rightarrow> (case dynsyms of None \<Rightarrow> Inl (Error ''dynamic symbols'')
          | Some dynsyms \<Rightarrow> (case symbol_loop symbol progs (syms @ dynsyms) of
               None \<Rightarrow> Inl (Error (symbol @ '' for '' @ binPath @ '' not found''))
             | Some off \<Rightarrow> Inr off))))"

subsection \<open>Strings and arrays\<close>

lemma length_foldl_update [simp]: "length (foldl (\<lambda>bs i. bs[f i := g i]) bs is) = length bs"
  by (induction "is" arbitrary: bs) simp_all

lemma nth_foldl_update:
  "j < length bs \<Longrightarrow> foldl (\<lambda>bs i. bs[k + i := g i]) bs [0..<n] ! j =
     (if k \<le> j \<and> j < k + n then g (j - k) else bs ! j)"
proof (induction n)
  case 0
  then show ?case by auto
next
  case (Suc n)
  then show ?case by (cases "j = k + n") (auto simp: nth_list_update)
qed

lemma nth_foldl_update0:
  "j < length bs \<Longrightarrow> foldl (\<lambda>bs i. bs[i := g i]) bs [0..<n] ! j = (if j < n then g j else bs ! j)"
  using nth_foldl_update [of j bs 0] by simp

lemma length_S264B [simp, layout_simps]: "length (S264B s) = 64"
  by (simp add: S264B_def copy_bytes_def clear_bytes_def Let_def)

lemma nth_S264B:
  assumes "j < 64"
  shows "S264B s ! j = (if j < length s then byte_of_char (s ! j) else 0)"
  using assms
  by (auto simp: S264B_def copy_bytes_def clear_bytes_def Let_def nth_foldl_update nth_foldl_update0)

lemma S264B_eq: "S264B s = map byte_of_char (take 64 s) @ replicate (64 - length s) 0"
  by (rule nth_equalityI) (auto simp: nth_S264B nth_append)

lemma B642S_loop_eq: "B642S_loop bs ba = ba @ map char_of_byte (cstr bs)"
  by (induction bs ba rule: B642S_loop.induct) (simp_all add: cstr_def)

lemma B642S_eq: "B642S bs = map char_of_byte (cstr bs)"
  by (simp add: B642S_def B642S_loop_eq)

lemma char_of_byte_of_char [simp]: "char_of_byte (byte_of_char c) = c"
proof -
  have "(of_char c :: nat) < 256" by (rule nat_of_char_less_256)
  then have "unat (of_nat (of_char c) :: u8) = of_char c"
    by (simp add: unat_of_nat)
  then show ?thesis by (simp add: char_of_byte_def byte_of_char_def)
qed

lemma byte_of_char_inject [simp]: "byte_of_char c = byte_of_char d \<longleftrightarrow> c = d"
  by (metis char_of_byte_of_char)

lemma byte_of_char_zero [simp]: "byte_of_char c = 0 \<longleftrightarrow> c = CHR 0x00"
proof -
  have "byte_of_char (CHR 0x00) = 0" by (simp add: byte_of_char_def)
  then show ?thesis by (metis byte_of_char_inject)
qed

lemma cstr_map_of_char:
  "cstr (map byte_of_char s :: u8 list) = map byte_of_char (takeWhile (\<lambda>c. c \<noteq> CHR 0x00) s)"
  by (induction s) (simp_all add: cstr_def)

lemma cstr_append_zeros [simp]: "cstr (xs @ replicate n 0) = cstr xs"
  by (induction xs) (cases n, simp_all add: cstr_def)

text \<open>The cluster name user space reads back from the fixed array is the name it stored,
  cut at 64 bytes and at the first NUL; a name of at most 64 bytes without a NUL comes back
  unchanged.\<close>

theorem cluster_name_roundtrip:
  "B642S (S264B s) = takeWhile (\<lambda>c. c \<noteq> CHR 0x00) (take 64 s) \<and>
   (length s \<le> 64 \<and> CHR 0x00 \<notin> set s \<longrightarrow> B642S (S264B s) = s)"
proof -
  have "cstr (S264B s) = cstr (map byte_of_char (take 64 s))"
    by (simp add: S264B_eq)
  then have eq: "B642S (S264B s) = takeWhile (\<lambda>c. c \<noteq> CHR 0x00) (take 64 s)"
    by (simp add: B642S_eq cstr_map_of_char comp_def)
  moreover have "takeWhile (\<lambda>c. c \<noteq> CHR 0x00) s = s" if "CHR 0x00 \<notin> set s"
    using that by (intro takeWhile_eq_all_conv [THEN iffD2]) auto
  ultimately show ?thesis by auto
qed

theorem cluster_name_roundtrip_witness:
  "B642S (S264B ''radondb'') = ''radondb''"
  using cluster_name_roundtrip [of "''radondb''"] by simp

subsection \<open>Image names and container identifiers\<close>

lemma split_from_not_Nil [simp]: "split_from sep cur s \<noteq> []"
  by (induction sep cur s rule: split_from.induct) (subst split_from.simps, simp split: list.split)

lemma split_from_Nil [simp]: "split_from sep cur [] = [cur]"
  by (subst split_from.simps) simp

lemma split_from_char:
  "split_from [d] cur (c # s) = (if c = d then cur # split_from [d] [] s else split_from [d] (cur @ [c]) s)"
  by (subst split_from.simps) simp

text \<open>The last part of a split at one character: what follows its last occurrence.\<close>

lemma last_split_char:
  "d \<notin> set cur \<Longrightarrow> d \<notin> set (last (split_from [d] cur s)) \<and>
    (cur @ s = last (split_from [d] cur s) \<or> (\<exists>p. cur @ s = p @ d # last (split_from [d] cur s)))"
proof (induction s arbitrary: cur)
  case Nil
  then show ?case by simp
next
  case (Cons c s)
  show ?case
  proof (cases "c = d")
    case True
    let ?r = "last (split_from [d] [] s)"
    from Cons.IH [of "[]"] consider "s = ?r" | p where "s = p @ d # ?r" by auto
    then have "\<exists>p. cur @ c # s = p @ d # ?r"
    proof cases
      case 1
      with True show ?thesis by (intro exI [of _ cur]) simp
    next
      case (2 p)
      with True show ?thesis by (intro exI [of _ "cur @ d # p"]) simp
    qed
    with True Cons.IH [of "[]"] show ?thesis by (simp add: split_from_char)
  next
    case False
    with Cons.IH [of "cur @ [c]"] Cons.prems show ?thesis by (simp add: split_from_char)
  qed
qed

lemma ParseImage_last: "ParseImage img = last (split_from ''/'' [] img)"
  by (simp add: ParseImage_def strings_Split_def Let_def last_conv_nth)

lemma takeWhile_rev_last:
  "d \<notin> set r \<Longrightarrow> takeWhile (\<lambda>x. x \<noteq> d) (rev (p @ d # r)) = rev r"
  by (induction r) (auto simp: takeWhile_append)

lemma last_after_char:
  assumes "d \<notin> set r" "d \<notin> set r'" "p @ d # r = p' @ d # r'"
  shows "r = r'"
  using takeWhile_rev_last [OF assms(1), of p] takeWhile_rev_last [OF assms(2), of p'] assms(3)
  by simp

text \<open>The version of an image is what follows its last slash: the registry and the
  namespace are dropped whatever they are, and a name without a slash is kept.\<close>

theorem ParseImage_last_component:
  "CHR ''/'' \<notin> set name \<Longrightarrow> ParseImage name = name \<and> ParseImage (path @ ''/'' @ name) = name"
proof -
  assume name: "CHR ''/'' \<notin> set name"
  have part: "CHR ''/'' \<notin> set (ParseImage img)"
    "img = ParseImage img \<or> (\<exists>p. img = p @ CHR ''/'' # ParseImage img)" for img
    using last_split_char [of "CHR ''/''" "[]" img] by (simp_all add: ParseImage_last)
  have "ParseImage name = name" using part(2) [of name] name by (metis in_set_conv_decomp)
  moreover have "ParseImage (path @ CHR ''/'' # name) = name"
    using part [of "path @ CHR ''/'' # name"] name last_after_char
    by (metis in_set_conv_decomp)
  ultimately show ?thesis by simp
qed

theorem ParseImage_last_component_witness:
  "ParseImage ''docker.io/percona/percona-server:5.7.34'' = ''percona-server:5.7.34''"
  using ParseImage_last_component [of "''percona-server:5.7.34''" "''docker.io/percona''"] by simp

lemma split_from_none: "c \<notin> set s \<Longrightarrow> split_from (c # rest) cur s = [cur @ s]"
  by (induction s arbitrary: cur) (simp, subst split_from.simps, auto)

lemma split_from_first:
  "c \<notin> set a \<Longrightarrow> split_from (c # rest) cur (a @ (c # rest) @ b) = (cur @ a) # split_from (c # rest) [] b"
proof (induction a arbitrary: cur)
  case Nil
  then show ?case by (subst split_from.simps) simp
next
  case (Cons x a)
  then show ?case by (subst split_from.simps) auto
qed

text \<open>C35: the identifier of a container is found behind the runtime's scheme: the first twelve
  characters for Docker, where a shorter identifier is a panic, all of it for any other runtime;
  an identifier without a scheme is kept.\<close>

theorem ParseContainerId_runtime:
  assumes "CHR '':'' \<notin> set cid" "CHR '':'' \<notin> set runtime"
  shows "ParseContainerId (runtime @ ''://'' @ cid) =
      (if runtime = Docker then (if 12 \<le> length cid then Inr (take 12 cid) else Inl Slice_Out_Of_Range)
       else Inr cid) \<and>
    ParseContainerId cid = Inr cid"
proof -
  have "strings_Split (runtime @ ''://'' @ cid) ''://'' = [runtime, cid]" "strings_Split cid ''://'' = [cid]"
    using assms by (simp_all only: strings_Split_def split_from_first split_from_none append_Nil not_False_eq_True)
  then show ?thesis by (simp add: ParseContainerId_def Let_def)
qed

theorem ParseContainerId_runtime_witness:
  "ParseContainerId ''docker://bbccb2a9ecfcff52'' = Inr ''bbccb2a9ecfc'' \<and>
   ParseContainerId ''docker://bbccb2a9'' = Inl Slice_Out_Of_Range"
  using ParseContainerId_runtime [of "''bbccb2a9ecfcff52''" "''docker''"]
    ParseContainerId_runtime [of "''bbccb2a9''" "''docker''"]
  by (simp add: Docker_def)

subsection \<open>Child processes\<close>

text \<open>The kernel writes process numbers in decimal, each followed by a space.\<close>

definition digit_char :: "nat \<Rightarrow> char" where
  "digit_char d = ''0123456789'' ! d"

fun decimal :: "nat \<Rightarrow> string" where
  "decimal n = (if n < 10 then [digit_char n] else decimal (n div 10) @ [digit_char (n mod 10)])"

declare decimal.simps [simp del]

lemma digit_char_cases:
  assumes "d < 10"
  shows "is_digit (digit_char d)" "digit_value (digit_char d) = int d"
proof -
  from assms have "d \<in> {0, 1, 2, 3, 4, 5, 6, 7, 8, 9}" by auto
  then show "is_digit (digit_char d)" "digit_value (digit_char d) = int d"
    by (auto simp: digit_char_def is_digit_def digit_value_def)
qed

lemma decimal_digits: "list_all is_digit (decimal n)"
  by (induction n rule: decimal.induct) (subst decimal.simps, auto simp: digit_char_cases)

lemma decimal_not_Nil [simp]: "decimal n \<noteq> []"
  by (subst decimal.simps) simp

lemma decimal_value_decimal: "decimal_value (decimal n) = int n"
proof (induction n rule: decimal.induct)
  case (1 n)
  show ?case
  proof (cases "n < 10")
    case True
    then show ?thesis
      by (subst decimal.simps) (simp add: decimal_value_def digit_char_cases)
  next
    case False
    then have "decimal_value (decimal n) = 10 * int (n div 10) + int (n mod 10)"
      using 1 by (subst decimal.simps) (simp add: decimal_value_def digit_char_cases)
    moreover have "10 * int (n div 10) + int (n mod 10) = int n"
      by (metis mult_div_mod_eq of_nat_add of_nat_mult of_nat_numeral)
    ultimately show ?thesis by simp
  qed
qed

lemma is_digit_not:
  "is_digit c \<Longrightarrow> \<not> is_blank c \<and> c \<noteq> CHR ''-'' \<and> c \<noteq> CHR ''+'' \<and> c \<noteq> newline"
  by (auto simp: is_digit_def is_blank_def newline_def)

lemma Sscanf_d_decimal:
  assumes "n < 2 ^ 63" "rest = [] \<or> \<not> is_digit (hd rest)"
  shows "Sscanf_d (decimal n @ rest) = Some (int n)"
proof -
  have hd: "is_digit (hd (decimal n))" "decimal n @ rest \<noteq> []"
    using decimal_digits [of n] by (cases "decimal n"; simp)+
  then obtain c ds where dn: "decimal n = c # ds" "is_digit c" by (cases "decimal n") auto
  have "takeWhile is_digit (decimal n @ rest) = decimal n @ takeWhile is_digit rest"
    using decimal_digits [of n] by (intro takeWhile_append2) (simp add: list_all_iff)
  then have "takeWhile is_digit (decimal n @ rest) = decimal n"
    using assms(2) by (cases rest) auto
  moreover have "int n < 2 ^ 63" using assms(1) by (metis of_nat_less_iff of_nat_numeral of_nat_power)
  ultimately show ?thesis
    using dn is_digit_not [OF dn(2)] decimal_value_decimal [of n]
    by (simp add: Sscanf_d_def Let_def)
qed

lemma trim_digits_space:
  assumes "list_all is_digit ds"
  shows "trim_newlines (ds @ '' '' @ rest) \<noteq> ''0''"
proof
  assume "trim_newlines (ds @ '' '' @ rest) = ''0''"
  let ?P = "\<lambda>c. c = newline"
  have "dropWhile ?P (ds @ '' '' @ rest) = ds @ '' '' @ rest"
    using assms is_digit_not by (cases ds) (auto simp: newline_def)
  moreover have "CHR '' '' \<in> set (dropWhile ?P (rev (ds @ '' '' @ rest)))"
  proof -
    have "dropWhile ?P (rev (ds @ '' '' @ rest)) = dropWhile ?P (rev rest) @ CHR '' '' # rev ds"
      by (cases "\<forall>x \<in> set (rev rest). x = newline")
         (auto simp: dropWhile_append newline_def)
    then show ?thesis by simp
  qed
  ultimately have "CHR '' '' \<in> set (trim_newlines (ds @ '' '' @ rest))"
    by (simp add: trim_newlines_def)
  with \<open>trim_newlines (ds @ '' '' @ rest) = ''0''\<close> show False by simp
qed

text \<open>For a process with children the first child is taken, whatever further children
  follow, and a process without children stands for itself; an unreadable list is an error.\<close>

theorem GetChildPid_first_child:
  "n < 2 ^ 63 \<Longrightarrow> children pid = Inr (decimal n @ '' '' @ others) \<Longrightarrow>
     GetChildPid children pid = Inr (int n) \<and>
     GetChildPid (\<lambda>_. Inr '''') pid = Inr pid \<and> GetChildPid (\<lambda>_. Inl err) pid = Inl err"
  using Sscanf_d_decimal [of n "'' '' @ others"] trim_digits_space [OF decimal_digits, of n others]
  by (simp add: GetChildPid_def parsePID_def is_digit_def)

theorem GetChildPid_first_child_witness:
  "GetChildPid (\<lambda>pid. Inr ''350 351 '') 1 = Inr 350"
  using GetChildPid_first_child [of 350 "\<lambda>pid. Inr ''350 351 ''" 1 "''351 ''"]
  by (simp add: decimal.simps digit_char_def)

subsection \<open>Function offsets\<close>

definition loads :: "u64 \<Rightarrow> elf_prog \<Rightarrow> bool" where
  "loads v p \<longleftrightarrow> prog_type p = PT_LOAD \<and> prog_flags p AND PF_X \<noteq> 0 \<and>
     prog_vaddr p \<le> v \<and> v < prog_vaddr p + prog_memsz p"

lemma segment_loop_find:
  "segment_loop v ps off = (case List.find (loads v) ps of
     None \<Rightarrow> off | Some p \<Rightarrow> v - prog_vaddr p + prog_off p)"
  by (induction ps) (auto simp: loads_def)

definition names_function :: "string \<Rightarrow> elf_symbol \<Rightarrow> bool" where
  "names_function symbol s \<longleftrightarrow> sym_name s = symbol \<and> ST_TYPE (sym_info s) = STT_FUNC"

lemma symbol_loop_find:
  "symbol_loop symbol progs ss' = map_option (\<lambda>s. segment_loop (sym_value s) progs (sym_value s))
     (List.find (names_function symbol) ss')"
  by (induction ss') (auto simp: names_function_def)

text \<open>C34: in a readable ELF file, the offset found for a function is that of the first function
  symbol of this name, in the symbol table before the dynamic one, relocated by the first
  executable load segment that holds its address; symbols of the name that are no function are
  passed over. If the segment does not wrap around the address space, the offset is as far from
  the segment's offset in the file as the address is from its start, and less than its size in
  memory away. So it points into the part of the file that is mapped there exactly when the
  address lies in the first \<^verbatim>\<open>Filesz\<close> bytes of the segment, which the code does not check.\<close>

theorem GetOffsetBySymbol_in_segment:
  assumes "open_elf bin = Inr (progs, Some syms, Some dynsyms)"
    and "List.find (names_function symbol) (syms @ dynsyms) = Some s"
    and "List.find (loads (sym_value s)) progs = Some p"
    and "unat (prog_vaddr p) + unat (prog_memsz p) < 2 ^ 64"
    and "unat (prog_off p) + unat (prog_memsz p) < 2 ^ 64"
  shows "\<exists>off. GetOffsetBySymbol open_elf bin symbol = Inr off \<and>
    unat off = unat (sym_value s) - unat (prog_vaddr p) + unat (prog_off p) \<and>
    prog_off p \<le> off \<and> off < prog_off p + prog_memsz p \<and>
    (unat off < unat (prog_off p) + unat (prog_filesz p) \<longleftrightarrow>
      unat (sym_value s) < unat (prog_vaddr p) + unat (prog_filesz p))"
proof -
  let ?d = "sym_value s - prog_vaddr p"
  have "loads (sym_value s) p" using assms(3) by (auto simp: find_Some_iff)
  then have v: "prog_vaddr p \<le> sym_value s" "sym_value s < prog_vaddr p + prog_memsz p"
    by (simp_all add: loads_def)
  have d: "unat ?d = unat (sym_value s) - unat (prog_vaddr p)" using v(1) by (rule unat_sub)
  moreover have "unat (sym_value s) < unat (prog_vaddr p) + unat (prog_memsz p)"
    using v(2) assms(4) by (simp add: word_less_nat_alt unat_word_ariths)
  ultimately have lt: "unat ?d < unat (prog_memsz p)"
    using v(1) by (simp add: word_le_nat_alt)
  then have off: "unat (?d + prog_off p) = unat ?d + unat (prog_off p)"
    and top: "unat (prog_off p + prog_memsz p) = unat (prog_off p) + unat (prog_memsz p)"
    using assms(5) by (simp_all add: unat_word_ariths)
  have "GetOffsetBySymbol open_elf bin symbol = Inr (?d + prog_off p)"
    using assms(1-3) by (simp add: GetOffsetBySymbol_def symbol_loop_find segment_loop_find)
  moreover have "unat (prog_vaddr p) \<le> unat (sym_value s)" using v(1) by (simp add: word_le_nat_alt)
  then have "unat ?d + unat (prog_off p) < unat (prog_off p) + unat (prog_filesz p) \<longleftrightarrow>
      unat (sym_value s) < unat (prog_vaddr p) + unat (prog_filesz p)"
    using d by linarith
  ultimately show ?thesis
    using d off top lt
    by (intro exI [of _ "?d + prog_off p"]) (simp add: word_le_nat_alt word_less_nat_alt)
qed

definition demo_prog :: elf_prog where
  "demo_prog = \<lparr>prog_type = 1, prog_flags = 5, prog_off = 0x1000, prog_vaddr = 0x401000,
     prog_filesz = 0x1800, prog_memsz = 0x2000\<rparr>"

definition demo_function :: elf_symbol where
  "demo_function = \<lparr>sym_name = ''f'', sym_info = 0x12, sym_value = 0x401100\<rparr>"

definition demo_object :: elf_symbol where
  "demo_object = \<lparr>sym_name = ''f'', sym_info = 0x11, sym_value = 0\<rparr>"

theorem GetOffsetBySymbol_in_segment_witness:
  "\<exists>off. GetOffsetBySymbol (\<lambda>_. Inr ([demo_prog], Some [demo_object, demo_function], Some []))
      ''/proc/7/exe'' ''f'' = Inr off \<and>
    unat off = 0x1100 \<and> 0x1000 \<le> off \<and> off < 0x3000 \<and> unat off < 0x2800"
proof -
  have "List.find (names_function ''f'') ([demo_object, demo_function] @ []) = Some demo_function"
    by (simp add: names_function_def demo_object_def demo_function_def ST_TYPE_def STT_FUNC_def)
  moreover have "List.find (loads (sym_value demo_function)) [demo_prog] = Some demo_prog"
    by (simp add: loads_def demo_prog_def demo_function_def PT_LOAD_def PF_X_def)
  ultimately show ?thesis
    using GetOffsetBySymbol_in_segment [of
        "\<lambda>_. Inr ([demo_prog], Some [demo_object, demo_function], Some [])"
        "''/proc/7/exe''" "[demo_prog]" "[demo_object, demo_function]" "[]" "''f''"
        demo_function demo_prog]
    by (simp add: demo_prog_def demo_function_def)
qed

end
