(* ===== verification/Record_Layout.thy ===== *)
theory Record_Layout
  imports Mysqld_Probe
begin

text \<open>
  The boundary between the kernel and the Go program: the memory layout of \<^verbatim>\<open>struct db_ctx\<close>
  and \<^verbatim>\<open>struct cluster\<close> under the C rules of x86-64, the Go structures
  \<^verbatim>\<open>BpfDbCtx\<close> and \<^verbatim>\<open>BpfCluster\<close> of \<^verbatim>\<open>internal/generate/types.go\<close>, and what
  \<^verbatim>\<open>BpfDbCtx.Print\<close> shows. A value crosses the boundary as bytes: the kernel side lays its
  fields out with alignment, the Go side reads them one after the other. The lemmas show that
  the two agree on every offset, so no field is shifted.
\<close>

subsection \<open>Layout rules\<close>

text \<open>A member: its name, the size of one element (also its alignment), the number of elements.\<close>

type_synonym member = "string \<times> nat \<times> nat"

definition align_up :: "nat \<Rightarrow> nat \<Rightarrow> nat" where
  "align_up n a = (n + a - 1) div a * a"

fun c_layout :: "nat \<Rightarrow> member list \<Rightarrow> (string \<times> nat) list" where
  "c_layout off [] = []"
| "c_layout off ((name, sz, count) # ms) =
     (name, align_up off sz) # c_layout (align_up off sz + sz * count) ms"

fun c_end :: "nat \<Rightarrow> member list \<Rightarrow> nat" where
  "c_end off [] = off"
| "c_end off ((name, sz, count) # ms) = c_end (align_up off sz + sz * count) ms"

definition c_align :: "member list \<Rightarrow> nat" where
  "c_align ms = foldr (\<lambda>(name, sz, count) a. max sz a) ms 1"

definition c_sizeof :: "member list \<Rightarrow> nat" where
  "c_sizeof ms = align_up (c_end 0 ms) (c_align ms)"

text \<open>The Go decoder reads the members without gaps.\<close>

fun packed_layout :: "nat \<Rightarrow> member list \<Rightarrow> (string \<times> nat) list" where
  "packed_layout off [] = []"
| "packed_layout off ((name, sz, count) # ms) = (name, off) # packed_layout (off + sz * count) ms"

definition packed_size :: "member list \<Rightarrow> nat" where
  "packed_size ms = sum_list (map (\<lambda>(name, sz, count). sz * count) ms)"

subsection \<open>The declarations\<close>

definition db_ctx_members :: "member list" where
  "db_ctx_members = [
    (''gtid'', 8, 1),
    (''cost_time'', 8, 1),
    (''thd_addr'', 8, 1),
    (''timestamp'', 8, 1),
    (''comm'', 1, MAX_COMM_LEN),
    (''cluster_name'', 1, MAX_CLUSTER_NAME_LEN),
    (''user'', 1, MAX_USER_LEN),
    (''priv_user'', 1, MAX_USER_LEN),
    (''host'', 1, MAX_HOST_LEN),
    (''ipaddr'', 1, MAX_IP_LEN),
    (''database'', 1, MAX_IP_LEN),
    (''thread_id'', 4, 1),
    (''query_id'', 8, 1),
    (''query_len'', 8, 1),
    (''query'', 1, MAX_QUERY_LEN),
    (''previous_found_rows'', 8, 1),
    (''current_found_rows'', 8, 1),
    (''affected_rows'', 8, 1),
    (''sent_row_count'', 8, 1),
    (''row_count_func'', 8, 1),
    (''sql_errno'', 4, 1),
    (''killed'', 4, 1),
    (''peer_port'', 2, 1),
    (''processed'', 1, 1)]"

definition cluster_members :: "member list" where
  "cluster_members = [(''cluster_name'', 1, 64), (''offsets'', 8, 32)]"

text \<open>The Go declarations; the anonymous last member of \<^verbatim>\<open>BpfDbCtx\<close> is padding.\<close>

definition BpfDbCtx_members :: "member list" where
  "BpfDbCtx_members = [
    (''Gtid'', 8, 1),
    (''CostTime'', 8, 1),
    (''ThdAddr'', 8, 1),
    (''Timestamp'', 8, 1),
    (''Comm'', 1, 16),
    (''ClusterName'', 1, 64),
    (''User'', 1, 32),
    (''PrivUser'', 1, 32),
    (''Host'', 1, 64),
    (''Ipaddr'', 1, 46),
    (''Database'', 1, 46),
    (''ThreadId'', 4, 1),
    (''QueryId'', 8, 1),
    (''QueryLen'', 8, 1),
    (''Query'', 1, 1024),
    (''PreviousFoundRows'', 8, 1),
    (''CurrentFoundRows'', 8, 1),
    (''AffectedRows'', 8, 1),
    (''SentRowCount'', 8, 1),
    (''RowCountFunc'', 8, 1),
    (''SqlErrno'', 4, 1),
    (''Killed'', 4, 1),
    (''PeerPort'', 2, 1),
    (''Processed'', 1, 1),
    (''_'', 1, 5)]"

definition BpfCluster_members :: "member list" where
  "BpfCluster_members = [(''ClusterName'', 1, 64), (''Offsets'', 8, 32)]"

text \<open>The names the generator of the Go declarations gives to the C members.\<close>

definition go_name :: "(string \<times> string) list" where
  "go_name = [
    (''gtid'', ''Gtid''), (''cost_time'', ''CostTime''),
    (''thd_addr'', ''ThdAddr''), (''timestamp'', ''Timestamp''),
    (''comm'', ''Comm''), (''cluster_name'', ''ClusterName''),
    (''user'', ''User''), (''priv_user'', ''PrivUser''),
    (''host'', ''Host''), (''ipaddr'', ''Ipaddr''),
    (''database'', ''Database''), (''thread_id'', ''ThreadId''),
    (''query_id'', ''QueryId''), (''query_len'', ''QueryLen''),
    (''query'', ''Query''), (''previous_found_rows'', ''PreviousFoundRows''),
    (''current_found_rows'', ''CurrentFoundRows''), (''affected_rows'', ''AffectedRows''),
    (''sent_row_count'', ''SentRowCount''), (''row_count_func'', ''RowCountFunc''),
    (''sql_errno'', ''SqlErrno''), (''killed'', ''Killed''),
    (''peer_port'', ''PeerPort''), (''processed'', ''Processed''),
    (''offsets'', ''Offsets'')]"

definition to_go :: "(string \<times> nat) list \<Rightarrow> (string \<times> nat) list" where
  "to_go l = map (\<lambda>(name, off). (the (map_of go_name name), off)) l"

subsection \<open>Values\<close>

record BpfDbCtx =
  Gtid :: u64
  CostTime :: u64
  ThdAddr :: u64
  Timestamp :: u64
  Comm :: "u8 list"
  ClusterName :: "u8 list"
  User :: "u8 list"
  PrivUser :: "u8 list"
  Host :: "u8 list"
  Ipaddr :: "u8 list"
  Database :: "u8 list"
  ThreadId :: u32
  QueryId :: u64
  QueryLen :: u64
  Query :: "u8 list"
  PreviousFoundRows :: u64
  CurrentFoundRows :: u64
  AffectedRows :: u64
  SentRowCount :: u64
  RowCountFunc :: u64
  SqlErrno :: u32
  Killed :: u32
  PeerPort :: u16
  Processed :: u8

record BpfCluster =
  BC_ClusterName :: "u8 list"
  BC_Offsets :: "u64 list"

text \<open>
  A structure in memory: the bytes of each member stand at its offset in the C layout. The
  bytes between two members and those after the last are padding; they hold what \<open>pad\<close> says
  for their position.
\<close>

definition gap :: "(nat \<Rightarrow> u8) \<Rightarrow> nat \<Rightarrow> nat \<Rightarrow> u8 list" where
  "gap pad from to = map pad [from..<to]"

fun c_bytes :: "(nat \<Rightarrow> u8) \<Rightarrow> (string \<Rightarrow> u8 list) \<Rightarrow> nat \<Rightarrow> member list \<Rightarrow> u8 list" where
  "c_bytes pad val off [] = []"
| "c_bytes pad val off ((name, sz, count) # ms) =
     gap pad off (align_up off sz) @ val name @
     c_bytes pad val (align_up off sz + sz * count) ms"

definition c_struct_bytes :: "(nat \<Rightarrow> u8) \<Rightarrow> (string \<Rightarrow> u8 list) \<Rightarrow> member list \<Rightarrow> u8 list" where
  "c_struct_bytes pad val ms = c_bytes pad val 0 ms @ gap pad (c_end 0 ms) (c_sizeof ms)"

text \<open>The bytes of the members of a record, by name.\<close>

definition db_ctx_values :: "db_ctx \<Rightarrow> (string \<times> u8 list) list" where
  "db_ctx_values c = [
     (''gtid'', le_bytes 8 (gtid c)),
     (''cost_time'', le_bytes 8 (cost_time c)),
     (''thd_addr'', le_bytes 8 (thd_addr c)),
     (''timestamp'', le_bytes 8 (timestamp c)),
     (''comm'', comm c),
     (''cluster_name'', cluster_name c),
     (''user'', user c),
     (''priv_user'', priv_user c),
     (''host'', host c),
     (''ipaddr'', ipaddr c),
     (''database'', database c),
     (''thread_id'', le_bytes 4 (thread_id c)),
     (''query_id'', le_bytes 8 (query_id c)),
     (''query_len'', le_bytes 8 (query_len c)),
     (''query'', query c),
     (''previous_found_rows'', le_bytes 8 (previous_found_rows c)),
     (''current_found_rows'', le_bytes 8 (current_found_rows c)),
     (''affected_rows'', le_bytes 8 (affected_rows c)),
     (''sent_row_count'', le_bytes 8 (sent_row_count c)),
     (''row_count_func'', le_bytes 8 (row_count_func c)),
     (''sql_errno'', le_bytes 4 (sql_errno c)),
     (''killed'', le_bytes 4 (killed c)),
     (''peer_port'', le_bytes 2 (peer_port c)),
     (''processed'', le_bytes 1 (processed c))]"

definition db_ctx_bytes :: "(nat \<Rightarrow> u8) \<Rightarrow> db_ctx \<Rightarrow> u8 list" where
  "db_ctx_bytes pad c =
     c_struct_bytes pad (\<lambda>name. the (map_of (db_ctx_values c) name)) db_ctx_members"

text \<open>
  Decoding into the Go structure: the members are taken off the front one after the other; a
  value of another size is an error.
\<close>

definition BpfDbCtx_of_bytes :: "u8 list \<Rightarrow> BpfDbCtx option" where
  "BpfDbCtx_of_bytes bs =
    (if length bs \<noteq> packed_size BpfDbCtx_members then None
     else let at = (\<lambda>name. the (map_of (packed_layout 0 BpfDbCtx_members) name));
              word = (\<lambda>n name. take n (drop (at name) bs))
       in Some \<lparr>
         Gtid = le_word (word 8 ''Gtid''),
         CostTime = le_word (word 8 ''CostTime''),
         ThdAddr = le_word (word 8 ''ThdAddr''),
         Timestamp = le_word (word 8 ''Timestamp''),
         Comm = word 16 ''Comm'',
         ClusterName = word 64 ''ClusterName'',
         User = word 32 ''User'',
         PrivUser = word 32 ''PrivUser'',
         Host = word 64 ''Host'',
         Ipaddr = word 46 ''Ipaddr'',
         Database = word 46 ''Database'',
         ThreadId = le_word (word 4 ''ThreadId''),
         QueryId = le_word (word 8 ''QueryId''),
         QueryLen = le_word (word 8 ''QueryLen''),
         Query = word 1024 ''Query'',
         PreviousFoundRows = le_word (word 8 ''PreviousFoundRows''),
         CurrentFoundRows = le_word (word 8 ''CurrentFoundRows''),
         AffectedRows = le_word (word 8 ''AffectedRows''),
         SentRowCount = le_word (word 8 ''SentRowCount''),
         RowCountFunc = le_word (word 8 ''RowCountFunc''),
         SqlErrno = le_word (word 4 ''SqlErrno''),
         Killed = le_word (word 4 ''Killed''),
         PeerPort = le_word (word 2 ''PeerPort''),
         Processed = le_word (word 1 ''Processed'')\<rparr>)"

text \<open>The Go structure with the values of a record.\<close>

definition go_db_ctx :: "db_ctx \<Rightarrow> BpfDbCtx" where
  "go_db_ctx c = \<lparr>
     Gtid = gtid c,
     CostTime = cost_time c,
     ThdAddr = thd_addr c,
     Timestamp = timestamp c,
     Comm = comm c,
     ClusterName = cluster_name c,
     User = user c,
     PrivUser = priv_user c,
     Host = host c,
     Ipaddr = ipaddr c,
     Database = database c,
     ThreadId = thread_id c,
     QueryId = query_id c,
     QueryLen = query_len c,
     Query = query c,
     PreviousFoundRows = previous_found_rows c,
     CurrentFoundRows = current_found_rows c,
     AffectedRows = affected_rows c,
     SentRowCount = sent_row_count c,
     RowCountFunc = row_count_func c,
     SqlErrno = sql_errno c,
     Killed = killed c,
     PeerPort = peer_port c,
     Processed = processed c\<rparr>"

text \<open>A cluster value on its way from Go into the map, and as the probe reads it.\<close>

definition BpfCluster_bytes :: "BpfCluster \<Rightarrow> u8 list" where
  "BpfCluster_bytes b = BC_ClusterName b @ concat (map (le_bytes 8) (BC_Offsets b))"

primrec words_of_bytes :: "nat \<Rightarrow> u8 list \<Rightarrow> u64 list" where
  "words_of_bytes 0 bs = []"
| "words_of_bytes (Suc n) bs = le_word (take 8 bs) # words_of_bytes n (drop 8 bs)"

definition cluster_of_bytes :: "u8 list \<Rightarrow> cluster" where
  "cluster_of_bytes bs =
     \<lparr>cl_cluster_name = take 64 bs,
      offsets = words_of_bytes 32 (drop (the (map_of (c_layout 0 cluster_members) ''offsets'')) bs)\<rparr>"

subsection \<open>Facts\<close>

lemmas layout_defs = db_ctx_members_def cluster_members_def BpfDbCtx_members_def
  BpfCluster_members_def align_up_def max_len_defs

lemma packed_BpfDbCtx:
  "packed_layout 0 BpfDbCtx_members =
    [(''Gtid'', 0), (''CostTime'', 8), (''ThdAddr'', 16), (''Timestamp'', 24), (''Comm'', 32),
     (''ClusterName'', 48), (''User'', 112), (''PrivUser'', 144), (''Host'', 176),
     (''Ipaddr'', 240), (''Database'', 286), (''ThreadId'', 332), (''QueryId'', 336),
     (''QueryLen'', 344), (''Query'', 352), (''PreviousFoundRows'', 1376),
     (''CurrentFoundRows'', 1384), (''AffectedRows'', 1392), (''SentRowCount'', 1400),
     (''RowCountFunc'', 1408), (''SqlErrno'', 1416), (''Killed'', 1420), (''PeerPort'', 1424),
     (''Processed'', 1426), (''_'', 1427)]"
  by (simp add: BpfDbCtx_members_def)

lemma packed_size_BpfDbCtx: "packed_size BpfDbCtx_members = 1432"
  by (simp add: packed_size_def BpfDbCtx_members_def)

text \<open>Where every member is aligned already, the C layout has no gaps, and is the packed one.\<close>

fun aligned :: "nat \<Rightarrow> member list \<Rightarrow> bool" where
  "aligned off [] = True"
| "aligned off ((name, sz, count) # ms) = (0 < sz \<and> sz dvd off \<and> aligned (off + sz * count) ms)"

lemma align_up_dvd: "0 < a \<Longrightarrow> a dvd n \<Longrightarrow> align_up n a = n"
proof -
  assume "0 < a" "a dvd n"
  then obtain k where "n = a * k" by (elim dvdE)
  with \<open>0 < a\<close> have "(n + a - 1) div a = k"
    by (intro div_nat_eqI) (auto simp: algebra_simps)
  with \<open>n = a * k\<close> show ?thesis by (simp add: align_up_def)
qed

lemma aligned_layout: "aligned off ms \<Longrightarrow> c_layout off ms = packed_layout off ms"
  by (induction off ms rule: aligned.induct) (simp_all add: align_up_dvd)

lemma aligned_end: "aligned off ms \<Longrightarrow> c_end off ms = off + packed_size ms"
  by (induction off ms rule: aligned.induct) (simp_all add: align_up_dvd packed_size_def)

lemma aligned_bytes:
  "aligned off ms \<Longrightarrow> c_bytes pad val off ms = concat (map (\<lambda>(name, sz, count). val name) ms)"
  by (induction off ms rule: aligned.induct) (simp_all add: align_up_dvd gap_def)

text \<open>Both structures are aligned as declared; the record has five bytes of padding at its end,
  which the Go structure declares as its last member.\<close>

lemma db_ctx_aligned: "aligned 0 db_ctx_members" "aligned 0 cluster_members"
  by (simp_all add: layout_defs)

lemma db_ctx_size: "packed_size db_ctx_members = 1427" "c_sizeof db_ctx_members = 1432"
  "c_end 0 db_ctx_members = 1427"
  using aligned_end [OF db_ctx_aligned(1)]
  by (simp_all add: c_sizeof_def c_align_def packed_size_def layout_defs)

lemma layouts_agree:
  "to_go (c_layout 0 db_ctx_members) @ [(''_'', c_end 0 db_ctx_members)] =
     packed_layout 0 BpfDbCtx_members"
  "c_sizeof db_ctx_members = packed_size BpfDbCtx_members"
  "to_go (c_layout 0 cluster_members) = packed_layout 0 BpfCluster_members"
  "c_sizeof cluster_members = packed_size BpfCluster_members"
  by (simp_all add: layout_defs c_sizeof_def c_align_def packed_size_def to_go_def go_name_def)

lemma db_ctx_bytes_eq:
  "db_ctx_bytes pad c = concat (map snd (db_ctx_values c)) @ map pad [1427..<1432]"
proof -
  have "map (\<lambda>(name, sz, count). the (map_of (db_ctx_values c) name)) db_ctx_members =
      map snd (db_ctx_values c)"
    by (simp add: db_ctx_members_def db_ctx_values_def)
  then show ?thesis
    by (simp add: db_ctx_bytes_def c_struct_bytes_def aligned_bytes [OF db_ctx_aligned(1)]
        db_ctx_size gap_def)
qed

lemma length_db_ctx_bytes:
  "db_ctx_ok c \<Longrightarrow> length (db_ctx_bytes pad c) = 1432"
  by (simp add: db_ctx_bytes_eq db_ctx_values_def db_ctx_ok_def max_len_defs)

lemma record_decodes:
  assumes "db_ctx_ok c"
  shows "BpfDbCtx_of_bytes (db_ctx_bytes pad c) = Some (go_db_ctx c)"
proof -
  have len: "length (comm c) = 16" "length (cluster_name c) = 64" "length (user c) = 32"
    "length (priv_user c) = 32" "length (host c) = 64" "length (ipaddr c) = 46"
    "length (database c) = 46" "length (query c) = 1024"
    using assms by (simp_all add: db_ctx_ok_def max_len_defs)
  show ?thesis
    using assms
    by (simp add: BpfDbCtx_of_bytes_def packed_size_BpfDbCtx length_db_ctx_bytes packed_BpfDbCtx)
       (simp add: db_ctx_bytes_eq db_ctx_values_def go_db_ctx_def len le_word_le_bytes)
qed

text \<open>C25: a record the probe queued arrives in the Go program unchanged: laid out by the rules
  of C, with whatever the padding holds, and decoded by the Go declaration, a well-formed
  record gives its values field by field.\<close>

theorem record_crosses_boundary:
  assumes "db_ctx_ok c"
  shows "BpfDbCtx_of_bytes (db_ctx_bytes pad c) = Some (go_db_ctx c)"
  using assms by (rule record_decodes)

definition demo_ctx :: db_ctx where
  "demo_ctx = \<lparr>gtid = 0x2A00000007, cost_time = 250, thd_addr = 0x1000, timestamp = 9,
     comm = replicate 16 1, cluster_name = replicate 64 2, user = replicate 32 3,
     priv_user = replicate 32 4, host = replicate 64 5, ipaddr = replicate 46 6,
     database = replicate 46 7, thread_id = 8, query_id = 9, query_len = 10,
     query = replicate 1024 11, previous_found_rows = 12, current_found_rows = 13,
     affected_rows = 14, sent_row_count = 15, row_count_func = 16, sql_errno = 17, killed = 18,
     peer_port = 19, processed = 0\<rparr>"

theorem record_crosses_boundary_witness:
  "BpfDbCtx_of_bytes (db_ctx_bytes of_nat demo_ctx) = Some (go_db_ctx demo_ctx)"
  by (rule record_crosses_boundary) (simp add: db_ctx_ok_def demo_ctx_def max_len_defs)

lemma words_of_bytes_concat:
  "words_of_bytes (length ws) (concat (map (le_bytes 8) ws) @ rest) = ws"
  by (induction ws) (simp_all add: le_word_le_bytes)

text \<open>C33: the value Go writes into the map of clusters, member after member, is the one the
  probe finds there at the C offsets of \<^verbatim>\<open>struct cluster\<close>: the name and all 32 offsets.\<close>

theorem cluster_crosses_boundary:
  assumes "length (BC_ClusterName b) = 64" "length (BC_Offsets b) = 32"
  shows "cluster_of_bytes (BpfCluster_bytes b) =
    \<lparr>cl_cluster_name = BC_ClusterName b, offsets = BC_Offsets b\<rparr>"
  using assms words_of_bytes_concat [of "BC_Offsets b" "[]"]
  by (simp add: cluster_of_bytes_def BpfCluster_bytes_def layout_defs)

theorem cluster_crosses_boundary_witness:
  "cluster_of_bytes (BpfCluster_bytes \<lparr>BC_ClusterName = replicate 64 0x61, BC_Offsets = replicate 32 8\<rparr>) =
    \<lparr>cl_cluster_name = replicate 64 0x61, offsets = replicate 32 8\<rparr>"
  using cluster_crosses_boundary [of "\<lparr>BC_ClusterName = replicate 64 0x61, BC_Offsets = replicate 32 8\<rparr>"]
  by simp

end
