(* ===== verification/Bpf_Runner.thy ===== *)
theory Bpf_Runner
  imports Go_Tools Record_Layout
begin

text \<open>
  \<^verbatim>\<open>internal/task/bpf_runner/mysql/mysql.go\<close> with the instances of
  \<^verbatim>\<open>internal/db/mysql/mysql.go\<close> and the programs of \<^verbatim>\<open>internal/bpf\<close>: how pods become
  entries of the map \<^verbatim>\<open>clusters\<close>. Three kinds of goroutines share the runner: the handler of
  the informer's pod events, the loop of \<^verbatim>\<open>Start\<close>, and one \<^verbatim>\<open>attach\<close> goroutine per
  attachment. They meet on two unbuffered channels and a mutex, so each waits where the code
  waits: a step of the runner is one uninterrupted stretch of one goroutine, and a step that
  cannot be taken is \<^const>\<open>None\<close>. The container runtime and \<^verbatim>\<open>/proc\<close> are arguments.
\<close>

subsection \<open>Instances and programs\<close>

record Instance =
  in_clusterName :: string
  in_pod :: string
  in_containerId :: string
  in_version :: string
  in_pid :: int

definition NewMySQLTask :: "string \<Rightarrow> Instance" where
  "NewMySQLTask ver = \<lparr>in_clusterName = '''', in_pod = '''', in_containerId = '''',
     in_version = ver, in_pid = 0\<rparr>"

definition WithClusterName :: "string \<Rightarrow> Instance \<Rightarrow> Instance" where
  "WithClusterName clusterName mt = mt\<lparr>in_clusterName := clusterName\<rparr>"

definition WithPod :: "string \<Rightarrow> Instance \<Rightarrow> Instance" where
  "WithPod pod mt = mt\<lparr>in_pod := pod\<rparr>"

definition WithContainerId :: "string \<Rightarrow> Instance \<Rightarrow> Instance" where
  "WithContainerId containerId mt = mt\<lparr>in_containerId := containerId\<rparr>"

definition WithPid :: "int \<Rightarrow> Instance \<Rightarrow> Instance" where
  "WithPid pid mt = mt\<lparr>in_pid := pid\<rparr>"

lemmas instance_builders = NewMySQLTask_def WithClusterName_def WithPod_def
  WithContainerId_def WithPid_def

definition GetId :: "Instance \<Rightarrow> string" where
  "GetId mt = in_version mt @ ''|'' @ in_containerId mt"

definition MySQLKind :: string where "MySQLKind = ''MySQL''"
definition PerconaServer5734 :: string where "PerconaServer5734 = ''percona-server:5.7.34''"

definition MysqlProperties :: "string \<Rightarrow> u64 list option" where
  "MysqlProperties = [PerconaServer5734 \<mapsto>
    [8432, 8368, 544, 5120, 3936, 4096, 3968, 4000, 5112, 7600, 7608, 12776, 7640, 7624, 12768, 8564,
     0, 0, 0, 0, 0, 0, 0, 0, 0, 0, 0, 0, 0, 0, 0, 0x867250]]"

text \<open>The two eBPF programs of a \<^verbatim>\<open>bpf.Program\<close> are handles the library gives out.\<close>

record Program =
  p_Attached :: bool
  p_Key :: string
  p_Kind :: string
  p_Version :: string
  p_Upp :: nat
  p_Urpp :: nat
  p_Properties :: "u64 list"

subsection \<open>Pods\<close>

record ContainerStatus =
  c_Ready :: bool
  c_Image :: string
  c_ContainerID :: string

record Pod =
  pod_Name :: string
  pod_Phase :: string
  pod_Labels :: "string \<Rightarrow> string option"
  pod_ContainerStatuses :: "ContainerStatus list"

subsection \<open>The runner\<close>

datatype loop_state =
    Selecting
  | Attaching Instance
  | Loop_Blocked go_error
  | Draining
  | Loop_Exited

text \<open>
  \<open>Draining\<close> is the wait of the deferred function for the \<^verbatim>\<open>attach\<close> goroutines, after
  which it closes both channels. A handler sends its error either holding the mutex (\<^verbatim>\<open>detachInstance\<close>) or without it.
\<close>

datatype handler_state =
    Handler_Ready
  | Adding Instance
  | Reporting bool go_error

datatype attach_state = Opening | Live | Failing go_error

datatype crash = Nil_Program | Slice_Panic | Send_On_Closed_Channel

record runner =
  Instances :: "string \<Rightarrow> Instance option"
  bpfPrograms :: "string \<Rightarrow> Program option"
  r_clusters :: "cluster bpf_hash"
  r_loop :: loop_state
  r_handler :: handler_state
  r_attach :: "(int \<times> string \<times> attach_state) list"
  r_log :: "go_error list"
  r_done :: bool
  r_crash :: "crash option"

definition NewFromManager :: "cluster bpf_hash \<Rightarrow> runner" where
  "NewFromManager m = \<lparr>Instances = Map.empty, bpfPrograms = Map.empty, r_clusters = m,
     r_loop = Selecting, r_handler = Handler_Ready, r_attach = [], r_log = [], r_done = False,
     r_crash = None\<rparr>"

definition WithBpfProgram :: "Program \<Rightarrow> runner \<Rightarrow> runner" where
  "WithBpfProgram p r = r\<lparr>bpfPrograms := (bpfPrograms r)(p_Version p \<mapsto> p)\<rparr>"

text \<open>The wait for the mutex: it is held by a reporting \<^verbatim>\<open>detachInstance\<close> or a blocked loop.\<close>

definition mu_free :: "runner \<Rightarrow> bool" where
  "mu_free r \<longleftrightarrow> (case r_loop r of Loop_Blocked err \<Rightarrow> False | _ \<Rightarrow> True) \<and>
     (case r_handler r of Reporting locked err \<Rightarrow> \<not> locked | _ \<Rightarrow> True)"

subsection \<open>Attaching and detaching\<close>

text \<open>
  \<open>refuse\<close> is a failure of the map update for a reason of the kernel's own. The send on
  \<^verbatim>\<open>internalErrChan\<close> has no receiver but the loop itself, which is the sender.
\<close>

definition attachInstance :: "bool \<Rightarrow> Instance \<Rightarrow> runner \<Rightarrow> runner" where
  "attachInstance refuse t r =
    (case bpfPrograms r (in_version t) of
       None \<Rightarrow> r\<lparr>r_crash := Some Nil_Program\<rparr>
     | Some bpfProgram \<Rightarrow>
        let cluster = \<lparr>BC_ClusterName = S264B (in_clusterName t),
              BC_Offsets = p_Properties bpfProgram\<rparr>;
            r = r\<lparr>Instances := (Instances r)(GetId t \<mapsto> t)\<rparr>
        in case bpf_map_update_elem clusters_max refuse (r_clusters r)
               (word_of_int (in_pid t)) (cluster_of_bytes (BpfCluster_bytes cluster)) BPF_ANY of
             (RC_ERR, m) \<Rightarrow> r\<lparr>r_clusters := m, r_loop := Loop_Blocked (Error ''update'')\<rparr>
           | (RC_OK, m) \<Rightarrow>
               let r = r\<lparr>r_clusters := m, r_loop := Selecting\<rparr>
               in if \<not> p_Attached bpfProgram
                  then r\<lparr>r_attach := r_attach r @ [(in_pid t, in_version t, Opening)]\<rparr>
                  else r)"

text \<open>The deferred function of \<^verbatim>\<open>Start\<close> has closed both channels: a send on them panics.\<close>

definition closed :: "runner \<Rightarrow> bool" where
  "closed r \<longleftrightarrow> r_loop r = Loop_Exited"

definition detachInstance :: "string \<Rightarrow> runner \<Rightarrow> runner" where
  "detachInstance iid r = (case Instances r iid of
       None \<Rightarrow> r
     | Some t \<Rightarrow>
        (case bpf_map_delete_elem (r_clusters r) (word_of_int (in_pid t)) of
           (RC_ERR, m) \<Rightarrow>
             (if closed r then r\<lparr>r_clusters := m, r_crash := Some Send_On_Closed_Channel\<rparr>
              else r\<lparr>r_clusters := m, r_handler := Reporting True (Error ''delete'')\<rparr>)
         | (RC_OK, m) \<Rightarrow> r\<lparr>r_clusters := m, Instances := (Instances r)(iid := None)\<rparr>))"

text \<open>
  The outcome of opening the executable and of the two attachments: an error of one of the
  three calls, or success, after which the goroutine waits for the end of the context.
\<close>

definition attach_outcome :: "nat \<Rightarrow> go_error option \<Rightarrow> runner \<Rightarrow> runner" where
  "attach_outcome i outcome r = (case r_attach r ! i of (pid, ver, st) \<Rightarrow>
     (case outcome of
        Some err \<Rightarrow> r\<lparr>r_attach := (r_attach r)[i := (pid, ver, Failing err)]\<rparr>
      | None \<Rightarrow> r\<lparr>r_attach := (r_attach r)[i := (pid, ver, Live)],
          bpfPrograms := (bpfPrograms r)(ver :=
            map_option (\<lambda>p. p\<lparr>p_Attached := True\<rparr>) (bpfPrograms r ver))\<rparr>))"

subsection \<open>Pod events\<close>

fun strings_Contains :: "string \<Rightarrow> string \<Rightarrow> bool" where
  "strings_Contains [] sub = (sub = [])"
| "strings_Contains (c # s) sub = (take (length sub) (c # s) = sub \<or> strings_Contains s sub)"

definition mysql_image :: "string \<Rightarrow> bool" where
  "mysql_image img \<longleftrightarrow> strings_Contains img ''percona'' \<or> strings_Contains img ''mysql''"

definition label_managed_by :: string where
  "label_managed_by = ''app.kubernetes.io/managed-by''"
definition label_instance :: string where
  "label_instance = ''app.kubernetes.io/instance''"

datatype handler_result =
    No_Action
  | Add_Instance Instance
  | Send_Error go_error
  | Delete_Id string
  | Panic crash

text \<open>The loop of \<^verbatim>\<open>onPodUpdate\<close> over the containers of a pod.\<close>

fun update_containers ::
  "(string \<Rightarrow> go_error + int) \<Rightarrow> (int \<Rightarrow> go_error + string) \<Rightarrow> runner \<Rightarrow> Pod \<Rightarrow>
    ContainerStatus list \<Rightarrow> handler_result" where
  "update_containers cri children r pod [] = No_Action"
| "update_containers cri children r pod (c # rest) =
    (if \<not> c_Ready c then update_containers cri children r pod rest
     else if \<not> mysql_image (c_Image c) then update_containers cri children r pod rest
     else let imageId = ParseImage (c_Image c) in
       (case ParseContainerId (c_ContainerID c) of
          Inl err \<Rightarrow> Panic Slice_Panic
        | Inr containerId \<Rightarrow>
           let iid = imageId @ ''|'' @ containerId in
           if bpfPrograms r imageId = None then update_containers cri children r pod rest
           else if Instances r iid \<noteq> None then update_containers cri children r pod rest
           else (case cri containerId of
                Inl err \<Rightarrow> Send_Error err
              | Inr pid \<Rightarrow>
                 (case GetChildPid children pid of
                    Inl err \<Rightarrow> Send_Error err
                  | Inr pid \<Rightarrow>
                     let mt = WithClusterName (case pod_Labels pod label_instance of
                                  None \<Rightarrow> '''' | Some name \<Rightarrow> name) (NewMySQLTask imageId);
                         mt = WithPod (pod_Name pod) mt;
                         mt = WithContainerId containerId mt;
                         mt = WithPid pid mt
                     in Add_Instance mt))))"

definition onPodUpdate ::
  "(string \<Rightarrow> go_error + int) \<Rightarrow> (int \<Rightarrow> go_error + string) \<Rightarrow> runner \<Rightarrow> Pod \<Rightarrow>
    handler_result" where
  "onPodUpdate cri children r pod =
     (if pod_Phase pod \<noteq> ''Running'' then No_Action
      else if pod_Labels pod label_managed_by \<noteq> Some ''mysql.radondb.com'' then No_Action
      else update_containers cri children r pod (pod_ContainerStatuses pod))"

text \<open>The loop of \<^verbatim>\<open>onPodDelete\<close>.\<close>

fun delete_containers :: "runner \<Rightarrow> ContainerStatus list \<Rightarrow> handler_result" where
  "delete_containers r [] = No_Action"
| "delete_containers r (c # rest) =
    (if \<not> mysql_image (c_Image c) then delete_containers r rest
     else let imageId = ParseImage (c_Image c) in
       (case ParseContainerId (c_ContainerID c) of
          Inl err \<Rightarrow> Panic Slice_Panic
        | Inr containerId \<Rightarrow>
           let iid = imageId @ ''|'' @ containerId in
           if bpfPrograms r imageId = None then delete_containers r rest
           else if Instances r iid = None then delete_containers r rest
           else Delete_Id iid))"

definition onPodDelete :: "runner \<Rightarrow> Pod \<Rightarrow> handler_result" where
  "onPodDelete r pod = delete_containers r (pod_ContainerStatuses pod)"

text \<open>What a handler does next: \<^verbatim>\<open>r.Add\<close>, the send of an error, \<^verbatim>\<open>r.Delete\<close>, or a panic.\<close>

definition handle :: "handler_result \<Rightarrow> runner \<Rightarrow> runner option" where
  "handle res r = (case res of
     No_Action \<Rightarrow> Some r
   | Add_Instance t \<Rightarrow> Some (if closed r then r\<lparr>r_crash := Some Send_On_Closed_Channel\<rparr>
       else r\<lparr>r_handler := Adding t\<rparr>)
   | Send_Error err \<Rightarrow> Some (if closed r then r\<lparr>r_crash := Some Send_On_Closed_Channel\<rparr>
       else r\<lparr>r_handler := Reporting False err\<rparr>)
   | Delete_Id iid \<Rightarrow> (if mu_free r then Some (detachInstance iid r) else None)
   | Panic e \<Rightarrow> Some (r\<lparr>r_crash := Some e\<rparr>))"

subsection \<open>Steps\<close>

text \<open>
  The handler events are delivered one after the other. \<^verbatim>\<open>Receive\<close> hands an instance to the
  loop, \<open>Lock_And_Attach\<close> is the rest of that iteration; \<open>Log_Handler\<close> and \<open>Log_Attach\<close>
  are the loop's other receive. \<open>Context_Done\<close> is the end of the context, which the loop
  and the goroutines notice in \<open>Loop_Stop\<close> and \<open>End_Attach\<close>; \<open>Close_Channels\<close> follows
  when all of them have ended. A send that is still waiting then panics, and so does every
  later one, that of a failed removal included.
\<close>

datatype runner_event =
    Pod_Update "string \<Rightarrow> go_error + int" "int \<Rightarrow> go_error + string" Pod
  | Pod_Delete Pod
  | Receive
  | Lock_And_Attach bool
  | Log_Handler
  | Attach_Outcome nat "go_error option"
  | Log_Attach nat
  | Context_Done
  | Loop_Stop
  | End_Attach nat
  | Close_Channels

definition drop_nth :: "nat \<Rightarrow> 'a list \<Rightarrow> 'a list" where
  "drop_nth i xs = take i xs @ drop (Suc i) xs"

fun runner_step :: "runner \<Rightarrow> runner_event \<Rightarrow> runner option" where
  "runner_step r (Pod_Update cri children pod) =
     (if r_crash r = None \<and> r_handler r = Handler_Ready
      then handle (onPodUpdate cri children r pod) r else None)"
| "runner_step r (Pod_Delete pod) =
     (if r_crash r = None \<and> r_handler r = Handler_Ready
      then handle (onPodDelete r pod) r else None)"
| "runner_step r Receive = (case (r_crash r, r_loop r, r_handler r) of
       (None, Selecting, Adding t) \<Rightarrow> Some (r\<lparr>r_loop := Attaching t, r_handler := Handler_Ready\<rparr>)
     | _ \<Rightarrow> None)"
| "runner_step r (Lock_And_Attach refuse) = (case (r_crash r, r_loop r) of
       (None, Attaching t) \<Rightarrow> (if mu_free r then Some (attachInstance refuse t r) else None)
     | _ \<Rightarrow> None)"
| "runner_step r Log_Handler = (case (r_crash r, r_loop r, r_handler r) of
       (None, Selecting, Reporting locked err) \<Rightarrow>
          Some (r\<lparr>r_handler := Handler_Ready, r_log := r_log r @ [err]\<rparr>)
     | _ \<Rightarrow> None)"
| "runner_step r (Attach_Outcome i outcome) =
     (if r_crash r = None \<and> i < length (r_attach r) \<and> snd (snd (r_attach r ! i)) = Opening
      then Some (attach_outcome i outcome r) else None)"
| "runner_step r (Log_Attach i) =
     (if r_crash r = None \<and> r_loop r = Selecting \<and> i < length (r_attach r)
      then (case r_attach r ! i of
          (pid, ver, Failing err) \<Rightarrow>
            Some (r\<lparr>r_attach := drop_nth i (r_attach r),
                    r_log := r_log r @ [err]\<rparr>)
        | _ \<Rightarrow> None)
      else None)"
| "runner_step r Context_Done =
     (if r_crash r = None \<and> \<not> r_done r then Some (r\<lparr>r_done := True\<rparr>) else None)"
| "runner_step r Loop_Stop =
     (if r_crash r = None \<and> r_done r \<and> r_loop r = Selecting then Some (r\<lparr>r_loop := Draining\<rparr>)
      else None)"
| "runner_step r (End_Attach i) =
     (if r_crash r = None \<and> r_done r \<and> i < length (r_attach r) \<and> snd (snd (r_attach r ! i)) = Live
      then Some (r\<lparr>r_attach := drop_nth i (r_attach r)\<rparr>) else None)"
| "runner_step r Close_Channels =
     (if r_crash r = None \<and> r_loop r = Draining \<and> r_attach r = []
      then Some (if r_handler r = Handler_Ready then r\<lparr>r_loop := Loop_Exited\<rparr>
                 else r\<lparr>r_loop := Loop_Exited, r_crash := Some Send_On_Closed_Channel\<rparr>)
      else None)"

end
