(* ===== verification/Machine.thy ===== *)
theory Machine
  imports Main
begin

text \<open>
  Executions of a component whose goroutines interleave: a step function that says, for each
  event, the state after it, or \<^const>\<open>None\<close> where the event cannot happen, because a channel
  has no partner or a lock is held. A run is a list of events that all can happen. The locale
  carries an invariant from the steps to the runs; a measure that every step of a kind lowers
  bounds the runs of that kind.
\<close>

fun run_steps :: "('s \<Rightarrow> 'e \<Rightarrow> 's option) \<Rightarrow> 's \<Rightarrow> 'e list \<Rightarrow> 's option" where
  "run_steps step s [] = Some s"
| "run_steps step s (e # es) = (case step s e of None \<Rightarrow> None | Some s' \<Rightarrow> run_steps step s' es)"

lemma run_steps_append:
  "run_steps step s (xs @ ys) =
     (case run_steps step s xs of None \<Rightarrow> None | Some s' \<Rightarrow> run_steps step s' ys)"
  by (induction xs arbitrary: s) (simp_all split: option.split)

lemma run_steps_ConsE:
  assumes "run_steps step s (e # es) = Some s'"
  obtains s1 where "step s e = Some s1" "run_steps step s1 es = Some s'"
  using assms by (auto split: option.splits)

locale machine_invariant =
  fixes step :: "'s \<Rightarrow> 'e \<Rightarrow> 's option"
    and inv :: "'s \<Rightarrow> bool"
    and event_ok :: "'e \<Rightarrow> bool"
  assumes inv_step: "inv s \<Longrightarrow> event_ok e \<Longrightarrow> step s e = Some s' \<Longrightarrow> inv s'"
begin

lemma inv_run:
  "inv s \<Longrightarrow> list_all event_ok es \<Longrightarrow> run_steps step s es = Some s' \<Longrightarrow> inv s'"
proof (induction es arbitrary: s)
  case Nil
  then show ?case by simp
next
  case (Cons e es)
  from Cons.prems(3) obtain s1 where "step s e = Some s1" "run_steps step s1 es = Some s'"
    by (rule run_steps_ConsE)
  with Cons inv_step [of s e s1] show ?case by simp
qed

end

text \<open>
  A machine that makes progress on its own: as long as it is not finished, some event of its
  own can happen, and each such event lowers a measure.
\<close>

locale progressing_machine = machine_invariant +
  fixes meas :: "'s \<Rightarrow> nat"
    and finished :: "'s \<Rightarrow> bool"
  assumes lowers: "inv s \<Longrightarrow> event_ok e \<Longrightarrow> step s e = Some s' \<Longrightarrow> meas s' < meas s"
    and enabled: "inv s \<Longrightarrow> \<not> finished s \<Longrightarrow> \<exists>e s'. event_ok e \<and> step s e = Some s'"
begin

lemma run_bounded:
  "inv s \<Longrightarrow> list_all event_ok es \<Longrightarrow> run_steps step s es = Some s' \<Longrightarrow>
     length es + meas s' \<le> meas s"
proof (induction es arbitrary: s)
  case Nil
  then show ?case by simp
next
  case (Cons e es)
  from Cons.prems(3) obtain s1 where s1: "step s e = Some s1" "run_steps step s1 es = Some s'"
    by (rule run_steps_ConsE)
  with Cons.prems have "meas s1 < meas s" "inv s1"
    using lowers [of s e s1] inv_step [of s e s1] by simp_all
  with Cons.IH [of s1] Cons.prems(2) s1(2) show ?case by simp
qed

lemma reaches_finished:
  assumes "inv s"
  shows "\<exists>es s'. list_all event_ok es \<and> run_steps step s es = Some s' \<and> finished s'"
  using assms
proof (induction "meas s" arbitrary: s rule: less_induct)
  case less
  show ?case
  proof (cases "finished s")
    case True
    then show ?thesis by (intro exI [of _ "[]"]) simp
  next
    case False
    with less.prems obtain e s1 where e: "event_ok e" "step s e = Some s1"
      using enabled by blast
    with less.prems less.hyps [of s1] obtain es s' where
      "list_all event_ok es" "run_steps step s1 es = Some s'" "finished s'"
      using lowers inv_step by blast
    with e show ?thesis by (intro exI [of _ "e # es"]) auto
  qed
qed

text \<open>Every run that cannot be continued has finished.\<close>

lemma stuck_finished:
  assumes "inv s" "list_all event_ok es" "run_steps step s es = Some s'"
    and "\<And>e. event_ok e \<Longrightarrow> step s' e = None"
  shows "finished s'"
  using assms inv_run enabled by (metis option.distinct(1))

end

end
