(* ===== verification/Runner_Runs.thy ===== *)
theory Runner_Runs
  imports Bpf_Runner Machine
begin

text \<open>
  Executions of the runner of theory \<open>Bpf_Runner\<close>: its invariant, the life of a server from
  the pod event to the entry the probes look up and back, and the two ways in which the three
  goroutines stop each other.
\<close>

subsection \<open>Runs\<close>

abbreviation runner_run :: "runner \<Rightarrow> runner_event list \<Rightarrow> runner option" where
  "runner_run \<equiv> run_steps runner_step"

definition has_program :: "runner \<Rightarrow> string \<Rightarrow> bool" where
  "has_program r ver \<longleftrightarrow> bpfPrograms r ver \<noteq> None"

definition runner_ok :: "runner \<Rightarrow> bool" where
  "runner_ok r \<longleftrightarrow>
     (\<forall>iid t. Instances r iid = Some t \<longrightarrow> iid = GetId t \<and> has_program r (in_version t)) \<and>
     (\<forall>t. r_loop r = Attaching t \<longrightarrow> has_program r (in_version t)) \<and>
     (\<forall>t. r_handler r = Adding t \<longrightarrow> has_program r (in_version t)) \<and>
     hash_ok clusters_max (r_clusters r) \<and> r_crash r \<noteq> Some Nil_Program"

lemma runner_okI:
  assumes "\<And>iid t. Instances r iid = Some t \<Longrightarrow> iid = GetId t \<and> has_program r (in_version t)"
    "\<And>t. r_loop r = Attaching t \<Longrightarrow> has_program r (in_version t)"
    "\<And>t. r_handler r = Adding t \<Longrightarrow> has_program r (in_version t)"
    "hash_ok clusters_max (r_clusters r)" "r_crash r \<noteq> Some Nil_Program"
  shows "runner_ok r"
  using assms by (simp add: runner_ok_def)

lemma runner_okD:
  assumes "runner_ok r"
  shows "Instances r iid = Some t \<Longrightarrow> iid = GetId t" "Instances r iid = Some t \<Longrightarrow> has_program r (in_version t)"
    "r_loop r = Attaching t \<Longrightarrow> has_program r (in_version t)"
    "r_handler r = Adding t \<Longrightarrow> has_program r (in_version t)"
    "hash_ok clusters_max (r_clusters r)" "r_crash r \<noteq> Some Nil_Program"
  using assms by (auto simp: runner_ok_def)

subsection \<open>What the handlers select\<close>

lemma GetId_built:
  "GetId (WithPid pid (WithContainerId cid (WithPod pod (WithClusterName name (NewMySQLTask ver))))) =
     ver @ ''|'' @ cid"
  by (simp add: GetId_def instance_builders)

text \<open>The container an update selects.\<close>

definition selected :: "runner \<Rightarrow> ContainerStatus \<Rightarrow> string \<Rightarrow> bool" where
  "selected r c cid \<longleftrightarrow> c_Ready c \<and> mysql_image (c_Image c) \<and>
     ParseContainerId (c_ContainerID c) = Inr cid \<and> has_program r (ParseImage (c_Image c)) \<and>
     Instances r (ParseImage (c_Image c) @ ''|'' @ cid) = None"

lemma update_containers_Add:
  "update_containers cri children r pod cs' = Add_Instance t \<Longrightarrow>
    \<exists>c \<in> set cs'. selected r c (in_containerId t) \<and> in_version t = ParseImage (c_Image c) \<and>
      (\<exists>p. cri (in_containerId t) = Inr p \<and> GetChildPid children p = Inr (in_pid t)) \<and>
      in_pod t = pod_Name pod \<and>
      in_clusterName t = (case pod_Labels pod label_instance of None \<Rightarrow> '''' | Some name \<Rightarrow> name)"
proof (induction cs')
  case Nil
  then show ?case by simp
next
  case (Cons c rest)
  show ?case
  proof (cases "update_containers cri children r pod (c # rest) = update_containers cri children r pod rest")
    case True
    with Cons show ?thesis by auto
  next
    case False
    with Cons.prems obtain cid where "selected r c cid"
      by (auto simp: selected_def has_program_def Let_def split: if_splits sum.splits)
    with Cons.prems show ?thesis
      by (auto simp: selected_def has_program_def Let_def instance_builders split: if_splits sum.splits)
  qed
qed

lemma delete_containers_Delete:
  "delete_containers r cs' = Delete_Id iid \<Longrightarrow> Instances r iid \<noteq> None"
  by (induction cs') (auto simp: Let_def split: if_splits sum.splits)

lemma update_no_nil: "update_containers cri children r pod cs' \<noteq> Panic Nil_Program"
  by (induction cs') (auto simp: Let_def split: if_splits sum.splits)

lemma update_no_delete: "update_containers cri children r pod cs' \<noteq> Delete_Id iid"
  by (induction cs') (auto simp: Let_def split: if_splits sum.splits)

lemma delete_result:
  "delete_containers r cs' \<in> {No_Action, Panic Slice_Panic} \<union> range Delete_Id"
  by (induction cs') (auto simp: Let_def split: if_splits sum.splits)

subsection \<open>The invariant\<close>

lemma attachInstance_ok:
  assumes ok: "runner_ok r" and t: "r_loop r = Attaching t"
  shows "runner_ok (attachInstance refuse t r)"
proof -
  have prog: "has_program r (in_version t)" using ok t by (rule runner_okD)
  then obtain p where p: "bpfPrograms r (in_version t) = Some p" by (auto simp: has_program_def)
  let ?v = "cluster_of_bytes (BpfCluster_bytes
      \<lparr>BC_ClusterName = S264B (in_clusterName t), BC_Offsets = p_Properties p\<rparr>)"
  obtain rc m where u: "bpf_map_update_elem clusters_max refuse (r_clusters r)
      (word_of_int (in_pid t)) ?v BPF_ANY = (rc, m)" by (cases "bpf_map_update_elem clusters_max refuse (r_clusters r)
      (word_of_int (in_pid t)) ?v BPF_ANY")
  have "hash_ok clusters_max m"
    using hash_update_ok [OF runner_okD(5) [OF ok], of refuse "word_of_int (in_pid t)" ?v BPF_ANY] u
    by simp
  with ok p prog u show ?thesis
    by (cases rc) (auto simp: runner_ok_def attachInstance_def has_program_def Let_def)
qed

lemma detachInstance_ok:
  assumes ok: "runner_ok r"
  shows "runner_ok (detachInstance iid r)"
proof (cases "Instances r iid")
  case None
  with ok show ?thesis by (simp add: detachInstance_def)
next
  case (Some t)
  obtain rc m where d: "bpf_map_delete_elem (r_clusters r) (word_of_int (in_pid t)) = (rc, m)"
    by (cases "bpf_map_delete_elem (r_clusters r) (word_of_int (in_pid t))")
  have "hash_ok clusters_max m"
    using hash_delete_ok [OF runner_okD(5) [OF ok], of "word_of_int (in_pid t)"] d by simp
  with ok Some d show ?thesis
    by (cases rc) (auto simp: runner_ok_def detachInstance_def has_program_def)
qed

lemma attach_outcome_ok: "runner_ok r \<Longrightarrow> runner_ok (attach_outcome i outcome r)"
  by (auto simp: runner_ok_def attach_outcome_def has_program_def split: prod.split option.split)

lemma handle_ok:
  assumes ok: "runner_ok r" and "handle res r = Some r'" "res \<noteq> Panic Nil_Program"
    and "\<And>t. res = Add_Instance t \<Longrightarrow> has_program r (in_version t)"
  shows "runner_ok r'"
proof (cases res)
  case (Delete_Id iid)
  with assms(2) detachInstance_ok [OF ok] show ?thesis
    by (auto simp: handle_def split: if_splits)
qed (use assms in \<open>auto simp: handle_def runner_ok_def has_program_def split: if_splits\<close>)

lemma runner_step_ok:
  assumes ok: "runner_ok r" and step: "runner_step r ev = Some r'"
  shows "runner_ok r'"
proof (cases ev)
  case (Pod_Update cri children pod)
  let ?res = "onPodUpdate cri children r pod"
  have "handle ?res r = Some r'" using step Pod_Update by (simp split: if_splits)
  then show ?thesis
  proof (rule handle_ok [OF ok])
    show "?res \<noteq> Panic Nil_Program" by (simp add: onPodUpdate_def update_no_nil)
    show "has_program r (in_version t)" if "?res = Add_Instance t" for t
      using that update_containers_Add [of cri children r pod "pod_ContainerStatuses pod" t]
      by (auto simp: onPodUpdate_def selected_def split: if_splits)
  qed
next
  case (Pod_Delete pod)
  have "handle (onPodDelete r pod) r = Some r'" using step Pod_Delete by (simp split: if_splits)
  then show ?thesis
    using delete_result [of r "pod_ContainerStatuses pod"]
    by (intro handle_ok [OF ok]) (auto simp: onPodDelete_def)
next
  case Receive
  with step ok show ?thesis
    by (auto simp: runner_ok_def has_program_def split: option.splits loop_state.splits handler_state.splits)
next
  case (Lock_And_Attach refuse)
  with step obtain t where "r_loop r = Attaching t" "r' = attachInstance refuse t r"
    by (auto split: option.splits loop_state.splits if_splits)
  with attachInstance_ok [OF ok] show ?thesis by simp
next
  case (Attach_Outcome i outcome)
  with step attach_outcome_ok [OF ok] show ?thesis by (auto split: if_splits)
qed (use step ok in \<open>auto simp: runner_ok_def has_program_def
       split: option.splits loop_state.splits handler_state.splits attach_state.splits prod.splits if_splits\<close>)

interpretation runner: machine_invariant runner_step runner_ok "\<lambda>ev. True"
  by unfold_locales (rule runner_step_ok)

lemma runner_run_ok: "runner_ok r \<Longrightarrow> runner_run r evs = Some r' \<Longrightarrow> runner_ok r'"
  by (rule runner.inv_run) (simp_all add: list_all_iff)

lemma start_ok: "runner_ok (WithBpfProgram p (NewFromManager []))"
  by (rule runner_okI) (simp_all add: WithBpfProgram_def NewFromManager_def hash_ok_def)

text \<open>C29: whatever pods come and go and however the goroutines interleave, every registered
  instance is found under its own identifier and has a program, so the runner never follows a
  missing program, and the map of clusters keeps its bound.\<close>

theorem runner_invariant:
  assumes "runner_run (WithBpfProgram p (NewFromManager [])) evs = Some r"
  shows "(\<forall>iid t. Instances r iid = Some t \<longrightarrow> iid = GetId t \<and> bpfPrograms r (in_version t) \<noteq> None) \<and>
    (\<forall>t. r_loop r = Attaching t \<longrightarrow> bpfPrograms r (in_version t) \<noteq> None) \<and>
    r_crash r \<noteq> Some Nil_Program \<and> distinct (map fst (r_clusters r)) \<and> length (r_clusters r) \<le> 1024"
proof -
  have ok: "runner_ok r" using start_ok assms by (rule runner_run_ok)
  then show ?thesis
    using runner_okD(5) [OF ok]
    by (auto simp: runner_ok_def has_program_def hash_ok_def clusters_max_def)
qed

subsection \<open>The life of a server\<close>

text \<open>C30: only a ready container of a supported image and version is attached, in a running pod
  of the operator, and never one that is already registered; the instance carries the
  identifiers of the pod and the process the runtime names.\<close>

theorem onPodUpdate_selects:
  assumes "onPodUpdate cri children r pod = Add_Instance t"
  shows "pod_Phase pod = ''Running'' \<and> pod_Labels pod label_managed_by = Some ''mysql.radondb.com'' \<and>
    Instances r (GetId t) = None \<and> bpfPrograms r (in_version t) \<noteq> None \<and> in_pod t = pod_Name pod \<and>
    (\<exists>c \<in> set (pod_ContainerStatuses pod). c_Ready c \<and> mysql_image (c_Image c) \<and>
      in_version t = ParseImage (c_Image c) \<and>
      ParseContainerId (c_ContainerID c) = Inr (in_containerId t)) \<and>
    (\<exists>p. cri (in_containerId t) = Inr p \<and> GetChildPid children p = Inr (in_pid t))"
proof -
  from assms have "pod_Phase pod = ''Running''" "pod_Labels pod label_managed_by = Some ''mysql.radondb.com''"
    "update_containers cri children r pod (pod_ContainerStatuses pod) = Add_Instance t"
    by (simp_all add: onPodUpdate_def split: if_splits)
  with update_containers_Add [OF this(3)] show ?thesis
    by (auto simp: selected_def GetId_def has_program_def)
qed

text \<open>The value the probes find for a server.\<close>

definition registered :: "runner \<Rightarrow> Instance \<Rightarrow> cluster" where
  "registered r t = \<lparr>cl_cluster_name = S264B (in_clusterName t),
     offsets = p_Properties (the (bpfPrograms r (in_version t)))\<rparr>"

definition room_for :: "runner \<Rightarrow> Instance \<Rightarrow> bool" where
  "room_for r t \<longleftrightarrow> bpf_map_lookup_elem (r_clusters r) (word_of_int (in_pid t)) \<noteq> None \<or>
     length (r_clusters r) < clusters_max"

lemma cluster_value:
  "length props = 32 \<Longrightarrow> cluster_of_bytes (BpfCluster_bytes
     \<lparr>BC_ClusterName = S264B name, BC_Offsets = props\<rparr>) =
     \<lparr>cl_cluster_name = S264B name, offsets = props\<rparr>"
  using words_of_bytes_concat [of props "[]"]
  by (simp add: cluster_of_bytes_def BpfCluster_bytes_def layout_defs)

lemma attachInstance_registers:
  assumes p: "bpfPrograms r (in_version t) = Some p" "length (p_Properties p) = 32"
    and room: "room_for r t" and loop: "r_loop r = Attaching t"
  defines "r' \<equiv> attachInstance False t r"
  shows "r_loop r' = Selecting" "r_handler r' = r_handler r" "r_crash r' = r_crash r"
    "Instances r' = (Instances r)(GetId t \<mapsto> t)" "bpfPrograms r' = bpfPrograms r"
    "bpf_map_lookup_elem (r_clusters r') =
      (bpf_map_lookup_elem (r_clusters r))(word_of_int (in_pid t) \<mapsto> registered r t)"
    "r_attach r' = r_attach r @ (if p_Attached p then [] else [(in_pid t, in_version t, Opening)])"
proof -
  let ?k = "word_of_int (in_pid t)" and ?v = "registered r t"
  have val: "cluster_of_bytes (BpfCluster_bytes
      \<lparr>BC_ClusterName = S264B (in_clusterName t), BC_Offsets = p_Properties p\<rparr>) = ?v"
    using p by (simp add: cluster_value registered_def)
  obtain rc m where u: "bpf_map_update_elem clusters_max False (r_clusters r) ?k ?v BPF_ANY = (rc, m)"
    by (cases "bpf_map_update_elem clusters_max False (r_clusters r) ?k ?v BPF_ANY")
  have rc: "rc = RC_OK"
    using hash_sure.update_ANY [of "r_clusters r" ?k clusters_max ?v] room u by (simp add: room_for_def)
  have m: "bpf_map_lookup_elem m = (bpf_map_lookup_elem (r_clusters r))(?k \<mapsto> ?v)"
    using hash_sure.lookup_update_ANY [of "r_clusters r" ?k clusters_max ?v] room u
    by (simp add: room_for_def)
  show "r_loop r' = Selecting" "r_handler r' = r_handler r" "r_crash r' = r_crash r"
    "Instances r' = (Instances r)(GetId t \<mapsto> t)" "bpfPrograms r' = bpfPrograms r"
    "bpf_map_lookup_elem (r_clusters r') = (bpf_map_lookup_elem (r_clusters r))(?k \<mapsto> ?v)"
    "r_attach r' = r_attach r @ (if p_Attached p then [] else [(in_pid t, in_version t, Opening)])"
    using p u rc m by (simp_all add: r'_def attachInstance_def val Let_def)
qed

lemma detachInstance_removes:
  assumes "Instances r iid = Some t"
    and "bpf_map_lookup_elem (r_clusters r) (word_of_int (in_pid t)) \<noteq> None"
  shows "detachInstance iid r =
    r\<lparr>r_clusters := snd (bpf_map_delete_elem (r_clusters r) (word_of_int (in_pid t))),
      Instances := (Instances r)(iid := None)\<rparr>"
  using assms by (auto simp: detachInstance_def bpf_map_delete_elem_def bpf_map_lookup_elem_def)

lemma add_run:
  assumes idle: "r_crash r = None" "r_loop r = Selecting" "r_handler r = Handler_Ready"
    and add: "onPodUpdate cri children r pod = Add_Instance t"
  shows "runner_run r [Pod_Update cri children pod, Receive, Lock_And_Attach refuse] =
    Some (attachInstance refuse t (r\<lparr>r_loop := Attaching t, r_handler := Handler_Ready\<rparr>))"
  using idle by (simp add: add handle_def closed_def mu_free_def)

text \<open>C10: the way of a server from its pod to the probes. In an idle runner whose map has room,
  the update event leads in three steps to an entry under the process number, as a 32-bit key,
  with the name of the cluster in 64 bytes and the offsets of the server's version; the
  goroutine that attaches the probes is started exactly if they are not attached yet. When the
  pod, of one container, is deleted, the entry and the instance are gone again and all others are as before.\<close>

theorem pod_lifecycle:
  assumes "r_crash r = None" "r_loop r = Selecting" "r_handler r = Handler_Ready"
    and "onPodUpdate cri children r pod = Add_Instance t"
    and "bpfPrograms r (in_version t) = Some p" "length (p_Properties p) = 32" "room_for r t"
    and "bpf_map_lookup_elem (r_clusters r) (word_of_int (in_pid t)) = None"
    and "pod_ContainerStatuses pod = [c]" "pod_ContainerStatuses pod' = [c]"
  shows "\<exists>r1 r2. runner_run r [Pod_Update cri children pod, Receive, Lock_And_Attach False] = Some r1 \<and>
    bpf_map_lookup_elem (r_clusters r1) (word_of_int (in_pid t)) =
      Some \<lparr>cl_cluster_name = S264B (in_clusterName t), offsets = p_Properties p\<rparr> \<and>
    Instances r1 (GetId t) = Some t \<and>
    r_attach r1 = r_attach r @ (if p_Attached p then [] else [(in_pid t, in_version t, Opening)]) \<and>
    runner_step r1 (Pod_Delete pod') = Some r2 \<and>
    bpf_map_lookup_elem (r_clusters r2) = bpf_map_lookup_elem (r_clusters r) \<and>
    Instances r2 = Instances r"
proof -
  let ?a = "r\<lparr>r_loop := Attaching t, r_handler := Handler_Ready\<rparr>"
  let ?r1 = "attachInstance False t ?a" and ?k = "word_of_int (in_pid t) :: u32"
  have "bpfPrograms ?a (in_version t) = Some p" "room_for ?a t" "r_loop ?a = Attaching t"
    "Instances r (GetId t) = None"
    using assms(5,7) onPodUpdate_selects [OF assms(4)] by (simp_all add: room_for_def)
  note r1 = attachInstance_registers [OF this(1) assms(6) this(2,3)] and fresh = this(4)
  have val: "registered ?a t = \<lparr>cl_cluster_name = S264B (in_clusterName t), offsets = p_Properties p\<rparr>"
    using assms(5) by (simp add: registered_def)
  have "mysql_image (c_Image c)" "ParseContainerId (c_ContainerID c) = Inr (in_containerId t)"
    "in_version t = ParseImage (c_Image c)"
    using onPodUpdate_selects [OF assms(4)] assms(9) by simp_all
  then have del: "onPodDelete ?r1 pod' = Delete_Id (GetId t)"
    using r1 assms(5,10) by (simp add: onPodDelete_def GetId_def)
  have "Instances ?r1 (GetId t) = Some t" "bpf_map_lookup_elem (r_clusters ?r1) ?k \<noteq> None"
    using r1(4,6) by simp_all
  then have "runner_step ?r1 (Pod_Delete pod') =
      Some (?r1\<lparr>r_clusters := snd (bpf_map_delete_elem (r_clusters ?r1) ?k),
        Instances := (Instances ?r1)(GetId t := None)\<rparr>)"
    using r1(1-3) assms(1) del by (simp add: handle_def mu_free_def detachInstance_removes)
  moreover have "bpf_map_lookup_elem (snd (bpf_map_delete_elem (r_clusters ?r1) ?k)) =
      bpf_map_lookup_elem (r_clusters r)"
    using r1(6) assms(8) by (simp add: hash_lookup_delete fun_eq_iff)
  moreover have "(Instances ?r1)(GetId t := None) = Instances r"
    using r1(4) fresh by (simp add: fun_eq_iff)
  ultimately show ?thesis
    using r1 val add_run [OF assms(1-4), of False] by auto
qed

subsection \<open>Blocked goroutines\<close>

text \<open>What stays as it is while the loop is blocked, or while loop and handler wait for each
  other.\<close>

type_synonym frozen = "(string \<Rightarrow> Instance option) \<times> cluster bpf_hash"

definition frozen_of :: "runner \<Rightarrow> frozen" where
  "frozen_of r = (Instances r, r_clusters r)"

definition loop_blocked :: "go_error \<Rightarrow> frozen \<Rightarrow> go_error list \<Rightarrow> runner \<Rightarrow> bool" where
  "loop_blocked err fz log r \<longleftrightarrow> r_loop r = Loop_Blocked err \<and> frozen_of r = fz \<and> r_log r = log"

lemma loop_blocked_step:
  assumes "r_loop r = Loop_Blocked err" "runner_step r ev = Some r'"
  shows "r_loop r' = Loop_Blocked err \<and> Instances r' = Instances r \<and> r_clusters r' = r_clusters r \<and>
    r_log r' = r_log r"
proof (cases ev)
  case (Pod_Update cri children pod)
  then obtain res where "handle res r = Some r'" "\<And>iid. res \<noteq> Delete_Id iid"
    using assms(2) by (auto simp: onPodUpdate_def update_no_delete split: if_splits)
  with assms(1) show ?thesis
    by (cases res) (auto simp: handle_def split: if_splits)
next
  case (Pod_Delete pod)
  with assms delete_result [of r "pod_ContainerStatuses pod"] show ?thesis
    by (auto simp: onPodDelete_def handle_def mu_free_def split: if_splits)
next
  case (Attach_Outcome i outcome)
  with assms show ?thesis
    by (auto simp: attach_outcome_def split: if_splits option.splits prod.splits)
qed (use assms in \<open>auto split: option.splits if_splits\<close>)

lemma loop_blocked_keeps:
  "loop_blocked err fz log r \<Longrightarrow> runner_step r ev = Some r' \<Longrightarrow> loop_blocked err fz log r'"
  using loop_blocked_step [of r err ev r'] by (simp add: loop_blocked_def frozen_of_def)

interpretation loop_blocked: machine_invariant runner_step "loop_blocked err fz log" "\<lambda>ev. True"
  for err fz log
  by unfold_locales (rule loop_blocked_keeps)

definition deadlocked :: "Instance \<Rightarrow> frozen \<Rightarrow> runner \<Rightarrow> bool" where
  "deadlocked t fz r \<longleftrightarrow> r_loop r = Attaching t \<and> r_handler r = Reporting True (Error ''delete'') \<and>
     frozen_of r = fz"

lemma deadlocked_step: "deadlocked t fz r \<Longrightarrow> runner_step r ev = Some r' \<Longrightarrow> deadlocked t fz r'"
  by (cases ev) (auto simp: deadlocked_def frozen_of_def mu_free_def attach_outcome_def
      split: option.splits if_splits prod.splits)

interpretation deadlocked: machine_invariant runner_step "deadlocked t fz" "\<lambda>ev. True" for t fz
  by unfold_locales (rule deadlocked_step)

text \<open>C11: when the map refuses the entry of an instance, the loop blocks for good on its own
  channel. In whatever way the other goroutines go on, no server is attached or detached any
  more and not even the error is logged; the instance stays registered though the probes ignore
  its process.\<close>

theorem failed_update_stops_runner:
  assumes "r_loop r = Attaching t" "bpfPrograms r (in_version t) = Some p"
    and "refuse \<or> \<not> room_for r t"
    and "runner_run r (Lock_And_Attach refuse # evs) = Some r'"
  shows "Instances r' = (Instances r)(GetId t \<mapsto> t) \<and> r_clusters r' = r_clusters r \<and>
    r_log r' = r_log r \<and> runner_step r' Receive = None \<and> runner_step r' Log_Handler = None \<and>
    runner_step r' Loop_Stop = None"
proof -
  let ?r = "attachInstance refuse t r"
  have full: "bpf_map_update_elem clusters_max refuse (r_clusters r) (word_of_int (in_pid t)) v BPF_ANY =
      (RC_ERR, r_clusters r)" for v
    using assms(3) by (auto simp: bpf_map_update_elem_def room_for_def bpf_map_lookup_elem_def)
  have r: "r_loop ?r = Loop_Blocked (Error ''update'')" "Instances ?r = (Instances r)(GetId t \<mapsto> t)"
    "r_clusters ?r = r_clusters r" "r_log ?r = r_log r"
    using assms(2) by (simp_all add: attachInstance_def full Let_def)
  have "runner_run ?r evs = Some r'"
    using assms(1,4) by (auto split: option.splits if_splits)
  then have "loop_blocked (Error ''update'') (frozen_of ?r) (r_log r) r'"
    by (rule loop_blocked.inv_run [rotated 2]) (simp_all add: loop_blocked_def r list_all_iff)
  with r show ?thesis by (auto simp: loop_blocked_def frozen_of_def split: option.splits)
qed

text \<open>C31: a pod is deleted while the loop waits for the mutex with a further instance. If the
  map no longer has the entry of the deleted server, the handler sends its error holding the
  mutex and the loop, the only receiver, waits for that mutex: neither ever moves again.\<close>

theorem detach_error_deadlock:
  assumes "r_crash r = None" "r_loop r = Attaching t" "r_handler r = Handler_Ready"
    and "onPodDelete r pod = Delete_Id iid" "Instances r iid = Some u"
    and "bpf_map_lookup_elem (r_clusters r) (word_of_int (in_pid u)) = None"
    and "runner_run r (Pod_Delete pod # evs) = Some r'"
  shows "r_loop r' = Attaching t \<and> r_handler r' = Reporting True (Error ''delete'') \<and>
    Instances r' = Instances r \<and> r_clusters r' = r_clusters r"
proof -
  obtain r1 where r1: "runner_step r (Pod_Delete pod) = Some r1" "runner_run r1 evs = Some r'"
    using assms(7) by (rule run_steps_ConsE)
  have "deadlocked t (frozen_of r) r1"
    using assms(1-6) r1(1)
    by (auto simp: deadlocked_def frozen_of_def handle_def mu_free_def detachInstance_def closed_def
        bpf_map_delete_elem_def bpf_map_lookup_elem_def)
  then have "deadlocked t (frozen_of r) r'"
    using deadlocked.inv_run [OF _ _ r1(2)] by (simp add: list_all_iff)
  then show ?thesis by (simp add: deadlocked_def frozen_of_def)
qed

subsection \<open>Attached twice, never detached\<close>

text \<open>Two servers of one version that arrive before the first attachment is finished are
  both given an \<^verbatim>\<open>attach\<close> goroutine, and both goroutines attach the probes: the probes then
  run twice for each command.\<close>

theorem two_servers_attach_twice:
  assumes "bpfPrograms r ver = Some p" "\<not> p_Attached p" "length (p_Properties p) = 32"
    and "r_crash r = None" "r_loop r = Attaching t1" "r_handler r = Adding t2" "r_attach r = []"
    and "in_version t1 = ver" "in_version t2 = ver" "length (r_clusters r) + 1 < 1024"
  shows "\<exists>r'. runner_run r [Lock_And_Attach False, Receive, Lock_And_Attach False,
      Attach_Outcome 0 None, Attach_Outcome 1 None] = Some r' \<and>
    r_attach r' = [(in_pid t1, ver, Live), (in_pid t2, ver, Live)]"
proof -
  let ?r1 = "attachInstance False t1 r"
  have "room_for r t1" using assms(10) by (simp add: room_for_def clusters_max_def)
  note r1 = attachInstance_registers [of r t1 p, unfolded assms(8), OF assms(1,3) this assms(5)]
  let ?r2 = "?r1\<lparr>r_loop := Attaching t2, r_handler := Handler_Ready\<rparr>"
  have "length (r_clusters ?r1) \<le> length (r_clusters r) + 1"
    using assms(1,8) by (auto simp: attachInstance_def Let_def bpf_map_update_elem_def length_AList_update)
  then have "room_for ?r2 t2" using assms(10) by (simp add: room_for_def clusters_max_def)
  moreover have "bpfPrograms ?r2 (in_version t2) = Some p" using r1(5) assms(1,9) by simp
  ultimately have r3: "r_attach (attachInstance False t2 ?r2) = [(in_pid t1, ver, Opening), (in_pid t2, ver, Opening)]"
    "r_crash (attachInstance False t2 ?r2) = None"
    using attachInstance_registers [of ?r2 t2 p] r1 assms(2-4,7,9) by simp_all
  have "runner_run r [Lock_And_Attach False, Receive, Lock_And_Attach False] = Some (attachInstance False t2 ?r2)"
    using assms(4-6) r1 by (simp add: mu_free_def)
  then show ?thesis
    using assms(4-6) r1 r3 by (simp add: mu_free_def attach_outcome_def)
qed

definition names_container :: "string \<Rightarrow> runner_event \<Rightarrow> bool" where
  "names_container iid ev = (case ev of
     Pod_Delete pod \<Rightarrow> (\<exists>c \<in> set (pod_ContainerStatuses pod). \<exists>cid.
       ParseContainerId (c_ContainerID c) = Inr cid \<and> iid = ParseImage (c_Image c) @ ''|'' @ cid)
   | _ \<Rightarrow> False)"

lemma delete_containers_named:
  "delete_containers r cs' = Delete_Id iid \<Longrightarrow> \<exists>c \<in> set cs'. \<exists>cid.
     ParseContainerId (c_ContainerID c) = Inr cid \<and> iid = ParseImage (c_Image c) @ ''|'' @ cid"
  by (induction cs') (auto simp: Let_def split: if_splits sum.splits)

lemma instance_stays_step:
  assumes "Instances r iid \<noteq> None" "runner_step r ev = Some r'" "\<not> names_container iid ev"
  shows "Instances r' iid \<noteq> None"
proof (cases ev)
  case (Pod_Update cri children pod)
  then obtain res where "handle res r = Some r'" "\<And>iid. res \<noteq> Delete_Id iid"
    using assms(2) by (auto simp: onPodUpdate_def update_no_delete split: if_splits)
  with assms(1) show ?thesis by (cases res) (auto simp: handle_def split: if_splits)
next
  case (Pod_Delete pod)
  have "delete_containers r (pod_ContainerStatuses pod) \<noteq> Delete_Id iid"
    using assms(3) Pod_Delete delete_containers_named [of r "pod_ContainerStatuses pod" iid]
    by (auto simp: names_container_def)
  then show ?thesis
    using assms(2) Pod_Delete assms(1) delete_result [of r "pod_ContainerStatuses pod"]
    by (auto simp: onPodDelete_def handle_def detachInstance_def
        split: if_splits option.splits prod.splits bpf_rc.splits)
next
  case (Lock_And_Attach refuse)
  with assms(2,1) show ?thesis
    by (auto simp: attachInstance_def Let_def split: option.splits loop_state.splits if_splits
        prod.splits bpf_rc.splits)
next
  case (Attach_Outcome i outcome)
  with assms(2,1) show ?thesis
    by (auto simp: attach_outcome_def split: if_splits option.splits prod.splits)
qed (use assms(2,1) in \<open>auto split: option.splits loop_state.splits handler_state.splits
      attach_state.splits prod.splits if_splits\<close>)

interpretation instance_stays: machine_invariant runner_step "\<lambda>r. Instances r iid \<noteq> None"
  "\<lambda>ev. \<not> names_container iid ev" for iid
  by unfold_locales (rule instance_stays_step)

text \<open>C32: an instance leaves the runner only through the deletion of a pod that still lists its
  container. After a container of a pod was restarted, no later event names the old container,
  and its instance stays.\<close>

theorem restarted_container_leaks:
  assumes "Instances r iid \<noteq> None" "list_all (\<lambda>ev. \<not> names_container iid ev) evs"
    and "runner_run r evs = Some r'"
  shows "Instances r' iid \<noteq> None"
  using instance_stays.inv_run [OF assms] .

end
