(* ===== verification/Runner_Witnesses.thy ===== *)
theory Runner_Witnesses
  imports Runner_Runs
begin

text \<open>
  Concrete inputs for the properties of the runner: a pod with one Percona container of
  containerd, whose process 41 has the child 42.
\<close>

definition demo_program :: Program where
  "demo_program = \<lparr>p_Attached = False, p_Key = PerconaServer5734, p_Kind = MySQLKind,
     p_Version = PerconaServer5734, p_Upp = 1, p_Urpp = 2,
     p_Properties = the (MysqlProperties PerconaServer5734)\<rparr>"

definition demo_runner :: runner where
  "demo_runner = WithBpfProgram demo_program (NewFromManager [])"

definition demo_container :: ContainerStatus where
  "demo_container = \<lparr>c_Ready = True, c_Image = ''docker.io/percona/percona-server:5.7.34'',
     c_ContainerID = ''containerd://bbcc''\<rparr>"

definition demo_pod :: Pod where
  "demo_pod = \<lparr>pod_Name = ''mysql-0'', pod_Phase = ''Running'',
     pod_Labels = [label_managed_by \<mapsto> ''mysql.radondb.com'', label_instance \<mapsto> ''radondb''],
     pod_ContainerStatuses = [demo_container]\<rparr>"

definition demo_instance :: Instance where
  "demo_instance = \<lparr>in_clusterName = ''radondb'', in_pod = ''mysql-0'', in_containerId = ''bbcc'',
     in_version = PerconaServer5734, in_pid = 42\<rparr>"

abbreviation demo_cri :: "string \<Rightarrow> go_error + int" where "demo_cri \<equiv> (\<lambda>cid. Inr 41)"
abbreviation demo_children :: "int \<Rightarrow> go_error + string" where "demo_children \<equiv> (\<lambda>pid. Inr ''42 '')"

lemma demo_runner_simps [simp]:
  "Instances demo_runner = Map.empty" "bpfPrograms demo_runner = [PerconaServer5734 \<mapsto> demo_program]"
  "r_clusters demo_runner = []" "r_loop demo_runner = Selecting"
  "r_handler demo_runner = Handler_Ready" "r_attach demo_runner = []" "r_crash demo_runner = None"
  by (simp_all add: demo_runner_def WithBpfProgram_def NewFromManager_def demo_program_def)

lemma demo_container_simps [simp]:
  "mysql_image (c_Image demo_container)" "c_Ready demo_container"
  "ParseImage (c_Image demo_container) = PerconaServer5734"
  "ParseContainerId (c_ContainerID demo_container) = Inr ''bbcc''"
  by code_simp+

lemma demo_child [simp]: "GetChildPid demo_children 41 = Inr 42"
  by code_simp

lemma demo_program_simps [simp]:
  "length (p_Properties demo_program) = 32" "\<not> p_Attached demo_program"
  by (simp_all add: demo_program_def MysqlProperties_def)

lemma demo_update: "onPodUpdate demo_cri demo_children demo_runner demo_pod = Add_Instance demo_instance"
  by (simp add: onPodUpdate_def demo_pod_def label_managed_by_def label_instance_def
      demo_instance_def instance_builders)

definition demo_attached :: runner where
  "demo_attached = attachInstance False demo_instance (demo_runner\<lparr>r_loop := Attaching demo_instance, r_handler := Handler_Ready\<rparr>)"

lemma demo_run:
  "runner_run demo_runner [Pod_Update demo_cri demo_children demo_pod, Receive, Lock_And_Attach False] =
    Some demo_attached"
  using add_run [of demo_runner demo_cri demo_children demo_pod demo_instance False] demo_update
  by (simp add: demo_attached_def)

lemma demo_instance_simps [simp]:
  "in_version demo_instance = PerconaServer5734" "in_pid demo_instance = 42"
  "in_containerId demo_instance = ''bbcc''" "in_clusterName demo_instance = ''radondb''"
  "in_pod demo_instance = ''mysql-0''"
  by (simp_all add: demo_instance_def)

theorem runner_invariant_witness:
  "r_crash demo_attached \<noteq> Some Nil_Program \<and> distinct (map fst (r_clusters demo_attached)) \<and>
    length (r_clusters demo_attached) \<le> 1024"
  using runner_invariant [OF demo_run [unfolded demo_runner_def]] by simp

theorem onPodUpdate_selects_witness:
  "pod_Phase demo_pod = ''Running'' \<and> Instances demo_runner (GetId demo_instance) = None \<and>
    in_pod demo_instance = pod_Name demo_pod"
  using onPodUpdate_selects [OF demo_update] by simp

theorem pod_lifecycle_witness:
  "\<exists>r1 r2. runner_run demo_runner [Pod_Update demo_cri demo_children demo_pod, Receive, Lock_And_Attach False] = Some r1 \<and>
    bpf_map_lookup_elem (r_clusters r1) 42 =
      Some \<lparr>cl_cluster_name = S264B ''radondb'', offsets = p_Properties demo_program\<rparr> \<and>
    Instances r1 (GetId demo_instance) = Some demo_instance \<and>
    r_attach r1 = [(42, PerconaServer5734, Opening)] \<and>
    runner_step r1 (Pod_Delete demo_pod) = Some r2 \<and>
    bpf_map_lookup_elem (r_clusters r2) = (\<lambda>k. None) \<and> Instances r2 = Map.empty"
proof -
  have "bpf_map_lookup_elem ([] :: cluster bpf_hash) = (\<lambda>k. None)"
    by (simp add: bpf_map_lookup_elem_def fun_eq_iff)
  then show ?thesis
    using pod_lifecycle [of demo_runner demo_cri demo_children demo_pod demo_instance demo_program
        demo_container demo_pod] demo_update
    by (simp add: room_for_def clusters_max_def demo_pod_def)
qed

definition demo_waiting :: runner where
  "demo_waiting = demo_runner\<lparr>r_loop := Attaching demo_instance\<rparr>"

theorem failed_update_stops_runner_witness:
  "r_clusters (attachInstance True demo_instance demo_waiting) = [] \<and>
   runner_step (attachInstance True demo_instance demo_waiting) Receive = None \<and>
   runner_step (attachInstance True demo_instance demo_waiting) Loop_Stop = None"
  using failed_update_stops_runner [of demo_waiting demo_instance demo_program True "[]"
      "attachInstance True demo_instance demo_waiting"]
  by (simp add: demo_waiting_def mu_free_def)

definition demo_second :: Instance where
  "demo_second = demo_instance\<lparr>in_containerId := ''ddee'', in_pid := 43\<rparr>"

definition demo_half_removed :: runner where
  "demo_half_removed = demo_runner\<lparr>Instances := [GetId demo_instance \<mapsto> demo_instance],
     r_loop := Attaching demo_second\<rparr>"

lemma demo_half_removed_simps [simp]:
  "Instances demo_half_removed = [GetId demo_instance \<mapsto> demo_instance]"
  "bpfPrograms demo_half_removed = [PerconaServer5734 \<mapsto> demo_program]"
  "r_clusters demo_half_removed = []" "r_loop demo_half_removed = Attaching demo_second"
  "r_handler demo_half_removed = Handler_Ready" "r_crash demo_half_removed = None"
  by (simp_all add: demo_half_removed_def)

lemma demo_delete: "onPodDelete demo_half_removed demo_pod = Delete_Id (GetId demo_instance)"
  by (simp add: onPodDelete_def demo_pod_def GetId_def)

lemma demo_delete_run: "runner_run demo_half_removed [Pod_Delete demo_pod] =
    Some (demo_half_removed\<lparr>r_handler := Reporting True (Error ''delete'')\<rparr>)"
  by (simp add: demo_delete handle_def mu_free_def detachInstance_def bpf_map_delete_elem_def
      closed_def)

theorem detach_error_deadlock_witness:
  "r_handler (demo_half_removed\<lparr>r_handler := Reporting True (Error ''delete'')\<rparr>) =
    Reporting True (Error ''delete'') \<and> r_clusters demo_half_removed = []"
proof -
  have "bpf_map_lookup_elem (r_clusters demo_half_removed) (word_of_int (in_pid demo_instance)) = None"
    by (simp add: bpf_map_lookup_elem_def)
  from detach_error_deadlock [OF _ _ _ demo_delete _ this demo_delete_run, of demo_second] show ?thesis
    by simp
qed

theorem two_servers_attach_twice_witness:
  "\<exists>r'. runner_run (demo_runner\<lparr>r_loop := Attaching demo_instance, r_handler := Adding demo_second\<rparr>)
      [Lock_And_Attach False, Receive, Lock_And_Attach False, Attach_Outcome 0 None, Attach_Outcome 1 None] = Some r' \<and>
    r_attach r' = [(42, PerconaServer5734, Live), (43, PerconaServer5734, Live)]"
  using two_servers_attach_twice [of
      "demo_runner\<lparr>r_loop := Attaching demo_instance, r_handler := Adding demo_second\<rparr>"
      PerconaServer5734 demo_program demo_instance demo_second]
  by (simp add: demo_second_def)

theorem restarted_container_leaks_witness:
  "Instances demo_attached (GetId demo_instance) \<noteq> None"
proof -
  have "runner_run demo_attached [Pod_Delete (demo_pod\<lparr>pod_ContainerStatuses := []\<rparr>)] = Some demo_attached \<and>
      Instances demo_attached (GetId demo_instance) \<noteq> None"
    using attachInstance_registers [of
        "demo_runner\<lparr>r_loop := Attaching demo_instance, r_handler := Handler_Ready\<rparr>" demo_instance demo_program]
    by (simp add: demo_attached_def room_for_def clusters_max_def onPodDelete_def handle_def)
  then show ?thesis
    using restarted_container_leaks [of demo_attached "GetId demo_instance"
        "[Pod_Delete (demo_pod\<lparr>pod_ContainerStatuses := []\<rparr>)]" demo_attached]
    by (simp add: names_container_def)
qed

end
