(* ===== verification/Go_Pump.thy ===== *)
theory Go_Pump
  imports Go_Tools Record_Layout Machine
begin

text \<open>
  \<^verbatim>\<open>internal/task/pump/pump.go\<close> and \<^verbatim>\<open>BpfDbCtx.Print\<close> of \<^verbatim>\<open>internal/generate/types.go\<close>:
  the loop that waits for an event, takes the oldest record of the queue and prints it, while
  the probes go on pushing records and the context may end at any time. The perf reader, the
  formatting of a time and \<^verbatim>\<open>unix.ByteSliceToString\<close> are arguments.
\<close>

subsection \<open>Printing\<close>

text \<open>A printed value: a text (\<^verbatim>\<open>%s\<close>) or a number (\<^verbatim>\<open>%d\<close>).\<close>

datatype printed = Text string | Number int

text \<open>\<open>format\<close> is \<^verbatim>\<open>time.Unix(s, 0).Format(time.RFC3339)\<close>, \<open>str\<close> is
  \<^verbatim>\<open>unix.ByteSliceToString\<close>.\<close>

definition Print :: "(int \<Rightarrow> string) \<Rightarrow> (u8 list \<Rightarrow> string) \<Rightarrow> BpfDbCtx \<Rightarrow> (string \<times> printed) list" where
  "Print format str dbctx = [
    (''date'', Text (format (sint (Timestamp dbctx)))),
    (''cluster'', Text (B642S (ClusterName dbctx))),
    (''process'', Text (str (Comm dbctx))),
    (''process_id'', Number (uint (drop_bit 32 (Gtid dbctx)))),
    (''pthread_id'', Number (uint (drop_bit 32 (push_bit 32 (Gtid dbctx))))),
    (''host'', Text (str (Host dbctx))),
    (''ip'', Text (str (Ipaddr dbctx))),
    (''client port'', Number (uint (PeerPort dbctx))),
    (''thread_id'', Number (uint (ThreadId dbctx))),
    (''database'', Text (str (Database dbctx))),
    (''username'', Text (str (User dbctx))),
    (''priv username'', Text (str (PrivUser dbctx))),
    (''query_id'', Number (sint (QueryId dbctx))),
    (''query'', Text (str (Query dbctx))),
    (''query_len'', Number (uint (QueryLen dbctx))),
    (''previous_found_rows'', Number (uint (PreviousFoundRows dbctx))),
    (''current_found_rows'', Number (uint (CurrentFoundRows dbctx))),
    (''affected_rows'', Number (uint (AffectedRows dbctx))),
    (''sent_row_count'', Number (uint (SentRowCount dbctx))),
    (''row_count_func'', Number (uint (RowCountFunc dbctx))),
    (''sql_errno'', Number (uint (SqlErrno dbctx))),
    (''killed'', Number (sint (Killed dbctx))),
    (''cost_time'', Number (uint (CostTime dbctx)))]"

subsection \<open>The loop\<close>

text \<open>
  The variables of \<^verbatim>\<open>Start\<close> that live across iterations, with the records printed so far.
\<close>

record pump =
  pu_dbCtx :: BpfDbCtx
  pu_printed :: "BpfDbCtx list"

text \<open>The result of \<^verbatim>\<open>p.rd.Read()\<close>: an error, which may say the reader is closed, or a record
  with the number of samples lost.\<close>

datatype read_result = Read_Error bool go_error | Record u64

text \<open>
  The value of \<^verbatim>\<open>LookupAndDelete\<close>: \<open>fault\<close> is an error other than a missing key. Decoding
  a value of the queue needs its bytes; \<open>pad\<close> is the content of its padding.
\<close>

datatype lookup_result = Found BpfDbCtx | Key_Not_Exist | Fault go_error

definition LookupAndDelete ::
  "go_error option \<Rightarrow> (nat \<Rightarrow> u8) \<Rightarrow> db_ctx list \<Rightarrow> lookup_result \<times> db_ctx list" where
  "LookupAndDelete fault pad q = (case fault of
     Some err \<Rightarrow> (Fault err, q)
   | None \<Rightarrow> (case queue_lookup_and_delete q of
       None \<Rightarrow> (Key_Not_Exist, q)
     | Some (c, q') \<Rightarrow> (case BpfDbCtx_of_bytes (db_ctx_bytes pad c) of
         None \<Rightarrow> (Fault (Error ''size''), q')
       | Some b \<Rightarrow> (Found b, q'))))"

datatype pump_result = Continue pump "db_ctx list" | Return go_error "db_ctx list"

definition print_one :: "pump \<Rightarrow> pump" where
  "print_one p = p\<lparr>pu_printed := pu_printed p @ [pu_dbCtx p]\<rparr>"

text \<open>The \<^verbatim>\<open>default\<close> branch of the loop's \<^verbatim>\<open>select\<close>.\<close>

definition pump_iteration ::
  "read_result \<Rightarrow> go_error option \<Rightarrow> (nat \<Rightarrow> u8) \<Rightarrow> pump \<Rightarrow> db_ctx list \<Rightarrow> pump_result" where
  "pump_iteration rd fault pad p q = (case rd of
     Read_Error is_closed err \<Rightarrow> (if is_closed then Return err q else Continue p q)
   | Record lost \<Rightarrow>
      if lost \<noteq> 0 then Continue p q
      else (case LookupAndDelete fault pad q of
          (Fault err, q') \<Rightarrow> Return err q'
        | (Key_Not_Exist, q') \<Rightarrow> Continue (print_one p) q'
        | (Found b, q') \<Rightarrow> Continue (print_one (p\<lparr>pu_dbCtx := b\<rparr>)) q'))"

text \<open>
  The goroutine of \<^verbatim>\<open>Start\<close> among the others. It is at the \<^verbatim>\<open>select\<close>, waits in
  \<^verbatim>\<open>p.rd.Read()\<close>, or has returned: \<^const>\<open>None\<close> when its context had ended, else an error.
  The probes push into the queue at any time; the context ends at any time, but the goroutine
  sees it only at the \<^verbatim>\<open>select\<close>. What follows the return of \<^verbatim>\<open>Read\<close> is one step: the
  queue is the only shared state it uses, in one call.
\<close>

datatype pump_pc = At_Select | Reading | Pump_Returned "go_error option"

record pump_state =
  ps_pump :: pump
  ps_queue :: "db_ctx list"
  ps_pc :: pump_pc
  ps_ctxDone :: bool

datatype pump_event =
    Push db_ctx
  | Context_End
  | Select
  | Read_Returns read_result "go_error option" "nat \<Rightarrow> u8"

definition pump_select :: "pump_state \<Rightarrow> pump_state option" where
  "pump_select s = (if ps_pc s = At_Select
     then Some (s\<lparr>ps_pc := (if ps_ctxDone s then Pump_Returned None else Reading)\<rparr>)
     else None)"

definition pump_read :: "read_result \<Rightarrow> go_error option \<Rightarrow> (nat \<Rightarrow> u8) \<Rightarrow> pump_state \<Rightarrow> pump_state option" where
  "pump_read rd fault pad s = (if ps_pc s = Reading
     then Some (case pump_iteration rd fault pad (ps_pump s) (ps_queue s) of
         Continue p q \<Rightarrow> s\<lparr>ps_pump := p, ps_queue := q, ps_pc := At_Select\<rparr>
       | Return err q \<Rightarrow> s\<lparr>ps_queue := q, ps_pc := Pump_Returned (Some err)\<rparr>)
     else None)"

fun pump_step :: "pump_state \<Rightarrow> pump_event \<Rightarrow> pump_state option" where
  "pump_step s (Push c) = Some (s\<lparr>ps_queue := queue_push db_ctx_queue_max (ps_queue s) c\<rparr>)"
| "pump_step s Context_End = Some (s\<lparr>ps_ctxDone := True\<rparr>)"
| "pump_step s Select = pump_select s"
| "pump_step s (Read_Returns rd fault pad) = pump_read rd fault pad s"

definition pump_run :: "pump_state \<Rightarrow> pump_event list \<Rightarrow> pump_state option" where
  "pump_run = run_steps pump_step"

lemma pump_run_simps [simp]:
  "pump_run s [] = Some s"
  "pump_run s (e # es) = (case pump_step s e of None \<Rightarrow> None | Some s' \<Rightarrow> pump_run s' es)"
  by (simp_all add: pump_run_def split: option.split)

subsection \<open>One iteration\<close>


fun harmless :: "pump_event \<Rightarrow> bool" where
  "harmless (Push c) = db_ctx_ok c"
| "harmless (Read_Returns rd fault pad) =
     (fault = None \<and> (case rd of Read_Error is_closed err \<Rightarrow> \<not> is_closed | Record lost \<Rightarrow> True))"
| "harmless _ = True"

lemma pump_skip:
  "harmless (Read_Returns rd fault pad) \<Longrightarrow> rd \<noteq> Record 0 \<Longrightarrow>
     pump_iteration rd fault pad p q = Continue p q"
  by (auto simp: pump_iteration_def split: read_result.splits)

lemma pump_empty: "pump_iteration (Record 0) None pad p [] = Continue (print_one p) []"
  by (simp add: pump_iteration_def LookupAndDelete_def queue_lookup_and_delete_def)

lemma pump_take:
  "db_ctx_ok c \<Longrightarrow>
     pump_iteration (Record 0) None pad p (c # q) = Continue (print_one (p\<lparr>pu_dbCtx := go_db_ctx c\<rparr>)) q"
  by (simp add: pump_iteration_def LookupAndDelete_def queue_lookup_and_delete_def record_decodes)

subsection \<open>Whole executions\<close>





definition printed :: "pump_state \<Rightarrow> BpfDbCtx list" where
  "printed s = pu_printed (ps_pump s)"













text \<open>With harmless events the pump returns only because its context has ended.\<close>

definition pump_alive :: "pump_state \<Rightarrow> bool" where
  "pump_alive s \<longleftrightarrow> (\<forall>err. ps_pc s = Pump_Returned err \<longrightarrow> err = None \<and> ps_ctxDone s)"

definition queue_decodes :: "pump_state \<Rightarrow> bool" where
  "queue_decodes s \<longleftrightarrow> list_all db_ctx_ok (ps_queue s)"

lemma harmless_iteration:
  assumes "harmless (Read_Returns rd fault pad)" "list_all db_ctx_ok q"
  shows "\<exists>p' q'. pump_iteration rd fault pad p q = Continue p' q' \<and> list_all db_ctx_ok q'"
proof (cases "rd = Record 0")
  case False
  with assms pump_skip show ?thesis by blast
next
  case True
  with assms show ?thesis by (cases q) (simp_all add: pump_empty pump_take)
qed

interpretation pump: machine_invariant pump_step "\<lambda>s. pump_alive s \<and> queue_decodes s" harmless
proof
  fix s e s'
  assume s: "pump_alive s \<and> queue_decodes s" and e: "harmless e" "pump_step s e = Some s'"
  show "pump_alive s' \<and> queue_decodes s'"
  proof (cases e)
    case (Push c)
    with s e show ?thesis
      by (cases "ps_queue s") (auto simp: pump_alive_def queue_decodes_def queue_push_eq)
  next
    case Context_End
    with s e show ?thesis by (auto simp: pump_alive_def queue_decodes_def)
  next
    case Select
    with s e show ?thesis
      by (auto simp: pump_alive_def queue_decodes_def pump_select_def split: if_splits)
  next
    case (Read_Returns rd fault pad)
    with s e harmless_iteration [of rd fault pad "ps_queue s" "ps_pump s"] show ?thesis
      by (auto simp: pump_alive_def queue_decodes_def pump_read_def split: if_splits)
  qed
qed

lemma pump_alive_run:
  assumes "pump_run s es = Some s'" "list_all harmless es" "ps_pc s = At_Select"
    and "list_all db_ctx_ok (ps_queue s)"
  shows "pump_alive s' \<and> queue_decodes s'"
  using pump.inv_run [of s es s'] assms by (simp add: pump_run_def pump_alive_def queue_decodes_def)


definition demo_pump :: pump_state where
  "demo_pump = \<lparr>ps_pump = \<lparr>pu_dbCtx = go_db_ctx (demo_ctx\<lparr>gtid := 1\<rparr>), pu_printed = []\<rparr>,
     ps_queue = [demo_ctx], ps_pc = At_Select, ps_ctxDone = False\<rparr>"

lemma demo_ctx_ok: "db_ctx_ok demo_ctx" "db_ctx_ok (demo_ctx\<lparr>gtid := n\<rparr>)"
  by (simp_all add: db_ctx_ok_def demo_ctx_def max_len_defs)


lemma printed_iteration:
  "pump_iteration rd fault pad p q = Continue p' q' \<Longrightarrow>
     length (pu_printed p') \<le> Suc (length (pu_printed p))"
  by (auto simp: pump_iteration_def print_one_def
      split: read_result.splits if_splits prod.splits lookup_result.splits)

lemma printed_after_end_step:
  assumes "pump_step s e = Some s'" "ps_ctxDone s"
  shows "ps_ctxDone s' \<and> length (printed s') + (if ps_pc s' = Reading then 1 else 0) \<le>
    length (printed s) + (if ps_pc s = Reading then 1 else 0)"
proof (cases e)
  case (Read_Returns rd fault pad)
  with assms show ?thesis
    using printed_iteration [of rd fault pad "ps_pump s" "ps_queue s"]
    by (auto simp: pump_read_def printed_def split: if_splits pump_result.splits)
qed (use assms in \<open>auto simp: pump_select_def printed_def split: if_splits\<close>)

lemma printed_after_end:
  "pump_run s es = Some s' \<Longrightarrow> ps_ctxDone s \<Longrightarrow>
     ps_ctxDone s' \<and> length (printed s') + (if ps_pc s' = Reading then 1 else 0) \<le>
       length (printed s) + (if ps_pc s = Reading then 1 else 0)"
proof (induction es arbitrary: s)
  case Nil
  then show ?case by simp
next
  case (Cons e es)
  from Cons.prems(1) obtain s1 where s1: "pump_step s e = Some s1" "pump_run s1 es = Some s'"
    by (auto split: option.splits)
  from printed_after_end_step [OF s1(1) Cons.prems(2)] Cons.IH [OF s1(2)] show ?case
    by linarith
qed

text \<open>C39: until its context ends, the pump, whatever the probes have pushed and the reader has
  returned, is at its \<^verbatim>\<open>select\<close> or in \<^verbatim>\<open>Read\<close>, and comes back to the \<^verbatim>\<open>select\<close> after any
  further harmless result of the reader. Once the context has ended, it prints at most one more
  record in any continuation, and none if it was at the \<^verbatim>\<open>select\<close>, where it returns.\<close>

theorem pump_serves_until_done:
  assumes "pump_run s es = Some s'" "list_all harmless es" "ps_pc s = At_Select"
    and "list_all db_ctx_ok (ps_queue s)"
  shows "(\<not> ps_ctxDone s' \<longrightarrow> (\<exists>s1. pump_run s' (if ps_pc s' = Reading then [] else [Select]) = Some s1 \<and>
      ps_pc s1 = Reading \<and>
      (\<forall>rd pad. harmless (Read_Returns rd None pad) \<longrightarrow>
        (\<exists>s2. pump_step s1 (Read_Returns rd None pad) = Some s2 \<and> ps_pc s2 = At_Select)))) \<and>
    (ps_ctxDone s' \<longrightarrow> (\<forall>es' t. pump_run s' es' = Some t \<longrightarrow>
      length (printed t) \<le> length (printed s') + (if ps_pc s' = Reading then 1 else 0)) \<and>
      (ps_pc s' = At_Select \<longrightarrow> (\<exists>t. pump_step s' Select = Some t \<and> ps_pc t = Pump_Returned None)))"
proof (intro conjI impI allI)
  note alive = pump_alive_run [OF assms]
  assume going: "\<not> ps_ctxDone s'"
  define s1 where "s1 = s'\<lparr>ps_pc := Reading\<rparr>"
  have "pump_run s' (if ps_pc s' = Reading then [] else [Select]) = Some s1"
    using alive going by (cases "ps_pc s'") (simp_all add: s1_def pump_select_def pump_alive_def)
  moreover have "\<exists>s2. pump_step s1 (Read_Returns rd None pad) = Some s2 \<and> ps_pc s2 = At_Select"
    if "harmless (Read_Returns rd None pad)" for rd pad
    using harmless_iteration [OF that, of "ps_queue s'" "ps_pump s'"] alive
    by (auto simp: s1_def pump_read_def queue_decodes_def)
  ultimately show "\<exists>s1. pump_run s' (if ps_pc s' = Reading then [] else [Select]) = Some s1 \<and>
      ps_pc s1 = Reading \<and>
      (\<forall>rd pad. harmless (Read_Returns rd None pad) \<longrightarrow>
        (\<exists>s2. pump_step s1 (Read_Returns rd None pad) = Some s2 \<and> ps_pc s2 = At_Select))"
    by (auto simp: s1_def)
next
  fix es' t
  assume "ps_ctxDone s'" "pump_run s' es' = Some t"
  then show "length (printed t) \<le> length (printed s') + (if ps_pc s' = Reading then 1 else 0)"
    using printed_after_end [of s' es' t] by simp
next
  assume "ps_ctxDone s'" "ps_pc s' = At_Select"
  then show "\<exists>t. pump_step s' Select = Some t \<and> ps_pc t = Pump_Returned None"
    by (simp add: pump_select_def)
qed

theorem pump_serves_until_done_witness:
  "\<exists>s'. pump_run demo_pump [Select, Push demo_ctx, Context_End] = Some s' \<and>
    (\<exists>t. pump_run s' [Read_Returns (Record 0) None of_nat, Select] = Some t \<and>
      ps_pc t = Pump_Returned None \<and> length (printed t) \<le> 1)"
proof -
  obtain s' where s': "pump_run demo_pump [Select, Push demo_ctx, Context_End] = Some s'"
      "printed s' = []" "ps_ctxDone s'" "ps_pc s' = Reading"
    by (simp add: demo_pump_def pump_select_def printed_def)
  obtain t where t: "pump_run s' [Read_Returns (Record 0) None of_nat, Select] = Some t"
      "ps_pc t = Pump_Returned None"
    using s'(1)
    by (auto simp: demo_pump_def pump_select_def pump_read_def queue_push_eq db_ctx_queue_max_def
        pump_take demo_ctx_ok)
  have "length (printed t) \<le> length (printed s') + (if ps_pc s' = Reading then 1 else 0)"
    using pump_serves_until_done [OF s'(1)] s'(3) t(1) by (auto simp: demo_pump_def demo_ctx_ok simp del: pump_run_simps)
  with s' t show ?thesis by auto
qed

end
