(* ===== verification/End_To_End.thy ===== *)
theory End_To_End
  imports Probe_Witnesses Runner_Witnesses Go_Pump
begin

text \<open>
  The components together: the runner registers a server, the probes record a query of the
  server, the pump prints it. The map of clusters the runner writes is the one the probes look
  up, and the queue the return probe fills is the one the pump empties.
\<close>

lemma after_return_queue:
  assumes "cluster_at s (tgid_of e) \<noteq> None" "open_session s (tid_of e)"
  shows "db_ctx_queue (after_return e s) = queue_push 5120 (db_ctx_queue s) (return_ctx e s)"
    and "events (after_return e s) =
      events s @ (if e_lost e then [] else [(e_cpu e, \<lparr>et_gtid = e_pid_tgid e\<rparr>)])"
  using assms by (simp_all add: after_return_def mysql57_query_return_record)

lemma Print_task:
  "{(''process_id'', Number (uint (cluster_key (gtid c)))), (''pthread_id'', Number (uint (thread_key (gtid c)))),
    (''cost_time'', Number (uint (cost_time c))), (''query'', Text (str (query c))),
    (''username'', Text (str (user c)))} \<subseteq> set (Print format str (go_db_ctx c))"
proof -
  have "drop_bit 32 (gtid c) = ucast (cluster_key (gtid c))"
    by (rule bit_word_eqI) (auto simp: cluster_key_def bit_simps dest: bit_imp_le_length)
  moreover have "drop_bit 32 (push_bit 32 (gtid c)) = ucast (thread_key (gtid c))"
    by (rule bit_word_eqI) (auto simp: thread_key_eq bit_simps)
  ultimately have "uint (drop_bit 32 (gtid c)) = uint (cluster_key (gtid c))"
    "uint (drop_bit 32 (push_bit 32 (gtid c))) = uint (thread_key (gtid c))"
    by (simp_all add: uint_up_ucast is_up)
  then show ?thesis
    by (simp add: Print_def go_db_ctx_def del: drop_bit_push_bit)
qed

text \<open>C3: from the pod to the printed line. After the runner has attached a server, a query
  of one of its threads that the kernel has room to record is printed by the pump, with the
  process number the runner registered, the thread, the time between entry and return, and the
  query text captured on entry, if the pump has emptied the queue before and the event is not
  lost; what other threads and CPUs do in between does not matter.\<close>

theorem attached_query_is_printed:
  assumes runner: "bpfPrograms r (in_version t) = Some p" "length (p_Properties p) = 32"
      "room_for r t" "r_loop r = Attaching t"
    and map: "state_ok s" "clusters s = r_clusters (attachInstance False t r)"
    and query: "cluster_key (e_pid_tgid e1) = word_of_int (in_pid t)"
      "PT_REGS_PARM3 (e_regs e1) = COM_QUERY" "\<not> e_refuse e1"
      "session s (tid_of e1) \<noteq> None \<or> length (thread_db_ctx_hash s) < 1024"
    and others: "list_all (\<lambda>op. \<not> touches (tid_of e1) op) ops"
      "s' = probe_run (probe_step s (probe_op.Query e1)) ops"
      "cluster_at s' (tgid_of e1) = Some (registered r t)" "db_ctx_queue s' = []"
    and return: "e_pid_tgid e2 = e_pid_tgid e1" "\<not> e_lost e2"
  shows "\<exists>pu' b. events (probe_step s' (Query_Return e2)) = events s' @ [(e_cpu e2, \<lparr>et_gtid = e_pid_tgid e1\<rparr>)] \<and>
    pump_iteration (Record 0) None pad pu (db_ctx_queue (probe_step s' (Query_Return e2))) = Continue pu' [] \<and>
    pu_printed pu' = pu_printed pu @ [b] \<and>
    {(''process_id'', Number (uint (word_of_int (in_pid t) :: u32))),
     (''pthread_id'', Number (uint (thread_key (e_pid_tgid e1)))),
     (''cost_time'', Number (uint (e_ktime e2 - e_ktime e1))),
     (''query'', Text (str (query (entry_ctx e1 s)))), (''username'', Text (str (user (entry_ctx e1 s))))}
      \<subseteq> set (Print format str b)"
proof -
  have "cluster_at s (tgid_of e1) = Some (registered r t)"
    using attachInstance_registers(6) [OF runner] map(2) query(1) by simp
  then have tr: "traced_query e1 s" using query(2) by (simp add: traced_query_def)
  note session = session_completed [OF tr query(3,4) others(1) return(1) others(2,3)]
  define c where "c = fill_return e2 (registered r t) (entry_ctx e1 s)"
  have cl: "cluster_at s' (tgid_of e2) \<noteq> None" using others(3) return(1) by simp
  have ok': "state_ok s'"
    unfolding others(2) using map(1) by (intro probe_run_ok probe_step_ok)
  have c: "return_ctx e2 s' = c" using session(2) by (simp add: c_def)
  have ok: "db_ctx_ok c"
    using return_ctx_ok(1) [OF ok' session(1)] c by (simp add: ctx_in_table_ok_def)
  have q: "db_ctx_queue (probe_step s' (Query_Return e2)) = [c]"
    "events (probe_step s' (Query_Return e2)) = events s' @ [(e_cpu e2, \<lparr>et_gtid = e_pid_tgid e1\<rparr>)]"
    using after_return_queue [OF cl session(1)] others(4) return c by (simp_all add: queue_push_eq)
  have fields: "gtid c = e_pid_tgid e1" "cost_time c = e_ktime e2 - e_ktime e1"
    "query c = query (entry_ctx e1 s)" "user c = user (entry_ctx e1 s)"
    by (simp_all add: c_def entry_ctx_def)
  have "pump_iteration (Record 0) None pad pu [c] = Continue (print_one (pu\<lparr>pu_dbCtx := go_db_ctx c\<rparr>)) []"
    using ok by (rule pump_take)
  with q show ?thesis
    using Print_task [of c str format, unfolded fields query(1)]
    by (intro exI [of _ "print_one (pu\<lparr>pu_dbCtx := go_db_ctx c\<rparr>)"] exI [of _ "go_db_ctx c"])
       (simp add: print_one_def)
qed

definition demo_start :: runner where
  "demo_start = demo_runner\<lparr>r_loop := Attaching demo_instance\<rparr>"

definition demo_maps :: bpf_state where
  "demo_maps = init_state\<lparr>clusters := r_clusters (attachInstance False demo_instance demo_start)\<rparr>"

lemma demo_start_ok:
  "bpfPrograms demo_start (in_version demo_instance) = Some demo_program"
  "length (p_Properties demo_program) = 32" "room_for demo_start demo_instance"
  "r_loop demo_start = Attaching demo_instance"
  by (simp_all add: demo_start_def room_for_def clusters_max_def)

lemma demo_maps_ok:
  "state_ok demo_maps" "cluster_at demo_maps 42 = Some (registered demo_start demo_instance)"
  "thread_db_ctx_hash demo_maps = []" "db_ctx_queue demo_maps = []"
  "clusters demo_maps = r_clusters (attachInstance False demo_instance demo_start)"
proof -
  have "runner_ok demo_start"
    by (rule runner_okI) (simp_all add: demo_start_def has_program_def hash_ok_def)
  then have "runner_ok (attachInstance False demo_instance demo_start)"
    by (rule attachInstance_ok) (rule demo_start_ok(4))
  then have "hash_ok 1024 (r_clusters (attachInstance False demo_instance demo_start))"
    using runner_okD(5) by (simp add: clusters_max_def)
  with init_state_ok show "state_ok demo_maps" by (simp add: demo_maps_def state_ok_def)
  show "cluster_at demo_maps 42 = Some (registered demo_start demo_instance)"
    using attachInstance_registers(6) [OF demo_start_ok] by (simp add: demo_maps_def)
qed (simp_all add: demo_maps_def init_state_def)

theorem attached_query_is_printed_witness:
  "\<exists>pu' b. pump_iteration (Record 0) None of_nat \<lparr>pu_dbCtx = go_db_ctx demo_ctx, pu_printed = []\<rparr>
      (db_ctx_queue (probe_step (probe_step demo_maps (probe_op.Query demo_in)) (Query_Return demo_out))) = Continue pu' [] \<and>
    pu_printed pu' = [b] \<and>
    {(''process_id'', Number 42), (''pthread_id'', Number 7), (''cost_time'', Number 250)}
      \<subseteq> set (Print (\<lambda>n. ''now'') (\<lambda>bs. map char_of_byte (cstr bs)) b)"
  using attached_query_is_printed [OF demo_start_ok demo_maps_ok(1,5), of demo_in "[]"
      "probe_step demo_maps (probe_op.Query demo_in)" demo_out of_nat
      "\<lparr>pu_dbCtx = go_db_ctx demo_ctx, pu_printed = []\<rparr>"
      "\<lambda>bs. map char_of_byte (cstr bs)" "\<lambda>n. ''now''"] demo_maps_ok(2,3,4)
  by auto

end
