(* ===== verification/Endian_H.thy ===== *)
theory Endian_H
  imports Common_H
begin

text \<open>
  \<^verbatim>\<open>headers/bpf_endian.h\<close>: the byte-moving macro \<^verbatim>\<open>___bpf_mvb\<close>, the constant byte
  swaps built from it, and the \<^verbatim>\<open>bpf_hton\<close>/\<^verbatim>\<open>bpf_ntoh\<close> family with its two
  selections, on the byte order of the target and on whether the argument is a compile-time
  constant. The lemmas show that the swaps reverse the bytes and that, on either byte order
  and on either path, the converted value lies in memory in network order.
\<close>

subsection \<open>The macros\<close>

text \<open>
  \<open>___bpf_mvb(x, b, n, m)\<close> shifts the cast value left, right and left again. For
  \<open>b = 16\<close> the C promotions turn the 16-bit operand into a 32-bit \<^verbatim>\<open>int\<close> first, so no bit
  is lost in the first shift and the right shift is arithmetic.
\<close>

definition bpf_mvb16 :: "u16 \<Rightarrow> nat \<Rightarrow> nat \<Rightarrow> s32" where
  "bpf_mvb16 x n m =
     push_bit (m * 8) (signed_drop_bit (16 - 8) (push_bit (16 - (n + 1) * 8) (ucast x)))"

definition bpf_mvb32 :: "u32 \<Rightarrow> nat \<Rightarrow> nat \<Rightarrow> u32" where
  "bpf_mvb32 x n m = push_bit (m * 8) (drop_bit (32 - 8) (push_bit (32 - (n + 1) * 8) x))"

definition bpf_mvb64 :: "u64 \<Rightarrow> nat \<Rightarrow> nat \<Rightarrow> u64" where
  "bpf_mvb64 x n m = push_bit (m * 8) (drop_bit (64 - 8) (push_bit (64 - (n + 1) * 8) x))"

definition bpf_swab16 :: "u16 \<Rightarrow> u16" where
  "bpf_swab16 x = ucast (bpf_mvb16 x 0 1 OR bpf_mvb16 x 1 0)"

definition bpf_swab32 :: "u32 \<Rightarrow> u32" where
  "bpf_swab32 x =
     bpf_mvb32 x 0 3 OR bpf_mvb32 x 1 2 OR bpf_mvb32 x 2 1 OR bpf_mvb32 x 3 0"

definition bpf_swab64 :: "u64 \<Rightarrow> u64" where
  "bpf_swab64 x =
     bpf_mvb64 x 0 7 OR bpf_mvb64 x 1 6 OR bpf_mvb64 x 2 5 OR bpf_mvb64 x 3 4 OR
     bpf_mvb64 x 4 3 OR bpf_mvb64 x 5 2 OR bpf_mvb64 x 6 1 OR bpf_mvb64 x 7 0"

datatype byte_order = Little_Endian | Big_Endian

text \<open>The compiler's byte-swap instruction, \<^verbatim>\<open>__builtin_bswap16/32/64\<close>.\<close>

definition builtin_bswap :: "nat \<Rightarrow> 'a::len word \<Rightarrow> 'a word" where
  "builtin_bswap n x = le_word (rev (le_bytes n x))"

text \<open>
  The conversions; the flag says whether \<^verbatim>\<open>__builtin_constant_p\<close> holds of the argument.
\<close>

definition bpf_htons :: "byte_order \<Rightarrow> bool \<Rightarrow> u16 \<Rightarrow> u16" where
  "bpf_htons ord const x = (case ord of
     Little_Endian \<Rightarrow> (if const then bpf_swab16 x else builtin_bswap 2 x)
   | Big_Endian \<Rightarrow> x)"

definition bpf_ntohs :: "byte_order \<Rightarrow> bool \<Rightarrow> u16 \<Rightarrow> u16" where
  "bpf_ntohs ord const x = (case ord of
     Little_Endian \<Rightarrow> (if const then bpf_swab16 x else builtin_bswap 2 x)
   | Big_Endian \<Rightarrow> x)"

definition bpf_htonl :: "byte_order \<Rightarrow> bool \<Rightarrow> u32 \<Rightarrow> u32" where
  "bpf_htonl ord const x = (case ord of
     Little_Endian \<Rightarrow> (if const then bpf_swab32 x else builtin_bswap 4 x)
   | Big_Endian \<Rightarrow> x)"

definition bpf_ntohl :: "byte_order \<Rightarrow> bool \<Rightarrow> u32 \<Rightarrow> u32" where
  "bpf_ntohl ord const x = (case ord of
     Little_Endian \<Rightarrow> (if const then bpf_swab32 x else builtin_bswap 4 x)
   | Big_Endian \<Rightarrow> x)"

definition bpf_cpu_to_be64 :: "byte_order \<Rightarrow> bool \<Rightarrow> u64 \<Rightarrow> u64" where
  "bpf_cpu_to_be64 ord const x = (case ord of
     Little_Endian \<Rightarrow> (if const then bpf_swab64 x else builtin_bswap 8 x)
   | Big_Endian \<Rightarrow> x)"

definition bpf_be64_to_cpu :: "byte_order \<Rightarrow> bool \<Rightarrow> u64 \<Rightarrow> u64" where
  "bpf_be64_to_cpu ord const x = (case ord of
     Little_Endian \<Rightarrow> (if const then bpf_swab64 x else builtin_bswap 8 x)
   | Big_Endian \<Rightarrow> x)"

subsection \<open>The swaps reverse the bytes\<close>

lemma bit_builtin_bswap:
  assumes "LENGTH('a) = 8 * n" "i < LENGTH('a)"
  shows "bit (builtin_bswap n (x :: 'a::len word)) i \<longleftrightarrow> bit x (8 * (n - 1 - i div 8) + i mod 8)"
proof -
  have k: "i div 8 < n" using assms by (simp add: less_mult_imp_div_less mult.commute)
  then have "rev (le_bytes n x) ! (i div 8) = le_bytes n x ! (n - 1 - i div 8)"
    by (simp add: rev_nth)
  also have "\<dots> = ucast (drop_bit (8 * (n - 1 - i div 8)) x)"
    using k by (simp add: le_bytes_def)
  finally show ?thesis
    using assms k by (auto simp: builtin_bswap_def bit_le_word bit_simps add.commute
        dest: bit_imp_le_length)
qed

lemma bit_bpf_mvb32:
  assumes "n < 4" "i < 32"
  shows "bit (bpf_mvb32 x n m) i \<longleftrightarrow> i div 8 = m \<and> bit x (8 * n + i mod 8)"
proof -
  have bit: "bit (bpf_mvb32 x n m) i \<longleftrightarrow>
      m * 8 \<le> i \<and> 24 + (i - m * 8) < 32 \<and> bit x (24 + (i - m * 8) - (32 - (n + 1) * 8))"
    using assms by (simp add: bpf_mvb32_def bit_simps) auto
  have range: "m * 8 \<le> i \<and> 24 + (i - m * 8) < 32 \<longleftrightarrow> i div 8 = m"
    by linarith
  have "i - m * 8 = i mod 8" if "i div 8 = m"
    using that by (metis minus_div_mult_eq_mod)
  moreover have "n = 0 \<or> n = 1 \<or> n = 2 \<or> n = 3"
    using assms(1) by linarith
  then have "24 + j - (32 - (n + 1) * 8) = 8 * n + j" for j :: nat
    by (elim disjE) simp_all
  ultimately show ?thesis
    by (auto simp: bit range [symmetric])
qed

lemma bit_bpf_mvb64:
  assumes "n < 8" "i < 64"
  shows "bit (bpf_mvb64 x n m) i \<longleftrightarrow> i div 8 = m \<and> bit x (8 * n + i mod 8)"
proof -
  have bit: "bit (bpf_mvb64 x n m) i \<longleftrightarrow>
      m * 8 \<le> i \<and> 56 + (i - m * 8) < 64 \<and> bit x (56 + (i - m * 8) - (64 - (n + 1) * 8))"
    using assms by (simp add: bpf_mvb64_def bit_simps) auto
  have range: "m * 8 \<le> i \<and> 56 + (i - m * 8) < 64 \<longleftrightarrow> i div 8 = m"
    by linarith
  have "i - m * 8 = i mod 8" if "i div 8 = m"
    using that by (metis minus_div_mult_eq_mod)
  moreover have "n = 0 \<or> n = 1 \<or> n = 2 \<or> n = 3 \<or> n = 4 \<or> n = 5 \<or> n = 6 \<or> n = 7"
    using assms(1) by linarith
  then have "56 + j - (64 - (n + 1) * 8) = 8 * n + j" for j :: nat
    by (elim disjE) simp_all
  ultimately show ?thesis
    by (auto simp: bit range [symmetric])
qed

lemma div8_cases4: "i < 32 \<Longrightarrow> i div 8 = 0 \<or> i div 8 = 1 \<or> i div 8 = 2 \<or> i div 8 = (3::nat)"
  by linarith

lemma div8_cases8:
  "i < 64 \<Longrightarrow> i div 8 = 0 \<or> i div 8 = 1 \<or> i div 8 = 2 \<or> i div 8 = 3 \<or>
    i div 8 = 4 \<or> i div 8 = 5 \<or> i div 8 = 6 \<or> i div 8 = (7::nat)"
  by linarith

lemma bpf_swab16_eq: "bpf_swab16 x = builtin_bswap 2 x"
proof (rule bit_word_eqI)
  fix i assume i: "i < LENGTH(16)"
  show "bit (bpf_swab16 x) i = bit (builtin_bswap 2 x) i"
  proof (cases "i < 8")
    case True
    with i show ?thesis
      by (simp add: bit_builtin_bswap bpf_swab16_def bpf_mvb16_def bit_simps)
  next
    case False
    then have "i div 8 = 1" "i mod 8 = i - 8" using i by (simp_all add: le_mod_geq)
    with False i show ?thesis
      by (simp add: bit_builtin_bswap bpf_swab16_def bpf_mvb16_def bit_simps)
         (auto dest: bit_imp_le_length)
  qed
qed

lemma bpf_swab32_eq: "bpf_swab32 x = builtin_bswap 4 x"
proof (rule bit_word_eqI)
  fix i assume i: "i < LENGTH(32)"
  then have "i < 32" by simp
  from div8_cases4 [OF this] i show "bit (bpf_swab32 x) i = bit (builtin_bswap 4 x) i"
    by (elim disjE) (simp_all add: bit_builtin_bswap bpf_swab32_def bit_bpf_mvb32 bit_or_iff)
qed

lemma bpf_swab64_eq: "bpf_swab64 x = builtin_bswap 8 x"
proof (rule bit_word_eqI)
  fix i assume i: "i < LENGTH(64)"
  then have "i < 64" by simp
  from div8_cases8 [OF this] i show "bit (bpf_swab64 x) i = bit (builtin_bswap 8 x) i"
    by (elim disjE) (simp_all add: bit_builtin_bswap bpf_swab64_def bit_bpf_mvb64 bit_or_iff)
qed

lemmas bpf_swab_eq = bpf_swab16_eq bpf_swab32_eq bpf_swab64_eq

lemma le_bytes_builtin_bswap:
  assumes "LENGTH('a) = 8 * n"
  shows "le_bytes n (builtin_bswap n (x :: 'a::len word)) = rev (le_bytes n x)"
  using assms by (simp add: builtin_bswap_def le_bytes_le_word)

lemma builtin_bswap_involution:
  assumes "LENGTH('a) = 8 * n"
  shows "builtin_bswap n (builtin_bswap n (x :: 'a::len word)) = x"
  using assms
  by (simp add: builtin_bswap_def [of n "builtin_bswap n x"] le_bytes_builtin_bswap le_word_le_bytes)

subsection \<open>Network order in memory\<close>

text \<open>How a target of the given byte order stores an integer of \<open>n\<close> bytes.\<close>

definition mem_image :: "byte_order \<Rightarrow> nat \<Rightarrow> 'a::len word \<Rightarrow> u8 list" where
  "mem_image ord n x = (case ord of Little_Endian \<Rightarrow> le_bytes n x | Big_Endian \<Rightarrow> rev (le_bytes n x))"

lemmas hton_defs = bpf_htons_def bpf_ntohs_def bpf_htonl_def bpf_ntohl_def
  bpf_cpu_to_be64_def bpf_be64_to_cpu_def

text \<open>C38: whatever the byte order of the target and whether or not the argument is a
  compile-time constant, the result of \<^verbatim>\<open>bpf_htons\<close>, \<^verbatim>\<open>bpf_htonl\<close> and
  \<^verbatim>\<open>bpf_cpu_to_be64\<close> lies in memory as the big-endian image of the argument.\<close>

theorem hton_memory_is_network_order:
  "mem_image ord 2 (bpf_htons ord c s) = rev (le_bytes 2 s) \<and>
   mem_image ord 4 (bpf_htonl ord c l) = rev (le_bytes 4 l) \<and>
   mem_image ord 8 (bpf_cpu_to_be64 ord c q) = rev (le_bytes 8 q)"
  by (cases ord) (simp_all add: mem_image_def hton_defs bpf_swab_eq le_bytes_builtin_bswap)

text \<open>The conversions back to host order undo the conversions to network order, even
  when one of the two is folded at compile time and the other runs the swap instruction.\<close>

theorem ntoh_hton_roundtrip:
  "bpf_ntohs ord c (bpf_htons ord c' s) = s \<and>
   bpf_ntohl ord c (bpf_htonl ord c' l) = l \<and>
   bpf_be64_to_cpu ord c (bpf_cpu_to_be64 ord c' q) = q"
  by (cases ord) (simp_all add: hton_defs bpf_swab_eq builtin_bswap_involution)

end
