(* ===== verification/Helper_Defs_H.thy ===== *)
theory Helper_Defs_H
  imports Helpers_H
begin

text \<open>
  \<^verbatim>\<open>headers/bpf_helper_defs.h\<close>: the declarations of the kernel helpers a program can call.
  Each declaration binds a name to a function pointer whose value is the helper's number; an
  entry keeps the number, the name, the return type, the parameters in order and whether the
  parameter list is open; and of the comment: what a successful and what a failing call
  returns, the error codes, the constants (flags, map and program types) and the other helpers
  it names, each once in the order of the text. The rest of a comment is prose about the kernel.
  The behaviour of the helpers the probes call is modelled where they are used, in the theories
  \<open>Bpf_Maps\<close> and \<open>Mysqld_Probe\<close>. The table is cut
  into runs of declarations in the order of the file. The kernel's code behind the helpers is
  not part of the repository.
\<close>

datatype c_type =
    T_void | T_int | T_long | T_ulong | T_u16 | T_u32 | T_u64 | T_s32 | T_s64 | T_be16 | T_wsum
  | T_void_ptr | T_const_void_ptr | T_char_ptr | T_const_char_ptr | T_u32_ptr | T_u64_ptr
  | T_be32_ptr | T_long_ptr | T_ulong_ptr | T_struct_ptr string

text \<open>What a successful call returns: zero, a number, a pointer, a verdict for the packet, or
  nothing the comment tells.\<close>

datatype success_doc = Zero | A_value | A_pointer | Action_code | Nothing_said
datatype failure_doc = Fails_negative | Fails_NULL | No_failure_code

datatype helper_decl = helper
  (hd_id: nat) (hd_name: string) (hd_ret: c_type) (hd_params: "(c_type \<times> string) list")
  (hd_variadic: bool) (hd_success: success_doc) (hd_failure: failure_doc)
  (hd_errors: "string list") (hd_constants: "string list") (hd_see: "string list")

text \<open>The structures the file declares forward.\<close>

definition forward_structs :: "string list" where
  "forward_structs = [''bpf_fib_lookup'', ''bpf_sk_lookup'', ''bpf_perf_event_data'',
       ''bpf_perf_event_value'', ''bpf_pidns_info'', ''bpf_redir_neigh'', ''bpf_sock'',
       ''bpf_sock_addr'', ''bpf_sock_ops'', ''bpf_sock_tuple'', ''bpf_spin_lock'',
       ''bpf_sysctl'', ''bpf_tcp_sock'', ''bpf_tunnel_key'', ''bpf_xfrm_state'',
       ''linux_binprm'', ''pt_regs'', ''sk_reuseport_md'', ''sockaddr'', ''tcphdr'',
       ''seq_file'', ''tcp6_sock'', ''tcp_sock'', ''tcp_timewait_sock'',
       ''tcp_request_sock'', ''udp6_sock'', ''unix_sock'', ''task_struct'', ''__sk_buff'',
       ''sk_msg_md'', ''xdp_md'', ''path'', ''btf_ptr'', ''inode'', ''socket'', ''file'',
       ''bpf_timer'']"

definition helper_defs_01 :: "helper_decl list" where
  "helper_defs_01 = [
    helper 1 ''bpf_map_lookup_elem'' (T_void_ptr)
      [(T_void_ptr, ''map''), (T_const_void_ptr, ''key'')]
      False A_pointer Fails_NULL
      [] [] [],
    helper 2 ''bpf_map_update_elem'' (T_long)
      [(T_void_ptr, ''map''), (T_const_void_ptr, ''key''), (T_const_void_ptr, ''value''),
       (T_u64, ''flags'')]
      False Zero Fails_negative
      []
      [''BPF_NOEXIST'', ''BPF_EXIST'', ''BPF_ANY'', ''BPF_MAP_TYPE_ARRAY'',
       ''BPF_MAP_TYPE_PERCPU_ARRAY'']
      [],
    helper 3 ''bpf_map_delete_elem'' (T_long)
      [(T_void_ptr, ''map''), (T_const_void_ptr, ''key'')]
      False Zero Fails_negative
      [] [] [],
    helper 4 ''bpf_probe_read'' (T_long)
      [(T_void_ptr, ''dst''), (T_u32, ''size''), (T_const_void_ptr, ''unsafe_ptr'')]
      False Zero Fails_negative
      [] [] [''bpf_probe_read_user'', ''bpf_probe_read_kernel''],
    helper 5 ''bpf_ktime_get_ns'' (T_u64)
      []
      False A_value No_failure_code
      [] [] [],
    helper 6 ''bpf_trace_printk'' (T_long)
      [(T_const_char_ptr, ''fmt''), (T_u32, ''fmt_size'')]
      True A_value Fails_negative
      [] [] [],
    helper 7 ''bpf_get_prandom_u32'' (T_u32)
      []
      False A_value No_failure_code
      [] [] []]"

definition helper_defs_02 :: "helper_decl list" where
  "helper_defs_02 = [
    helper 8 ''bpf_get_smp_processor_id'' (T_u32)
      []
      False A_value No_failure_code
      [] [] [],
    helper 9 ''bpf_skb_store_bytes'' (T_long)
      [(T_struct_ptr ''__sk_buff'', ''skb''), (T_u32, ''offset''),
       (T_const_void_ptr, ''from''), (T_u32, ''len''), (T_u64, ''flags'')]
      False Zero Fails_negative
      [] [''BPF_F_RECOMPUTE_CSUM'', ''BPF_F_INVALIDATE_HASH''] [],
    helper 10 ''bpf_l3_csum_replace'' (T_long)
      [(T_struct_ptr ''__sk_buff'', ''skb''), (T_u32, ''offset''), (T_u64, ''from''),
       (T_u64, ''to''), (T_u64, ''size'')]
      False Zero Fails_negative
      [] [] [''bpf_csum_diff''],
    helper 11 ''bpf_l4_csum_replace'' (T_long)
      [(T_struct_ptr ''__sk_buff'', ''skb''), (T_u32, ''offset''), (T_u64, ''from''),
       (T_u64, ''to''), (T_u64, ''flags'')]
      False Zero Fails_negative
      []
      [''BPF_F_MARK_MANGLED_0'', ''BPF_F_MARK_ENFORCE'', ''BPF_F_PSEUDO_HDR'']
      [''bpf_csum_diff''],
    helper 12 ''bpf_tail_call'' (T_long)
      [(T_void_ptr, ''ctx''), (T_void_ptr, ''prog_array_map''), (T_u32, ''index'')]
      False Zero Fails_negative
      [] [''BPF_MAP_TYPE_PROG_ARRAY''] []]"

definition helper_defs_03 :: "helper_decl list" where
  "helper_defs_03 = [
    helper 13 ''bpf_clone_redirect'' (T_long)
      [(T_struct_ptr ''__sk_buff'', ''skb''), (T_u32, ''ifindex''), (T_u64, ''flags'')]
      False Zero Fails_negative
      [] [''BPF_F_INGRESS''] [''bpf_redirect''],
    helper 14 ''bpf_get_current_pid_tgid'' (T_u64)
      []
      False A_value No_failure_code
      [] [] [],
    helper 15 ''bpf_get_current_uid_gid'' (T_u64)
      []
      False A_value No_failure_code
      [] [] [],
    helper 16 ''bpf_get_current_comm'' (T_long)
      [(T_void_ptr, ''buf''), (T_u32, ''size_of_buf'')]
      False Zero Fails_negative
      [] [] [],
    helper 17 ''bpf_get_cgroup_classid'' (T_u32)
      [(T_struct_ptr ''__sk_buff'', ''skb'')]
      False A_value No_failure_code
      [] [] [],
    helper 18 ''bpf_skb_vlan_push'' (T_long)
      [(T_struct_ptr ''__sk_buff'', ''skb''), (T_be16, ''vlan_proto''),
       (T_u16, ''vlan_tci'')]
      False Zero Fails_negative
      [] [] [],
    helper 19 ''bpf_skb_vlan_pop'' (T_long)
      [(T_struct_ptr ''__sk_buff'', ''skb'')]
      False Zero Fails_negative
      [] [] []]"

definition helper_defs_04 :: "helper_decl list" where
  "helper_defs_04 = [
    helper 20 ''bpf_skb_get_tunnel_key'' (T_long)
      [(T_struct_ptr ''__sk_buff'', ''skb''), (T_struct_ptr ''bpf_tunnel_key'', ''key''),
       (T_u32, ''size''), (T_u64, ''flags'')]
      False Zero Fails_negative
      [] [''BPF_F_TUNINFO_IPV6''] [],
    helper 21 ''bpf_skb_set_tunnel_key'' (T_long)
      [(T_struct_ptr ''__sk_buff'', ''skb''), (T_struct_ptr ''bpf_tunnel_key'', ''key''),
       (T_u32, ''size''), (T_u64, ''flags'')]
      False Zero Fails_negative
      []
      [''BPF_F_TUNINFO_IPV6'', ''BPF_F_ZERO_CSUM_TX'', ''BPF_F_DONT_FRAGMENT'',
       ''BPF_F_SEQ_NUMBER'']
      [''bpf_skb_get_tunnel_key''],
    helper 22 ''bpf_perf_event_read'' (T_u64)
      [(T_void_ptr, ''map''), (T_u64, ''flags'')]
      False A_value Fails_negative
      []
      [''BPF_MAP_TYPE_PERF_EVENT_ARRAY'', ''BPF_F_INDEX_MASK'', ''BPF_F_CURRENT_CPU'']
      [''bpf_perf_event_read_value'']]"

definition helper_defs_05 :: "helper_decl list" where
  "helper_defs_05 = [
    helper 23 ''bpf_redirect'' (T_long)
      [(T_u32, ''ifindex''), (T_u64, ''flags'')]
      False Action_code No_failure_code
      [] [''BPF_F_INGRESS''] [''bpf_redirect_map''],
    helper 24 ''bpf_get_route_realm'' (T_u32)
      [(T_struct_ptr ''__sk_buff'', ''skb'')]
      False A_value No_failure_code
      [] [] [''bpf_get_cgroup_classid''],
    helper 25 ''bpf_perf_event_output'' (T_long)
      [(T_void_ptr, ''ctx''), (T_void_ptr, ''map''), (T_u64, ''flags''),
       (T_void_ptr, ''data''), (T_u64, ''size'')]
      False Zero Fails_negative
      []
      [''BPF_MAP_TYPE_PERF_EVENT_ARRAY'', ''BPF_F_INDEX_MASK'', ''BPF_F_CURRENT_CPU'']
      [''bpf_trace_printk''],
    helper 26 ''bpf_skb_load_bytes'' (T_long)
      [(T_const_void_ptr, ''skb''), (T_u32, ''offset''), (T_void_ptr, ''to''),
       (T_u32, ''len'')]
      False Zero Fails_negative
      [] [] []]"

definition helper_defs_06 :: "helper_decl list" where
  "helper_defs_06 = [
    helper 27 ''bpf_get_stackid'' (T_long)
      [(T_void_ptr, ''ctx''), (T_void_ptr, ''map''), (T_u64, ''flags'')]
      False A_value Fails_negative
      []
      [''BPF_MAP_TYPE_STACK_TRACE'', ''BPF_F_SKIP_FIELD_MASK'', ''BPF_F_USER_STACK'',
       ''BPF_F_FAST_STACK_CMP'', ''BPF_F_REUSE_STACKID'']
      [''bpf_probe_read''],
    helper 28 ''bpf_csum_diff'' (T_s64)
      [(T_be32_ptr, ''from''), (T_u32, ''from_size''), (T_be32_ptr, ''to''),
       (T_u32, ''to_size''), (T_wsum, ''seed'')]
      False A_value Fails_negative
      [] [] [''bpf_l3_csum_replace'', ''bpf_l4_csum_replace''],
    helper 29 ''bpf_skb_get_tunnel_opt'' (T_long)
      [(T_struct_ptr ''__sk_buff'', ''skb''), (T_void_ptr, ''opt''), (T_u32, ''size'')]
      False A_value No_failure_code
      [] [] [''bpf_skb_get_tunnel_key''],
    helper 30 ''bpf_skb_set_tunnel_opt'' (T_long)
      [(T_struct_ptr ''__sk_buff'', ''skb''), (T_void_ptr, ''opt''), (T_u32, ''size'')]
      False Zero Fails_negative
      [] [] [''bpf_skb_get_tunnel_opt''],
    helper 31 ''bpf_skb_change_proto'' (T_long)
      [(T_struct_ptr ''__sk_buff'', ''skb''), (T_be16, ''proto''), (T_u64, ''flags'')]
      False Zero Fails_negative
      [] [] [''bpf_l3_csum_replace'']]"

definition helper_defs_07 :: "helper_decl list" where
  "helper_defs_07 = [
    helper 32 ''bpf_skb_change_type'' (T_long)
      [(T_struct_ptr ''__sk_buff'', ''skb''), (T_u32, ''type'')]
      False Zero Fails_negative
      [] [''BPF_F_INGRESS''] [],
    helper 33 ''bpf_skb_under_cgroup'' (T_long)
      [(T_struct_ptr ''__sk_buff'', ''skb''), (T_void_ptr, ''map''), (T_u32, ''index'')]
      False A_value Fails_negative
      [] [''BPF_MAP_TYPE_CGROUP_ARRAY''] [],
    helper 34 ''bpf_get_hash_recalc'' (T_u32)
      [(T_struct_ptr ''__sk_buff'', ''skb'')]
      False A_value No_failure_code
      []
      [''BPF_F_INVALIDATE_HASH'']
      [''bpf_set_hash_invalid'', ''bpf_skb_change_proto'', ''bpf_skb_store_bytes''],
    helper 35 ''bpf_get_current_task'' (T_u64)
      []
      False A_pointer No_failure_code
      [] [] [],
    helper 36 ''bpf_probe_write_user'' (T_long)
      [(T_void_ptr, ''dst''), (T_const_void_ptr, ''src''), (T_u32, ''len'')]
      False Zero Fails_negative
      [] [] [],
    helper 37 ''bpf_current_task_under_cgroup'' (T_long)
      [(T_void_ptr, ''map''), (T_u32, ''index'')]
      False A_value Fails_negative
      [] [''BPF_MAP_TYPE_CGROUP_ARRAY''] [],
    helper 38 ''bpf_skb_change_tail'' (T_long)
      [(T_struct_ptr ''__sk_buff'', ''skb''), (T_u32, ''len''), (T_u64, ''flags'')]
      False Zero Fails_negative
      [] [] [''bpf_skb_store_bytes'', ''bpf_l3_csum_replace'']]"

definition helper_defs_08 :: "helper_decl list" where
  "helper_defs_08 = [
    helper 39 ''bpf_skb_pull_data'' (T_long)
      [(T_struct_ptr ''__sk_buff'', ''skb''), (T_u32, ''len'')]
      False Zero Fails_negative
      [] [] [''bpf_skb_load_bytes''],
    helper 40 ''bpf_csum_update'' (T_s64)
      [(T_struct_ptr ''__sk_buff'', ''skb''), (T_wsum, ''csum'')]
      False A_value Fails_negative
      [] [] [''bpf_csum_diff''],
    helper 41 ''bpf_set_hash_invalid'' (T_void)
      [(T_struct_ptr ''__sk_buff'', ''skb'')]
      False Nothing_said No_failure_code
      [] [] [''bpf_get_hash_recalc''],
    helper 42 ''bpf_get_numa_node_id'' (T_long)
      []
      False A_value No_failure_code
      [] [] [''bpf_get_smp_processor_id''],
    helper 43 ''bpf_skb_change_head'' (T_long)
      [(T_struct_ptr ''__sk_buff'', ''skb''), (T_u32, ''len''), (T_u64, ''flags'')]
      False Zero Fails_negative
      [] [] [],
    helper 44 ''bpf_xdp_adjust_head'' (T_long)
      [(T_struct_ptr ''xdp_md'', ''xdp_md''), (T_int, ''delta'')]
      False Zero Fails_negative
      [] [] [],
    helper 45 ''bpf_probe_read_str'' (T_long)
      [(T_void_ptr, ''dst''), (T_u32, ''size''), (T_const_void_ptr, ''unsafe_ptr'')]
      False A_value Fails_negative
      [] [] [''bpf_probe_read_kernel_str'', ''bpf_probe_read_user_str'']]"

definition helper_defs_09 :: "helper_decl list" where
  "helper_defs_09 = [
    helper 46 ''bpf_get_socket_cookie'' (T_u64)
      [(T_void_ptr, ''ctx'')]
      False A_value No_failure_code
      [] [] [],
    helper 47 ''bpf_get_socket_uid'' (T_u32)
      [(T_struct_ptr ''__sk_buff'', ''skb'')]
      False A_value No_failure_code
      [] [] [],
    helper 48 ''bpf_set_hash'' (T_long)
      [(T_struct_ptr ''__sk_buff'', ''skb''), (T_u32, ''hash'')]
      False Zero No_failure_code
      [] [] [],
    helper 49 ''bpf_setsockopt'' (T_long)
      [(T_void_ptr, ''bpf_socket''), (T_int, ''level''), (T_int, ''optname''),
       (T_void_ptr, ''optval''), (T_int, ''optlen'')]
      False Zero Fails_negative
      []
      [''BPF_PROG_TYPE_SOCK_OPS'', ''BPF_CGROUP_INET4_CONNECT'', ''BPF_CGROUP_INET6_CONNECT'']
      [],
    helper 50 ''bpf_skb_adjust_room'' (T_long)
      [(T_struct_ptr ''__sk_buff'', ''skb''), (T_s32, ''len_diff''), (T_u32, ''mode''),
       (T_u64, ''flags'')]
      False Zero Fails_negative
      []
      [''BPF_F_ADJ_ROOM_NO_CSUM_RESET'', ''BPF_ADJ_ROOM_MAC'', ''BPF_ADJ_ROOM_NET'',
       ''BPF_F_ADJ_ROOM_FIXED_GSO'', ''BPF_F_ADJ_ROOM_ENCAP_L3_IPV4'',
       ''BPF_F_ADJ_ROOM_ENCAP_L3_IPV6'', ''BPF_F_ADJ_ROOM_ENCAP_L4_GRE'',
       ''BPF_F_ADJ_ROOM_ENCAP_L4_UDP'', ''BPF_F_ADJ_ROOM_ENCAP_L2'',
       ''BPF_F_ADJ_ROOM_ENCAP_L2_ETH'']
      []]"

definition helper_defs_10 :: "helper_decl list" where
  "helper_defs_10 = [
    helper 51 ''bpf_redirect_map'' (T_long)
      [(T_void_ptr, ''map''), (T_u32, ''key''), (T_u64, ''flags'')]
      False Action_code No_failure_code
      [] [] [''bpf_redirect''],
    helper 52 ''bpf_sk_redirect_map'' (T_long)
      [(T_struct_ptr ''__sk_buff'', ''skb''), (T_void_ptr, ''map''), (T_u32, ''key''),
       (T_u64, ''flags'')]
      False Action_code No_failure_code
      [] [''BPF_MAP_TYPE_SOCKMAP'', ''BPF_F_INGRESS''] [],
    helper 53 ''bpf_sock_map_update'' (T_long)
      [(T_struct_ptr ''bpf_sock_ops'', ''skops''), (T_void_ptr, ''map''),
       (T_void_ptr, ''key''), (T_u64, ''flags'')]
      False Zero Fails_negative
      [] [''BPF_NOEXIST'', ''BPF_EXIST'', ''BPF_ANY''] [],
    helper 54 ''bpf_xdp_adjust_meta'' (T_long)
      [(T_struct_ptr ''xdp_md'', ''xdp_md''), (T_int, ''delta'')]
      False Zero Fails_negative
      [] [] []]"

definition helper_defs_11 :: "helper_decl list" where
  "helper_defs_11 = [
    helper 55 ''bpf_perf_event_read_value'' (T_long)
      [(T_void_ptr, ''map''), (T_u64, ''flags''),
       (T_struct_ptr ''bpf_perf_event_value'', ''buf''), (T_u32, ''buf_size'')]
      False Zero Fails_negative
      []
      [''BPF_MAP_TYPE_PERF_EVENT_ARRAY'', ''BPF_F_INDEX_MASK'', ''BPF_F_CURRENT_CPU'']
      [''bpf_perf_event_read''],
    helper 56 ''bpf_perf_prog_read_value'' (T_long)
      [(T_struct_ptr ''bpf_perf_event_data'', ''ctx''),
       (T_struct_ptr ''bpf_perf_event_value'', ''buf''), (T_u32, ''buf_size'')]
      False Zero Fails_negative
      [] [] [''bpf_perf_event_read_value''],
    helper 57 ''bpf_getsockopt'' (T_long)
      [(T_void_ptr, ''bpf_socket''), (T_int, ''level''), (T_int, ''optname''),
       (T_void_ptr, ''optval''), (T_int, ''optlen'')]
      False Zero Fails_negative
      []
      [''BPF_PROG_TYPE_SOCK_OPS'', ''BPF_CGROUP_INET4_CONNECT'', ''BPF_CGROUP_INET6_CONNECT'']
      [],
    helper 58 ''bpf_override_return'' (T_long)
      [(T_struct_ptr ''pt_regs'', ''regs''), (T_u64, ''rc'')]
      False Zero No_failure_code
      [] [] []]"

definition helper_defs_12 :: "helper_decl list" where
  "helper_defs_12 = [
    helper 59 ''bpf_sock_ops_cb_flags_set'' (T_long)
      [(T_struct_ptr ''bpf_sock_ops'', ''bpf_sock''), (T_int, ''argval'')]
      False A_value Fails_negative
      [''EINVAL'']
      [''BPF_PROG_TYPE_SOCK_OPS'', ''BPF_SOCK_OPS_RTO_CB_FLAG'',
       ''BPF_SOCK_OPS_RETRANS_CB_FLAG'', ''BPF_SOCK_OPS_STATE_CB_FLAG'',
       ''BPF_SOCK_OPS_RTT_CB_FLAG'']
      [],
    helper 60 ''bpf_msg_redirect_map'' (T_long)
      [(T_struct_ptr ''sk_msg_md'', ''msg''), (T_void_ptr, ''map''), (T_u32, ''key''),
       (T_u64, ''flags'')]
      False Action_code No_failure_code
      [] [''BPF_MAP_TYPE_SOCKMAP'', ''BPF_F_INGRESS''] [],
    helper 61 ''bpf_msg_apply_bytes'' (T_long)
      [(T_struct_ptr ''sk_msg_md'', ''msg''), (T_u32, ''bytes'')]
      False Zero No_failure_code
      [] [] [],
    helper 62 ''bpf_msg_cork_bytes'' (T_long)
      [(T_struct_ptr ''sk_msg_md'', ''msg''), (T_u32, ''bytes'')]
      False Zero No_failure_code
      [] [] []]"

definition helper_defs_13 :: "helper_decl list" where
  "helper_defs_13 = [
    helper 63 ''bpf_msg_pull_data'' (T_long)
      [(T_struct_ptr ''sk_msg_md'', ''msg''), (T_u32, ''start''), (T_u32, ''end''),
       (T_u64, ''flags'')]
      False Zero Fails_negative
      [] [''BPF_PROG_TYPE_SK_MSG''] [],
    helper 64 ''bpf_bind'' (T_long)
      [(T_struct_ptr ''bpf_sock_addr'', ''ctx''), (T_struct_ptr ''sockaddr'', ''addr''),
       (T_int, ''addr_len'')]
      False Zero Fails_negative
      [] [] [],
    helper 65 ''bpf_xdp_adjust_tail'' (T_long)
      [(T_struct_ptr ''xdp_md'', ''xdp_md''), (T_int, ''delta'')]
      False Zero Fails_negative
      [] [] [],
    helper 66 ''bpf_skb_get_xfrm_state'' (T_long)
      [(T_struct_ptr ''__sk_buff'', ''skb''), (T_u32, ''index''),
       (T_struct_ptr ''bpf_xfrm_state'', ''xfrm_state''), (T_u32, ''size''),
       (T_u64, ''flags'')]
      False Zero Fails_negative
      [] [] [],
    helper 67 ''bpf_get_stack'' (T_long)
      [(T_void_ptr, ''ctx''), (T_void_ptr, ''buf''), (T_u32, ''size''),
       (T_u64, ''flags'')]
      False A_value Fails_negative
      [] [''BPF_F_SKIP_FIELD_MASK'', ''BPF_F_USER_STACK'', ''BPF_F_USER_BUILD_ID''] []]"

definition helper_defs_14 :: "helper_decl list" where
  "helper_defs_14 = [
    helper 68 ''bpf_skb_load_bytes_relative'' (T_long)
      [(T_const_void_ptr, ''skb''), (T_u32, ''offset''), (T_void_ptr, ''to''),
       (T_u32, ''len''), (T_u32, ''start_header'')]
      False Zero Fails_negative
      [] [''BPF_HDR_START_MAC'', ''BPF_HDR_START_NET''] [''bpf_skb_load_bytes''],
    helper 69 ''bpf_fib_lookup'' (T_long)
      [(T_void_ptr, ''ctx''), (T_struct_ptr ''bpf_fib_lookup'', ''params''),
       (T_int, ''plen''), (T_u32, ''flags'')]
      False Zero Fails_negative
      []
      [''BPF_FIB_LOOKUP_DIRECT'', ''BPF_FIB_LOOKUP_OUTPUT'', ''BPF_FIB_LKUP_RET_'']
      [],
    helper 70 ''bpf_sock_hash_update'' (T_long)
      [(T_struct_ptr ''bpf_sock_ops'', ''skops''), (T_void_ptr, ''map''),
       (T_void_ptr, ''key''), (T_u64, ''flags'')]
      False Zero Fails_negative
      [] [''BPF_NOEXIST'', ''BPF_EXIST'', ''BPF_ANY''] [],
    helper 71 ''bpf_msg_redirect_hash'' (T_long)
      [(T_struct_ptr ''sk_msg_md'', ''msg''), (T_void_ptr, ''map''),
       (T_void_ptr, ''key''), (T_u64, ''flags'')]
      False Action_code No_failure_code
      [] [''BPF_MAP_TYPE_SOCKHASH'', ''BPF_F_INGRESS''] [],
    helper 72 ''bpf_sk_redirect_hash'' (T_long)
      [(T_struct_ptr ''__sk_buff'', ''skb''), (T_void_ptr, ''map''),
       (T_void_ptr, ''key''), (T_u64, ''flags'')]
      False Action_code No_failure_code
      [] [''BPF_MAP_TYPE_SOCKHASH'', ''BPF_F_INGRESS''] []]"

definition helper_defs_15 :: "helper_decl list" where
  "helper_defs_15 = [
    helper 73 ''bpf_lwt_push_encap'' (T_long)
      [(T_struct_ptr ''__sk_buff'', ''skb''), (T_u32, ''type''), (T_void_ptr, ''hdr''),
       (T_u32, ''len'')]
      False Zero Fails_negative
      []
      [''BPF_LWT_ENCAP_SEG6'', ''BPF_LWT_ENCAP_SEG6_INLINE'', ''BPF_LWT_ENCAP_IP'',
       ''BPF_PROG_TYPE_LWT_IN'', ''BPF_PROG_TYPE_LWT_XMIT'']
      [],
    helper 74 ''bpf_lwt_seg6_store_bytes'' (T_long)
      [(T_struct_ptr ''__sk_buff'', ''skb''), (T_u32, ''offset''),
       (T_const_void_ptr, ''from''), (T_u32, ''len'')]
      False Zero Fails_negative
      [] [] [],
    helper 75 ''bpf_lwt_seg6_adjust_srh'' (T_long)
      [(T_struct_ptr ''__sk_buff'', ''skb''), (T_u32, ''offset''), (T_s32, ''delta'')]
      False Zero Fails_negative
      [] [] [],
    helper 76 ''bpf_lwt_seg6_action'' (T_long)
      [(T_struct_ptr ''__sk_buff'', ''skb''), (T_u32, ''action''),
       (T_void_ptr, ''param''), (T_u32, ''param_len'')]
      False Zero Fails_negative
      [] [] [],
    helper 77 ''bpf_rc_repeat'' (T_long)
      [(T_void_ptr, ''ctx'')]
      False Zero No_failure_code
      [] [] []]"

definition helper_defs_16 :: "helper_decl list" where
  "helper_defs_16 = [
    helper 78 ''bpf_rc_keydown'' (T_long)
      [(T_void_ptr, ''ctx''), (T_u32, ''protocol''), (T_u64, ''scancode''),
       (T_u32, ''toggle'')]
      False Zero No_failure_code
      [] [] [''bpf_rc_repeat''],
    helper 79 ''bpf_skb_cgroup_id'' (T_u64)
      [(T_struct_ptr ''__sk_buff'', ''skb'')]
      False A_value No_failure_code
      [] [] [''bpf_get_cgroup_classid''],
    helper 80 ''bpf_get_current_cgroup_id'' (T_u64)
      []
      False A_value No_failure_code
      [] [] [],
    helper 81 ''bpf_get_local_storage'' (T_void_ptr)
      [(T_void_ptr, ''map''), (T_u64, ''flags'')]
      False A_pointer No_failure_code
      [] [''BPF_ATOMIC''] [],
    helper 82 ''bpf_sk_select_reuseport'' (T_long)
      [(T_struct_ptr ''sk_reuseport_md'', ''reuse''), (T_void_ptr, ''map''),
       (T_void_ptr, ''key''), (T_u64, ''flags'')]
      False Zero Fails_negative
      [] [''BPF_MAP_TYPE_REUSEPORT_SOCKARRAY''] [],
    helper 83 ''bpf_skb_ancestor_cgroup_id'' (T_u64)
      [(T_struct_ptr ''__sk_buff'', ''skb''), (T_int, ''ancestor_level'')]
      False A_value No_failure_code
      [] [] [''bpf_skb_cgroup_id'']]"

definition helper_defs_17 :: "helper_decl list" where
  "helper_defs_17 = [
    helper 84 ''bpf_sk_lookup_tcp'' (T_struct_ptr ''bpf_sock'')
      [(T_void_ptr, ''ctx''), (T_struct_ptr ''bpf_sock_tuple'', ''tuple''),
       (T_u32, ''tuple_size''), (T_u64, ''netns''), (T_u64, ''flags'')]
      False A_pointer Fails_NULL
      [] [] [''bpf_sk_release''],
    helper 85 ''bpf_sk_lookup_udp'' (T_struct_ptr ''bpf_sock'')
      [(T_void_ptr, ''ctx''), (T_struct_ptr ''bpf_sock_tuple'', ''tuple''),
       (T_u32, ''tuple_size''), (T_u64, ''netns''), (T_u64, ''flags'')]
      False A_pointer Fails_NULL
      [] [] [''bpf_sk_release''],
    helper 86 ''bpf_sk_release'' (T_long)
      [(T_void_ptr, ''sock'')]
      False Zero Fails_negative
      [] [] [''bpf_sk_lookup_xxx''],
    helper 87 ''bpf_map_push_elem'' (T_long)
      [(T_void_ptr, ''map''), (T_const_void_ptr, ''value''), (T_u64, ''flags'')]
      False Zero Fails_negative
      [] [''BPF_EXIST''] [],
    helper 88 ''bpf_map_pop_elem'' (T_long)
      [(T_void_ptr, ''map''), (T_void_ptr, ''value'')]
      False Zero Fails_negative
      [] [] [],
    helper 89 ''bpf_map_peek_elem'' (T_long)
      [(T_void_ptr, ''map''), (T_void_ptr, ''value'')]
      False Zero Fails_negative
      [] [] [],
    helper 90 ''bpf_msg_push_data'' (T_long)
      [(T_struct_ptr ''sk_msg_md'', ''msg''), (T_u32, ''start''), (T_u32, ''len''),
       (T_u64, ''flags'')]
      False Zero Fails_negative
      [] [''BPF_PROG_TYPE_SK_MSG''] []]"

definition helper_defs_18 :: "helper_decl list" where
  "helper_defs_18 = [
    helper 91 ''bpf_msg_pop_data'' (T_long)
      [(T_struct_ptr ''sk_msg_md'', ''msg''), (T_u32, ''start''), (T_u32, ''len''),
       (T_u64, ''flags'')]
      False Zero Fails_negative
      [] [] [],
    helper 92 ''bpf_rc_pointer_rel'' (T_long)
      [(T_void_ptr, ''ctx''), (T_s32, ''rel_x''), (T_s32, ''rel_y'')]
      False Zero No_failure_code
      [] [] [],
    helper 93 ''bpf_spin_lock'' (T_long)
      [(T_struct_ptr ''bpf_spin_lock'', ''lock'')]
      False Zero No_failure_code
      []
      [''BPF_MAP_TYPE_HASH'', ''BPF_MAP_TYPE_ARRAY'', ''BPF_LD_ABS'', ''BPF_LD_IND'',
       ''BPF_MAP_LOOKUP_ELEM'', ''BPF_MAP_UPDATE_ELEM'']
      [''bpf_spin_unlock''],
    helper 94 ''bpf_spin_unlock'' (T_long)
      [(T_struct_ptr ''bpf_spin_lock'', ''lock'')]
      False Zero No_failure_code
      [] [] [],
    helper 95 ''bpf_sk_fullsock'' (T_struct_ptr ''bpf_sock'')
      [(T_struct_ptr ''bpf_sock'', ''sk'')]
      False A_pointer Fails_NULL
      [] [] [],
    helper 96 ''bpf_tcp_sock'' (T_struct_ptr ''bpf_tcp_sock'')
      [(T_struct_ptr ''bpf_sock'', ''sk'')]
      False A_pointer Fails_NULL
      [] [] [],
    helper 97 ''bpf_skb_ecn_set_ce'' (T_long)
      [(T_struct_ptr ''__sk_buff'', ''skb'')]
      False A_value No_failure_code
      [] [] [],
    helper 98 ''bpf_get_listener_sock'' (T_struct_ptr ''bpf_sock'')
      [(T_struct_ptr ''bpf_sock'', ''sk'')]
      False A_pointer Fails_NULL
      [] [] [''bpf_sk_release'']]"

definition helper_defs_19 :: "helper_decl list" where
  "helper_defs_19 = [
    helper 99 ''bpf_skc_lookup_tcp'' (T_struct_ptr ''bpf_sock'')
      [(T_void_ptr, ''ctx''), (T_struct_ptr ''bpf_sock_tuple'', ''tuple''),
       (T_u32, ''tuple_size''), (T_u64, ''netns''), (T_u64, ''flags'')]
      False A_pointer Fails_NULL
      []
      []
      [''bpf_sk_release'', ''bpf_sk_lookup_tcp'', ''bpf_sk_fullsock'', ''bpf_tcp_sock''],
    helper 100 ''bpf_tcp_check_syncookie'' (T_long)
      [(T_void_ptr, ''sk''), (T_void_ptr, ''iph''), (T_u32, ''iph_len''),
       (T_struct_ptr ''tcphdr'', ''th''), (T_u32, ''th_len'')]
      False Zero Fails_negative
      [] [] [],
    helper 101 ''bpf_sysctl_get_name'' (T_long)
      [(T_struct_ptr ''bpf_sysctl'', ''ctx''), (T_char_ptr, ''buf''),
       (T_ulong, ''buf_len''), (T_u64, ''flags'')]
      False A_value Fails_negative
      [''E2BIG''] [''BPF_F_SYSCTL_BASE_NAME''] [],
    helper 102 ''bpf_sysctl_get_current_value'' (T_long)
      [(T_struct_ptr ''bpf_sysctl'', ''ctx''), (T_char_ptr, ''buf''),
       (T_ulong, ''buf_len'')]
      False A_value Fails_negative
      [''E2BIG'', ''EINVAL''] [] [],
    helper 103 ''bpf_sysctl_get_new_value'' (T_long)
      [(T_struct_ptr ''bpf_sysctl'', ''ctx''), (T_char_ptr, ''buf''),
       (T_ulong, ''buf_len'')]
      False A_value Fails_negative
      [''E2BIG'', ''EINVAL''] [] [],
    helper 104 ''bpf_sysctl_set_new_value'' (T_long)
      [(T_struct_ptr ''bpf_sysctl'', ''ctx''), (T_const_char_ptr, ''buf''),
       (T_ulong, ''buf_len'')]
      False Zero Fails_negative
      [''E2BIG'', ''EINVAL''] [] []]"

definition helper_defs_20 :: "helper_decl list" where
  "helper_defs_20 = [
    helper 105 ''bpf_strtol'' (T_long)
      [(T_const_char_ptr, ''buf''), (T_ulong, ''buf_len''), (T_u64, ''flags''),
       (T_long_ptr, ''res'')]
      False A_value Fails_negative
      [''EINVAL'', ''ERANGE''] [] [],
    helper 106 ''bpf_strtoul'' (T_long)
      [(T_const_char_ptr, ''buf''), (T_ulong, ''buf_len''), (T_u64, ''flags''),
       (T_ulong_ptr, ''res'')]
      False A_value Fails_negative
      [''EINVAL'', ''ERANGE''] [] [],
    helper 107 ''bpf_sk_storage_get'' (T_void_ptr)
      [(T_void_ptr, ''map''), (T_void_ptr, ''sk''), (T_void_ptr, ''value''),
       (T_u64, ''flags'')]
      False A_pointer Fails_NULL
      [] [''BPF_MAP_TYPE_SK_STORAGE'', ''BPF_SK_STORAGE_GET_F_CREATE''] [],
    helper 108 ''bpf_sk_storage_delete'' (T_long)
      [(T_void_ptr, ''map''), (T_void_ptr, ''sk'')]
      False Zero Fails_negative
      [''ENOENT'', ''EINVAL''] [] [],
    helper 109 ''bpf_send_signal'' (T_long)
      [(T_u32, ''sig'')]
      False Zero Fails_negative
      [''EBUSY'', ''EINVAL'', ''EPERM'', ''EAGAIN''] [] []]"

definition helper_defs_21 :: "helper_decl list" where
  "helper_defs_21 = [
    helper 110 ''bpf_tcp_gen_syncookie'' (T_s64)
      [(T_void_ptr, ''sk''), (T_void_ptr, ''iph''), (T_u32, ''iph_len''),
       (T_struct_ptr ''tcphdr'', ''th''), (T_u32, ''th_len'')]
      False A_value Fails_negative
      [''EINVAL'', ''ENOENT'', ''EOPNOTSUPP'', ''EPROTONOSUPPORT''] [] [],
    helper 111 ''bpf_skb_output'' (T_long)
      [(T_void_ptr, ''ctx''), (T_void_ptr, ''map''), (T_u64, ''flags''),
       (T_void_ptr, ''data''), (T_u64, ''size'')]
      False Zero Fails_negative
      []
      [''BPF_MAP_TYPE_PERF_EVENT_ARRAY'', ''BPF_F_INDEX_MASK'', ''BPF_F_CURRENT_CPU'']
      [''bpf_perf_event_output''],
    helper 112 ''bpf_probe_read_user'' (T_long)
      [(T_void_ptr, ''dst''), (T_u32, ''size''), (T_const_void_ptr, ''unsafe_ptr'')]
      False Zero Fails_negative
      [] [] [],
    helper 113 ''bpf_probe_read_kernel'' (T_long)
      [(T_void_ptr, ''dst''), (T_u32, ''size''), (T_const_void_ptr, ''unsafe_ptr'')]
      False Zero Fails_negative
      [] [] [],
    helper 114 ''bpf_probe_read_user_str'' (T_long)
      [(T_void_ptr, ''dst''), (T_u32, ''size''), (T_const_void_ptr, ''unsafe_ptr'')]
      False A_value Fails_negative
      [] [] [''bpf_probe_read_user'', ''bpf_perf_event_output''],
    helper 115 ''bpf_probe_read_kernel_str'' (T_long)
      [(T_void_ptr, ''dst''), (T_u32, ''size''), (T_const_void_ptr, ''unsafe_ptr'')]
      False A_value Fails_negative
      [] [] [''bpf_probe_read_user_str''],
    helper 116 ''bpf_tcp_send_ack'' (T_long)
      [(T_void_ptr, ''tp''), (T_u32, ''rcv_nxt'')]
      False Zero Fails_negative
      [] [] []]"

definition helper_defs_22 :: "helper_decl list" where
  "helper_defs_22 = [
    helper 117 ''bpf_send_signal_thread'' (T_long)
      [(T_u32, ''sig'')]
      False Zero Fails_negative
      [''EBUSY'', ''EINVAL'', ''EPERM'', ''EAGAIN''] [] [],
    helper 118 ''bpf_jiffies64'' (T_u64)
      []
      False A_value No_failure_code
      [] [] [],
    helper 119 ''bpf_read_branch_records'' (T_long)
      [(T_struct_ptr ''bpf_perf_event_data'', ''ctx''), (T_void_ptr, ''buf''),
       (T_u32, ''size''), (T_u64, ''flags'')]
      False A_value Fails_negative
      [''EINVAL'', ''ENOENT''] [''BPF_F_GET_BRANCH_RECORDS_SIZE''] [],
    helper 120 ''bpf_get_ns_current_pid_tgid'' (T_long)
      [(T_u64, ''dev''), (T_u64, ''ino''), (T_struct_ptr ''bpf_pidns_info'', ''nsdata''),
       (T_u32, ''size'')]
      False Zero Fails_negative
      [''EINVAL'', ''ENOENT''] [] [],
    helper 121 ''bpf_xdp_output'' (T_long)
      [(T_void_ptr, ''ctx''), (T_void_ptr, ''map''), (T_u64, ''flags''),
       (T_void_ptr, ''data''), (T_u64, ''size'')]
      False Zero Fails_negative
      []
      [''BPF_MAP_TYPE_PERF_EVENT_ARRAY'', ''BPF_F_INDEX_MASK'', ''BPF_F_CURRENT_CPU'']
      [''bpf_perf_eventoutput''],
    helper 122 ''bpf_get_netns_cookie'' (T_u64)
      [(T_void_ptr, ''ctx'')]
      False A_value No_failure_code
      [] [] [''bpf_get_socket_cookie''],
    helper 123 ''bpf_get_current_ancestor_cgroup_id'' (T_u64)
      [(T_int, ''ancestor_level'')]
      False A_value No_failure_code
      [] [] [''bpf_get_current_cgroup_id'']]"

definition helper_defs_23 :: "helper_decl list" where
  "helper_defs_23 = [
    helper 124 ''bpf_sk_assign'' (T_long)
      [(T_void_ptr, ''ctx''), (T_void_ptr, ''sk''), (T_u64, ''flags'')]
      False Zero Fails_negative
      [''EINVAL'', ''ENOENT'', ''ENETUNREACH'', ''EOPNOTSUPP'', ''ESOCKTNOSUPPORT'']
      [''BPF_PROG_TYPE_SCHED_CLS'', ''BPF_PROG_TYPE_SCHED_ACT'']
      [''bpf_redirect'', ''bpf_clone_redirect''],
    helper 125 ''bpf_ktime_get_boot_ns'' (T_u64)
      []
      False A_value No_failure_code
      [] [] [],
    helper 126 ''bpf_seq_printf'' (T_long)
      [(T_struct_ptr ''seq_file'', ''m''), (T_const_char_ptr, ''fmt''),
       (T_u32, ''fmt_size''), (T_const_void_ptr, ''data''), (T_u32, ''data_len'')]
      False Zero Fails_negative
      [''EBUSY'', ''EINVAL'', ''E2BIG'', ''EOVERFLOW''] [] [''bpf_trace_printk''],
    helper 127 ''bpf_seq_write'' (T_long)
      [(T_struct_ptr ''seq_file'', ''m''), (T_const_void_ptr, ''data''), (T_u32, ''len'')]
      False Zero Fails_negative
      [''EOVERFLOW''] [] [],
    helper 128 ''bpf_sk_cgroup_id'' (T_u64)
      [(T_void_ptr, ''sk'')]
      False A_value No_failure_code
      [] [] [''bpf_sk_lookup_xxx'', ''bpf_sk_fullsock'', ''bpf_skb_cgroup_id''],
    helper 129 ''bpf_sk_ancestor_cgroup_id'' (T_u64)
      [(T_void_ptr, ''sk''), (T_int, ''ancestor_level'')]
      False A_value No_failure_code
      [] [] [''bpf_sk_cgroup_id'']]"

definition helper_defs_24 :: "helper_decl list" where
  "helper_defs_24 = [
    helper 130 ''bpf_ringbuf_output'' (T_long)
      [(T_void_ptr, ''ringbuf''), (T_void_ptr, ''data''), (T_u64, ''size''),
       (T_u64, ''flags'')]
      False Zero Fails_negative
      [] [''BPF_RB_NO_WAKEUP'', ''BPF_RB_FORCE_WAKEUP''] [],
    helper 131 ''bpf_ringbuf_reserve'' (T_void_ptr)
      [(T_void_ptr, ''ringbuf''), (T_u64, ''size''), (T_u64, ''flags'')]
      False A_pointer Fails_NULL
      [] [] [],
    helper 132 ''bpf_ringbuf_submit'' (T_void)
      [(T_void_ptr, ''data''), (T_u64, ''flags'')]
      False Nothing_said No_failure_code
      [] [''BPF_RB_NO_WAKEUP'', ''BPF_RB_FORCE_WAKEUP''] [''bpf_ringbuf_output''],
    helper 133 ''bpf_ringbuf_discard'' (T_void)
      [(T_void_ptr, ''data''), (T_u64, ''flags'')]
      False Nothing_said No_failure_code
      [] [''BPF_RB_NO_WAKEUP'', ''BPF_RB_FORCE_WAKEUP''] [''bpf_ringbuf_output''],
    helper 134 ''bpf_ringbuf_query'' (T_u64)
      [(T_void_ptr, ''ringbuf''), (T_u64, ''flags'')]
      False A_value No_failure_code
      []
      [''BPF_RB_AVAIL_DATA'', ''BPF_RB_RING_SIZE'', ''BPF_RB_CONS_POS'', ''BPF_RB_PROD_POS'']
      [],
    helper 135 ''bpf_csum_level'' (T_long)
      [(T_struct_ptr ''__sk_buff'', ''skb''), (T_u64, ''level'')]
      False Zero Fails_negative
      [''EACCES'']
      [''BPF_F_ADJ_ROOM_NO_CSUM_RESET'', ''BPF_CSUM_LEVEL_DEC'', ''BPF_CSUM_LEVEL_INC'',
       ''BPF_CSUM_LEVEL_RESET'', ''BPF_CSUM_LEVEL_QUERY'']
      [''bpf_skb_adjust_room''],
    helper 136 ''bpf_skc_to_tcp6_sock'' (T_struct_ptr ''tcp6_sock'')
      [(T_void_ptr, ''sk'')]
      False A_pointer Fails_NULL
      [] [] [],
    helper 137 ''bpf_skc_to_tcp_sock'' (T_struct_ptr ''tcp_sock'')
      [(T_void_ptr, ''sk'')]
      False A_pointer Fails_NULL
      [] [] []]"

definition helper_defs_25 :: "helper_decl list" where
  "helper_defs_25 = [
    helper 138 ''bpf_skc_to_tcp_timewait_sock'' (T_struct_ptr ''tcp_timewait_sock'')
      [(T_void_ptr, ''sk'')]
      False A_pointer Fails_NULL
      [] [] [],
    helper 139 ''bpf_skc_to_tcp_request_sock'' (T_struct_ptr ''tcp_request_sock'')
      [(T_void_ptr, ''sk'')]
      False A_pointer Fails_NULL
      [] [] [],
    helper 140 ''bpf_skc_to_udp6_sock'' (T_struct_ptr ''udp6_sock'')
      [(T_void_ptr, ''sk'')]
      False A_pointer Fails_NULL
      [] [] [],
    helper 141 ''bpf_get_task_stack'' (T_long)
      [(T_struct_ptr ''task_struct'', ''task''), (T_void_ptr, ''buf''), (T_u32, ''size''),
       (T_u64, ''flags'')]
      False A_value Fails_negative
      [] [''BPF_F_SKIP_FIELD_MASK'', ''BPF_F_USER_STACK'', ''BPF_F_USER_BUILD_ID''] [],
    helper 142 ''bpf_load_hdr_opt'' (T_long)
      [(T_struct_ptr ''bpf_sock_ops'', ''skops''), (T_void_ptr, ''searchby_res''),
       (T_u32, ''len''), (T_u64, ''flags'')]
      False A_value Fails_negative
      [''EINVAL'', ''ENOMSG'', ''ENOENT'', ''ENOSPC'', ''EFAULT'', ''EPERM'']
      [''BPF_PROG_TYPE_SOCK_OPS'', ''BPF_LOAD_HDR_OPT_TCP_SYN'']
      []]"

definition helper_defs_26 :: "helper_decl list" where
  "helper_defs_26 = [
    helper 143 ''bpf_store_hdr_opt'' (T_long)
      [(T_struct_ptr ''bpf_sock_ops'', ''skops''), (T_const_void_ptr, ''from''),
       (T_u32, ''len''), (T_u64, ''flags'')]
      False Zero Fails_negative
      [''EINVAL'', ''ENOSPC'', ''EEXIST'', ''EFAULT'', ''EPERM'']
      [''BPF_SOCK_OPS_WRITE_HDR_OPT_CB'']
      [],
    helper 144 ''bpf_reserve_hdr_opt'' (T_long)
      [(T_struct_ptr ''bpf_sock_ops'', ''skops''), (T_u32, ''len''), (T_u64, ''flags'')]
      False Zero Fails_negative
      [''EINVAL'', ''ENOSPC'', ''EPERM'']
      [''BPF_SOCK_OPS_WRITE_HDR_OPT_CB'', ''BPF_SOCK_OPS_HDR_OPT_LEN_CB'']
      [''bpf_store_hdr_opt''],
    helper 145 ''bpf_inode_storage_get'' (T_void_ptr)
      [(T_void_ptr, ''map''), (T_void_ptr, ''inode''), (T_void_ptr, ''value''),
       (T_u64, ''flags'')]
      False A_pointer Fails_NULL
      [] [''BPF_MAP_TYPE_INODE_STORAGE'', ''BPF_LOCAL_STORAGE_GET_F_CREATE''] [],
    helper 146 ''bpf_inode_storage_delete'' (T_int)
      [(T_void_ptr, ''map''), (T_void_ptr, ''inode'')]
      False Zero Fails_negative
      [''ENOENT''] [] [],
    helper 147 ''bpf_d_path'' (T_long)
      [(T_struct_ptr ''path'', ''path''), (T_char_ptr, ''buf''), (T_u32, ''sz'')]
      False A_value Fails_negative
      [] [] [],
    helper 148 ''bpf_copy_from_user'' (T_long)
      [(T_void_ptr, ''dst''), (T_u32, ''size''), (T_const_void_ptr, ''user_ptr'')]
      False Zero Fails_negative
      [] [] []]"

definition helper_defs_27 :: "helper_decl list" where
  "helper_defs_27 = [
    helper 149 ''bpf_snprintf_btf'' (T_long)
      [(T_char_ptr, ''str''), (T_u32, ''str_size''), (T_struct_ptr ''btf_ptr'', ''ptr''),
       (T_u32, ''btf_ptr_size''), (T_u64, ''flags'')]
      False A_value Fails_negative
      [] [] [''bpf_perf_event_output'', ''bpf_trace_printk''],
    helper 150 ''bpf_seq_printf_btf'' (T_long)
      [(T_struct_ptr ''seq_file'', ''m''), (T_struct_ptr ''btf_ptr'', ''ptr''),
       (T_u32, ''ptr_size''), (T_u64, ''flags'')]
      False Zero Fails_negative
      [] [] [''bpf_snprintf_btf''],
    helper 151 ''bpf_skb_cgroup_classid'' (T_u64)
      [(T_struct_ptr ''__sk_buff'', ''skb'')]
      False A_value No_failure_code
      [] [] [''bpf_get_cgroup_classid''],
    helper 152 ''bpf_redirect_neigh'' (T_long)
      [(T_u32, ''ifindex''), (T_struct_ptr ''bpf_redir_neigh'', ''params''),
       (T_int, ''plen''), (T_u64, ''flags'')]
      False Action_code No_failure_code
      [] [] [''bpf_redirect''],
    helper 153 ''bpf_per_cpu_ptr'' (T_void_ptr)
      [(T_const_void_ptr, ''percpu_ptr''), (T_u32, ''cpu'')]
      False A_pointer Fails_NULL
      [] [] [],
    helper 154 ''bpf_this_cpu_ptr'' (T_void_ptr)
      [(T_const_void_ptr, ''percpu_ptr'')]
      False A_pointer No_failure_code
      [] [] [''bpf_per_cpu_ptr''],
    helper 155 ''bpf_redirect_peer'' (T_long)
      [(T_u32, ''ifindex''), (T_u64, ''flags'')]
      False Action_code No_failure_code
      [] [] [''bpf_redirect'']]"

definition helper_defs_28 :: "helper_decl list" where
  "helper_defs_28 = [
    helper 156 ''bpf_task_storage_get'' (T_void_ptr)
      [(T_void_ptr, ''map''), (T_struct_ptr ''task_struct'', ''task''),
       (T_void_ptr, ''value''), (T_u64, ''flags'')]
      False A_pointer Fails_NULL
      [] [''BPF_MAP_TYPE_TASK_STORAGE'', ''BPF_LOCAL_STORAGE_GET_F_CREATE''] [],
    helper 157 ''bpf_task_storage_delete'' (T_long)
      [(T_void_ptr, ''map''), (T_struct_ptr ''task_struct'', ''task'')]
      False Zero Fails_negative
      [''ENOENT''] [] [],
    helper 158 ''bpf_get_current_task_btf'' (T_struct_ptr ''task_struct'')
      []
      False A_pointer No_failure_code
      [] [] [],
    helper 159 ''bpf_bprm_opts_set'' (T_long)
      [(T_struct_ptr ''linux_binprm'', ''bprm''), (T_u64, ''flags'')]
      False Zero Fails_negative
      [''EINVAL''] [''BPF_F_BPRM_SECUREEXEC''] [],
    helper 160 ''bpf_ktime_get_coarse_ns'' (T_u64)
      []
      False A_value No_failure_code
      [] [] [],
    helper 161 ''bpf_ima_inode_hash'' (T_long)
      [(T_struct_ptr ''inode'', ''inode''), (T_void_ptr, ''dst''), (T_u32, ''size'')]
      False A_value Fails_negative
      [''EOPNOTSUP'', ''EINVAL''] [] [],
    helper 162 ''bpf_sock_from_file'' (T_struct_ptr ''socket'')
      [(T_struct_ptr ''file'', ''file'')]
      False A_pointer Fails_NULL
      [] [] []]"

definition helper_defs_29 :: "helper_decl list" where
  "helper_defs_29 = [
    helper 163 ''bpf_check_mtu'' (T_long)
      [(T_void_ptr, ''ctx''), (T_u32, ''ifindex''), (T_u32_ptr, ''mtu_len''),
       (T_s32, ''len_diff''), (T_u64, ''flags'')]
      False Zero Fails_negative
      []
      [''BPF_MTU_CHK_SEGS'', ''BPF_MTU_CHK_RET_FRAG_NEEDED'', ''BPF_MTU_CHK_RET_SEGS_TOOBIG'']
      [''bpf_fib_lookup''],
    helper 164 ''bpf_for_each_map_elem'' (T_long)
      [(T_void_ptr, ''map''), (T_void_ptr, ''callback_fn''),
       (T_void_ptr, ''callback_ctx''), (T_u64, ''flags'')]
      False A_value Fails_negative
      [''EINVAL''] [] [],
    helper 165 ''bpf_snprintf'' (T_long)
      [(T_char_ptr, ''str''), (T_u32, ''str_size''), (T_const_char_ptr, ''fmt''),
       (T_u64_ptr, ''data''), (T_u32, ''data_len'')]
      False A_value Fails_negative
      [''EBUSY''] [] [''bpf_trace_printk''],
    helper 166 ''bpf_sys_bpf'' (T_long)
      [(T_u32, ''cmd''), (T_void_ptr, ''attr''), (T_u32, ''attr_size'')]
      False A_value No_failure_code
      [] [] []]"

definition helper_defs_30 :: "helper_decl list" where
  "helper_defs_30 = [
    helper 167 ''bpf_btf_find_by_name_kind'' (T_long)
      [(T_char_ptr, ''name''), (T_int, ''name_sz''), (T_u32, ''kind''),
       (T_int, ''flags'')]
      False A_value No_failure_code
      [] [] [],
    helper 168 ''bpf_sys_close'' (T_long)
      [(T_u32, ''fd'')]
      False A_value No_failure_code
      [] [] [],
    helper 169 ''bpf_timer_init'' (T_long)
      [(T_struct_ptr ''bpf_timer'', ''timer''), (T_void_ptr, ''map''), (T_u64, ''flags'')]
      False Zero Fails_negative
      [''EBUSY'', ''EINVAL'', ''EPERM''] [] [],
    helper 170 ''bpf_timer_set_callback'' (T_long)
      [(T_struct_ptr ''bpf_timer'', ''timer''), (T_void_ptr, ''callback_fn'')]
      False Zero Fails_negative
      [''EINVAL'', ''EPERM''] [] [''bpf_timer_init''],
    helper 171 ''bpf_timer_start'' (T_long)
      [(T_struct_ptr ''bpf_timer'', ''timer''), (T_u64, ''nsecs''), (T_u64, ''flags'')]
      False Zero Fails_negative
      [''EINVAL''] [] [''bpf_timer_set_callback'', ''bpf_timer_init''],
    helper 172 ''bpf_timer_cancel'' (T_long)
      [(T_struct_ptr ''bpf_timer'', ''timer'')]
      False A_value Fails_negative
      [''EINVAL'', ''EDEADLK''] [] [''bpf_timer_init''],
    helper 173 ''bpf_get_func_ip'' (T_u64)
      [(T_void_ptr, ''ctx'')]
      False A_value No_failure_code
      [] [] [],
    helper 174 ''bpf_get_attach_cookie'' (T_u64)
      [(T_void_ptr, ''ctx'')]
      False A_value No_failure_code
      [] [] [],
    helper 175 ''bpf_task_pt_regs'' (T_long)
      [(T_struct_ptr ''task_struct'', ''task'')]
      False A_pointer No_failure_code
      [] [] []]"

definition helper_defs_31 :: "helper_decl list" where
  "helper_defs_31 = [
    helper 176 ''bpf_get_branch_snapshot'' (T_long)
      [(T_void_ptr, ''entries''), (T_u32, ''size''), (T_u64, ''flags'')]
      False A_value Fails_negative
      [''EINVAL'', ''ENOENT''] [] [],
    helper 177 ''bpf_trace_vprintk'' (T_long)
      [(T_const_char_ptr, ''fmt''), (T_u32, ''fmt_size''), (T_const_void_ptr, ''data''),
       (T_u32, ''data_len'')]
      False A_value Fails_negative
      [] [] [''bpf_trace_printk'', ''bpf_seq_printf''],
    helper 178 ''bpf_skc_to_unix_sock'' (T_struct_ptr ''unix_sock'')
      [(T_void_ptr, ''sk'')]
      False A_pointer Fails_NULL
      [] [] [],
    helper 179 ''bpf_kallsyms_lookup_name'' (T_long)
      [(T_const_char_ptr, ''name''), (T_int, ''name_sz''), (T_int, ''flags''),
       (T_u64_ptr, ''res'')]
      False Zero Fails_negative
      [''EINVAL'', ''ENOENT'', ''EPERM''] [] [],
    helper 180 ''bpf_find_vma'' (T_long)
      [(T_struct_ptr ''task_struct'', ''task''), (T_u64, ''addr''),
       (T_void_ptr, ''callback_fn''), (T_void_ptr, ''callback_ctx''), (T_u64, ''flags'')]
      False Zero Fails_negative
      [''ENOENT'', ''EBUSY'', ''EINVAL''] [] []]"

definition bpf_helper_defs :: "helper_decl list" where
  "bpf_helper_defs = concat [helper_defs_01, helper_defs_02, helper_defs_03, helper_defs_04, helper_defs_05,
    helper_defs_06, helper_defs_07, helper_defs_08, helper_defs_09, helper_defs_10,
    helper_defs_11, helper_defs_12, helper_defs_13, helper_defs_14, helper_defs_15,
    helper_defs_16, helper_defs_17, helper_defs_18, helper_defs_19, helper_defs_20,
    helper_defs_21, helper_defs_22, helper_defs_23, helper_defs_24, helper_defs_25,
    helper_defs_26, helper_defs_27, helper_defs_28, helper_defs_29, helper_defs_30,
    helper_defs_31]"

lemmas helper_defs_tables =
  helper_defs_01_def helper_defs_02_def helper_defs_03_def helper_defs_04_def
  helper_defs_05_def helper_defs_06_def helper_defs_07_def helper_defs_08_def
  helper_defs_09_def helper_defs_10_def helper_defs_11_def helper_defs_12_def
  helper_defs_13_def helper_defs_14_def helper_defs_15_def helper_defs_16_def
  helper_defs_17_def helper_defs_18_def helper_defs_19_def helper_defs_20_def
  helper_defs_21_def helper_defs_22_def helper_defs_23_def helper_defs_24_def
  helper_defs_25_def helper_defs_26_def helper_defs_27_def helper_defs_28_def
  helper_defs_29_def helper_defs_30_def helper_defs_31_def

subsection \<open>The table as a whole\<close>

lemma helper_ids_of_parts:
  "map hd_id bpf_helper_defs = [1..<181]"
  by (simp add: bpf_helper_defs_def helper_defs_tables upt_rec)

lemma length_bpf_helper_defs: "length bpf_helper_defs = 180"
  using arg_cong [OF helper_ids_of_parts, of length] by simp

text \<open>Looking a helper up by the number in its function pointer.\<close>

definition helper_of_id :: "nat \<Rightarrow> helper_decl option" where
  "helper_of_id n = find (\<lambda>h. hd_id h = n) bpf_helper_defs"

definition signed_integer :: "c_type \<Rightarrow> bool" where
  "signed_integer t \<longleftrightarrow> t \<in> {T_int, T_long, T_s32, T_s64}"

fun pointer :: "c_type \<Rightarrow> bool" where
  "pointer (T_struct_ptr _) = True"
| "pointer t = (t \<in> {T_void_ptr, T_const_void_ptr, T_char_ptr, T_const_char_ptr, T_u32_ptr,
     T_u64_ptr, T_be32_ptr, T_long_ptr, T_ulong_ptr})"

fun struct_names :: "c_type list \<Rightarrow> string list" where
  "struct_names [] = []"
| "struct_names (T_struct_ptr s # ts) = s # struct_names ts"
| "struct_names (_ # ts) = struct_names ts"

text \<open>
  What the code generator for BPF relies on: at most the five argument registers r1 to r5,
  and only the trace printer has an open list.
\<close>

definition abi_ok :: "helper_decl \<Rightarrow> bool" where
  "abi_ok h \<longleftrightarrow> length (hd_params h) \<le> 5 \<and> (hd_variadic h \<longrightarrow> hd_id h = 6)"

text \<open>
  What a caller relies on to see a failure: a negative code needs a signed return type, a
  \<^verbatim>\<open>NULL\<close> a pointer.
\<close>

definition failure_visible :: "helper_decl \<Rightarrow> bool" where
  "failure_visible h \<longleftrightarrow> (case hd_failure h of
     Fails_negative \<Rightarrow> signed_integer (hd_ret h)
   | Fails_NULL \<Rightarrow> pointer (hd_ret h)
   | No_failure_code \<Rightarrow> True)"

definition declared_structs :: "helper_decl \<Rightarrow> bool" where
  "declared_structs h \<longleftrightarrow>
     list_all (\<lambda>s. s \<in> set forward_structs)
       (struct_names (hd_ret h # map fst (hd_params h)))"

text \<open>The numbers in the function pointers run from 1 to 180 in the order of the file,
  so looking a number up gives the declaration at that position and no number is declared
  twice or skipped.\<close>

theorem helper_of_id_eq:
  "helper_of_id n = (if 1 \<le> n \<and> n \<le> 180 then Some (bpf_helper_defs ! (n - 1)) else None)"
proof -
  have id: "hd_id (bpf_helper_defs ! i) = i + 1" if "i < 180" for i
    using that arg_cong [OF helper_ids_of_parts, of "\<lambda>xs. xs ! i"]
    by (simp add: length_bpf_helper_defs)
  show ?thesis
  proof (cases "1 \<le> n \<and> n \<le> 180")
    case True
    have "\<forall>j<n - 1. hd_id (bpf_helper_defs ! j) \<noteq> n"
    proof (intro allI impI)
      fix j assume "j < n - 1"
      with True have "j < 180" "j + 1 \<noteq> n" by linarith+
      then show "hd_id (bpf_helper_defs ! j) \<noteq> n" by (simp only: id) simp
    qed
    moreover have last: "n - 1 < 180" using True by linarith
    moreover have "hd_id (bpf_helper_defs ! (n - 1)) = n"
      using True id [OF last] by simp
    ultimately have "find (\<lambda>h. hd_id h = n) bpf_helper_defs = Some (bpf_helper_defs ! (n - 1))"
      unfolding find_Some_iff length_bpf_helper_defs by blast
    with True show ?thesis by (simp add: helper_of_id_def)
  next
    case False
    then have "hd_id h \<noteq> n" if "h \<in> set bpf_helper_defs" for h
      using that id by (auto simp: in_set_conv_nth length_bpf_helper_defs)
    with False show ?thesis by (auto simp: helper_of_id_def find_None_iff)
  qed
qed

text \<open>Every structure a prototype points to is declared forward, none has more than five
  parameters, and a promised failure can be seen in the result but for helper 22,
  \<^verbatim>\<open>bpf_perf_event_read\<close>, which returns its negative code as an unsigned number.\<close>

lemma helper_prototypes_well_formed:
  "list_all (\<lambda>h. abi_ok h \<and> declared_structs h) bpf_helper_defs"
  by (simp add: bpf_helper_defs_def helper_defs_tables abi_ok_def declared_structs_def
      forward_structs_def)

lemma helper_failures_visible:
  "list_all (\<lambda>h. failure_visible h \<longleftrightarrow> hd_id h \<noteq> 22) bpf_helper_defs"
  by (simp add: bpf_helper_defs_def helper_defs_tables failure_visible_def signed_integer_def)

subsection \<open>The calls of the printing macros\<close>

text \<open>
  The helper a macro of \<^verbatim>\<open>bpf_helpers.h\<close> calls, with the types of the arguments it passes:
  the format is a character array, a size is a \<^verbatim>\<open>sizeof\<close>, and the parameter block is an array
  of 64-bit values.
\<close>

fun call_of :: "printf_call \<Rightarrow> string \<times> c_type list" where
  "call_of (Trace_Printk fmt fmt_size args) =
     (''bpf_trace_printk'', [T_char_ptr, T_ulong] @ replicate (length args) T_u64)"
| "call_of (Trace_Vprintk fmt fmt_size params params_size) =
     (''bpf_trace_vprintk'', [T_const_char_ptr, T_ulong, T_u64_ptr, T_ulong])"
| "call_of (Seq_Printf sq fmt fmt_size params params_size) =
     (''bpf_seq_printf'', [T_struct_ptr ''seq_file'', T_const_char_ptr, T_ulong, T_u64_ptr, T_ulong])"
| "call_of (Snprintf out out_size fmt params params_size) =
     (''bpf_snprintf'', [T_char_ptr, T_u32, T_const_char_ptr, T_u64_ptr, T_ulong])"

text \<open>What C converts to the type of a parameter without a cast, and when a call fits the
  prototype of its helper and the five argument registers.\<close>

definition integer :: "c_type \<Rightarrow> bool" where
  "integer t \<longleftrightarrow> t \<in> {T_int, T_long, T_ulong, T_u16, T_u32, T_u64, T_s32, T_s64}"

definition passes :: "c_type \<Rightarrow> c_type \<Rightarrow> bool" where
  "passes a p \<longleftrightarrow> a = p \<or> integer a \<and> integer p \<or> pointer a \<and> p = T_const_void_ptr \<or>
     pointer a \<and> a \<notin> {T_const_void_ptr, T_const_char_ptr} \<and> p = T_void_ptr \<or>
     a = T_char_ptr \<and> p = T_const_char_ptr"

definition fits :: "string \<times> c_type list \<Rightarrow> bool" where
  "fits c \<longleftrightarrow> length (snd c) \<le> 5 \<and>
     list_ex (\<lambda>h. hd_name h = fst c \<and>
       list_all2 passes (take (length (hd_params h)) (snd c)) (map fst (hd_params h)) \<and>
       (hd_variadic h \<or> length (snd c) = length (hd_params h))) bpf_helper_defs"

lemma in_helper_defs:
  "set helper_defs_01 \<subseteq> set bpf_helper_defs" "set helper_defs_23 \<subseteq> set bpf_helper_defs"
  "set helper_defs_29 \<subseteq> set bpf_helper_defs" "set helper_defs_31 \<subseteq> set bpf_helper_defs"
  by (auto simp: bpf_helper_defs_def)

definition has_prototype :: "string \<Rightarrow> bool \<Rightarrow> c_type list \<Rightarrow> helper_decl list \<Rightarrow> bool" where
  "has_prototype name variadic ps hs \<longleftrightarrow>
     (\<exists>h \<in> set hs. hd_name h = name \<and> hd_variadic h = variadic \<and> map fst (hd_params h) = ps)"

lemma fitsI:
  assumes "has_prototype name variadic ps hs" "set hs \<subseteq> set bpf_helper_defs"
    and "length args \<le> 5" "list_all2 passes (take (length ps) args) ps"
    and "variadic \<or> length args = length ps"
  shows "fits (name, args)"
proof -
  obtain h where h: "h \<in> set bpf_helper_defs" "hd_name h = name" "hd_variadic h = variadic"
      "map fst (hd_params h) = ps"
    using assms(1,2) by (auto simp: has_prototype_def)
  from h(4) have len: "length (hd_params h) = length ps" by (metis length_map)
  show ?thesis
    unfolding fits_def list_ex_iff fst_conv snd_conv
  proof (intro conjI bexI [OF _ h(1)])
    show "list_all2 passes (take (length (hd_params h)) args) (map fst (hd_params h))"
      unfolding len h(4) by (rule assms(4))
  qed (use h(2,3) len assms(3,5) in simp_all)
qed

lemma printf_helpers:
  "has_prototype ''bpf_trace_printk'' True [T_const_char_ptr, T_u32] helper_defs_01"
  "has_prototype ''bpf_seq_printf'' False
     [T_struct_ptr ''seq_file'', T_const_char_ptr, T_u32, T_const_void_ptr, T_u32] helper_defs_23"
  "has_prototype ''bpf_snprintf'' False [T_char_ptr, T_u32, T_const_char_ptr, T_u64_ptr, T_u32] helper_defs_29"
  "has_prototype ''bpf_trace_vprintk'' False [T_const_char_ptr, T_u32, T_const_void_ptr, T_u32] helper_defs_31"
  by (simp_all add: has_prototype_def helper_defs_tables)

lemmas passes_simps = passes_def integer_def

lemma fits_direct: "fits (call_of (bpf_printk_direct fmt args)) \<longleftrightarrow> length args \<le> 3"
proof
  show "length args \<le> 3" if "fits (call_of (bpf_printk_direct fmt args))"
    using that by (simp add: fits_def bpf_printk_direct_def)
  show "fits (call_of (bpf_printk_direct fmt args))" if "length args \<le> 3"
    using fitsI [OF printf_helpers(1) in_helper_defs(1)] that
    by (simp add: bpf_printk_direct_def passes_simps)
qed

lemma fits_vprintk: "fits (call_of (Trace_Vprintk fmt n ps k))"
  using fitsI [OF printf_helpers(4) in_helper_defs(4)] by (simp add: passes_simps)

lemma fits_seq: "fits (call_of (Seq_Printf sq fmt n ps k))"
  using fitsI [OF printf_helpers(2) in_helper_defs(2)] by (simp add: passes_simps)

lemma fits_snprintf: "fits (call_of (Snprintf out m fmt ps k))"
  using fitsI [OF printf_helpers(3) in_helper_defs(3)] by (simp add: passes_simps)

text \<open>C40: for every list of at most twelve arguments, the helper call a printing macro expands
  to fits that helper's prototype in \<^verbatim>\<open>bpf_helper_defs.h\<close>: number, order and types of the
  arguments, at most five in all. The threshold of \<^verbatim>\<open>bpf_printk\<close> is exact: the direct call of
  \<^verbatim>\<open>bpf_trace_printk\<close> would fit for up to three arguments only.\<close>

theorem printf_calls_fit_prototypes:
  assumes "length args \<le> 12"
  shows "(\<exists>c. bpf_printk junk fmt args = Some c \<and> fits (call_of c)) \<and>
    (\<exists>c. BPF_SEQ_PRINTF junk sq fmt args = Some c \<and> fits (call_of c)) \<and>
    (\<exists>c. BPF_SNPRINTF junk out out_size fmt args = Some c \<and> fits (call_of c)) \<and>
    (fits (call_of (bpf_printk_direct fmt args)) \<longleftrightarrow> length args \<le> 3)"
proof -
  have "\<exists>c. bpf_printk junk fmt args = Some c \<and> fits (call_of c)"
    using assms fits_direct [of fmt args] fits_vprintk
    by (simp add: bpf_printk_def bpf_pick_printk_eq bpf_vprintk_def printf_params_eq del: call_of.simps)
  with assms fits_direct fits_seq fits_snprintf show ?thesis
    by (simp add: BPF_SEQ_PRINTF_def BPF_SNPRINTF_def printf_params_eq del: call_of.simps)
qed

theorem printf_calls_fit_prototypes_witness:
  "(\<exists>c. bpf_printk (\<lambda>_. 0) ''%d'' (replicate 12 (Ident ''x'', 1)) = Some c \<and> fits (call_of c)) \<and>
    \<not> fits (call_of (bpf_printk_direct ''%d'' (replicate 12 (Ident ''x'', 1))))"
  using printf_calls_fit_prototypes [of "replicate 12 (Ident ''x'', 1)" "\<lambda>_. 0" "''%d''"] by simp

end
