(* ===== verification/Runnable_Group.thy ===== *)
theory Runnable_Group
  imports Machine "HOL-Library.Multiset"
begin

text \<open>
  \<^verbatim>\<open>internal/manager/runnable_group.go\<close>: a group of runnables that are started together and
  stopped together. Many goroutines share a group: callers of \<^verbatim>\<open>Add\<close>, one \<^verbatim>\<open>Start\<close> and one
  \<^verbatim>\<open>StopAndWait\<close> (each behind a \<^verbatim>\<open>sync.Once\<close>), the goroutine \<^verbatim>\<open>reconcile\<close>, and two
  goroutines for each runnable, one that checks whether it is ready and one that runs it. They
  meet on the unbuffered channels \<^verbatim>\<open>ch\<close>, \<^verbatim>\<open>startReadyCh\<close> and \<^verbatim>\<open>errChan\<close> and on two
  mutexes. A step is one stretch of one goroutine between two such points, or one rendezvous.
  A \<^verbatim>\<open>readyRunnable\<close> is allocated anew by each \<^verbatim>\<open>Add\<close> and named by its number.
\<close>

subsection \<open>State\<close>

text \<open>
  \<^verbatim>\<open>Start\<close>: not called; sending the rest of the queue on \<^verbatim>\<open>ch\<close> with the mutex \<^verbatim>\<open>start\<close>
  held; waiting for signals; returned, with \<^verbatim>\<open>startReadyCh\<close> closed.
\<close>

datatype start_pc = Not_Started | Enqueueing "nat list" | Waiting | Start_Done

text \<open>
  \<^verbatim>\<open>reconcile\<close>: not running; at the receive of its loop; with a runnable before the check of
  \<^verbatim>\<open>stopped\<close>; sending \<^verbatim>\<open>errRunnableGroupStopped\<close> for it; ended.
\<close>

datatype reconcile_pc = Not_Running | Receiving | Holding nat | Dropping nat | Exited

text \<open>
  \<^verbatim>\<open>StopAndWait\<close>: not called; in its call of \<^verbatim>\<open>Start\<close>; \<^verbatim>\<open>stopped\<close> stored; context
  cancelled and waiting for the wait group; returned, with \<^verbatim>\<open>ch\<close> closed.
\<close>

datatype stop_pc = Not_Stopped | Stop_Starting | Stop_Marked | Stop_Waiting | Stop_Done

datatype group_panic = Send_On_Closed_Ch | Send_On_Closed_Ready_Ch

text \<open>
  A caller of \<^verbatim>\<open>Add\<close> is in \<open>g_check_stop\<close> before the check of \<^verbatim>\<open>stopped\<close>, in
  \<open>g_check_start\<close> before the check of \<^verbatim>\<open>started\<close>, in \<open>g_sending\<close> at the send on \<^verbatim>\<open>ch\<close>;
  \<open>g_rejected\<close> are those that got an error. \<open>g_checking\<close> and \<open>g_signalling\<close> are the check
  goroutines, before their verdict and at the send on \<^verbatim>\<open>startReadyCh\<close>; \<open>g_unready\<close> those whose
  check failed. \<open>g_running\<close> and \<open>g_failing\<close> are the run goroutines, in \<^verbatim>\<open>Start\<close> of their
  runnable and at the send of its error; together they are the counter of the wait group.
  \<open>g_spawned\<close>, \<open>g_dropped\<close> and \<open>g_errors\<close> record what was started, dropped and reported.
\<close>

record group =
  g_next :: nat
  g_check_stop :: "nat list"
  g_check_start :: "nat list"
  g_sending :: "nat list"
  g_rejected :: "nat list"
  g_startQueue :: "nat list"
  g_started :: bool
  g_start :: start_pc
  g_retErr :: bool
  g_reconcile :: reconcile_pc
  g_signalReady :: "nat list"
  g_checking :: "nat list"
  g_signalling :: "nat list"
  g_unready :: "nat list"
  g_running :: "nat list"
  g_failing :: "nat list"
  g_spawned :: "nat list"
  g_dropped :: "nat list"
  g_errors :: "nat list"
  g_stop :: stop_pc
  g_stopped :: bool
  g_cancelled :: bool
  g_panic :: "group_panic option"

definition newRunnableGroup :: group where
  "newRunnableGroup = \<lparr>g_next = 0, g_check_stop = [], g_check_start = [], g_sending = [],
     g_rejected = [], g_startQueue = [], g_started = False, g_start = Not_Started,
     g_retErr = False, g_reconcile = Not_Running, g_signalReady = [], g_checking = [],
     g_signalling = [], g_unready = [], g_running = [], g_failing = [], g_spawned = [],
     g_dropped = [], g_errors = [], g_stop = Not_Stopped, g_stopped = False,
     g_cancelled = False, g_panic = None\<rparr>"

text \<open>The two channels that get closed.\<close>

definition ch_closed :: "group \<Rightarrow> bool" where
  "ch_closed g \<longleftrightarrow> g_stop g = Stop_Done"

definition ready_closed :: "group \<Rightarrow> bool" where
  "ready_closed g \<longleftrightarrow> g_start g = Start_Done"

text \<open>The mutex \<^verbatim>\<open>start\<close> is held while the queue is sent.\<close>

definition start_locked :: "group \<Rightarrow> bool" where
  "start_locked g \<longleftrightarrow> (case g_start g of Enqueueing xs \<Rightarrow> True | _ \<Rightarrow> False)"

subsection \<open>Operations\<close>

definition Add_check_stop :: "nat \<Rightarrow> group \<Rightarrow> group option" where
  "Add_check_stop i g =
     (if i \<notin> set (g_check_stop g) then None
      else let g = g\<lparr>g_check_stop := remove1 i (g_check_stop g)\<rparr>
        in Some (if g_stopped g then g\<lparr>g_rejected := g_rejected g @ [i]\<rparr>
                 else g\<lparr>g_check_start := g_check_start g @ [i]\<rparr>))"

definition Add_check_start :: "nat \<Rightarrow> group \<Rightarrow> group option" where
  "Add_check_start i g =
     (if i \<notin> set (g_check_start g) \<or> start_locked g then None
      else let g = g\<lparr>g_check_start := remove1 i (g_check_start g)\<rparr>
        in Some (if \<not> g_started g then g\<lparr>g_startQueue := g_startQueue g @ [i]\<rparr>
                 else g\<lparr>g_sending := g_sending g @ [i]\<rparr>))"

definition Add_send :: "nat \<Rightarrow> group \<Rightarrow> group option" where
  "Add_send i g =
     (if i \<notin> set (g_sending g) then None
      else if ch_closed g then Some (g\<lparr>g_panic := Some Send_On_Closed_Ch\<rparr>)
      else if g_reconcile g = Receiving
      then Some (g\<lparr>g_sending := remove1 i (g_sending g), g_reconcile := Holding i\<rparr>)
      else None)"

definition Start_begin :: "group \<Rightarrow> group option" where
  "Start_begin g =
     (if g_start g = Not_Started
      then Some (g\<lparr>g_reconcile := Receiving, g_started := True,
                   g_start := Enqueueing (g_startQueue g)\<rparr>)
      else None)"

definition Start_send :: "group \<Rightarrow> group option" where
  "Start_send g = (case g_start g of
       Enqueueing (x # xs) \<Rightarrow>
         (if ch_closed g then Some (g\<lparr>g_panic := Some Send_On_Closed_Ch\<rparr>)
          else if g_reconcile g = Receiving
          then Some (g\<lparr>g_signalReady := g_signalReady g @ [x], g_reconcile := Holding x,
                       g_start := Enqueueing xs\<rparr>)
          else None)
     | _ \<Rightarrow> None)"

definition Start_unlock :: "group \<Rightarrow> group option" where
  "Start_unlock g =
     (if g_start g = Enqueueing []
      then Some (g\<lparr>g_start := (if g_startQueue g = [] then Start_Done else Waiting)\<rparr>)
      else None)"

text \<open>The end of the caller's context is only noted: the loop of \<^verbatim>\<open>Start\<close> goes on.\<close>

definition Start_ctx_done :: "bool \<Rightarrow> group \<Rightarrow> group option" where
  "Start_ctx_done canceled g =
     (if g_start g = Waiting then Some (if canceled then g else g\<lparr>g_retErr := True\<rparr>) else None)"

definition Signal_ready :: "nat \<Rightarrow> group \<Rightarrow> group option" where
  "Signal_ready i g =
     (if i \<notin> set (g_signalling g) then None
      else if ready_closed g then Some (g\<lparr>g_panic := Some Send_On_Closed_Ready_Ch\<rparr>)
      else if g_start g = Waiting
      then let q = remove1 i (g_startQueue g)
        in Some (g\<lparr>g_signalling := remove1 i (g_signalling g), g_startQueue := q,
                   g_start := (if q = [] then Start_Done else Waiting)\<rparr>)
      else None)"

definition reconcile_check :: "group \<Rightarrow> group option" where
  "reconcile_check g = (case g_reconcile g of
       Holding x \<Rightarrow> Some
         (if g_stopped g then g\<lparr>g_reconcile := Dropping x\<rparr>
          else g\<lparr>g_reconcile := Receiving, g_spawned := g_spawned g @ [x],
                 g_checking := g_checking g @ [x], g_running := g_running g @ [x]\<rparr>)
     | _ \<Rightarrow> None)"

definition reconcile_drop :: "group \<Rightarrow> group option" where
  "reconcile_drop g = (case g_reconcile g of
       Dropping x \<Rightarrow> Some (g\<lparr>g_reconcile := Receiving, g_dropped := g_dropped g @ [x]\<rparr>)
     | _ \<Rightarrow> None)"

definition reconcile_exit :: "group \<Rightarrow> group option" where
  "reconcile_exit g =
     (if g_reconcile g = Receiving \<and> ch_closed g then Some (g\<lparr>g_reconcile := Exited\<rparr>) else None)"

definition check_result :: "nat \<Rightarrow> bool \<Rightarrow> group \<Rightarrow> group option" where
  "check_result i ready g =
     (if i \<notin> set (g_checking g) then None
      else let g = g\<lparr>g_checking := remove1 i (g_checking g)\<rparr>
        in Some (if \<not> ready then g\<lparr>g_unready := g_unready g @ [i]\<rparr>
                 else if i \<in> set (g_signalReady g) then g\<lparr>g_signalling := g_signalling g @ [i]\<rparr>
                 else g))"

definition runnable_return :: "nat \<Rightarrow> bool \<Rightarrow> group \<Rightarrow> group option" where
  "runnable_return i failed g =
     (if i \<notin> set (g_running g) then None
      else let g = g\<lparr>g_running := remove1 i (g_running g)\<rparr>
        in Some (if failed then g\<lparr>g_failing := g_failing g @ [i]\<rparr> else g))"

definition runnable_error :: "nat \<Rightarrow> group \<Rightarrow> group option" where
  "runnable_error i g =
     (if i \<notin> set (g_failing g) then None
      else Some (g\<lparr>g_failing := remove1 i (g_failing g), g_errors := g_errors g @ [i]\<rparr>))"

definition Stop_begin :: "group \<Rightarrow> group option" where
  "Stop_begin g = (if g_stop g = Not_Stopped then Some (g\<lparr>g_stop := Stop_Starting\<rparr>) else None)"

text \<open>The write lock waits for a \<^verbatim>\<open>reconcile\<close> that sends its error under the read lock.\<close>

definition Stop_mark :: "group \<Rightarrow> group option" where
  "Stop_mark g =
     (if g_stop g = Stop_Starting \<and> g_start g = Start_Done \<and>
         (case g_reconcile g of Dropping x \<Rightarrow> False | _ \<Rightarrow> True)
      then Some (g\<lparr>g_stopped := True, g_stop := Stop_Marked\<rparr>) else None)"

definition Stop_cancel :: "group \<Rightarrow> group option" where
  "Stop_cancel g =
     (if g_stop g = Stop_Marked then Some (g\<lparr>g_cancelled := True, g_stop := Stop_Waiting\<rparr>) else None)"

definition Stop_finish :: "bool \<Rightarrow> group \<Rightarrow> group option" where
  "Stop_finish expired g =
     (if g_stop g = Stop_Waiting \<and> (expired \<or> g_running g = [] \<and> g_failing g = [])
      then Some (g\<lparr>g_stop := Stop_Done\<rparr>) else None)"

subsection \<open>Steps\<close>

datatype group_event =
    Call_Add
  | Add_Check_Stop nat
  | Add_Check_Start nat
  | Add_Send nat
  | Call_Start
  | Start_Send
  | Start_Unlock
  | Start_Ctx_Done bool
  | Signal_Ready nat
  | Reconcile_Check
  | Reconcile_Drop
  | Reconcile_Exit
  | Check_Result nat bool
  | Runnable_Return nat bool
  | Runnable_Error nat
  | Call_Stop
  | Stop_Mark
  | Stop_Cancel
  | Stop_Finish bool

fun group_act :: "group_event \<Rightarrow> group \<Rightarrow> group option" where
  "group_act Call_Add g =
     Some (g\<lparr>g_check_stop := g_check_stop g @ [g_next g], g_next := Suc (g_next g)\<rparr>)"
| "group_act (Add_Check_Stop i) g = Add_check_stop i g"
| "group_act (Add_Check_Start i) g = Add_check_start i g"
| "group_act (Add_Send i) g = Add_send i g"
| "group_act Call_Start g = Start_begin g"
| "group_act Start_Send g = Start_send g"
| "group_act Start_Unlock g = Start_unlock g"
| "group_act (Start_Ctx_Done canceled) g = Start_ctx_done canceled g"
| "group_act (Signal_Ready i) g = Signal_ready i g"
| "group_act Reconcile_Check g = reconcile_check g"
| "group_act Reconcile_Drop g = reconcile_drop g"
| "group_act Reconcile_Exit g = reconcile_exit g"
| "group_act (Check_Result i ready) g = check_result i ready g"
| "group_act (Runnable_Return i failed) g = runnable_return i failed g"
| "group_act (Runnable_Error i) g = runnable_error i g"
| "group_act Call_Stop g = Stop_begin g"
| "group_act Stop_Mark g = Stop_mark g"
| "group_act Stop_Cancel g = Stop_cancel g"
| "group_act (Stop_Finish expired) g = Stop_finish expired g"

text \<open>After a panic the process is gone.\<close>

definition group_step :: "group \<Rightarrow> group_event \<Rightarrow> group option" where
  "group_step g ev = (if g_panic g = None then group_act ev g else None)"

end
