(* ===== verification/Group_Facts.thy ===== *)
theory Group_Facts
  imports Runnable_Group
begin

text \<open>
  The invariants of a group of runnables, for every interleaving of its goroutines: no runnable
  is lost or duplicated on its way through the group, the phases of \<^verbatim>\<open>Start\<close>, \<^verbatim>\<open>reconcile\<close> and
  \<^verbatim>\<open>StopAndWait\<close> fit together, and a check goroutine that will signal is still waited for.
\<close>

text \<open>
  The steps as a relation, one rule for each branch of each operation: case analysis on it gives
  the guards and the fields written.
\<close>

inductive group_rel :: "group \<Rightarrow> group_event \<Rightarrow> group \<Rightarrow> bool" where
  call_add: "group_rel g Call_Add (g\<lparr>g_check_stop := g_check_stop g @ [g_next g], g_next := Suc (g_next g)\<rparr>)"
| add_rejected: "i \<in> set (g_check_stop g) \<Longrightarrow> g_stopped g \<Longrightarrow>
     group_rel g (Add_Check_Stop i) (g\<lparr>g_check_stop := remove1 i (g_check_stop g), g_rejected := g_rejected g @ [i]\<rparr>)"
| add_goes_on: "i \<in> set (g_check_stop g) \<Longrightarrow> \<not> g_stopped g \<Longrightarrow>
     group_rel g (Add_Check_Stop i) (g\<lparr>g_check_stop := remove1 i (g_check_stop g), g_check_start := g_check_start g @ [i]\<rparr>)"
| add_queued: "i \<in> set (g_check_start g) \<Longrightarrow> \<not> start_locked g \<Longrightarrow> \<not> g_started g \<Longrightarrow>
     group_rel g (Add_Check_Start i) (g\<lparr>g_check_start := remove1 i (g_check_start g), g_startQueue := g_startQueue g @ [i]\<rparr>)"
| add_to_send: "i \<in> set (g_check_start g) \<Longrightarrow> \<not> start_locked g \<Longrightarrow> g_started g \<Longrightarrow>
     group_rel g (Add_Check_Start i) (g\<lparr>g_check_start := remove1 i (g_check_start g), g_sending := g_sending g @ [i]\<rparr>)"
| add_panics: "i \<in> set (g_sending g) \<Longrightarrow> ch_closed g \<Longrightarrow>
     group_rel g (Add_Send i) (g\<lparr>g_panic := Some Send_On_Closed_Ch\<rparr>)"
| add_sent: "i \<in> set (g_sending g) \<Longrightarrow> \<not> ch_closed g \<Longrightarrow> g_reconcile g = Receiving \<Longrightarrow>
     group_rel g (Add_Send i) (g\<lparr>g_sending := remove1 i (g_sending g), g_reconcile := Holding i\<rparr>)"
| start_begun: "g_start g = Not_Started \<Longrightarrow>
     group_rel g Call_Start (g\<lparr>g_reconcile := Receiving, g_started := True, g_start := Enqueueing (g_startQueue g)\<rparr>)"
| start_panics: "g_start g = Enqueueing (x # xs) \<Longrightarrow> ch_closed g \<Longrightarrow>
     group_rel g Start_Send (g\<lparr>g_panic := Some Send_On_Closed_Ch\<rparr>)"
| start_sent: "g_start g = Enqueueing (x # xs) \<Longrightarrow> \<not> ch_closed g \<Longrightarrow> g_reconcile g = Receiving \<Longrightarrow>
     group_rel g Start_Send (g\<lparr>g_signalReady := g_signalReady g @ [x], g_reconcile := Holding x, g_start := Enqueueing xs\<rparr>)"
| start_empty: "g_start g = Enqueueing [] \<Longrightarrow> g_startQueue g = [] \<Longrightarrow>
     group_rel g Start_Unlock (g\<lparr>g_start := Start_Done\<rparr>)"
| start_waits: "g_start g = Enqueueing [] \<Longrightarrow> g_startQueue g \<noteq> [] \<Longrightarrow>
     group_rel g Start_Unlock (g\<lparr>g_start := Waiting\<rparr>)"
| ctx_canceled: "g_start g = Waiting \<Longrightarrow>
     group_rel g (Start_Ctx_Done True) (g)"
| ctx_expired: "g_start g = Waiting \<Longrightarrow>
     group_rel g (Start_Ctx_Done False) (g\<lparr>g_retErr := True\<rparr>)"
| signal_panics: "i \<in> set (g_signalling g) \<Longrightarrow> ready_closed g \<Longrightarrow>
     group_rel g (Signal_Ready i) (g\<lparr>g_panic := Some Send_On_Closed_Ready_Ch\<rparr>)"
| signal_last: "i \<in> set (g_signalling g) \<Longrightarrow> g_start g = Waiting \<Longrightarrow> remove1 i (g_startQueue g) = [] \<Longrightarrow>
     group_rel g (Signal_Ready i) (g\<lparr>g_signalling := remove1 i (g_signalling g), g_startQueue := [], g_start := Start_Done\<rparr>)"
| signal_more: "i \<in> set (g_signalling g) \<Longrightarrow> g_start g = Waiting \<Longrightarrow> remove1 i (g_startQueue g) \<noteq> [] \<Longrightarrow>
     group_rel g (Signal_Ready i) (g\<lparr>g_signalling := remove1 i (g_signalling g), g_startQueue := remove1 i (g_startQueue g), g_start := Waiting\<rparr>)"
| to_drop: "g_reconcile g = Holding x \<Longrightarrow> g_stopped g \<Longrightarrow>
     group_rel g Reconcile_Check (g\<lparr>g_reconcile := Dropping x\<rparr>)"
| spawned: "g_reconcile g = Holding x \<Longrightarrow> \<not> g_stopped g \<Longrightarrow>
     group_rel g Reconcile_Check (g\<lparr>g_reconcile := Receiving, g_spawned := g_spawned g @ [x], g_checking := g_checking g @ [x], g_running := g_running g @ [x]\<rparr>)"
| dropped: "g_reconcile g = Dropping x \<Longrightarrow>
     group_rel g Reconcile_Drop (g\<lparr>g_reconcile := Receiving, g_dropped := g_dropped g @ [x]\<rparr>)"
| exited: "g_reconcile g = Receiving \<Longrightarrow> ch_closed g \<Longrightarrow>
     group_rel g Reconcile_Exit (g\<lparr>g_reconcile := Exited\<rparr>)"
| not_ready: "i \<in> set (g_checking g) \<Longrightarrow>
     group_rel g (Check_Result i False) (g\<lparr>g_checking := remove1 i (g_checking g), g_unready := g_unready g @ [i]\<rparr>)"
| ready_signal: "i \<in> set (g_checking g) \<Longrightarrow> i \<in> set (g_signalReady g) \<Longrightarrow>
     group_rel g (Check_Result i True) (g\<lparr>g_checking := remove1 i (g_checking g), g_signalling := g_signalling g @ [i]\<rparr>)"
| ready_quiet: "i \<in> set (g_checking g) \<Longrightarrow> i \<notin> set (g_signalReady g) \<Longrightarrow>
     group_rel g (Check_Result i True) (g\<lparr>g_checking := remove1 i (g_checking g)\<rparr>)"
| returned: "i \<in> set (g_running g) \<Longrightarrow>
     group_rel g (Runnable_Return i False) (g\<lparr>g_running := remove1 i (g_running g)\<rparr>)"
| failed: "i \<in> set (g_running g) \<Longrightarrow>
     group_rel g (Runnable_Return i True) (g\<lparr>g_running := remove1 i (g_running g), g_failing := g_failing g @ [i]\<rparr>)"
| error_read: "i \<in> set (g_failing g) \<Longrightarrow>
     group_rel g (Runnable_Error i) (g\<lparr>g_failing := remove1 i (g_failing g), g_errors := g_errors g @ [i]\<rparr>)"
| stop_begun: "g_stop g = Not_Stopped \<Longrightarrow>
     group_rel g Call_Stop (g\<lparr>g_stop := Stop_Starting\<rparr>)"
| stop_marked: "g_stop g = Stop_Starting \<Longrightarrow> g_start g = Start_Done \<Longrightarrow> (\<forall>x. g_reconcile g \<noteq> Dropping x) \<Longrightarrow>
     group_rel g Stop_Mark (g\<lparr>g_stopped := True, g_stop := Stop_Marked\<rparr>)"
| stop_cancelled: "g_stop g = Stop_Marked \<Longrightarrow>
     group_rel g Stop_Cancel (g\<lparr>g_cancelled := True, g_stop := Stop_Waiting\<rparr>)"
| stop_finished: "g_stop g = Stop_Waiting \<Longrightarrow> expired \<or> g_running g = [] \<and> g_failing g = [] \<Longrightarrow>
     group_rel g (Stop_Finish expired) (g\<lparr>g_stop := Stop_Done\<rparr>)"

lemma group_step_rel:
  assumes "group_step g ev = Some g'"
  shows "g_panic g = None \<and> group_rel g ev g'"
proof -
  from assms have "g_panic g = None" and act: "group_act ev g = Some g'"
    by (simp_all add: group_step_def split: if_splits)
  moreover have "group_rel g ev g'"
  proof (cases ev)
    case Call_Add
    with act show ?thesis by (auto intro: call_add)
  next
    case (Add_Check_Stop i)
    with act show ?thesis
      by (auto simp: Add_check_stop_def Let_def intro: add_rejected add_goes_on split: if_splits)
  next
    case (Add_Check_Start i)
    with act show ?thesis
      by (auto simp: Add_check_start_def Let_def intro: add_queued add_to_send split: if_splits)
  next
    case (Add_Send i)
    with act show ?thesis
      by (auto simp: Add_send_def intro: add_panics add_sent split: if_splits)
  next
    case Call_Start
    with act show ?thesis by (auto simp: Start_begin_def intro: start_begun split: if_splits)
  next
    case Start_Send
    with act show ?thesis
      by (auto simp: Start_send_def intro: start_panics start_sent
          split: start_pc.splits list.splits if_splits)
  next
    case Start_Unlock
    with act show ?thesis
      by (auto simp: Start_unlock_def intro: start_empty start_waits split: if_splits)
  next
    case (Start_Ctx_Done canceled)
    with act show ?thesis
      by (cases canceled) (auto simp: Start_ctx_done_def intro: ctx_canceled ctx_expired split: if_splits)
  next
    case (Signal_Ready i)
    show ?thesis
    proof (cases "remove1 i (g_startQueue g) = []")
      case True
      with act Signal_Ready show ?thesis
        by (auto simp: Signal_ready_def Let_def intro: signal_panics signal_last split: if_splits)
    next
      case False
      with act Signal_Ready show ?thesis
        by (auto simp: Signal_ready_def Let_def intro: signal_panics signal_more split: if_splits)
    qed
  next
    case Reconcile_Check
    with act show ?thesis
      by (auto simp: reconcile_check_def intro: to_drop spawned split: reconcile_pc.splits if_splits)
  next
    case Reconcile_Drop
    with act show ?thesis
      by (auto simp: reconcile_drop_def intro: dropped split: reconcile_pc.splits)
  next
    case Reconcile_Exit
    with act show ?thesis by (auto simp: reconcile_exit_def intro: exited split: if_splits)
  next
    case (Check_Result i ready)
    with act show ?thesis
      by (cases ready) (auto simp: check_result_def Let_def intro: not_ready ready_signal ready_quiet
          split: if_splits)
  next
    case (Runnable_Return i err)
    with act show ?thesis
      by (cases err) (auto simp: runnable_return_def Let_def intro: returned failed split: if_splits)
  next
    case (Runnable_Error i)
    with act show ?thesis by (auto simp: runnable_error_def intro: error_read split: if_splits)
  next
    case Call_Stop
    with act show ?thesis by (auto simp: Stop_begin_def intro: stop_begun split: if_splits)
  next
    case Stop_Mark
    with act show ?thesis
      by (auto simp: Stop_mark_def intro: stop_marked split: if_splits reconcile_pc.splits)
  next
    case Stop_Cancel
    with act show ?thesis by (auto simp: Stop_cancel_def intro: stop_cancelled split: if_splits)
  next
    case (Stop_Finish expired)
    with act show ?thesis by (auto simp: Stop_finish_def intro: stop_finished split: if_splits)
  qed
  ultimately show ?thesis by simp
qed

lemma group_stepI: "(\<And>g ev g'. group_rel g ev g' \<Longrightarrow> g_panic g = None \<Longrightarrow> P g ev g') \<Longrightarrow>
    group_step g ev = Some g' \<Longrightarrow> P g ev g'"
  using group_step_rel by blast

lemma mset_take_out: "i \<in> set xs \<Longrightarrow> mset xs = add_mset i (mset (remove1 i xs))"
  by simp

subsection \<open>Conservation\<close>

fun queued_in :: "start_pc \<Rightarrow> nat list \<Rightarrow> nat list" where
  "queued_in Not_Started q = q"
| "queued_in (Enqueueing xs) q = xs"
| "queued_in Waiting q = []"
| "queued_in Start_Done q = []"

lemma queued_in_started [simp]:
  "s \<noteq> Not_Started \<Longrightarrow> queued_in s (q @ r) = queued_in s q"
  by (cases s) simp_all

fun held_by :: "reconcile_pc \<Rightarrow> nat list" where
  "held_by Not_Running = []"
| "held_by Receiving = []"
| "held_by (Holding x) = [x]"
| "held_by (Dropping x) = [x]"
| "held_by Exited = []"

definition unsent :: "group \<Rightarrow> nat list" where
  "unsent g = queued_in (g_start g) (g_startQueue g)"

definition held :: "group \<Rightarrow> nat list" where
  "held g = held_by (g_reconcile g)"

definition placed :: "group \<Rightarrow> nat list" where
  "placed g = g_check_stop g @ g_check_start g @ g_sending g @ g_rejected g @ unsent g @ held g @
     g_spawned g @ g_dropped g"

text \<open>The control states of the goroutines that share a group.\<close>

definition phases_ok :: "group \<Rightarrow> bool" where
  "phases_ok g \<longleftrightarrow>
     (g_started g \<longleftrightarrow> g_start g \<noteq> Not_Started) \<and>
     (g_start g = Not_Started \<longleftrightarrow> g_reconcile g = Not_Running) \<and>
     (g_start g = Start_Done \<longrightarrow> g_startQueue g = []) \<and>
     (g_start g = Waiting \<longrightarrow> g_startQueue g \<noteq> []) \<and>
     (g_stopped g \<longleftrightarrow> g_stop g \<in> {Stop_Marked, Stop_Waiting, Stop_Done}) \<and>
     (g_stopped g \<longrightarrow> g_start g = Start_Done) \<and>
     (\<forall>x. g_reconcile g = Dropping x \<longrightarrow> g_stopped g) \<and>
     (g_reconcile g = Exited \<longrightarrow> ch_closed g) \<and>
     (g_cancelled g \<longrightarrow> g_stopped g) \<and>
     (g_panic g = Some Send_On_Closed_Ch \<longrightarrow> g_stop g = Stop_Done \<and> g_sending g \<noteq> [])"

lemma phases_init: "phases_ok newRunnableGroup"
  by (simp add: phases_ok_def newRunnableGroup_def)

lemma phases_rel: "group_rel g ev g' \<Longrightarrow> g_panic g = None \<Longrightarrow> phases_ok g \<Longrightarrow> phases_ok g'"
  by (induction rule: group_rel.induct) (auto simp: phases_ok_def ch_closed_def)

lemma phases_step: "phases_ok g \<Longrightarrow> group_step g ev = Some g' \<Longrightarrow> phases_ok g'"
  using group_step_rel phases_rel by blast

interpretation phases: machine_invariant group_step phases_ok "\<lambda>ev. True"
  by unfold_locales (rule phases_step)

definition conserved :: "group \<Rightarrow> bool" where
  "conserved g \<longleftrightarrow> mset (placed g) = mset [0..<g_next g]"

lemma conserved_init: "conserved newRunnableGroup"
  by (simp add: conserved_def placed_def unsent_def held_def newRunnableGroup_def)

lemma placed_rel:
  "group_rel g ev g' \<Longrightarrow> phases_ok g \<Longrightarrow>
    mset (placed g') = mset (placed g) + (if ev = Call_Add then {#g_next g#} else {#}) \<and>
    g_next g' = (if ev = Call_Add then Suc (g_next g) else g_next g)"
  by (induction rule: group_rel.induct)
     (auto simp: placed_def unsent_def held_def phases_ok_def start_locked_def
       dest!: mset_take_out split: start_pc.splits)

lemma conserved_step:
  assumes "phases_ok g" "conserved g" "group_step g ev = Some g'"
  shows "conserved g'"
proof -
  have "mset (placed g') = mset (placed g) + (if ev = Call_Add then {#g_next g#} else {#})"
    "g_next g' = (if ev = Call_Add then Suc (g_next g) else g_next g)"
    using placed_rel [OF _ assms(1), of ev g'] group_step_rel [OF assms(3)] by blast+
  moreover have "mset [0..<Suc n] = mset [0..<n] + {#n#}" for n
    by (simp only: upt_Suc_append [OF le0] mset_append mset.simps union_mset_add_mset_right add_0_right)
  ultimately show ?thesis
    using assms(2) by (cases "ev = Call_Add") (simp_all only: conserved_def simp_thms if_True if_False add_0_right)
qed

lemma conserved_distinct: "conserved g \<Longrightarrow> distinct (placed g)"
  unfolding conserved_def by (metis distinct_upt mset_eq_imp_distinct_iff)

subsection \<open>Readiness\<close>

definition verdicts :: "group \<Rightarrow> nat list" where
  "verdicts g = g_checking g @ g_signalling g @ g_unready g"

fun queue_matches :: "start_pc \<Rightarrow> nat set \<Rightarrow> nat set \<Rightarrow> bool" where
  "queue_matches Not_Started q r = (r = {})"
| "queue_matches (Enqueueing xs) q r = (q = set xs \<union> r)"
| "queue_matches Waiting q r = (q \<subseteq> r)"
| "queue_matches Start_Done q r = (q \<subseteq> r)"

definition queue_ok :: "group \<Rightarrow> bool" where
  "queue_ok g \<longleftrightarrow> queue_matches (g_start g) (set (g_startQueue g)) (set (g_signalReady g))"

text \<open>A runnable that may still signal is waited for, and a runnable that is waited for may
  still signal, unless its check has failed.\<close>

definition awaited :: "group \<Rightarrow> bool" where
  "awaited g \<longleftrightarrow> (\<forall>x\<in>set (g_signalReady g).
     x \<in> set (verdicts g) \<or> x \<in> set (held g) \<longrightarrow> x \<in> set (g_startQueue g))"

definition waited :: "group \<Rightarrow> bool" where
  "waited g \<longleftrightarrow> (g_start g = Not_Started \<or> (\<forall>x\<in>set (g_startQueue g).
     x \<in> set (unsent g) \<or> x \<in> set (held g) \<or> x \<in> set (verdicts g)))"

definition ready_ok :: "group \<Rightarrow> bool" where
  "ready_ok g \<longleftrightarrow>
     mset (verdicts g) \<subseteq># mset (g_spawned g) \<and>
     awaited g \<and> waited g \<and> queue_ok g \<and>
     set (g_signalling g) \<subseteq> set (g_signalReady g) \<and>
     set (g_signalReady g) \<subseteq> set (g_spawned g) \<union> set (held g) \<and>
     distinct (g_startQueue g) \<and>
     g_panic g \<noteq> Some Send_On_Closed_Ready_Ch"

lemma ready_init: "ready_ok newRunnableGroup"
  by (simp add: ready_ok_def verdicts_def queue_ok_def held_def awaited_def waited_def
      newRunnableGroup_def)

lemma distinct_subseteq_mset:
  assumes "distinct ys" "mset xs \<subseteq># mset ys"
  shows "distinct xs"
proof -
  have "count (mset xs) x \<le> 1" for x
    using assms mset_subset_eq_count [of "mset xs" "mset ys" x]
    by (metis distinct_count_atmost_1 le_trans le_numeral_extra(3) zero_le_one)
  then have "count (mset xs) x = (if x \<in> set xs then 1 else 0)" for x
    by (metis One_nat_def count_eq_zero_iff le_SucE le_zero_eq set_mset_mset)
  then show ?thesis by (simp add: distinct_count_atmost_1)
qed

text \<open>The places of a runnable are apart.\<close>

lemma places_apart:
  assumes "distinct (placed g)"
  shows "set (g_spawned g) \<inter> set (held g) = {}" "set (g_spawned g) \<inter> set (unsent g) = {}"
    "set (held g) \<inter> set (unsent g) = {}" "set (g_sending g) \<inter> set (g_spawned g) = {}"
    "set (g_sending g) \<inter> set (held g) = {}" "distinct (unsent g)" "distinct (g_spawned g)"
  using assms unfolding placed_def distinct_append set_append by blast+

lemma verdicts_apart:
  assumes "ready_ok g" "distinct (placed g)"
  shows "distinct (verdicts g)"
  using assms(1)
  by (intro distinct_subseteq_mset [OF places_apart(7) [OF assms(2)]]) (simp add: ready_ok_def)

lemma verdicts_spawned: "ready_ok g \<Longrightarrow> set (verdicts g) \<subseteq> set (g_spawned g)"
  unfolding ready_ok_def by (metis set_mset_mono set_mset_mset)

lemma verdicts_sub_rel:
  "group_rel g ev g' \<Longrightarrow> ready_ok g \<Longrightarrow> mset (verdicts g') \<subseteq># mset (g_spawned g')"
  by (induction rule: group_rel.induct)
     (auto simp: ready_ok_def verdicts_def dest!: mset_take_out
       intro: subset_mset.order_trans [OF diff_subset_eq_self])

lemma signalling_sub_rel:
  "group_rel g ev g' \<Longrightarrow> ready_ok g \<Longrightarrow> set (g_signalling g') \<subseteq> set (g_signalReady g')"
  by (induction rule: group_rel.induct) (auto simp: ready_ok_def dest: notin_set_remove1)

lemma signalReady_sub_rel:
  "group_rel g ev g' \<Longrightarrow> ready_ok g \<Longrightarrow> phases_ok g \<Longrightarrow>
     set (g_signalReady g') \<subseteq> set (g_spawned g') \<union> set (held g')"
  by (induction rule: group_rel.induct) (auto simp: ready_ok_def awaited_def phases_ok_def held_def)

lemma queue_ok_rel: "group_rel g ev g' \<Longrightarrow> ready_ok g \<Longrightarrow> phases_ok g \<Longrightarrow> queue_ok g'"
  by (induction rule: group_rel.induct)
     (auto simp: ready_ok_def phases_ok_def queue_ok_def dest: notin_set_remove1)

lemma distinct_queue_rel:
  "group_rel g ev g' \<Longrightarrow> ready_ok g \<Longrightarrow> phases_ok g \<Longrightarrow> distinct (placed g) \<Longrightarrow>
     distinct (g_startQueue g')"
  by (induction rule: group_rel.induct)
     (auto simp: ready_ok_def phases_ok_def placed_def unsent_def)

lemma ready_panic_rel:
  "group_rel g ev g' \<Longrightarrow> ready_ok g \<Longrightarrow> phases_ok g \<Longrightarrow>
     g_panic g' \<noteq> Some Send_On_Closed_Ready_Ch"
  by (induction rule: group_rel.induct)
     (auto simp: ready_ok_def phases_ok_def ready_closed_def verdicts_def awaited_def)

lemma awaited_others:
  assumes "group_rel g ev g'" "\<And>i. ev \<noteq> Signal_Ready i" "awaited g" "queue_ok g"
    "\<forall>x\<in>set (g_signalReady g). x \<notin> set (g_sending g)"
  shows "awaited g'"
  using assms
  by (induct rule: group_rel.induct)
     (auto simp: awaited_def held_def verdicts_def queue_ok_def dest: notin_set_remove1)

lemma awaited_signal:
  assumes "group_rel g ev g'" "ev = Signal_Ready i" "awaited g" "distinct (g_startQueue g)"
    "distinct (verdicts g @ held g)"
  shows "awaited g'"
proof -
  have "awaited g'" if "i \<in> set (g_signalling g)" "g_signalling g' = remove1 i (g_signalling g)"
    "g_startQueue g' = remove1 i (g_startQueue g)" "g_checking g' = g_checking g"
    "g_unready g' = g_unready g" "held g' = held g" "g_signalReady g' = g_signalReady g"
    using assms(3-5) that by (auto simp: verdicts_def awaited_def)
  with assms(1) show ?thesis
    using assms(2,3) by (induct rule: group_rel.induct) (auto simp: held_def awaited_def verdicts_def)
qed

lemma awaited_rel:
  assumes "group_rel g ev g'" "ready_ok g" "distinct (placed g)"
  shows "awaited g'"
proof (cases "\<exists>i. ev = Signal_Ready i")
  case True
  moreover have "distinct (verdicts g @ held g)"
    using verdicts_apart [OF assms(2,3)] verdicts_spawned [OF assms(2)]
      places_apart(1) [OF assms(3)] assms(3) by (auto simp: placed_def)
  ultimately show ?thesis
    using awaited_signal [OF assms(1)] assms(2) by (auto simp: ready_ok_def)
next
  case False
  moreover have "\<forall>x\<in>set (g_signalReady g). x \<notin> set (g_sending g)"
    using assms(2) places_apart(4,5) [OF assms(3)] unfolding ready_ok_def by blast
  ultimately show ?thesis
    using awaited_others [OF assms(1)] assms(2) by (simp add: ready_ok_def)
qed

lemma not_in_remove1D: "x \<notin> set (remove1 i xs) \<Longrightarrow> x = i \<or> x \<notin> set xs"
  by (cases "x = i") simp_all

lemma waited_step:
  assumes "group_rel g ev g'" "waited g" "g_started g \<longleftrightarrow> g_start g \<noteq> Not_Started"
    "\<And>x. g_reconcile g = Dropping x \<Longrightarrow> g_startQueue g = []"
    "g_start g = Start_Done \<Longrightarrow> g_startQueue g = []" "distinct (g_startQueue g)"
    "g_start g = Not_Started \<or>
     (\<forall>x\<in>set (g_checking g). x \<in> set (g_startQueue g) \<longrightarrow> x \<in> set (g_signalReady g))"
  shows "waited g'"
  using assms
  by (induct rule: group_rel.induct)
     (simp_all add: waited_def, simp_all add: held_def verdicts_def unsent_def,
       auto dest: notin_set_remove1 dest!: not_in_remove1D)

lemma waited_rel:
  assumes "group_rel g ev g'" "ready_ok g" "phases_ok g" "distinct (placed g)"
  shows "waited g'"
proof (rule waited_step [OF assms(1)])
  show "waited g" "distinct (g_startQueue g)" using assms(2) by (simp_all add: ready_ok_def)
  show "g_started g \<longleftrightarrow> g_start g \<noteq> Not_Started"
    "g_start g = Start_Done \<Longrightarrow> g_startQueue g = []"
    "\<And>x. g_reconcile g = Dropping x \<Longrightarrow> g_startQueue g = []"
    using assms(3) by (auto simp: phases_ok_def)
  have "set (g_checking g) \<subseteq> set (g_spawned g)"
    using verdicts_spawned [OF assms(2)] by (auto simp: verdicts_def)
  then have "set (g_checking g) \<inter> set (unsent g) = {}"
    using places_apart(2) [OF assms(4)] by blast
  moreover have "queue_ok g" using assms(2) by (simp add: ready_ok_def)
  ultimately show "g_start g = Not_Started \<or>
     (\<forall>x\<in>set (g_checking g). x \<in> set (g_startQueue g) \<longrightarrow> x \<in> set (g_signalReady g))"
    by (cases "g_start g") (auto simp: queue_ok_def unsent_def)
qed

definition group_ok :: "group \<Rightarrow> bool" where
  "group_ok g \<longleftrightarrow> phases_ok g \<and> conserved g \<and> ready_ok g"

lemma group_init: "group_ok newRunnableGroup"
  by (simp add: group_ok_def phases_init conserved_init ready_init)

lemma group_ok_step:
  assumes "group_ok g" "group_step g ev = Some g'"
  shows "group_ok g'"
proof -
  have r: "group_rel g ev g'" and p: "phases_ok g" and y: "ready_ok g" and c: "conserved g"
    using group_step_rel [OF assms(2)] assms(1) by (simp_all add: group_ok_def)
  note d = conserved_distinct [OF c]
  have "ready_ok g'"
    unfolding ready_ok_def
    by (intro conjI verdicts_sub_rel [OF r y] awaited_rel [OF r y d] waited_rel [OF r y p d]
        queue_ok_rel [OF r y p] signalling_sub_rel [OF r y] signalReady_sub_rel [OF r y p]
        distinct_queue_rel [OF r y p d] ready_panic_rel [OF r y p])
  with phases_step [OF p assms(2)] conserved_step [OF p c assms(2)] show ?thesis
    by (simp add: group_ok_def)
qed

interpretation grp: machine_invariant group_step group_ok "\<lambda>ev. True"
  by unfold_locales (rule group_ok_step)

lemma group_run_ok: "run_steps group_step newRunnableGroup es = Some g \<Longrightarrow> group_ok g"
  using grp.inv_run [OF group_init] by (simp add: list_all_iff)

end
