(* ===== verification/Group_Runs.thy ===== *)
theory Group_Runs
  imports Group_Facts
begin

text \<open>
  What a group of runnables promises over all interleavings: every runnable handed to it is in
  exactly one place, \<^verbatim>\<open>Start\<close> returns after the checks of the runnables it started have passed, a
  stopped group starts nothing, \<^verbatim>\<open>StopAndWait\<close> waits for what runs, and both return. A check
  that fails keeps both from returning, and a late \<^verbatim>\<open>Add\<close> can send on the closed channel.
\<close>

abbreviation group_run :: "group \<Rightarrow> group_event list \<Rightarrow> group option" where
  "group_run \<equiv> run_steps group_step"

subsection \<open>Conservation\<close>

text \<open>C13: In every state a group can reach, the runnables handed to \<^verbatim>\<open>Add\<close> so far are exactly those
  still in \<^verbatim>\<open>Add\<close>, rejected, in the start queue and not yet sent, held by \<^verbatim>\<open>reconcile\<close>, started
  or dropped, each in one of these places only; none is lost, and none is started twice.\<close>

theorem group_conserves_runnables:
  assumes "group_run newRunnableGroup es = Some g"
  shows "mset [0..<g_next g] = mset (g_check_stop g) + mset (g_check_start g) + mset (g_sending g) +
      mset (g_rejected g) + mset (unsent g) + mset (held g) + mset (g_spawned g) + mset (g_dropped g) \<and>
    distinct (g_spawned g)"
proof -
  have c: "conserved g" using group_run_ok [OF assms] by (simp add: group_ok_def)
  then have "mset [0..<g_next g] = mset (g_check_stop g) + mset (g_check_start g) +
      mset (g_sending g) + mset (g_rejected g) + mset (unsent g) + mset (held g) +
      mset (g_spawned g) + mset (g_dropped g)"
    by (simp only: conserved_def placed_def mset_append add.assoc)
  with places_apart(7) [OF conserved_distinct [OF c]] show ?thesis by blast
qed

text \<open>Two runnables: one is added before the group starts, the other reaches its check of
  \<^verbatim>\<open>started\<close> later and is sent.\<close>

definition two_adds :: "group_event list" where
  "two_adds = [Call_Add, Call_Add, Add_Check_Stop 0, Add_Check_Start 0, Add_Check_Stop 1,
     Call_Start, Start_Send, Reconcile_Check, Start_Unlock, Add_Check_Start 1]"

lemma two_adds_run: "group_run newRunnableGroup two_adds = Some (newRunnableGroup\<lparr>
    g_next := 2, g_sending := [1], g_startQueue := [0], g_started := True, g_start := Waiting,
    g_reconcile := Receiving, g_signalReady := [0], g_checking := [0], g_running := [0],
    g_spawned := [0]\<rparr>)"
  by code_simp

theorem group_conserves_runnables_witness:
  "\<exists>g. group_run newRunnableGroup two_adds = Some g \<and> g_next g = 2 \<and>
     mset [0..<2] = mset (g_sending g) + mset (g_spawned g) \<and> distinct (g_spawned g)"
  using group_conserves_runnables [OF two_adds_run] two_adds_run
  by (simp add: newRunnableGroup_def unsent_def held_def)

subsection \<open>Histories\<close>

text \<open>What was started has a verdict or awaits one; what was started runs or has returned.\<close>

lemma checked_rel:
  "group_rel g ev g' \<Longrightarrow> i \<in> set (g_spawned g') \<Longrightarrow> i \<notin> set (g_checking g') \<Longrightarrow>
     i \<notin> set (g_unready g') \<Longrightarrow>
     ev = Check_Result i True \<or>
     (i \<in> set (g_spawned g) \<and> i \<notin> set (g_checking g) \<and> i \<notin> set (g_unready g))"
  by (induction rule: group_rel.induct) (auto dest!: not_in_remove1D)

lemma checked_run:
  "group_run g es = Some g' \<Longrightarrow> i \<notin> set (g_spawned g) \<Longrightarrow> i \<in> set (g_spawned g') \<Longrightarrow>
     i \<notin> set (g_checking g') \<Longrightarrow> i \<notin> set (g_unready g') \<Longrightarrow> Check_Result i True \<in> set es"
proof (induction es arbitrary: g' rule: rev_induct)
  case Nil
  then show ?case by simp
next
  case (snoc ev es)
  then obtain g1 where g1: "group_run g es = Some g1" "group_step g1 ev = Some g'"
    by (auto simp: run_steps_append split: option.splits)
  from checked_rel [of g1 ev g' i] group_step_rel [OF g1(2)] snoc.prems snoc.IH [OF g1(1)]
  show ?case by auto
qed

lemma returned_rel:
  "group_rel g ev g' \<Longrightarrow> i \<in> set (g_spawned g') \<Longrightarrow> i \<notin> set (g_running g') \<Longrightarrow>
     i \<notin> set (g_failing g') \<Longrightarrow>
     ev = Runnable_Return i False \<or> i \<in> set (g_errors g') \<or>
     (i \<in> set (g_spawned g) \<and> i \<notin> set (g_running g) \<and> i \<notin> set (g_failing g))"
  by (induction rule: group_rel.induct) (auto dest!: not_in_remove1D)

lemma errors_grow: "group_rel g ev g' \<Longrightarrow> set (g_errors g) \<subseteq> set (g_errors g')"
  by (induction rule: group_rel.induct) auto

lemma returned_run:
  "group_run newRunnableGroup es = Some g \<Longrightarrow> i \<in> set (g_spawned g) \<Longrightarrow>
     i \<notin> set (g_running g) \<Longrightarrow> i \<notin> set (g_failing g) \<Longrightarrow>
     Runnable_Return i False \<in> set es \<or> i \<in> set (g_errors g)"
proof (induction es arbitrary: g rule: rev_induct)
  case Nil
  then show ?case by (auto simp: newRunnableGroup_def)
next
  case (snoc ev es)
  then obtain g1 where g1: "group_run newRunnableGroup es = Some g1" "group_step g1 ev = Some g"
    by (auto simp: run_steps_append split: option.splits)
  then have r: "group_rel g1 ev g" using group_step_rel by blast
  from returned_rel [OF r, of i] errors_grow [OF r] snoc.prems snoc.IH [OF g1(1)]
  show ?case by auto
qed

subsection \<open>Start\<close>

text \<open>The queue \<^verbatim>\<open>Start\<close> began with is sent in full before it waits.\<close>

lemma signalled_rel:
  "group_rel g ev g' \<Longrightarrow> g_start g \<noteq> Not_Started \<and> set q \<subseteq> set (unsent g) \<union> set (g_signalReady g) \<Longrightarrow>
     g_start g' \<noteq> Not_Started \<and> set q \<subseteq> set (unsent g') \<union> set (g_signalReady g')"
  by (induction rule: group_rel.induct) (auto simp: unsent_def)

interpretation signalled: machine_invariant group_step
  "\<lambda>g. g_start g \<noteq> Not_Started \<and> set q \<subseteq> set (unsent g) \<union> set (g_signalReady g)" "\<lambda>ev. True" for q
  by unfold_locales (use group_step_rel signalled_rel in blast)

text \<open>C14: When \<^verbatim>\<open>Start\<close> has returned, every runnable that was in the start queue when it was called
  has been started by \<^verbatim>\<open>reconcile\<close>, and its check has been run and has reported it ready.\<close>

theorem start_waits_for_checks:
  assumes "group_run newRunnableGroup es = Some g" "group_step g Call_Start = Some g1"
    and "group_run g1 es' = Some g2" "g_start g2 = Start_Done" "i \<in> set (g_startQueue g)"
  shows "i \<in> set (g_spawned g2) \<and> Check_Result i True \<in> set es'"
proof -
  have ok: "group_ok g" using group_run_ok [OF assms(1)] .
  have ok2: "group_ok g2"
    using grp.inv_run [OF group_ok_step [OF ok assms(2)] _ assms(3)] by (simp add: list_all_iff)
  have begun: "g_start g = Not_Started" "unsent g1 = g_startQueue g" "g_start g1 \<noteq> Not_Started"
    "g_spawned g1 = g_spawned g"
    using assms(2) by (auto simp: group_step_def Start_begin_def unsent_def split: if_splits)
  have "set (g_startQueue g) \<subseteq> set (unsent g2) \<union> set (g_signalReady g2)"
    using signalled.inv_run [where q = "g_startQueue g", OF _ _ assms(3)] begun
    by (simp add: list_all_iff)
  with assms(4,5) have sig: "i \<in> set (g_signalReady g2)" by (auto simp: unsent_def)
  from ok2 assms(4) have "g_startQueue g2 = []" by (simp add: group_ok_def phases_ok_def)
  with ok2 sig have gone: "i \<notin> set (verdicts g2)" "i \<notin> set (held g2)"
    by (auto simp: group_ok_def ready_ok_def awaited_def)
  with ok2 sig have spawned: "i \<in> set (g_spawned g2)" by (auto simp: group_ok_def ready_ok_def)
  have "unsent g = g_startQueue g" using begun(1) by (simp add: unsent_def)
  with assms(5) places_apart(2) [OF conserved_distinct, of g] ok have "i \<notin> set (g_spawned g)"
    by (auto simp: group_ok_def)
  with checked_run [OF assms(3) _ spawned] gone(1) begun(4) spawned show ?thesis
    by (simp add: verdicts_def)
qed

definition queued_one :: group where
  "queued_one = newRunnableGroup\<lparr>g_next := 1, g_startQueue := [0]\<rparr>"

lemma queued_one_run:
  "group_run newRunnableGroup [Call_Add, Add_Check_Stop 0, Add_Check_Start 0] = Some queued_one"
  by code_simp

definition started_one :: group where
  "started_one = queued_one\<lparr>g_started := True, g_start := Enqueueing [0], g_reconcile := Receiving\<rparr>"

lemma started_one_step: "group_step queued_one Call_Start = Some started_one"
  by code_simp

definition one_ready :: "group_event list" where
  "one_ready = [Start_Send, Start_Unlock, Reconcile_Check, Check_Result 0 True, Signal_Ready 0]"

definition done_one :: group where
  "done_one = newRunnableGroup\<lparr>g_next := 1, g_started := True, g_start := Start_Done,
     g_reconcile := Receiving, g_signalReady := [0], g_running := [0], g_spawned := [0]\<rparr>"

lemma done_one_run: "group_run started_one one_ready = Some done_one"
  by code_simp

theorem start_waits_for_checks_witness:
  "0 \<in> set (g_spawned done_one) \<and> Check_Result 0 True \<in> set one_ready"
  by (rule start_waits_for_checks [OF queued_one_run started_one_step done_one_run])
     (simp_all add: done_one_def queued_one_def)

subsection \<open>Stop\<close>

text \<open>The context only ends a stopped group: \<^verbatim>\<open>reconcile\<close> checks \<^verbatim>\<open>stopped\<close> under the lock before
  it counts a runnable.\<close>

lemma stopped_rel:
  "group_rel g ev g' \<Longrightarrow> g_stopped g \<and> g_spawned g = sp \<and> set (g_running g) \<subseteq> set rn \<Longrightarrow>
     g_stopped g' \<and> g_spawned g' = sp \<and> set (g_running g') \<subseteq> set rn"
  by (induction rule: group_rel.induct) (auto dest: notin_set_remove1)

interpretation stopped: machine_invariant group_step
  "\<lambda>g. g_stopped g \<and> g_spawned g = sp \<and> set (g_running g) \<subseteq> set rn" "\<lambda>ev. True" for sp rn
  by unfold_locales (use group_step_rel stopped_rel in blast)

text \<open>Once \<^verbatim>\<open>StopAndWait\<close> has stored \<^verbatim>\<open>stopped\<close>, no event starts another runnable: the wait
  group can only shrink, whatever is still sent or queued.\<close>

theorem stopped_group_starts_nothing:
  assumes "g_stopped g" "group_run g es = Some g'"
  shows "g_spawned g' = g_spawned g \<and> set (g_running g') \<subseteq> set (g_running g)"
  using stopped.inv_run [where sp = "g_spawned g" and rn = "g_running g", OF _ _ assms(2)] assms(1)
  by (simp add: list_all_iff)

definition late_add :: group where
  "late_add = newRunnableGroup\<lparr>g_next := 1, g_sending := [0], g_started := True,
     g_start := Start_Done, g_reconcile := Receiving, g_stop := Stop_Marked, g_stopped := True\<rparr>"

definition late_add_dropped :: group where
  "late_add_dropped = late_add\<lparr>g_sending := [], g_dropped := [0]\<rparr>"

lemma late_add_run:
  "group_run late_add [Add_Send 0, Reconcile_Check, Reconcile_Drop] = Some late_add_dropped"
  by code_simp

theorem stopped_group_starts_nothing_witness:
  "g_spawned late_add_dropped = g_spawned late_add \<and>
     set (g_running late_add_dropped) \<subseteq> set (g_running late_add)"
  by (rule stopped_group_starts_nothing [OF _ late_add_run]) (simp add: late_add_def)

text \<open>\<^verbatim>\<open>StopAndWait\<close> that is not cut short by its context returns with the wait group at zero.\<close>

definition drained :: "group \<Rightarrow> bool" where
  "drained g \<longleftrightarrow> phases_ok g \<and> (g_stop g = Stop_Done \<longrightarrow> g_running g = [] \<and> g_failing g = [])"

lemma drained_rel:
  "group_rel g ev g' \<Longrightarrow> phases_ok g \<Longrightarrow> ev \<noteq> Stop_Finish True \<Longrightarrow>
     (g_stop g = Stop_Done \<longrightarrow> g_running g = [] \<and> g_failing g = []) \<Longrightarrow>
     (g_stop g' = Stop_Done \<longrightarrow> g_running g' = [] \<and> g_failing g' = [])"
  by (induction rule: group_rel.induct) (auto simp: phases_ok_def)

lemma drained_step:
  "drained g \<Longrightarrow> ev \<noteq> Stop_Finish True \<Longrightarrow> group_step g ev = Some g' \<Longrightarrow> drained g'"
  unfolding drained_def using group_step_rel drained_rel phases_step by blast

interpretation drained: machine_invariant group_step drained "\<lambda>ev. ev \<noteq> Stop_Finish True"
  by unfold_locales (rule drained_step)

text \<open>C16: If \<^verbatim>\<open>StopAndWait\<close> returns without its context having expired, every runnable the group
  ever started has returned, and if it returned an error, the error has been read from
  \<^verbatim>\<open>errChan\<close>.\<close>

theorem stop_waits_for_all:
  assumes "group_run newRunnableGroup es = Some g" "Stop_Finish True \<notin> set es"
    and "g_stop g = Stop_Done" "i \<in> set (g_spawned g)"
  shows "i \<notin> set (g_running g) \<and> (Runnable_Return i False \<in> set es \<or> i \<in> set (g_errors g))"
proof -
  have "g_stop newRunnableGroup = Not_Stopped" by (simp add: newRunnableGroup_def)
  then have "drained newRunnableGroup" by (simp add: drained_def phases_init)
  moreover have "list_all (\<lambda>ev. ev \<noteq> Stop_Finish True) es"
    using assms(2) by (auto simp: list_all_iff)
  ultimately have "drained g" by (rule drained.inv_run [OF _ _ assms(1)])
  then have "g_running g = []" "g_failing g = []" using assms(3) by (simp_all add: drained_def)
  with returned_run [OF assms(1,4)] show ?thesis by simp
qed

definition whole_life :: "group_event list" where
  "whole_life = [Call_Add, Add_Check_Stop 0, Add_Check_Start 0, Call_Start] @ one_ready @
     [Call_Stop, Stop_Mark, Stop_Cancel, Runnable_Return 0 True, Runnable_Error 0,
      Stop_Finish False]"

definition life_over :: group where
  "life_over = done_one\<lparr>g_running := [], g_errors := [0], g_stop := Stop_Done, g_stopped := True,
     g_cancelled := True\<rparr>"

lemma whole_life_run: "group_run newRunnableGroup whole_life = Some life_over"
  by code_simp

theorem stop_waits_for_all_witness:
  "0 \<notin> set (g_running life_over) \<and>
     (Runnable_Return 0 False \<in> set whole_life \<or> 0 \<in> set (g_errors life_over))"
  by (rule stop_waits_for_all [OF whole_life_run])
     (simp_all add: whole_life_def one_ready_def life_over_def done_one_def)

subsection \<open>Failures\<close>

text \<open>C22: The group has one way to panic: an \<^verbatim>\<open>Add\<close> that passed the check of \<^verbatim>\<open>stopped\<close> before
  \<^verbatim>\<open>StopAndWait\<close> stored it, and that is still at its send when \<^verbatim>\<open>StopAndWait\<close> has returned,
  sends on the closed \<^verbatim>\<open>ch\<close>. The sends of \<^verbatim>\<open>Start\<close> and of the check goroutines never meet
  a closed channel.\<close>

theorem only_late_add_panics:
  assumes "group_run newRunnableGroup es = Some g" "g_panic g \<noteq> None"
  shows "g_panic g = Some Send_On_Closed_Ch \<and> g_stop g = Stop_Done \<and> g_sending g \<noteq> []"
proof -
  have ok: "phases_ok g" "ready_ok g" using group_run_ok [OF assms(1)] by (simp_all add: group_ok_def)
  from ok(2) assms(2) have p: "g_panic g = Some Send_On_Closed_Ch"
    by (cases "g_panic g") (auto simp: ready_ok_def intro: group_panic.exhaust)
  moreover from p ok(1) have "g_stop g = Stop_Done" by (simp add: phases_ok_def)
  moreover from p ok(1) have "g_sending g \<noteq> []" by (simp add: phases_ok_def)
  ultimately show ?thesis by blast
qed

definition add_race :: "group_event list" where
  "add_race = [Call_Add, Add_Check_Stop 0, Call_Start, Start_Unlock, Add_Check_Start 0,
     Call_Stop, Stop_Mark, Stop_Cancel, Stop_Finish False, Add_Send 0]"

definition add_panicked :: group where
  "add_panicked = late_add\<lparr>g_stop := Stop_Done, g_cancelled := True,
     g_panic := Some Send_On_Closed_Ch\<rparr>"

lemma add_race_run: "group_run newRunnableGroup add_race = Some add_panicked"
  by code_simp

theorem only_late_add_panics_witness:
  "g_panic add_panicked = Some Send_On_Closed_Ch \<and> g_stop add_panicked = Stop_Done \<and>
     g_sending add_panicked \<noteq> []"
  by (rule only_late_add_panics [OF add_race_run]) (simp add: add_panicked_def)

text \<open>A runnable in the start queue whose check has failed stays in the queue.\<close>

definition blocked_by :: "nat \<Rightarrow> group \<Rightarrow> bool" where
  "blocked_by i g \<longleftrightarrow> group_ok g \<and> g_start g \<noteq> Not_Started \<and> i \<in> set (g_startQueue g) \<and>
     i \<in> set (g_unready g)"

lemma remove1_NilD: "remove1 j xs = [] \<Longrightarrow> x \<in> set xs \<Longrightarrow> x = j"
  by (metis in_set_remove1 list.set_cases list.distinct(1))

lemma blocked_rel:
  "group_rel g ev g' \<Longrightarrow> phases_ok g \<Longrightarrow> distinct (g_startQueue g) \<Longrightarrow>
     i \<notin> set (g_signalling g) \<Longrightarrow> g_start g \<noteq> Not_Started \<Longrightarrow> i \<in> set (g_startQueue g) \<Longrightarrow>
     i \<in> set (g_unready g) \<Longrightarrow>
     g_start g' \<noteq> Not_Started \<and> i \<in> set (g_startQueue g') \<and> i \<in> set (g_unready g')"
  by (induction rule: group_rel.induct) (auto simp: phases_ok_def dest: remove1_NilD)

lemma blocked_step:
  assumes "blocked_by i g" "group_step g ev = Some g'"
  shows "blocked_by i g'"
proof -
  have ok: "phases_ok g" "conserved g" "ready_ok g"
    using assms(1) by (simp_all add: blocked_by_def group_ok_def)
  have "distinct (verdicts g)" by (rule verdicts_apart [OF ok(3) conserved_distinct [OF ok(2)]])
  then have "i \<notin> set (g_signalling g)" using assms(1) by (auto simp: blocked_by_def verdicts_def)
  with blocked_rel [of g ev g' i] group_step_rel [OF assms(2)] group_ok_step [OF _ assms(2)] assms(1) ok
  show ?thesis by (simp add: blocked_by_def ready_ok_def)
qed

interpretation blocked: machine_invariant group_step "blocked_by i" "\<lambda>ev. True" for i
  by unfold_locales (rule blocked_step)

text \<open>If the check of a runnable of the start queue reports it not ready, \<^verbatim>\<open>Start\<close> never
  returns and \<^verbatim>\<open>StopAndWait\<close> never gets to cancel the group, whatever happens later, the end of
  the context of either caller included.\<close>

theorem failed_check_blocks_group:
  assumes "group_run newRunnableGroup es = Some g" "i \<in> set (g_startQueue g)" "i \<in> set (g_unready g)"
    and "group_run g es' = Some g'"
  shows "g_start g' \<noteq> Start_Done \<and> \<not> g_stopped g' \<and> \<not> g_cancelled g'"
proof -
  have ok: "group_ok g" by (rule group_run_ok [OF assms(1)])
  then have "i \<in> set (g_spawned g)"
    using assms(3) verdicts_spawned [of g] by (auto simp: group_ok_def verdicts_def)
  then have "i \<notin> set (unsent g)"
    using ok places_apart(2) [OF conserved_distinct, of g] by (auto simp: group_ok_def)
  then have "g_start g \<noteq> Not_Started" using assms(2) by (auto simp: unsent_def)
  with ok assms(2,3) have "blocked_by i g" by (simp add: blocked_by_def)
  then have "blocked_by i g'" using blocked.inv_run [OF _ _ assms(4)] by (simp add: list_all_iff)
  then show ?thesis by (auto simp: blocked_by_def group_ok_def phases_ok_def)
qed

definition one_unready :: group where
  "one_unready = newRunnableGroup\<lparr>g_next := 1, g_startQueue := [0], g_started := True,
     g_start := Waiting, g_reconcile := Receiving, g_signalReady := [0], g_unready := [0],
     g_running := [0], g_spawned := [0]\<rparr>"

lemma one_unready_run:
  "group_run newRunnableGroup
     [Call_Add, Add_Check_Stop 0, Add_Check_Start 0, Call_Start, Start_Send, Start_Unlock,
      Reconcile_Check, Check_Result 0 False] = Some one_unready"
  by code_simp

definition one_unready_stopping :: group where
  "one_unready_stopping = one_unready\<lparr>g_retErr := True, g_running := [], g_stop := Stop_Starting\<rparr>"

lemma one_unready_stop_run:
  "group_run one_unready [Start_Ctx_Done False, Call_Stop, Runnable_Return 0 False] =
     Some one_unready_stopping"
  by code_simp

theorem failed_check_blocks_group_witness:
  "g_start one_unready_stopping \<noteq> Start_Done \<and> \<not> g_stopped one_unready_stopping \<and>
     \<not> g_cancelled one_unready_stopping"
  by (rule failed_check_blocks_group [OF one_unready_run _ _ one_unready_stop_run, of 0])
     (simp_all add: one_unready_def)

end
