(* ===== verification/Group_Progress.thy ===== *)
theory Group_Progress
  imports Group_Runs
begin

text \<open>
  \<^verbatim>\<open>Start\<close> and \<^verbatim>\<open>StopAndWait\<close> return. The events counted here are those of the goroutines of a
  group that goes well: all of them, except a new call of \<^verbatim>\<open>Add\<close>, the end of a context (which
  \<^verbatim>\<open>Start\<close> ignores, and which cuts \<^verbatim>\<open>StopAndWait\<close> short) and a check that fails. A bounded number of
  them can happen, and as long as a call is in progress one of them can. It is left to the
  scheduler that one of the possible events does happen, to the runnables that they return, and
  to the reader of \<^verbatim>\<open>errChan\<close> that it reads.
\<close>

fun own_event :: "group_event \<Rightarrow> bool" where
  "own_event Call_Add = False"
| "own_event (Start_Ctx_Done canceled) = False"
| "own_event (Check_Result i ready) = ready"
| "own_event (Stop_Finish expired) = (\<not> expired)"
| "own_event ev = True"

subsection \<open>The measure\<close>

fun start_work :: "start_pc \<Rightarrow> nat" where
  "start_work Not_Started = 3"
| "start_work (Enqueueing xs) = 2"
| "start_work Waiting = 1"
| "start_work Start_Done = 0"

fun reconcile_work :: "reconcile_pc \<Rightarrow> nat" where
  "reconcile_work Not_Running = 1"
| "reconcile_work Receiving = 1"
| "reconcile_work (Holding x) = 6"
| "reconcile_work (Dropping x) = 2"
| "reconcile_work Exited = 0"

fun stop_work :: "stop_pc \<Rightarrow> nat" where
  "stop_work Not_Stopped = 4"
| "stop_work Stop_Starting = 3"
| "stop_work Stop_Marked = 2"
| "stop_work Stop_Waiting = 1"
| "stop_work Stop_Done = 0"

definition group_work :: "group \<Rightarrow> nat" where
  "group_work g = 8 * length (g_check_stop g) + 7 * length (g_check_start g) +
     6 * length (g_sending g) + 6 * length (unsent g) + 2 * length (g_checking g) +
     length (g_signalling g) + 2 * length (g_running g) + length (g_failing g) +
     start_work (g_start g) + reconcile_work (g_reconcile g) + stop_work (g_stop g) +
     (if g_panic g = None then 1 else 0)"

lemma length_take_out: "i \<in> set xs \<Longrightarrow> length xs = Suc (length (remove1 i xs))"
  using length_pos_if_in_set [of i xs] by (simp add: length_remove1)

lemma group_work_rel:
  "group_rel g ev g' \<Longrightarrow> own_event ev \<Longrightarrow> phases_ok g \<Longrightarrow> g_panic g = None \<Longrightarrow>
     group_work g' < group_work g"
  by (induction rule: group_rel.induct)
     (auto simp: group_work_def unsent_def phases_ok_def dest!: length_take_out)

subsection \<open>Progress\<close>

text \<open>No runnable that is waited for has failed its check.\<close>

definition none_failed :: "group \<Rightarrow> bool" where
  "none_failed g \<longleftrightarrow> group_ok g \<and> (\<forall>x\<in>set (g_unready g). x \<notin> set (g_startQueue g))"

lemma none_failed_rel:
  "group_rel g ev g' \<Longrightarrow> own_event ev \<Longrightarrow> distinct (g_startQueue g) \<Longrightarrow>
     set (g_unready g) \<inter> set (g_check_start g) = {} \<Longrightarrow>
     (\<forall>x\<in>set (g_unready g). x \<notin> set (g_startQueue g)) \<Longrightarrow>
     (\<forall>x\<in>set (g_unready g'). x \<notin> set (g_startQueue g'))"
  by (induction rule: group_rel.induct) auto

lemma none_failed_step:
  assumes "none_failed g" "own_event ev" "group_step g ev = Some g'"
  shows "none_failed g'"
proof -
  have ok: "group_ok g" using assms(1) by (simp add: none_failed_def)
  then have "set (g_unready g) \<subseteq> set (g_spawned g)" "distinct (placed g)" "distinct (g_startQueue g)"
    using verdicts_spawned [of g] conserved_distinct [of g]
    by (auto simp: group_ok_def verdicts_def ready_ok_def)
  moreover from this have "set (g_unready g) \<inter> set (g_check_start g) = {}"
    by (auto simp: placed_def)
  ultimately show ?thesis
    using none_failed_rel [of g ev g'] group_step_rel [OF assms(3)] group_ok_step [OF ok assms(3)]
      assms(1,2) by (simp add: none_failed_def)
qed

lemma no_panic_before_stop_done:
  "group_ok g \<Longrightarrow> g_stop g \<noteq> Stop_Done \<Longrightarrow> g_panic g = None"
  by (cases "g_panic g") (auto simp: group_ok_def phases_ok_def ready_ok_def intro: group_panic.exhaust)

text \<open>The events that bring \<^verbatim>\<open>Start\<close> forward.\<close>

fun serves_start :: "group_event \<Rightarrow> bool" where
  "serves_start Call_Start = True"
| "serves_start Start_Send = True"
| "serves_start Start_Unlock = True"
| "serves_start (Signal_Ready i) = True"
| "serves_start Reconcile_Check = True"
| "serves_start Reconcile_Drop = True"
| "serves_start (Check_Result i ready) = ready"
| "serves_start ev = False"

lemma serves_start_own: "serves_start ev \<Longrightarrow> own_event ev"
  by (cases ev) simp_all

lemma reconcile_goes_on:
  assumes "g_panic g = None" "i \<in> set (held g)"
  shows "\<exists>ev g'. serves_start ev \<and> group_step g ev = Some g'"
proof (cases "g_reconcile g")
  case (Holding x)
  then show ?thesis using assms
    by (intro exI [of _ Reconcile_Check]) (simp add: group_step_def reconcile_check_def)
next
  case (Dropping x)
  then show ?thesis using assms
    by (intro exI [of _ Reconcile_Drop]) (simp add: group_step_def reconcile_drop_def)
qed (use assms in \<open>simp_all add: held_def\<close>)

lemma start_goes_on:
  assumes "none_failed g" "g_start g \<noteq> Start_Done"
  shows "\<exists>ev g'. serves_start ev \<and> group_step g ev = Some g'"
proof -
  have ok: "group_ok g" using assms(1) by (simp add: none_failed_def)
  then have open_ch: "\<not> ch_closed g" and p: "g_panic g = None"
    using assms(2) no_panic_before_stop_done [OF ok]
    by (auto simp: ch_closed_def group_ok_def phases_ok_def)
  show ?thesis
  proof (cases "g_start g")
    case Not_Started
    then show ?thesis using p
      by (intro exI [of _ Call_Start]) (simp add: group_step_def Start_begin_def)
  next
    case (Enqueueing xs)
    show ?thesis
    proof (cases xs)
      case Nil
      then show ?thesis using Enqueueing p
        by (intro exI [of _ Start_Unlock]) (simp add: group_step_def Start_unlock_def)
    next
      case (Cons x ys)
      have "g_reconcile g = Receiving \<or> (\<exists>i. i \<in> set (held g))"
        using ok Enqueueing open_ch
        by (cases "g_reconcile g") (auto simp: held_def group_ok_def phases_ok_def)
      then show ?thesis
      proof
        assume "g_reconcile g = Receiving"
        then show ?thesis using Enqueueing Cons p
          by (intro exI [of _ Start_Send]) (simp add: group_step_def Start_send_def open_ch)
      qed (use reconcile_goes_on [OF p] in blast)
    qed
  next
    case Waiting
    then have "g_startQueue g \<noteq> []" using ok by (simp add: group_ok_def phases_ok_def)
    then obtain x where "x \<in> set (g_startQueue g)" using hd_in_set by blast
    then have "x \<in> set (held g) \<or> x \<in> set (g_checking g) \<or> x \<in> set (g_signalling g)"
      using ok Waiting assms(1)
      by (auto simp: group_ok_def ready_ok_def waited_def unsent_def verdicts_def none_failed_def)
    then consider "x \<in> set (held g)" | "x \<in> set (g_checking g)" | "x \<in> set (g_signalling g)"
      by blast
    then show ?thesis
    proof cases
      case 1
      then show ?thesis by (rule reconcile_goes_on [OF p])
    next
      case 2
      then show ?thesis using p
        by (intro exI [of _ "Check_Result x True"]) (simp add: group_step_def check_result_def Let_def)
    next
      case 3
      then show ?thesis using p Waiting
        by (intro exI [of _ "Signal_Ready x"])
          (simp add: group_step_def Signal_ready_def ready_closed_def Let_def)
    qed
  next
    case Start_Done
    with assms(2) show ?thesis by simp
  qed
qed

lemma stop_goes_on:
  assumes "none_failed g" "g_stop g \<noteq> Stop_Done"
  shows "\<exists>ev g'. own_event ev \<and> group_step g ev = Some g'"
proof (cases "g_start g = Start_Done")
  case False
  then show ?thesis using start_goes_on [OF assms(1)] serves_start_own by blast
next
  case True
  have ok: "group_ok g" using assms(1) by (simp add: none_failed_def)
  have p: "g_panic g = None" by (rule no_panic_before_stop_done [OF ok assms(2)])
  show ?thesis
  proof (cases "g_stop g")
    case Not_Stopped
    then show ?thesis using p
      by (intro exI [of _ Call_Stop]) (simp add: group_step_def Stop_begin_def)
  next
    case Stop_Starting
    show ?thesis
    proof (cases "\<exists>i. i \<in> set (held g)")
      case True
      then show ?thesis using reconcile_goes_on [OF p] serves_start_own by blast
    next
      case False
      then show ?thesis using p \<open>g_start g = Start_Done\<close> Stop_Starting
        by (intro exI [of _ Stop_Mark])
          (auto simp: group_step_def Stop_mark_def held_def split: reconcile_pc.splits)
    qed
  next
    case Stop_Marked
    then show ?thesis using p
      by (intro exI [of _ Stop_Cancel]) (simp add: group_step_def Stop_cancel_def)
  next
    case Stop_Waiting
    consider "g_running g \<noteq> []" | "g_failing g \<noteq> []" | "g_running g = [] \<and> g_failing g = []" by blast
    then show ?thesis
    proof cases
      case 1
      then show ?thesis using p
        by (intro exI [of _ "Runnable_Return (hd (g_running g)) False"])
          (simp add: group_step_def runnable_return_def Let_def)
    next
      case 2
      then show ?thesis using p
        by (intro exI [of _ "Runnable_Error (hd (g_failing g))"])
          (simp add: group_step_def runnable_error_def)
    next
      case 3
      then show ?thesis using p Stop_Waiting
        by (intro exI [of _ "Stop_Finish False"]) (simp add: group_step_def Stop_finish_def)
    qed
  qed (use assms(2) in simp)
qed

interpretation starting: progressing_machine group_step none_failed own_event group_work
  "\<lambda>g. g_start g = Start_Done"
proof
  show "none_failed g \<Longrightarrow> own_event ev \<Longrightarrow> group_step g ev = Some g' \<Longrightarrow> none_failed g'" for g ev g'
    by (rule none_failed_step)
  show "none_failed g \<Longrightarrow> own_event ev \<Longrightarrow> group_step g ev = Some g' \<Longrightarrow> group_work g' < group_work g"
    for g ev g'
    unfolding none_failed_def group_ok_def using group_work_rel group_step_rel by blast
  show "none_failed g \<Longrightarrow> g_start g \<noteq> Start_Done \<Longrightarrow> \<exists>ev g'. own_event ev \<and> group_step g ev = Some g'"
    for g using start_goes_on serves_start_own by blast
qed

interpretation stopping: progressing_machine group_step none_failed own_event group_work
  "\<lambda>g. g_stop g = Stop_Done"
  by unfold_locales (rule starting.lowers, assumption+, rule stop_goes_on)

subsection \<open>Start and StopAndWait return\<close>

lemma run_none_failed:
  assumes "group_run newRunnableGroup es = Some g"
    and "\<forall>x\<in>set (g_unready g). x \<notin> set (g_startQueue g)"
  shows "none_failed g"
  using assms group_run_ok by (simp add: none_failed_def)

text \<open>C15: From every state a group can reach in which no runnable of the start queue has failed its
  check, the goroutines of the group take at most \<open>group_work\<close> steps, and until \<^verbatim>\<open>Start\<close> has
  returned one of them can always take another: \<^verbatim>\<open>Start\<close> returns.\<close>

theorem group_start_returns:
  assumes "group_run newRunnableGroup es = Some g"
    and "\<forall>x\<in>set (g_unready g). x \<notin> set (g_startQueue g)"
    and "list_all own_event es'" "group_run g es' = Some g'"
  shows "length es' \<le> group_work g \<and>
    (g_start g' = Start_Done \<or> (\<exists>ev. own_event ev \<and> group_step g' ev \<noteq> None))"
proof -
  note ok = run_none_failed [OF assms(1,2)]
  have "length es' \<le> group_work g" using starting.run_bounded [OF ok assms(3,4)] by simp
  moreover have "g_start g' = Start_Done \<or> (\<exists>ev. own_event ev \<and> group_step g' ev \<noteq> None)"
    using start_goes_on [OF starting.inv_run [OF ok assms(3,4)]] serves_start_own by blast
  ultimately show ?thesis by blast
qed

theorem group_start_returns_witness:
  "length one_ready \<le> group_work started_one \<and>
     (g_start done_one = Start_Done \<or> (\<exists>ev. own_event ev \<and> group_step done_one ev \<noteq> None))"
proof (rule group_start_returns [of "[Call_Add, Add_Check_Stop 0, Add_Check_Start 0, Call_Start]"])
  show "group_run newRunnableGroup [Call_Add, Add_Check_Stop 0, Add_Check_Start 0, Call_Start] =
      Some started_one" by code_simp
  show "\<forall>x\<in>set (g_unready started_one). x \<notin> set (g_startQueue started_one)" by code_simp
  show "list_all own_event one_ready" by code_simp
  show "group_run started_one one_ready = Some done_one" by (rule done_one_run)
qed

text \<open>C17: From every such state \<^verbatim>\<open>StopAndWait\<close> can run to its end without its context expiring, and
  every run of the goroutines that cannot be continued has brought it there.\<close>

theorem group_stop_returns:
  assumes "group_run newRunnableGroup es = Some g"
    and "\<forall>x\<in>set (g_unready g). x \<notin> set (g_startQueue g)"
  shows "(\<exists>es' g'. list_all own_event es' \<and> group_run g es' = Some g' \<and> g_stop g' = Stop_Done) \<and>
    (\<forall>es' g'. list_all own_event es' \<and> group_run g es' = Some g' \<and>
       (\<forall>ev. own_event ev \<longrightarrow> group_step g' ev = None) \<longrightarrow> g_stop g' = Stop_Done)"
  using stopping.reaches_finished [OF run_none_failed [OF assms]]
    stopping.stuck_finished [OF run_none_failed [OF assms]] by blast

definition two_queued :: group where
  "two_queued = newRunnableGroup\<lparr>g_next := 2, g_startQueue := [1, 0]\<rparr>"

lemma two_queued_run:
  "group_run newRunnableGroup [Call_Add, Call_Add, Add_Check_Stop 0, Add_Check_Stop 1,
     Add_Check_Start 1, Add_Check_Start 0] = Some two_queued"
  by code_simp

theorem group_stop_returns_witness:
  "\<exists>es' g'. list_all own_event es' \<and> group_run two_queued es' = Some g' \<and> g_stop g' = Stop_Done"
proof -
  have "g_unready two_queued = []" by (simp add: two_queued_def newRunnableGroup_def)
  with group_stop_returns [OF two_queued_run] show ?thesis by simp
qed

end
