(* ===== verification/Task_Manager.thy ===== *)
theory Task_Manager
  imports Group_Progress
begin

text \<open>
  \<^verbatim>\<open>internal/manager/task_manager.go\<close> and \<^verbatim>\<open>runnable.go\<close>: the four groups of runnables, the type
  switch that sends a runnable to one of them, and the life of the task manager: \<^verbatim>\<open>Start\<close> adds
  the cache and the pump, starts the groups one after the other and waits for a signal or an
  error; \<^verbatim>\<open>shutdown\<close> drains the error channel, stops the groups in the opposite order and waits
  for them for five seconds. Opening the perf reader is an outcome the event carries.
\<close>

subsection \<open>The type switch\<close>

datatype group_name = BpfPrograms | Caches | Pumps | HttpServers

text \<open>A type that implements \<^verbatim>\<open>Runnable\<close>, by its method set; an interface by the methods it
  asks for.\<close>

type_synonym method_set = "string list"

definition implements :: "method_set \<Rightarrow> method_set \<Rightarrow> bool" where
  "implements ty iface \<longleftrightarrow> list_all (\<lambda>m. m \<in> set ty) iface"

definition Runnable :: method_set where
  "Runnable = [''Start'']"

definition bpfRunner :: method_set where
  "bpfRunner = Runnable @ [''ShowAttachStatus'', ''Add'', ''Delete'']"

definition hasCache :: method_set where
  "hasCache = Runnable @ [''GetSharedInformerFactory'']"

definition pumpRunner :: method_set where
  "pumpRunner = Runnable @ [''PopOne'']"

text \<open>The group whose \<^verbatim>\<open>Add\<close> is called, if any.\<close>

definition runnables_Add :: "method_set \<Rightarrow> group_name option" where
  "runnables_Add ty =
     (if implements ty bpfRunner then Some BpfPrograms
      else if implements ty hasCache then Some Caches
      else if implements ty pumpRunner then Some Caches
      else None)"

text \<open>The three types of the program.\<close>

definition mysql_BpfRunner :: method_set where
  "mysql_BpfRunner = [''WithBpfProgram'', ''Complete'', ''Start'', ''ShowAttachStatus'', ''Add'', ''Delete'',
     ''attachInstance'', ''detachInstance'', ''attach'', ''onPodCreate'', ''onPodUpdate'', ''onPodDelete'']"

definition informerCache :: method_set where
  "informerCache = [''Start'', ''GetSharedInformerFactory'']"

definition eventPump :: method_set where
  "eventPump = [''PopOne'', ''Start'']"

subsection \<open>State\<close>

text \<open>The goroutine of \<^verbatim>\<open>Start\<close>, from the first \<^verbatim>\<open>Add\<close> to its return.\<close>

datatype main_pc =
    M_Add_Cache | M_New_Reader | M_Add_Pump | M_Start group_name | M_Await group_name
  | M_Select | M_Shutdown | M_Await_Shutdown | M_Returned

text \<open>The goroutine of \<^verbatim>\<open>shutdown\<close> that reads \<^verbatim>\<open>errCh\<close>, and the one that stops the groups.\<close>

datatype drain_pc = D_Idle | D_Close | D_Loop | D_Ended
datatype stopper_pc = S_Idle | S_Call group_name | S_Await group_name | S_Cancel | S_Ended

datatype reader = R_Nil | R_Open | R_Closed
datatype ctx_state = Ctx_Live | Ctx_Canceled | Ctx_Expired
datatype tm_error = Add_Failed | Reader_Failed | Start_Failed | Runnable_Failed group_name nat
  | Runnable_Dropped group_name
datatype tm_crash = Nil_Reader | Sync_Fatal

text \<open>\<open>t_caches\<close> are the members of the group \<^verbatim>\<open>Caches\<close> whose check waits for the informers;
  \<open>t_ret\<close> is the error \<^verbatim>\<open>Start\<close> returns, \<open>t_shutdown_err\<close> whether \<^verbatim>\<open>shutdown\<close> reported one.
  \<open>t_nilClose\<close> is fixed: whether the \<^verbatim>\<open>Close\<close> of the perf library dereferences a nil reader.\<close>

record tm =
  t_group :: "group_name \<Rightarrow> group"
  t_caches :: "nat list"
  t_main :: main_pc
  t_rd :: reader
  t_ctx_done :: bool
  t_cancelled :: bool
  t_criClosed :: bool
  t_shutdownCtx :: ctx_state
  t_drain :: drain_pc
  t_stopper :: stopper_pc
  t_ret :: "tm_error option"
  t_shutdown_err :: bool
  t_crash :: "tm_crash option"
  t_nilClose :: bool

definition newRunnables :: "group_name \<Rightarrow> group" where
  "newRunnables = (\<lambda>n. newRunnableGroup)"

definition NewTaskManager :: "bool \<Rightarrow> tm" where
  "NewTaskManager nilClose = \<lparr>t_group = newRunnables, t_caches = [], t_main = M_Add_Cache, t_rd = R_Nil,
     t_ctx_done = False, t_cancelled = False, t_criClosed = False, t_shutdownCtx = Ctx_Live,
     t_drain = D_Idle, t_stopper = S_Idle, t_ret = None, t_shutdown_err = False, t_crash = None,
     t_nilClose = nilClose\<rparr>"

subsection \<open>Operations\<close>

definition on_group :: "group_name \<Rightarrow> group_event \<Rightarrow> tm \<Rightarrow> tm option" where
  "on_group n ev s = (case group_step (t_group s n) ev of
     None \<Rightarrow> None
   | Some g \<Rightarrow> Some (s\<lparr>t_group := (t_group s)(n := g)\<rparr>))"

text \<open>A call of \<^verbatim>\<open>Add\<close>: a new number in the group the type switch selects. The other steps of
  \<^verbatim>\<open>Add\<close> are events of the group.\<close>

definition AddTask :: "method_set \<Rightarrow> tm \<Rightarrow> tm option" where
  "AddTask ty s = (case runnables_Add ty of
     None \<Rightarrow> Some s
   | Some n \<Rightarrow> on_group n Call_Add
       (if \<not> implements ty bpfRunner \<and> implements ty hasCache
        then s\<lparr>t_caches := t_caches s @ [g_next (t_group s Caches)]\<rparr> else s))"

text \<open>The whole of \<^verbatim>\<open>Add\<close> on a group that has not started, where it does not wait: whether it
  was accepted, and the state after it.\<close>

definition add_to :: "method_set \<Rightarrow> tm \<Rightarrow> (bool \<times> tm) option" where
  "add_to ty s = (case runnables_Add ty of
     None \<Rightarrow> Some (True, s)
   | Some n \<Rightarrow>
      let i = g_next (t_group s n) in
      (case AddTask ty s of None \<Rightarrow> None | Some s1 \<Rightarrow>
      (case on_group n (Add_Check_Stop i) s1 of None \<Rightarrow> None | Some s2 \<Rightarrow>
       if i \<in> set (g_rejected (t_group s2 n)) then Some (False, s2)
       else (case on_group n (Add_Check_Start i) s2 of None \<Rightarrow> None | Some s3 \<Rightarrow>
         if i \<in> set (g_startQueue (t_group s3 n)) then Some (True, s3) else None))))"

definition main_add :: "method_set \<Rightarrow> main_pc \<Rightarrow> tm \<Rightarrow> tm option" where
  "main_add ty pc s = (case add_to ty s of
     None \<Rightarrow> None
   | Some (ok, s) \<Rightarrow> Some (if ok then s\<lparr>t_main := pc\<rparr>
       else s\<lparr>t_ret := Some Add_Failed, t_main := M_Shutdown\<rparr>))"

text \<open>A call of a group's \<^verbatim>\<open>Start\<close> behind its \<^verbatim>\<open>sync.Once\<close>, and its return.\<close>

definition main_call :: "tm \<Rightarrow> tm option" where
  "main_call s = (case t_main s of
     M_Start n \<Rightarrow> (case (if g_start (t_group s n) = Not_Started then on_group n Call_Start s else Some s) of
         None \<Rightarrow> None | Some s \<Rightarrow> Some (s\<lparr>t_main := M_Await n\<rparr>))
   | _ \<Rightarrow> None)"

fun after_start :: "group_name \<Rightarrow> main_pc" where
  "after_start Pumps = M_Start BpfPrograms"
| "after_start BpfPrograms = M_Start Caches"
| "after_start Caches = M_Select"
| "after_start HttpServers = M_Select"

definition main_started :: "tm \<Rightarrow> tm option" where
  "main_started s = (case t_main s of
     M_Await n \<Rightarrow>
       (if g_start (t_group s n) = Start_Done
        then Some (if g_retErr (t_group s n)
          then s\<lparr>t_ret := Some Start_Failed, t_main := M_Shutdown\<rparr>
          else s\<lparr>t_main := after_start n\<rparr>)
        else None)
   | _ \<Rightarrow> None)"

text \<open>What is received from \<^verbatim>\<open>errCh\<close>: the error of a runnable, or that one was dropped.\<close>

fun sends_error :: "group_name \<Rightarrow> group_event \<Rightarrow> tm_error option" where
  "sends_error n (Runnable_Error i) = Some (Runnable_Failed n i)"
| "sends_error n Reconcile_Drop = Some (Runnable_Dropped n)"
| "sends_error n ev = None"

definition main_err :: "group_name \<Rightarrow> group_event \<Rightarrow> tm \<Rightarrow> tm option" where
  "main_err n ev s = (case sends_error n ev of
     None \<Rightarrow> None
   | Some err \<Rightarrow>
      (if t_main s = M_Select
       then on_group n ev (s\<lparr>t_ret := Some err, t_main := M_Shutdown\<rparr>) else None))"

definition shutdown_begin :: "tm \<Rightarrow> tm option" where
  "shutdown_begin s = (if t_main s = M_Shutdown
     then Some (s\<lparr>t_drain := D_Close, t_stopper := S_Call Caches, t_main := M_Await_Shutdown\<rparr>)
     else None)"

text \<open>The \<^verbatim>\<open>closeOnce\<close>. If the perf reader was never opened, \<^verbatim>\<open>tm.rd\<close> is nil, and its
  \<^verbatim>\<open>Close\<close> panics if the library's code uses the reader.\<close>

definition drain_close :: "tm \<Rightarrow> tm option" where
  "drain_close s = (if t_drain s = D_Close
     then let s = s\<lparr>t_cancelled := True, t_criClosed := True\<rparr>
       in Some (if t_rd s = R_Nil
          then if t_nilClose s then s\<lparr>t_crash := Some Nil_Reader\<rparr> else s\<lparr>t_drain := D_Loop\<rparr>
          else s\<lparr>t_rd := R_Closed, t_drain := D_Loop\<rparr>)
     else None)"

definition drain_err :: "group_name \<Rightarrow> group_event \<Rightarrow> tm \<Rightarrow> tm option" where
  "drain_err n ev s =
     (if t_drain s = D_Loop \<and> sends_error n ev \<noteq> None then on_group n ev s else None)"

text \<open>\<^verbatim>\<open>StopAndWait\<close> of one group after the other; it starts a group that was not started.\<close>

definition stopper_call :: "tm \<Rightarrow> tm option" where
  "stopper_call s = (case t_stopper s of
     S_Call n \<Rightarrow> on_group n Call_Stop (s\<lparr>t_stopper := S_Await n\<rparr>)
   | _ \<Rightarrow> None)"

definition stopper_start :: "tm \<Rightarrow> tm option" where
  "stopper_start s = (case t_stopper s of
     S_Await n \<Rightarrow> (if g_stop (t_group s n) = Stop_Starting then on_group n Call_Start s else None)
   | _ \<Rightarrow> None)"

fun after_stop :: "group_name \<Rightarrow> stopper_pc" where
  "after_stop Caches = S_Call BpfPrograms"
| "after_stop BpfPrograms = S_Call Pumps"
| "after_stop Pumps = S_Cancel"
| "after_stop HttpServers = S_Cancel"

definition stopper_done :: "tm \<Rightarrow> tm option" where
  "stopper_done s = (case t_stopper s of
     S_Await n \<Rightarrow> (if g_stop (t_group s n) = Stop_Done then Some (s\<lparr>t_stopper := after_stop n\<rparr>) else None)
   | _ \<Rightarrow> None)"

definition stopper_cancel :: "tm \<Rightarrow> tm option" where
  "stopper_cancel s = (if t_stopper s = S_Cancel
     then Some (s\<lparr>t_stopper := S_Ended,
       t_shutdownCtx := (if t_shutdownCtx s = Ctx_Live then Ctx_Canceled else t_shutdownCtx s)\<rparr>)
     else None)"

definition shutdown_timeout :: "tm \<Rightarrow> tm option" where
  "shutdown_timeout s = (if t_main s = M_Await_Shutdown \<and> t_shutdownCtx s = Ctx_Live
     then Some (s\<lparr>t_shutdownCtx := Ctx_Expired\<rparr>) else None)"

definition shutdown_end :: "tm \<Rightarrow> tm option" where
  "shutdown_end s = (if t_main s = M_Await_Shutdown \<and> t_shutdownCtx s \<noteq> Ctx_Live
     then Some (s\<lparr>t_shutdown_err := (t_shutdownCtx s = Ctx_Expired), t_main := M_Returned\<rparr>)
     else None)"

text \<open>
  The check of a cache: \<^verbatim>\<open>WaitForCacheSync\<close> says whether the informers are in sync, and
  \<^verbatim>\<open>klog.Fatalf\<close> ends the process when they are not.
\<close>

definition cache_check :: "nat \<Rightarrow> bool \<Rightarrow> tm \<Rightarrow> tm option" where
  "cache_check i synced s =
     (if i \<in> set (t_caches s) \<and> i \<in> set (g_checking (t_group s Caches))
      then if synced then on_group Caches (Check_Result i True) s
           else Some (s\<lparr>t_crash := Some Sync_Fatal\<rparr>)
      else None)"

subsection \<open>Steps\<close>

text \<open>
  The events of a group that its goroutines take on their own. The check of a runnable that is
  not a cache says ready. The context of \<^verbatim>\<open>Start\<close> is that of its caller: the task manager's
  own, which is cancelled by the signal, or that of the shutdown.
\<close>

fun group_alone :: "tm \<Rightarrow> group_name \<Rightarrow> group_event \<Rightarrow> bool" where
  "group_alone s n Call_Add = False"
| "group_alone s n Call_Start = False"
| "group_alone s n Call_Stop = False"
| "group_alone s n (Runnable_Error i) = False"
| "group_alone s n Reconcile_Drop = False"
| "group_alone s n (Check_Result i ready) = (ready \<and> \<not> (n = Caches \<and> i \<in> set (t_caches s)))"
| "group_alone s n (Stop_Finish expired) = (expired \<longrightarrow> t_shutdownCtx s \<noteq> Ctx_Live)"
| "group_alone s n (Start_Ctx_Done canceled) =
     (if t_main s = M_Await n then canceled \<and> t_ctx_done s
      else t_shutdownCtx s = (if canceled then Ctx_Canceled else Ctx_Expired))"
| "group_alone s n ev = True"

datatype tm_event =
    Add_Task method_set
  | Main_Add_Cache
  | Main_New_Reader bool
  | Main_Add_Pump
  | Main_Call
  | Main_Started
  | Main_Ctx_Done
  | Main_Err group_name group_event
  | Shutdown_Begin
  | Shutdown_Timeout
  | Shutdown_End
  | Drain_Close
  | Drain_Err group_name group_event
  | Drain_End
  | Stopper_Call
  | Stopper_Start
  | Stopper_Done
  | Stopper_Cancel
  | Cache_Check nat bool
  | Signal
  | Group group_name group_event

fun tm_act :: "tm_event \<Rightarrow> tm \<Rightarrow> tm option" where
  "tm_act (Add_Task ty) s = AddTask ty s"
| "tm_act Main_Add_Cache s =
     (if t_main s = M_Add_Cache then main_add informerCache M_New_Reader s else None)"
| "tm_act (Main_New_Reader ok) s =
     (if t_main s = M_New_Reader
      then Some (if ok then s\<lparr>t_rd := R_Open, t_main := M_Add_Pump\<rparr>
                 else s\<lparr>t_ret := Some Reader_Failed, t_main := M_Shutdown\<rparr>)
      else None)"
| "tm_act Main_Add_Pump s =
     (if t_main s = M_Add_Pump then main_add eventPump (M_Start Pumps) s else None)"
| "tm_act Main_Call s = main_call s"
| "tm_act Main_Started s = main_started s"
| "tm_act Main_Ctx_Done s =
     (if t_main s = M_Select \<and> t_ctx_done s then Some (s\<lparr>t_main := M_Shutdown\<rparr>) else None)"
| "tm_act (Main_Err n ev) s = main_err n ev s"
| "tm_act Shutdown_Begin s = shutdown_begin s"
| "tm_act Shutdown_Timeout s = shutdown_timeout s"
| "tm_act Shutdown_End s = shutdown_end s"
| "tm_act Drain_Close s = drain_close s"
| "tm_act (Drain_Err n ev) s = drain_err n ev s"
| "tm_act Drain_End s =
     (if t_drain s = D_Loop \<and> t_main s = M_Returned then Some (s\<lparr>t_drain := D_Ended\<rparr>) else None)"
| "tm_act Stopper_Call s = stopper_call s"
| "tm_act Stopper_Start s = stopper_start s"
| "tm_act Stopper_Done s = stopper_done s"
| "tm_act Stopper_Cancel s = stopper_cancel s"
| "tm_act (Cache_Check i synced) s = cache_check i synced s"
| "tm_act Signal s = (if t_ctx_done s then None else Some (s\<lparr>t_ctx_done := True\<rparr>))"
| "tm_act (Group n ev) s = (if group_alone s n ev then on_group n ev s else None)"

definition group_panicked :: "tm \<Rightarrow> bool" where
  "group_panicked s \<longleftrightarrow> list_ex (\<lambda>n. g_panic (t_group s n) \<noteq> None) [BpfPrograms, Caches, Pumps, HttpServers]"

text \<open>After a crash or a panic of a goroutine the process is gone.\<close>

definition tm_step :: "tm \<Rightarrow> tm_event \<Rightarrow> tm option" where
  "tm_step s ev = (if t_crash s = None \<and> \<not> group_panicked s then tm_act ev s else None)"

end
