(* ===== verification/Task_Manager_Facts.thy ===== *)
theory Task_Manager_Facts
  imports Task_Manager
begin

text \<open>
  The invariants of the task manager over all interleavings: its groups are groups of the
  model, so everything proved of a group holds of them; the groups are stopped one after the
  other; and no check fails without ending the process.
\<close>

abbreviation tm_run :: "tm \<Rightarrow> tm_event list \<Rightarrow> tm option" where
  "tm_run \<equiv> run_steps tm_step"

lemma on_groupD:
  "on_group n ev s = Some s' \<Longrightarrow>
     \<exists>g. group_step (t_group s n) ev = Some g \<and> s' = s\<lparr>t_group := (t_group s)(n := g)\<rparr>"
  by (auto simp: on_group_def split: option.splits)

subsection \<open>Program counters\<close>

text \<open>The part of the invariant that is about the goroutines of the task manager alone.\<close>

fun in_shutdown :: "main_pc \<Rightarrow> bool" where
  "in_shutdown M_Await_Shutdown = True"
| "in_shutdown M_Returned = True"
| "in_shutdown pc = False"

text \<open>Where the reader may be nil: it is opened once the cache has been added.\<close>

fun needs_reader :: "main_pc \<Rightarrow> bool" where
  "needs_reader M_Add_Pump = True"
| "needs_reader (M_Start n) = True"
| "needs_reader (M_Await n) = True"
| "needs_reader M_Select = True"
| "needs_reader pc = False"

definition pcs_ok :: "tm \<Rightarrow> bool" where
  "pcs_ok s \<longleftrightarrow>
     t_main s \<noteq> M_Start HttpServers \<and> t_main s \<noteq> M_Await HttpServers \<and>
     t_stopper s \<noteq> S_Call HttpServers \<and> t_stopper s \<noteq> S_Await HttpServers \<and>
     (t_stopper s = S_Idle \<longleftrightarrow> \<not> in_shutdown (t_main s)) \<and>
     (t_drain s = D_Idle \<longleftrightarrow> \<not> in_shutdown (t_main s)) \<and>
     (t_drain s = D_Ended \<longrightarrow> t_main s = M_Returned) \<and>
     (t_shutdownCtx s = Ctx_Canceled \<longrightarrow> t_stopper s = S_Ended) \<and>
     (t_stopper s = S_Ended \<longrightarrow> t_shutdownCtx s \<noteq> Ctx_Live) \<and>
     (t_shutdownCtx s \<noteq> Ctx_Live \<longrightarrow> in_shutdown (t_main s)) \<and>
     (t_main s = M_Returned \<longrightarrow> t_shutdownCtx s \<noteq> Ctx_Live \<and>
        (t_shutdown_err s \<longleftrightarrow> t_shutdownCtx s = Ctx_Expired)) \<and>
     (needs_reader (t_main s) \<longrightarrow> t_rd s \<noteq> R_Nil)"

text \<open>The state without its groups.\<close>

definition pcs :: "tm \<Rightarrow> tm" where
  "pcs s = s\<lparr>t_group := newRunnables, t_caches := []\<rparr>"

lemma pcs_group [simp]: "pcs (s\<lparr>t_group := h\<rparr>) = pcs s" "pcs (s\<lparr>t_caches := c\<rparr>) = pcs s"
  by (simp_all add: pcs_def)

lemma pcs_ok_pcs: "pcs_ok (pcs s) = pcs_ok s"
  by (simp add: pcs_ok_def pcs_def)

lemma pcs_ok_cong: "pcs s' = pcs s \<Longrightarrow> pcs_ok s' = pcs_ok s"
  by (metis pcs_ok_pcs)

lemma pcs_on_group: "on_group n ev s = Some s' \<Longrightarrow> pcs s' = pcs s"
  by (auto dest!: on_groupD)

lemma pcs_AddTask: "AddTask ty s = Some s' \<Longrightarrow> pcs s' = pcs s"
  by (auto simp: AddTask_def dest!: pcs_on_group split: option.splits if_splits)

lemma pcs_add_to: "add_to ty s = Some (ok, s') \<Longrightarrow> pcs s' = pcs s"
  by (auto simp: add_to_def Let_def dest!: pcs_on_group pcs_AddTask split: option.splits if_splits)

lemma pcs_fields:
  "pcs s' = pcs s \<Longrightarrow> t_main s' = t_main s \<and> t_rd s' = t_rd s \<and> t_shutdownCtx s' = t_shutdownCtx s \<and>
     t_drain s' = t_drain s \<and> t_stopper s' = t_stopper s \<and> t_shutdown_err s' = t_shutdown_err s"
  by (cases s, cases s', simp add: pcs_def)

lemmas pcs_unfold = pcs_ok_def main_call_def main_started_def shutdown_begin_def shutdown_end_def
  shutdown_timeout_def drain_close_def stopper_call_def stopper_start_def stopper_done_def
  stopper_cancel_def

lemma after_pcs [simp]:
  "after_start n \<noteq> M_Start HttpServers" "after_start n \<noteq> M_Await m"
  "\<not> in_shutdown (after_start n)"
  "after_stop n \<noteq> S_Call HttpServers" "after_stop n \<noteq> S_Await m" "after_stop n \<noteq> S_Idle"
  "after_stop n \<noteq> S_Ended"
  by (cases n; simp)+

lemma pcs_main_add:
  assumes "main_add ty pc s = Some s'"
  shows "\<exists>s1. pcs s1 = pcs s \<and>
    (s' = s1\<lparr>t_main := pc\<rparr> \<or> s' = s1\<lparr>t_ret := Some Add_Failed, t_main := M_Shutdown\<rparr>)"
proof -
  obtain ok s1 where "add_to ty s = Some (ok, s1)"
    using assms by (auto simp: main_add_def split: option.splits)
  with assms pcs_add_to [OF this] show ?thesis
    by (cases ok) (auto simp: main_add_def)
qed

text \<open>Before the shutdown begins, the main goroutine moves freely.\<close>

lemma pcs_ok_main:
  assumes "pcs_ok s" "\<not> in_shutdown (t_main s)" "\<not> in_shutdown pc"
    and "pc \<noteq> M_Start HttpServers" "pc \<noteq> M_Await HttpServers"
    and "needs_reader pc \<Longrightarrow> t_rd s \<noteq> R_Nil"
  shows "pcs_ok (s\<lparr>t_main := pc\<rparr>)" "pcs_ok (s\<lparr>t_ret := err, t_main := pc\<rparr>)"
  using assms unfolding pcs_ok_def by auto

lemma pcs_ok_main_add:
  assumes "pcs_ok s" "main_add ty pc s = Some s'" "\<not> in_shutdown (t_main s)" "\<not> in_shutdown pc"
    and "pc \<noteq> M_Start HttpServers" "pc \<noteq> M_Await HttpServers"
    and "needs_reader pc \<Longrightarrow> t_rd s \<noteq> R_Nil"
  shows "pcs_ok s'"
proof -
  obtain s1 where s1: "pcs s1 = pcs s"
    "s' = s1\<lparr>t_main := pc\<rparr> \<or> s' = s1\<lparr>t_ret := Some Add_Failed, t_main := M_Shutdown\<rparr>"
    using pcs_main_add [OF assms(2)] by blast
  have ok: "pcs_ok s1" and same: "t_main s1 = t_main s" "t_rd s1 = t_rd s"
    using pcs_ok_cong [OF s1(1)] assms(1) pcs_fields [OF s1(1)] by simp_all
  have "pcs_ok (s1\<lparr>t_main := pc\<rparr>)" by (rule pcs_ok_main(1) [OF ok]) (use assms same in simp_all)
  moreover have "pcs_ok (s1\<lparr>t_ret := Some Add_Failed, t_main := M_Shutdown\<rparr>)"
    by (rule pcs_ok_main(2) [OF ok]) (use assms same in simp_all)
  ultimately show ?thesis using s1(2) by blast
qed

lemma pcs_ok_init: "pcs_ok (NewTaskManager nc)"
  by (simp add: pcs_ok_def NewTaskManager_def)

lemma pcs_ok_step:
  assumes "pcs_ok s" "tm_step s ev = Some s'"
  shows "pcs_ok s'"
proof -
  have act: "tm_act ev s = Some s'" using assms(2) by (simp add: tm_step_def split: if_splits)
  have keep: "pcs_ok s'" if "pcs s' = pcs s" using pcs_ok_cong [OF that] assms(1) by simp
  show ?thesis
  proof (cases ev)
    case (Add_Task ty)
    then show ?thesis using act by (auto intro: keep pcs_AddTask)
  next
    case Main_Add_Cache
    then have m: "t_main s = M_Add_Cache" and a: "main_add informerCache M_New_Reader s = Some s'"
      using act by (simp_all split: if_splits)
    show ?thesis by (rule pcs_ok_main_add [OF assms(1) a]) (simp_all add: m)
  next
    case (Main_New_Reader ok)
    then show ?thesis using act assms(1) by (auto simp: pcs_ok_def split: if_splits)
  next
    case Main_Add_Pump
    then have m: "t_main s = M_Add_Pump" and a: "main_add eventPump (M_Start Pumps) s = Some s'"
      using act by (simp_all split: if_splits)
    show ?thesis
      by (rule pcs_ok_main_add [OF assms(1) a]) (use assms(1) m in \<open>simp_all add: pcs_ok_def\<close>)
  next
    case Main_Call
    then obtain n s1 where n: "t_main s = M_Start n" and s1: "pcs s1 = pcs s"
      "s' = s1\<lparr>t_main := M_Await n\<rparr>"
      using act
      by (auto simp: main_call_def dest: pcs_on_group split: main_pc.splits option.splits if_splits)
    moreover have "n \<noteq> HttpServers" "t_rd s \<noteq> R_Nil" using assms(1) n by (auto simp: pcs_ok_def)
    ultimately show ?thesis
      using pcs_ok_cong [OF s1(1)] assms(1) pcs_fields [OF s1(1)] by (simp add: pcs_ok_main(1))
  next
    case Main_Started
    then obtain n where n: "t_main s = M_Await n"
      and s': "s' = s\<lparr>t_ret := Some Start_Failed, t_main := M_Shutdown\<rparr> \<or>
        s' = s\<lparr>t_main := after_start n\<rparr>"
      using act by (auto simp: main_started_def split: main_pc.splits if_splits)
    moreover have "t_rd s \<noteq> R_Nil" using assms(1) n by (auto simp: pcs_ok_def)
    ultimately show ?thesis using pcs_ok_main [OF assms(1)] by auto
  next
    case Main_Ctx_Done
    then show ?thesis using act assms(1) by (auto simp: pcs_ok_def split: if_splits)
  next
    case (Main_Err n e)
    then show ?thesis using act assms(1)
      by (auto simp: main_err_def pcs_ok_def dest!: on_groupD split: if_splits option.splits)
  next
    case Shutdown_Begin
    then show ?thesis using act assms(1) by (auto simp: pcs_unfold split: if_splits)
  next
    case Shutdown_Timeout
    then show ?thesis using act assms(1) by (auto simp: pcs_unfold split: if_splits)
  next
    case Shutdown_End
    then show ?thesis using act assms(1) by (auto simp: pcs_unfold split: if_splits)
  next
    case Drain_Close
    then have d: "t_drain s = D_Close"
      and "s' = s\<lparr>t_cancelled := True, t_criClosed := True, t_crash := Some Nil_Reader\<rparr> \<or>
        s' = s\<lparr>t_cancelled := True, t_criClosed := True, t_drain := D_Loop\<rparr> \<or>
        t_rd s \<noteq> R_Nil \<and> s' = s\<lparr>t_cancelled := True, t_criClosed := True, t_rd := R_Closed, t_drain := D_Loop\<rparr>"
      using act by (auto simp: drain_close_def Let_def split: if_splits)
    then show ?thesis
      using assms(1) by (elim disjE conjE) (simp_all add: pcs_ok_def)
  next
    case (Drain_Err n e)
    then show ?thesis using act by (auto simp: drain_err_def intro: keep pcs_on_group split: if_splits)
  next
    case Drain_End
    then show ?thesis using act assms(1) by (auto simp: pcs_ok_def split: if_splits)
  next
    case Stopper_Call
    then show ?thesis using act assms(1)
      by (auto simp: pcs_unfold dest!: on_groupD split: stopper_pc.splits)
  next
    case Stopper_Start
    then show ?thesis using act
      by (auto simp: stopper_start_def intro: keep pcs_on_group split: if_splits stopper_pc.splits)
  next
    case Stopper_Done
    then show ?thesis using act assms(1) by (auto simp: pcs_unfold split: if_splits stopper_pc.splits)
  next
    case Stopper_Cancel
    then show ?thesis using act assms(1) by (auto simp: pcs_unfold split: if_splits)
  next
    case (Cache_Check i synced)
    then have "pcs s' = pcs s \<or> s' = s\<lparr>t_crash := Some Sync_Fatal\<rparr>"
      using act by (auto simp: cache_check_def dest: pcs_on_group split: if_splits)
    moreover have "pcs_ok (s\<lparr>t_crash := Some Sync_Fatal\<rparr>)"
      using assms(1) by (simp add: pcs_ok_def)
    ultimately show ?thesis using keep by blast
  next
    case Signal
    then have "s' = s\<lparr>t_ctx_done := True\<rparr>" using act by (simp split: if_splits)
    then show ?thesis using assms(1) by (simp add: pcs_ok_def)
  next
    case (Group n e)
    then show ?thesis using act by (auto intro: keep pcs_on_group split: if_splits)
  qed
qed

interpretation pcs: machine_invariant tm_step pcs_ok "\<lambda>ev. True"
  by unfold_locales (rule pcs_ok_step)

subsection \<open>Groups\<close>

text \<open>
  What the task manager does to each of its groups is a run of that group. No check reports
  failure, no \<^verbatim>\<open>StopAndWait\<close> gives up before the shutdown's context has ended, the context of a
  \<^verbatim>\<open>Start\<close> is only ever cancelled unless the shutdown times out, only two groups get members, and
  one is never used.
\<close>

definition proper :: "ctx_state \<Rightarrow> group_name option \<Rightarrow> group_name \<Rightarrow> group_event \<Rightarrow> bool" where
  "proper c called n ev \<longleftrightarrow> (\<forall>i. ev \<noteq> Check_Result i False) \<and>
     (ev = Stop_Finish True \<longrightarrow> c \<noteq> Ctx_Live) \<and>
     (ev = Start_Ctx_Done False \<longrightarrow> c = Ctx_Expired) \<and>
     (ev = Call_Add \<longrightarrow> n = BpfPrograms \<or> n = Caches) \<and>
     (ev = Call_Start \<longrightarrow> n \<noteq> HttpServers) \<and>
     (ev = Call_Stop \<longrightarrow> n \<noteq> HttpServers \<and> called = Some n)"

text \<open>The group whose \<^verbatim>\<open>StopAndWait\<close> an event calls.\<close>

definition called_stop :: "tm \<Rightarrow> tm_event \<Rightarrow> group_name option" where
  "called_stop s ev = (case (ev, t_stopper s) of (Stopper_Call, S_Call n) \<Rightarrow> Some n | _ \<Rightarrow> None)"

definition moves :: "(group_name \<Rightarrow> group_event \<Rightarrow> bool) \<Rightarrow> tm \<Rightarrow> tm \<Rightarrow> bool" where
  "moves p s s' \<longleftrightarrow> (\<forall>n. \<exists>es. list_all (p n) es \<and>
     group_run (t_group s n) es = Some (t_group s' n))"

lemma moves_same: "t_group s' = t_group s \<Longrightarrow> moves p s s'"
  by (auto simp: moves_def intro: exI [of _ "[]"])

lemma moves_on_group:
  assumes "on_group n ev s = Some s'" "p n ev"
  shows "moves p s s'"
proof -
  obtain g where g: "group_step (t_group s n) ev = Some g" "s' = s\<lparr>t_group := (t_group s)(n := g)\<rparr>"
    using on_groupD [OF assms(1)] by blast
  have "\<exists>es. list_all (p m) es \<and> group_run (t_group s m) es = Some (t_group s' m)" for m
  proof (cases "m = n")
    case True
    then show ?thesis using g assms(2) by (intro exI [of _ "[ev]"]) simp
  next
    case False
    then show ?thesis using g(2) by (intro exI [of _ "[]"]) simp
  qed
  then show ?thesis by (simp add: moves_def)
qed

lemma moves_trans:
  assumes "moves p s s1" "moves p s1 s2"
  shows "moves p s s2"
  unfolding moves_def
proof
  fix n
  obtain es where "list_all (p n) es" "group_run (t_group s n) es = Some (t_group s1 n)"
    using assms(1) by (auto simp: moves_def)
  moreover obtain es' where "list_all (p n) es'" "group_run (t_group s1 n) es' = Some (t_group s2 n)"
    using assms(2) by (auto simp: moves_def)
  ultimately show "\<exists>es. list_all (p n) es \<and> group_run (t_group s n) es = Some (t_group s2 n)"
    by (intro exI [of _ "es @ es'"]) (simp add: run_steps_append)
qed

lemma proper_alone: "group_alone s n ev \<Longrightarrow> proper (t_shutdownCtx s) called n ev"
  by (cases ev) (auto simp: proper_def split: if_splits)

lemma proper_error: "sends_error n ev \<noteq> None \<Longrightarrow> proper c called n ev"
  by (cases ev) (auto simp: proper_def)

lemma runnables_Add_name: "runnables_Add ty = Some n \<Longrightarrow> n = BpfPrograms \<or> n = Caches"
  by (auto simp: runnables_Add_def split: if_splits)

lemma moves_AddTask:
  assumes "AddTask ty s = Some s'"
  shows "moves (proper c called) s s'"
proof (cases "runnables_Add ty")
  case None
  then show ?thesis using assms by (simp add: AddTask_def moves_same)
next
  case (Some n)
  let ?s = "if \<not> implements ty bpfRunner \<and> implements ty hasCache
    then s\<lparr>t_caches := t_caches s @ [g_next (t_group s Caches)]\<rparr> else s"
  have "on_group n Call_Add ?s = Some s'" using assms Some by (simp only: AddTask_def option.case)
  moreover have "proper c called n Call_Add" using runnables_Add_name [OF Some] by (simp add: proper_def)
  ultimately show ?thesis by (rule moves_trans [OF moves_same moves_on_group, rotated]) simp
qed

lemma moves_add_to:
  assumes "add_to ty s = Some (ok, s')"
  shows "moves (proper c called) s s'"
proof (cases "runnables_Add ty")
  case None
  then show ?thesis using assms by (simp add: add_to_def moves_same)
next
  case (Some n)
  let ?i = "g_next (t_group s n)"
  obtain s1 s2 where s1: "AddTask ty s = Some s1" and s2: "on_group n (Add_Check_Stop ?i) s1 = Some s2"
    and s3: "s' = s2 \<or> on_group n (Add_Check_Start ?i) s2 = Some s'"
    using assms Some by (auto simp: add_to_def Let_def split: option.splits if_splits)
  have "moves (proper c called) s s2"
    by (rule moves_trans [OF moves_AddTask [OF s1] moves_on_group [OF s2]]) (simp add: proper_def)
  moreover have "moves (proper c called) s2 s'" using s3 moves_on_group [of n _ s2 s'] moves_same by (auto simp: proper_def)
  ultimately show ?thesis by (rule moves_trans)
qed

lemma moves_main_add:
  assumes "main_add ty pc s = Some s'"
  shows "moves (proper c called) s s'"
proof -
  obtain ok s1 where s1: "add_to ty s = Some (ok, s1)" and s': "t_group s' = t_group s1"
    using assms by (auto simp: main_add_def split: option.splits if_splits)
  show ?thesis by (rule moves_trans [OF moves_add_to [OF s1] moves_same [OF s']])
qed

lemma moves_via:
  "on_group n ev s1 = Some s2 \<Longrightarrow> p n ev \<Longrightarrow> t_group s1 = t_group s \<Longrightarrow>
     t_group s' = t_group s2 \<Longrightarrow> moves p s s'"
  using moves_trans [OF moves_same moves_trans [OF moves_on_group moves_same]] by metis

lemma tm_step_moves:
  assumes "pcs_ok s" "tm_step s ev = Some s'"
  shows "moves (proper (t_shutdownCtx s) (called_stop s ev)) s s'"
proof -
  have act: "tm_act ev s = Some s'" using assms(2) by (simp add: tm_step_def split: if_splits)
  show ?thesis
  proof (cases ev)
    case (Add_Task ty)
    then show ?thesis using act by (simp add: moves_AddTask)
  next
    case Main_Add_Cache
    then show ?thesis using act by (auto intro: moves_main_add split: if_splits)
  next
    case Main_Add_Pump
    then show ?thesis using act by (auto intro: moves_main_add split: if_splits)
  next
    case Main_Call
    with act obtain n where n: "t_main s = M_Start n"
      and s': "s' = s\<lparr>t_main := M_Await n\<rparr> \<or>
        (\<exists>s1. on_group n Call_Start s = Some s1 \<and> s' = s1\<lparr>t_main := M_Await n\<rparr>)"
      by (auto simp: main_call_def split: main_pc.splits option.splits if_splits)
    have "proper (t_shutdownCtx s) (called_stop s ev) n Call_Start" using n assms(1) by (auto simp: proper_def pcs_ok_def)
    with s' show ?thesis by (auto intro: moves_via moves_same)
  next
    case Main_Started
    with act show ?thesis
      by (auto simp: main_started_def intro!: moves_same split: main_pc.splits if_splits)
  next
    case (Main_Err n e)
    with act obtain err where err: "sends_error n e = Some err"
      "on_group n e (s\<lparr>t_ret := Some err, t_main := M_Shutdown\<rparr>) = Some s'"
      by (auto simp: main_err_def split: option.splits if_splits)
    show ?thesis by (rule moves_via [OF err(2) proper_error]) (simp_all add: err(1))
  next
    case (Drain_Err n e)
    with act show ?thesis
      using moves_on_group [OF _ proper_error] by (auto simp: drain_err_def split: if_splits)
  next
    case Stopper_Call
    with act obtain n where n: "t_stopper s = S_Call n"
      "on_group n Call_Stop (s\<lparr>t_stopper := S_Await n\<rparr>) = Some s'"
      by (auto simp: stopper_call_def split: stopper_pc.splits)
    have "proper (t_shutdownCtx s) (called_stop s ev) n Call_Stop"
      using n(1) assms(1) Stopper_Call by (auto simp: proper_def pcs_ok_def called_stop_def)
    then show ?thesis by (rule moves_via [OF n(2)]) simp_all
  next
    case Stopper_Start
    with act assms(1) show ?thesis
      by (auto simp: stopper_start_def pcs_ok_def proper_def intro!: moves_on_group
          split: stopper_pc.splits if_splits)
  next
    case Stopper_Done
    with act show ?thesis
      by (auto simp: stopper_done_def intro!: moves_same split: stopper_pc.splits if_splits)
  next
    case (Cache_Check i synced)
    with act show ?thesis
      by (auto simp: cache_check_def proper_def intro: moves_on_group moves_same split: if_splits)
  next
    case (Group n e)
    with act show ?thesis by (auto intro: moves_on_group proper_alone split: if_splits)
  next
    case Drain_Close
    with act show ?thesis by (auto simp: drain_close_def Let_def intro!: moves_same split: if_splits)
  qed (use act in \<open>auto simp: shutdown_begin_def shutdown_timeout_def shutdown_end_def
      stopper_cancel_def intro!: moves_same split: if_splits\<close>)
qed

subsection \<open>The invariant of each group\<close>

lemma idle_group:
  "ev \<notin> {Call_Add, Call_Start, Call_Stop} \<Longrightarrow> group_step newRunnableGroup ev = None"
  by (cases ev) (simp_all add: group_step_def newRunnableGroup_def Add_check_stop_def
      Add_check_start_def Add_send_def Start_send_def Start_unlock_def Start_ctx_done_def
      Signal_ready_def reconcile_check_def reconcile_drop_def reconcile_exit_def check_result_def
      runnable_return_def runnable_error_def Stop_mark_def Stop_cancel_def Stop_finish_def)

lemma unready_rel:
  "group_rel g ev g' \<Longrightarrow> \<forall>i. ev \<noteq> Check_Result i False \<Longrightarrow> g_unready g' = g_unready g"
  by (induction rule: group_rel.induct) auto

lemma next_rel: "group_rel g ev g' \<Longrightarrow> ev \<noteq> Call_Add \<Longrightarrow> g_next g' = g_next g"
  by (induction rule: group_rel.induct) auto

lemma retErr_rel: "group_rel g ev g' \<Longrightarrow> ev \<noteq> Start_Ctx_Done False \<Longrightarrow> g_retErr g' = g_retErr g"
  by (induction rule: group_rel.induct) auto

lemma done_rel: "group_rel g ev g' \<Longrightarrow> g_stop g = Stop_Done \<Longrightarrow> ev \<noteq> Stop_Finish b \<and> g_stop g' = Stop_Done"
  by (induction rule: group_rel.induct) auto

definition member_ok :: "ctx_state \<Rightarrow> group_name \<Rightarrow> group \<Rightarrow> bool" where
  "member_ok c n g \<longleftrightarrow> group_ok g \<and> g_unready g = [] \<and>
     (c \<noteq> Ctx_Expired \<longrightarrow> drained g \<and> \<not> g_retErr g) \<and>
     (c = Ctx_Canceled \<and> n \<noteq> HttpServers \<longrightarrow> g_stop g = Stop_Done) \<and>
     (n = Pumps \<longrightarrow> g_next g = 0) \<and> (n = HttpServers \<longrightarrow> g = newRunnableGroup)"

lemma member_ok_step:
  assumes ok: "member_ok c n g" and proper: "proper c called n ev" and step: "group_step g ev = Some g'"
  shows "member_ok c n g'"
proof (cases "n = HttpServers")
  case True
  then have "ev \<notin> {Call_Add, Call_Start, Call_Stop}" using proper by (auto simp: proper_def)
  then show ?thesis using idle_group step ok True by (simp add: member_ok_def)
next
  case False
  have r: "group_rel g ev g'" using group_step_rel [OF step] by blast
  have "drained g'" if "c \<noteq> Ctx_Expired"
  proof (rule drained_step [OF _ _ step])
    show "drained g" using ok that by (simp add: member_ok_def)
    show "ev \<noteq> Stop_Finish True"
    proof (cases c)
      case Ctx_Live
      then show ?thesis using proper by (auto simp: proper_def)
    next
      case Ctx_Canceled
      then show ?thesis using ok False done_rel [OF r] by (auto simp: member_ok_def)
    qed (use that in simp)
  qed
  moreover have "\<not> g_retErr g'" if "c \<noteq> Ctx_Expired"
    using retErr_rel [OF r] ok proper that by (auto simp: member_ok_def proper_def)
  moreover have "g_next g' = 0" if "n = Pumps"
    using next_rel [OF r] ok proper that by (auto simp: member_ok_def proper_def)
  ultimately show ?thesis
    using ok group_ok_step [OF _ step] unready_rel [OF r] done_rel [OF r] proper False
    by (auto simp: member_ok_def proper_def)
qed

interpretation member: machine_invariant group_step "member_ok c n" "proper c called n" for c called n
  by unfold_locales (rule member_ok_step)

lemma member_ok_moves:
  assumes "moves (proper c called) s s'" "member_ok c n (t_group s n)"
  shows "member_ok c n (t_group s' n)"
proof -
  obtain es where "list_all (proper c called n) es" "group_run (t_group s n) es = Some (t_group s' n)"
    using assms(1) by (auto simp: moves_def)
  then show ?thesis using member.inv_run [OF assms(2)] by blast
qed

subsection \<open>The order of the stops\<close>

text \<open>How far \<^verbatim>\<open>StopAndWait\<close> of the caches, the programs and the pumps has come.\<close>

fun stops_match :: "stopper_pc \<Rightarrow> stop_pc \<Rightarrow> stop_pc \<Rightarrow> stop_pc \<Rightarrow> bool" where
  "stops_match S_Idle ca bp pu = (ca = Not_Stopped \<and> bp = Not_Stopped \<and> pu = Not_Stopped)"
| "stops_match (S_Call n) ca bp pu = (case n of
     Caches \<Rightarrow> ca = Not_Stopped \<and> bp = Not_Stopped \<and> pu = Not_Stopped
   | BpfPrograms \<Rightarrow> ca = Stop_Done \<and> bp = Not_Stopped \<and> pu = Not_Stopped
   | Pumps \<Rightarrow> ca = Stop_Done \<and> bp = Stop_Done \<and> pu = Not_Stopped
   | HttpServers \<Rightarrow> False)"
| "stops_match (S_Await n) ca bp pu = (case n of
     Caches \<Rightarrow> ca \<noteq> Not_Stopped \<and> bp = Not_Stopped \<and> pu = Not_Stopped
   | BpfPrograms \<Rightarrow> ca = Stop_Done \<and> bp \<noteq> Not_Stopped \<and> pu = Not_Stopped
   | Pumps \<Rightarrow> ca = Stop_Done \<and> bp = Stop_Done \<and> pu \<noteq> Not_Stopped
   | HttpServers \<Rightarrow> False)"
| "stops_match S_Cancel ca bp pu = (ca = Stop_Done \<and> bp = Stop_Done \<and> pu = Stop_Done)"
| "stops_match S_Ended ca bp pu = (ca = Stop_Done \<and> bp = Stop_Done \<and> pu = Stop_Done)"

definition stop_of :: "tm \<Rightarrow> group_name \<Rightarrow> stop_pc" where
  "stop_of s n = g_stop (t_group s n)"

definition stops_ok :: "tm \<Rightarrow> bool" where
  "stops_ok s \<longleftrightarrow> stops_match (t_stopper s) (stop_of s Caches) (stop_of s BpfPrograms) (stop_of s Pumps)"

definition keeps_stop :: "stop_pc \<Rightarrow> stop_pc \<Rightarrow> bool" where
  "keeps_stop x y \<longleftrightarrow> (x = Not_Stopped \<longleftrightarrow> y = Not_Stopped) \<and> (x = Stop_Done \<longrightarrow> y = Stop_Done)"

lemma keeps_stop_rel: "group_rel g ev g' \<Longrightarrow> ev \<noteq> Call_Stop \<Longrightarrow> keeps_stop (g_stop g) (g_stop g')"
  by (induction rule: group_rel.induct) (auto simp: keeps_stop_def)

lemma keeps_stop_run:
  "group_run g es = Some g' \<Longrightarrow> Call_Stop \<notin> set es \<Longrightarrow> keeps_stop (g_stop g) (g_stop g')"
proof (induction es arbitrary: g)
  case Nil
  then show ?case by (simp add: keeps_stop_def)
next
  case (Cons ev es)
  from Cons.prems(1) obtain g1 where g1: "group_step g ev = Some g1" "group_run g1 es = Some g'"
    by (rule run_steps_ConsE)
  then have "keeps_stop (g_stop g) (g_stop g1)"
    using keeps_stop_rel group_step_rel [OF g1(1)] Cons.prems(2) by auto
  with Cons.IH [OF g1(2)] Cons.prems(2) show ?case by (auto simp: keeps_stop_def)
qed

lemma stops_match_keeps:
  "stops_match pc ca bp pu \<Longrightarrow> keeps_stop ca ca' \<Longrightarrow> keeps_stop bp bp' \<Longrightarrow> keeps_stop pu pu' \<Longrightarrow>
     stops_match pc ca' bp' pu'"
  by (cases pc) (auto simp: keeps_stop_def split: group_name.splits)

lemma moves_keep_stop:
  assumes "moves (proper c None) s s'"
  shows "keeps_stop (stop_of s n) (stop_of s' n)"
proof -
  obtain es where es: "list_all (proper c None n) es" "group_run (t_group s n) es = Some (t_group s' n)"
    using assms by (auto simp: moves_def)
  then have "Call_Stop \<notin> set es" by (auto simp: list_all_iff proper_def)
  with keeps_stop_run [OF es(2)] show ?thesis by (simp add: stop_of_def)
qed

lemma stops_ok_keeps:
  assumes "stops_ok s" "\<And>n. keeps_stop (stop_of s n) (stop_of s' n)" "t_stopper s' = t_stopper s"
  shows "stops_ok s'"
  using stops_match_keeps [OF assms(1) [unfolded stops_ok_def] assms(2) assms(2) assms(2)] assms(3)
  by (simp add: stops_ok_def)

lemma frame_on_group: "on_group n ev s = Some s' \<Longrightarrow> t_stopper s' = t_stopper s \<and> t_shutdownCtx s' = t_shutdownCtx s"
  by (auto dest!: on_groupD)

lemma frame_AddTask: "AddTask ty s = Some s' \<Longrightarrow> t_stopper s' = t_stopper s \<and> t_shutdownCtx s' = t_shutdownCtx s"
  using pcs_fields [OF pcs_AddTask] by blast

lemma frame_main_add: "main_add ty pc s = Some s' \<Longrightarrow> t_stopper s' = t_stopper s \<and> t_shutdownCtx s' = t_shutdownCtx s"
  by (auto dest!: pcs_main_add pcs_fields)

lemma frame_step:
  assumes "tm_act ev s = Some s'" "ev \<notin> {Shutdown_Begin, Shutdown_Timeout, Stopper_Call, Stopper_Done, Stopper_Cancel}"
  shows "t_stopper s' = t_stopper s \<and> t_shutdownCtx s' = t_shutdownCtx s"
proof (cases ev)
  case (Add_Task ty)
  then show ?thesis using assms frame_AddTask by simp
next
  case Main_Add_Cache
  then show ?thesis using assms frame_main_add by (simp split: if_splits)
next
  case Main_Add_Pump
  then show ?thesis using assms frame_main_add by (simp split: if_splits)
next
  case Main_Call
  then show ?thesis using assms
    by (auto simp: main_call_def dest: frame_on_group split: main_pc.splits option.splits if_splits)
next
  case Main_Started
  then show ?thesis using assms by (auto simp: main_started_def split: main_pc.splits if_splits)
next
  case (Main_Err n e)
  then show ?thesis using assms
    by (auto simp: main_err_def dest: frame_on_group split: option.splits if_splits)
next
  case (Drain_Err n e)
  then show ?thesis using assms by (auto simp: drain_err_def dest: frame_on_group split: if_splits)
next
  case Stopper_Start
  then show ?thesis using assms
    by (auto simp: stopper_start_def dest: frame_on_group split: stopper_pc.splits if_splits)
next
  case (Cache_Check i synced)
  then show ?thesis using assms by (auto simp: cache_check_def dest: frame_on_group split: if_splits)
next
  case Drain_Close
  then show ?thesis using assms by (auto simp: drain_close_def Let_def split: if_splits)
next
  case (Group n e)
  then show ?thesis using assms by (auto dest: frame_on_group split: if_splits)
qed (use assms in \<open>auto simp: shutdown_end_def split: if_splits\<close>)

lemma stops_ok_step:
  assumes pcs: "pcs_ok s" and ok: "stops_ok s" and step: "tm_step s ev = Some s'"
  shows "stops_ok s'"
proof (cases "ev = Stopper_Call")
  case True
  then obtain n g where n: "t_stopper s = S_Call n" and g: "group_step (t_group s n) Call_Stop = Some g"
    "s' = s\<lparr>t_stopper := S_Await n, t_group := (t_group s)(n := g)\<rparr>"
    using step by (auto simp: tm_step_def stopper_call_def dest!: on_groupD split: if_splits stopper_pc.splits)
  then have "g_stop g = Stop_Starting" by (auto simp: group_step_def Stop_begin_def split: if_splits)
  then show ?thesis using ok n g(2)
    by (cases n) (auto simp: stops_ok_def stop_of_def)
next
  case False
  have act: "tm_act ev s = Some s'" using step by (simp add: tm_step_def split: if_splits)
  have "called_stop s ev = None" using False by (auto simp: called_stop_def split: tm_event.splits)
  then have keeps: "keeps_stop (stop_of s n) (stop_of s' n)" for n
    using tm_step_moves [OF pcs step] moves_keep_stop by simp
  show ?thesis
  proof (cases "ev \<in> {Shutdown_Begin, Shutdown_Timeout, Stopper_Done, Stopper_Cancel}")
    case True
    then show ?thesis using act ok pcs
      by (auto simp: shutdown_begin_def shutdown_timeout_def stopper_done_def stopper_cancel_def stops_ok_def stop_of_def
          pcs_ok_def split: if_splits stopper_pc.splits group_name.splits)
  next
    case False
    then show ?thesis using stops_ok_keeps [OF ok keeps] frame_step [OF act] \<open>ev \<noteq> Stopper_Call\<close> by auto
  qed
qed

subsection \<open>The whole invariant\<close>

definition tm_ok :: "tm \<Rightarrow> bool" where
  "tm_ok s \<longleftrightarrow> pcs_ok s \<and> stops_ok s \<and> (\<forall>n. member_ok (t_shutdownCtx s) n (t_group s n))"

lemma new_group_fields:
  "g_next newRunnableGroup = 0" "g_stop newRunnableGroup = Not_Stopped" "g_unready newRunnableGroup = []"
  "\<not> g_retErr newRunnableGroup"
  by (simp_all add: newRunnableGroup_def)

lemma tm_ok_init: "tm_ok (NewTaskManager nc)"
proof -
  have "t_group (NewTaskManager nc) n = newRunnableGroup" for n
    by (simp add: NewTaskManager_def newRunnables_def)
  moreover have "t_shutdownCtx (NewTaskManager nc) = Ctx_Live" "t_stopper (NewTaskManager nc) = S_Idle"
    by (simp_all add: NewTaskManager_def)
  ultimately show ?thesis
    by (simp add: tm_ok_def pcs_ok_init stops_ok_def stop_of_def member_ok_def drained_def
        group_init phases_init new_group_fields)
qed

lemma ctx_step:
  assumes "tm_step s ev = Some s'"
  shows "t_shutdownCtx s' = t_shutdownCtx s \<or> t_shutdownCtx s' = Ctx_Expired \<or>
    t_shutdownCtx s = Ctx_Live \<and> t_shutdownCtx s' = Ctx_Canceled \<and> t_stopper s = S_Cancel"
proof (cases "ev \<in> {Shutdown_Begin, Shutdown_Timeout, Stopper_Call, Stopper_Done, Stopper_Cancel}")
  case False
  then show ?thesis using assms frame_step by (auto simp: tm_step_def split: if_splits)
next
  case True
  then show ?thesis using assms
    by (auto simp: tm_step_def shutdown_begin_def shutdown_timeout_def stopper_call_def stopper_done_def
        stopper_cancel_def dest!: on_groupD split: if_splits stopper_pc.splits)
qed

lemma stops_done:
  "stops_ok s \<Longrightarrow> t_stopper s = S_Cancel \<or> t_stopper s = S_Ended \<Longrightarrow> n \<noteq> HttpServers \<Longrightarrow>
     g_stop (t_group s n) = Stop_Done"
  by (cases n) (auto simp: stops_ok_def stop_of_def)

lemma member_ok_expired: "member_ok c n g \<Longrightarrow> member_ok Ctx_Expired n g"
  by (simp add: member_ok_def)

lemma member_ok_canceled:
  "member_ok Ctx_Live n g \<Longrightarrow> (n \<noteq> HttpServers \<Longrightarrow> g_stop g = Stop_Done) \<Longrightarrow> member_ok Ctx_Canceled n g"
  by (simp add: member_ok_def)

lemma tm_ok_step:
  assumes ok: "tm_ok s" and step: "tm_step s ev = Some s'"
  shows "tm_ok s'"
proof -
  have pcs: "pcs_ok s" and stops: "stops_ok s" using ok by (simp_all add: tm_ok_def)
  have pcs': "pcs_ok s'" and stops': "stops_ok s'"
    using pcs_ok_step [OF pcs step] stops_ok_step [OF pcs stops step] .
  have old: "member_ok (t_shutdownCtx s) n (t_group s' n)" for n
    using member_ok_moves [OF tm_step_moves [OF pcs step]] ok by (simp add: tm_ok_def)
  have "member_ok (t_shutdownCtx s') n (t_group s' n)" for n
  proof (cases "t_shutdownCtx s' = t_shutdownCtx s")
    case True
    then show ?thesis using old by simp
  next
    case False
    then consider "t_shutdownCtx s' = Ctx_Expired" |
      "t_shutdownCtx s = Ctx_Live" "t_shutdownCtx s' = Ctx_Canceled"
      using ctx_step [OF step] by blast
    then show ?thesis
    proof cases
      case 1
      then show ?thesis using member_ok_expired [OF old] by simp
    next
      case 2
      then have "t_stopper s' = S_Ended" using pcs' by (simp add: pcs_ok_def)
      then show ?thesis using member_ok_canceled old 2 stops_done [OF stops'] by metis
    qed
  qed
  with pcs' stops' show ?thesis by (simp add: tm_ok_def)
qed

interpretation tm: machine_invariant tm_step tm_ok "\<lambda>ev. True"
  by unfold_locales (rule tm_ok_step)

lemma tm_run_ok: "tm_run (NewTaskManager nc) es = Some s \<Longrightarrow> tm_ok s"
  using tm.inv_run [OF tm_ok_init] by (simp add: list_all_iff)

end
