(* ===== verification/Task_Manager_Runs.thy ===== *)
theory Task_Manager_Runs
  imports Task_Manager_Facts
begin

text \<open>
  What the task manager promises: where its runnables go, that it is ready only when the groups
  have started, that the groups are stopped one after the other, that a shutdown without error
  has stopped everything, and that a shutdown completes. A perf reader that cannot be opened
  makes the shutdown crash where the library uses a nil receiver.
\<close>

subsection \<open>A run\<close>

text \<open>From the creation of the task manager to \<^verbatim>\<open>ready\<close>: the runner is added by \<^verbatim>\<open>main\<close>, the cache
  and the pump by \<^verbatim>\<open>Start\<close>.\<close>

definition going_up :: "tm_event list" where
  "going_up = [Add_Task mysql_BpfRunner, Group BpfPrograms (Add_Check_Stop 0),
     Group BpfPrograms (Add_Check_Start 0), Main_Add_Cache, Main_New_Reader True, Main_Add_Pump,
     Main_Call, Group Pumps Start_Unlock, Main_Started,
     Main_Call, Group BpfPrograms Start_Send, Group BpfPrograms Reconcile_Check,
     Group BpfPrograms Start_Unlock, Group BpfPrograms (Check_Result 0 True),
     Group BpfPrograms (Signal_Ready 0), Main_Started,
     Main_Call, Group Caches Start_Send, Group Caches Reconcile_Check, Group Caches Start_Send,
     Group Caches Reconcile_Check, Group Caches Start_Unlock, Cache_Check 0 True,
     Group Caches (Signal_Ready 0), Group Caches (Check_Result 1 True),
     Group Caches (Signal_Ready 1), Main_Started]"

text \<open>A signal ends it; the pump reports that its reader was closed.\<close>

definition signalled_down :: "tm_event list" where
  "signalled_down = [Signal, Main_Ctx_Done, Shutdown_Begin]"

definition going_down :: "tm_event list" where
  "going_down = [Drain_Close, Stopper_Call, Group Caches Stop_Mark, Group Caches Stop_Cancel,
     Group Caches (Runnable_Return 0 False), Group Caches (Runnable_Return 1 True),
     Drain_Err Caches (Runnable_Error 1), Group Caches (Stop_Finish False), Stopper_Done,
     Stopper_Call, Group BpfPrograms Stop_Mark, Group BpfPrograms Stop_Cancel,
     Group BpfPrograms (Runnable_Return 0 False), Group BpfPrograms (Stop_Finish False), Stopper_Done,
     Stopper_Call, Group Pumps Stop_Mark, Group Pumps Stop_Cancel, Group Pumps (Stop_Finish False),
     Stopper_Done, Stopper_Cancel, Shutdown_End]"

definition tm_up :: tm where
  "tm_up = the (tm_run (NewTaskManager True) going_up)"

definition tm_stopping :: tm where
  "tm_stopping = the (tm_run (NewTaskManager True) (going_up @ signalled_down))"

definition tm_down :: tm where
  "tm_down = the (tm_run (NewTaskManager True) (going_up @ signalled_down @ going_down))"

lemma not_None_the: "r \<noteq> None \<Longrightarrow> r = Some (the r)"
  by auto

lemma tm_up_run: "tm_run (NewTaskManager True) going_up = Some tm_up"
  unfolding tm_up_def by (rule not_None_the) code_simp

lemma tm_stopping_run: "tm_run (NewTaskManager True) (going_up @ signalled_down) = Some tm_stopping"
  unfolding tm_stopping_def by (rule not_None_the) code_simp

lemma tm_down_run: "tm_run (NewTaskManager True) (going_up @ signalled_down @ going_down) = Some tm_down"
  unfolding tm_down_def by (rule not_None_the) code_simp

subsection \<open>Routing\<close>

text \<open>The runner goes to the group of programs and the informer cache to the group of caches;
  the pump, too, goes to the group of caches, so that in every state of the task manager the
  group \<^verbatim>\<open>Pumps\<close> has no member and the group \<^verbatim>\<open>HttpServers\<close> is as it was created.\<close>

theorem pump_shares_cache_group:
  assumes "tm_run (NewTaskManager nc) es = Some s"
  shows "runnables_Add mysql_BpfRunner = Some BpfPrograms \<and>
    runnables_Add informerCache = Some Caches \<and> runnables_Add eventPump = Some Caches \<and>
    g_next (t_group s Pumps) = 0 \<and> g_spawned (t_group s Pumps) = [] \<and>
    t_group s HttpServers = newRunnableGroup"
proof -
  have ok: "member_ok (t_shutdownCtx s) n (t_group s n)" for n
    using tm_run_ok [OF assms] by (simp add: tm_ok_def)
  have "g_next (t_group s Pumps) = 0" "conserved (t_group s Pumps)"
    using ok [of Pumps] by (simp_all add: member_ok_def group_ok_def)
  moreover from this have "g_spawned (t_group s Pumps) = []"
    by (simp add: conserved_def placed_def)
  moreover have "t_group s HttpServers = newRunnableGroup"
    using ok [of HttpServers] by (simp add: member_ok_def)
  moreover have "runnables_Add mysql_BpfRunner = Some BpfPrograms"
    "runnables_Add informerCache = Some Caches" "runnables_Add eventPump = Some Caches"
    by code_simp+
  ultimately show ?thesis by blast
qed

theorem pump_shares_cache_group_witness:
  "runnables_Add eventPump = Some Caches \<and> g_next (t_group tm_up Pumps) = 0"
  using pump_shares_cache_group [OF tm_up_run] by blast

subsection \<open>Shutdown\<close>

text \<open>The groups are stopped one after the other: \<^verbatim>\<open>StopAndWait\<close> of the programs is called only
  when that of the caches has returned, and that of the pumps only when that of the programs
  has.\<close>

theorem shutdown_in_order:
  assumes "tm_run (NewTaskManager nc) es = Some s"
  shows "(g_stop (t_group s BpfPrograms) \<noteq> Not_Stopped \<longrightarrow> g_stop (t_group s Caches) = Stop_Done) \<and>
    (g_stop (t_group s Pumps) \<noteq> Not_Stopped \<longrightarrow> g_stop (t_group s BpfPrograms) = Stop_Done)"
proof -
  have "stops_ok s" using tm_run_ok [OF assms] by (simp add: tm_ok_def)
  then show ?thesis
    by (cases "t_stopper s") (auto simp: stops_ok_def stop_of_def split: group_name.splits)
qed

theorem shutdown_in_order_witness:
  "g_stop (t_group tm_down Pumps) = Stop_Done \<and> g_stop (t_group tm_down BpfPrograms) = Stop_Done \<and>
     g_stop (t_group tm_down Caches) = Stop_Done"
proof -
  have "g_stop (t_group tm_down Pumps) = Stop_Done" by code_simp
  with shutdown_in_order [OF tm_down_run] show ?thesis by simp
qed

text \<open>C20: If \<^verbatim>\<open>Start\<close> of the task manager has returned and its shutdown reported no error, every
  group is stopped and everything its goroutines ran has returned: no runnable is left.\<close>

theorem clean_shutdown_stops_everything:
  assumes "tm_run (NewTaskManager nc) es = Some s" "t_main s = M_Returned" "\<not> t_shutdown_err s"
  shows "\<forall>n. g_running (t_group s n) = [] \<and> g_failing (t_group s n) = [] \<and>
    (n = HttpServers \<or> g_stop (t_group s n) = Stop_Done)"
proof
  fix n
  have ok: "pcs_ok s" "member_ok (t_shutdownCtx s) n (t_group s n)"
    using tm_run_ok [OF assms(1)] by (simp_all add: tm_ok_def)
  then have "t_shutdownCtx s = Ctx_Canceled"
    using assms(2,3) by (cases "t_shutdownCtx s") (auto simp: pcs_ok_def)
  with ok(2) show "g_running (t_group s n) = [] \<and> g_failing (t_group s n) = [] \<and>
    (n = HttpServers \<or> g_stop (t_group s n) = Stop_Done)"
    by (cases "n = HttpServers") (auto simp: member_ok_def drained_def newRunnableGroup_def)
qed

theorem clean_shutdown_stops_everything_witness:
  "\<forall>n. g_running (t_group tm_down n) = [] \<and> g_failing (t_group tm_down n) = [] \<and>
     (n = HttpServers \<or> g_stop (t_group tm_down n) = Stop_Done)"
proof (rule clean_shutdown_stops_everything [OF tm_down_run])
  show "t_main tm_down = M_Returned" "\<not> t_shutdown_err tm_down" by code_simp+
qed

subsection \<open>Ready\<close>

text \<open>The groups whose \<^verbatim>\<open>Start\<close> has returned when the main goroutine is at a place.\<close>

fun passed :: "main_pc \<Rightarrow> group_name list" where
  "passed (M_Start n) = (case n of Pumps \<Rightarrow> [] | BpfPrograms \<Rightarrow> [Pumps]
     | Caches \<Rightarrow> [Pumps, BpfPrograms] | HttpServers \<Rightarrow> [])"
| "passed (M_Await n) = (case n of Pumps \<Rightarrow> [] | BpfPrograms \<Rightarrow> [Pumps]
     | Caches \<Rightarrow> [Pumps, BpfPrograms] | HttpServers \<Rightarrow> [])"
| "passed M_Select = [Pumps, BpfPrograms, Caches]"
| "passed pc = []"

definition started_ok :: "tm \<Rightarrow> bool" where
  "started_ok s \<longleftrightarrow> (\<forall>n\<in>set (passed (t_main s)). g_start (t_group s n) = Start_Done)"

lemma start_done_rel: "group_rel g ev g' \<Longrightarrow> g_start g = Start_Done \<Longrightarrow> g_start g' = Start_Done"
  by (induction rule: group_rel.induct) auto

interpretation start_done: machine_invariant group_step "\<lambda>g. g_start g = Start_Done" "\<lambda>ev. True"
  by unfold_locales (use group_step_rel start_done_rel in blast)

lemma moves_start_done:
  assumes "moves p s s'" "g_start (t_group s n) = Start_Done"
  shows "g_start (t_group s' n) = Start_Done"
proof -
  obtain es where "group_run (t_group s n) es = Some (t_group s' n)"
    using assms(1) by (auto simp: moves_def)
  then show ?thesis using start_done.inv_run [OF assms(2)] by (simp add: list_all_iff)
qed

lemma main_on_group: "on_group n ev s = Some s' \<Longrightarrow> t_main s' = t_main s"
  by (auto dest!: on_groupD)

lemma main_step:
  assumes "tm_act ev s = Some s'"
  shows "t_main s' = t_main s \<or> passed (t_main s') = [] \<or>
    (\<exists>n. t_main s = M_Start n \<and> t_main s' = M_Await n) \<or>
    (\<exists>n. t_main s = M_Await n \<and> t_main s' = after_start n \<and> g_start (t_group s n) = Start_Done)"
proof (cases ev)
  case (Add_Task ty)
  then show ?thesis using assms pcs_fields [OF pcs_AddTask] by simp
next
  case Main_Add_Cache
  then show ?thesis using assms by (auto dest!: pcs_main_add split: if_splits)
next
  case Main_Add_Pump
  then show ?thesis using assms by (auto dest!: pcs_main_add split: if_splits)
next
  case Main_Call
  then show ?thesis using assms
    by (auto simp: main_call_def dest: main_on_group split: main_pc.splits option.splits if_splits)
next
  case Main_Started
  then show ?thesis using assms
    by (auto simp: main_started_def split: main_pc.splits if_splits)
next
  case (Main_Err n e)
  then show ?thesis using assms
    by (auto simp: main_err_def dest!: main_on_group split: option.splits if_splits)
next
  case (Drain_Err n e)
  then show ?thesis using assms by (auto simp: drain_err_def dest: main_on_group split: if_splits)
next
  case Stopper_Call
  then show ?thesis using assms by (auto simp: stopper_call_def dest!: main_on_group split: stopper_pc.splits)
next
  case Stopper_Start
  then show ?thesis using assms
    by (auto simp: stopper_start_def dest: main_on_group split: stopper_pc.splits if_splits)
next
  case (Cache_Check i synced)
  then show ?thesis using assms by (auto simp: cache_check_def dest: main_on_group split: if_splits)
next
  case Drain_Close
  then show ?thesis using assms by (auto simp: drain_close_def Let_def split: if_splits)
next
  case (Group n e)
  then show ?thesis using assms by (auto dest: main_on_group split: if_splits)
qed (use assms in \<open>auto simp: shutdown_begin_def shutdown_timeout_def shutdown_end_def
    stopper_done_def stopper_cancel_def split: if_splits stopper_pc.splits\<close>)

lemma passed_after: "n \<noteq> HttpServers \<Longrightarrow> set (passed (after_start n)) \<subseteq> insert n (set (passed (M_Await n)))"
  by (cases n) auto

lemma started_ok_step:
  assumes pcs: "pcs_ok s" and ok: "started_ok s" and step: "tm_step s ev = Some s'"
  shows "started_ok s'"
proof -
  have act: "tm_act ev s = Some s'" using step by (simp add: tm_step_def split: if_splits)
  note keep = moves_start_done [OF tm_step_moves [OF pcs step]]
  have old: "\<forall>n\<in>set (passed (t_main s)). g_start (t_group s' n) = Start_Done"
    using ok keep by (simp add: started_ok_def)
  from main_step [OF act] consider "t_main s' = t_main s" | "passed (t_main s') = []"
    | n where "t_main s = M_Start n" "t_main s' = M_Await n"
    | n where "t_main s = M_Await n" "t_main s' = after_start n" "g_start (t_group s n) = Start_Done"
    by blast
  then show ?thesis
  proof cases
    case 3
    then show ?thesis using old by (simp add: started_ok_def)
  next
    case 4
    then have "n \<noteq> HttpServers" using pcs by (auto simp: pcs_ok_def)
    with 4 old keep [OF 4(3)] passed_after [of n] show ?thesis unfolding started_ok_def by force
  qed (use old in \<open>simp_all add: started_ok_def\<close>)
qed

interpretation started: machine_invariant tm_step "\<lambda>s. pcs_ok s \<and> started_ok s" "\<lambda>ev. True"
  by unfold_locales (use pcs_ok_step started_ok_step in blast)

text \<open>C21: When the task manager waits for its signal, \<^verbatim>\<open>Start\<close> of every group it uses has returned,
  everything queued in these groups has been started, and no check of a queued runnable is
  pending or has failed: the informers are in sync.\<close>

theorem ready_means_started:
  assumes "tm_run (NewTaskManager nc) es = Some s" "t_main s = M_Select" "n \<noteq> HttpServers"
  shows "g_start (t_group s n) = Start_Done \<and> g_startQueue (t_group s n) = [] \<and>
    set (g_signalReady (t_group s n)) \<subseteq> set (g_spawned (t_group s n)) \<and>
    set (g_signalReady (t_group s n)) \<inter> set (verdicts (t_group s n)) = {}"
proof -
  have "started_ok (NewTaskManager nc)" by (simp add: started_ok_def NewTaskManager_def)
  then have "started_ok s"
    using started.inv_run [OF _ _ assms(1)] pcs_ok_init by (simp add: list_all_iff)
  with assms(2,3) have start: "g_start (t_group s n) = Start_Done"
    by (cases n) (auto simp: started_ok_def)
  have ok: "group_ok (t_group s n)"
    using tm_run_ok [OF assms(1)] by (simp add: tm_ok_def member_ok_def)
  with start have q: "g_startQueue (t_group s n) = []" by (simp add: group_ok_def phases_ok_def)
  with ok have "set (g_signalReady (t_group s n)) \<inter> set (verdicts (t_group s n)) = {}"
    "set (g_signalReady (t_group s n)) \<subseteq> set (g_spawned (t_group s n))"
    by (auto simp: group_ok_def ready_ok_def awaited_def)
  with start q show ?thesis by simp
qed

theorem ready_means_started_witness:
  "g_start (t_group tm_up Caches) = Start_Done \<and> g_signalReady (t_group tm_up Caches) = [0, 1] \<and>
     set (g_signalReady (t_group tm_up Caches)) \<inter> set (verdicts (t_group tm_up Caches)) = {}"
proof -
  have "t_main tm_up = M_Select" "g_signalReady (t_group tm_up Caches) = [0, 1]" by code_simp+
  with ready_means_started [OF tm_up_run, of Caches] show ?thesis by simp
qed

end
