(* ===== verification/Task_Manager_Progress.thy ===== *)
theory Task_Manager_Progress
  imports Task_Manager_Runs
begin

text \<open>
  The shutdown of the task manager completes without its timeout: the goroutine that stops the
  groups, the one that drains the errors and those of the groups bring each other to their
  ends. The events counted are theirs; not a new call of \<^verbatim>\<open>Add\<close>, the timeout or a cache that
  is out of sync.
\<close>

fun tm_own :: "tm_event \<Rightarrow> bool" where
  "tm_own Shutdown_Begin = True"
| "tm_own Shutdown_End = True"
| "tm_own Drain_Close = True"
| "tm_own (Drain_Err n ev) = own_event ev"
| "tm_own Stopper_Call = True"
| "tm_own Stopper_Start = True"
| "tm_own Stopper_Done = True"
| "tm_own Stopper_Cancel = True"
| "tm_own (Cache_Check i synced) = synced"
| "tm_own (Group n ev) = own_event ev"
| "tm_own ev = False"

subsection \<open>The measure\<close>

fun main_work :: "main_pc \<Rightarrow> nat" where
  "main_work M_Shutdown = 2"
| "main_work M_Await_Shutdown = 1"
| "main_work pc = 0"

fun drain_work :: "drain_pc \<Rightarrow> nat" where
  "drain_work D_Idle = 2"
| "drain_work D_Close = 1"
| "drain_work D_Loop = 0"
| "drain_work D_Ended = 0"

fun place :: "group_name \<Rightarrow> nat" where
  "place Caches = 2"
| "place BpfPrograms = 1"
| "place Pumps = 0"
| "place HttpServers = 0"

fun stopper_work :: "stopper_pc \<Rightarrow> nat" where
  "stopper_work S_Idle = 8"
| "stopper_work (S_Call n) = 2 * place n + 3"
| "stopper_work (S_Await n) = 2 * place n + 2"
| "stopper_work S_Cancel = 1"
| "stopper_work S_Ended = 0"

definition groups_work :: "tm \<Rightarrow> nat" where
  "groups_work s = group_work (t_group s Caches) + group_work (t_group s BpfPrograms) +
     group_work (t_group s Pumps)"

definition tm_work :: "tm \<Rightarrow> nat" where
  "tm_work s = groups_work s + main_work (t_main s) + drain_work (t_drain s) + stopper_work (t_stopper s)"

subsection \<open>The invariant\<close>

text \<open>No call of \<^verbatim>\<open>Add\<close> is in progress on a group.\<close>

definition no_adds :: "group \<Rightarrow> bool" where
  "no_adds g \<longleftrightarrow> g_check_stop g = [] \<and> g_check_start g = [] \<and> g_sending g = []"

lemma no_adds_rel: "group_rel g ev g' \<Longrightarrow> own_event ev \<Longrightarrow> no_adds g \<Longrightarrow> no_adds g'"
  by (induction rule: group_rel.induct) (auto simp: no_adds_def)

definition stopping_ok :: "tm \<Rightarrow> bool" where
  "stopping_ok s \<longleftrightarrow> tm_ok s \<and> (\<forall>n. no_adds (t_group s n)) \<and> t_rd s \<noteq> R_Nil \<and> t_crash s = None \<and>
     t_shutdownCtx s \<noteq> Ctx_Expired \<and> (t_main s = M_Shutdown \<or> in_shutdown (t_main s))"

lemma calm_group:
  assumes "stopping_ok s"
  shows "g_panic (t_group s n) = None" "none_failed (t_group s n)" "phases_ok (t_group s n)"
proof -
  have ok: "group_ok (t_group s n)" "g_unready (t_group s n) = []" "no_adds (t_group s n)"
    using assms by (auto simp: stopping_ok_def tm_ok_def member_ok_def)
  then show "none_failed (t_group s n)" "phases_ok (t_group s n)"
    by (simp_all add: none_failed_def group_ok_def)
  show "g_panic (t_group s n) = None"
    using ok by (cases "g_panic (t_group s n)")
      (auto simp: group_ok_def phases_ok_def ready_ok_def no_adds_def intro: group_panic.exhaust)
qed

lemma not_group_panicked: "stopping_ok s \<Longrightarrow> \<not> group_panicked s"
  using calm_group(1) by (simp add: group_panicked_def)

text \<open>What an event of the shutdown does: one step of one group, or of a program counter.\<close>

definition pc_work :: "tm \<Rightarrow> nat" where
  "pc_work s = main_work (t_main s) + drain_work (t_drain s) + stopper_work (t_stopper s)"

lemma on_group_own:
  assumes ok: "stopping_ok s" and same: "t_group s1 = t_group s"
    and on: "on_group n ev s1 = Some s'" and own: "own_event ev" and n: "n \<noteq> HttpServers"
  shows "groups_work s' < groups_work s \<and> (\<forall>m. no_adds (t_group s' m))"
proof -
  obtain g where g: "group_step (t_group s n) ev = Some g" "t_group s' = (t_group s)(n := g)"
    using on_groupD [OF on] same by auto
  then have r: "group_rel (t_group s n) ev g" using group_step_rel by blast
  have "group_work g < group_work (t_group s n)"
    by (rule group_work_rel [OF r own calm_group(3,1) [OF ok]])
  moreover have "no_adds g" using no_adds_rel [OF r own] ok by (simp add: stopping_ok_def)
  ultimately show ?thesis using g(2) n ok
    by (cases n) (auto simp: groups_work_def stopping_ok_def)
qed

lemma http_idle:
  assumes "stopping_ok s" "t_group s1 = t_group s" "ev \<notin> {Call_Add, Call_Start, Call_Stop}"
  shows "on_group HttpServers ev s1 = None"
proof -
  have "t_group s HttpServers = newRunnableGroup"
    using assms(1) by (simp add: stopping_ok_def tm_ok_def member_ok_def)
  then show ?thesis using idle_group [OF assms(3)] assms(2) by (simp add: on_group_def)
qed

lemma place_after: "n \<noteq> HttpServers \<Longrightarrow> stopper_work (after_stop n) < 2 * place n + 2"
  by (cases n) auto

definition calm :: "tm \<Rightarrow> bool" where
  "calm s \<longleftrightarrow> t_rd s \<noteq> R_Nil \<and> t_crash s = None \<and> t_shutdownCtx s \<noteq> Ctx_Expired \<and>
     (t_main s = M_Shutdown \<or> in_shutdown (t_main s))"

lemma on_group_calm: "on_group n ev s = Some s' \<Longrightarrow> calm s' = calm s \<and> pc_work s' = pc_work s"
  by (auto simp: calm_def pc_work_def dest!: on_groupD)

lemma own_by_group:
  assumes ok: "stopping_ok s" and on: "on_group n ev s = Some s'" and own: "own_event ev"
    and n: "ev \<in> {Call_Add, Call_Start, Call_Stop} \<Longrightarrow> n \<noteq> HttpServers"
  shows "tm_work s' < tm_work s \<and> (\<forall>m. no_adds (t_group s' m)) \<and> calm s'"
proof -
  have "n \<noteq> HttpServers" using http_idle [OF ok refl] on n by (cases "ev \<in> {Call_Add, Call_Start, Call_Stop}") auto
  moreover have "calm s" using ok by (simp add: stopping_ok_def calm_def)
  ultimately show ?thesis
    using on_group_own [OF ok refl on own] on_group_calm [OF on] by (simp add: tm_work_def pc_work_def)
qed

lemma own_by_pc:
  assumes "stopping_ok s" "t_group s' = t_group s" "pc_work s' < pc_work s" "calm s'"
  shows "tm_work s' < tm_work s \<and> (\<forall>m. no_adds (t_group s' m)) \<and> calm s'"
  using assms by (simp add: tm_work_def pc_work_def groups_work_def stopping_ok_def)

lemma tm_own_step:
  assumes ok: "stopping_ok s" and own: "tm_own ev" and step: "tm_step s ev = Some s'"
  shows "tm_work s' < tm_work s \<and> (\<forall>m. no_adds (t_group s' m)) \<and> calm s'"
proof -
  have act: "tm_act ev s = Some s'" using step by (simp add: tm_step_def split: if_splits)
  have pcs: "pcs_ok s" and calm: "calm s" using ok by (simp_all add: stopping_ok_def tm_ok_def calm_def)
  show ?thesis
  proof (cases ev)
    case Shutdown_Begin
    moreover have "t_drain s = D_Idle \<and> t_stopper s = S_Idle" if "t_main s = M_Shutdown"
      using pcs that by (simp add: pcs_ok_def)
    ultimately show ?thesis using act calm
      by (intro own_by_pc [OF ok])
        (auto simp: shutdown_begin_def pc_work_def calm_def split: if_splits)
  next
    case Shutdown_End
    then show ?thesis using act calm
      by (intro own_by_pc [OF ok]) (auto simp: shutdown_end_def pc_work_def calm_def split: if_splits)
  next
    case Drain_Close
    then show ?thesis using act calm
      by (intro own_by_pc [OF ok]) (auto simp: drain_close_def Let_def pc_work_def calm_def split: if_splits)
  next
    case (Drain_Err n e)
    then have "on_group n e s = Some s'" "sends_error n e \<noteq> None"
      using act by (simp_all add: drain_err_def split: if_splits)
    then show ?thesis using own Drain_Err by (intro own_by_group [OF ok]) auto
  next
    case Stopper_Call
    then obtain n where n: "t_stopper s = S_Call n"
      and on: "on_group n Call_Stop (s\<lparr>t_stopper := S_Await n\<rparr>) = Some s'"
      using act by (auto simp: stopper_call_def split: stopper_pc.splits)
    have "n \<noteq> HttpServers" using n pcs by (auto simp: pcs_ok_def)
    from on_group_own [OF ok _ on _ this] on_group_calm [OF on] n calm show ?thesis
      by (simp add: tm_work_def pc_work_def calm_def)
  next
    case Stopper_Start
    then obtain n where "t_stopper s = S_Await n" "on_group n Call_Start s = Some s'"
      using act by (auto simp: stopper_start_def split: stopper_pc.splits if_splits)
    moreover from this have "n \<noteq> HttpServers" using pcs by (auto simp: pcs_ok_def)
    ultimately show ?thesis by (intro own_by_group [OF ok]) auto
  next
    case Stopper_Done
    then obtain n where n: "t_stopper s = S_Await n" "s' = s\<lparr>t_stopper := after_stop n\<rparr>"
      using act by (auto simp: stopper_done_def split: stopper_pc.splits if_splits)
    moreover have "n \<noteq> HttpServers" using n(1) pcs by (auto simp: pcs_ok_def)
    ultimately show ?thesis using place_after [of n] calm
      by (intro own_by_pc [OF ok]) (auto simp: pc_work_def calm_def)
  next
    case Stopper_Cancel
    then show ?thesis using act calm
      by (intro own_by_pc [OF ok]) (auto simp: stopper_cancel_def pc_work_def calm_def split: if_splits)
  next
    case (Cache_Check i synced)
    then have "on_group Caches (Check_Result i True) s = Some s'"
      using act own by (auto simp: cache_check_def split: if_splits)
    then show ?thesis by (intro own_by_group [OF ok]) auto
  next
    case (Group n e)
    then have "on_group n e s = Some s'" "group_alone s n e" using act by (simp_all split: if_splits)
    then show ?thesis using own Group by (intro own_by_group [OF ok]) auto
  qed (use own in simp_all)
qed

lemma stopping_ok_step:
  assumes ok: "stopping_ok s" and own: "tm_own ev" and step: "tm_step s ev = Some s'"
  shows "stopping_ok s'"
  using tm_own_step [OF assms] tm_ok_step [OF _ step] ok by (auto simp: stopping_ok_def calm_def)

subsection \<open>Progress\<close>

text \<open>The event of the task manager that is a given event of the group being stopped.\<close>

definition tm_event_of :: "tm \<Rightarrow> group_name \<Rightarrow> group_event \<Rightarrow> tm_event" where
  "tm_event_of s n ev = (case ev of
     Call_Start \<Rightarrow> Stopper_Start
   | Runnable_Error i \<Rightarrow> Drain_Err n ev
   | Reconcile_Drop \<Rightarrow> Drain_Err n ev
   | Check_Result i ready \<Rightarrow> (if n = Caches \<and> i \<in> set (t_caches s) then Cache_Check i ready else Group n ev)
   | _ \<Rightarrow> Group n ev)"

lemma stopping_group_goes_on:
  assumes ok: "stopping_ok s" and drain: "t_drain s = D_Loop" and n: "t_stopper s = S_Await n"
    and own: "own_event ev" and step: "group_step (t_group s n) ev = Some g"
  shows "tm_own (tm_event_of s n ev) \<and> (\<exists>s'. tm_step s (tm_event_of s n ev) = Some s')"
proof -
  have crash: "t_crash s = None" "\<not> group_panicked s"
    using ok not_group_panicked [OF ok] by (simp_all add: stopping_ok_def)
  have on: "on_group n ev s = Some (s\<lparr>t_group := (t_group s)(n := g)\<rparr>)"
    using step by (simp add: on_group_def)
  have r: "group_rel (t_group s n) ev g" using group_step_rel [OF step] by blast
  have stops: "stops_ok s" using ok by (simp add: stopping_ok_def tm_ok_def)
  then have begun: "g_stop (t_group s n) \<noteq> Not_Stopped"
    using n by (cases n) (auto simp: stops_ok_def stop_of_def)
  have ph: "phases_ok (t_group s n)" by (rule calm_group(3) [OF ok])
  show ?thesis
  proof (cases ev)
    case Call_Start
    then have "g_start (t_group s n) = Not_Started"
      using step by (auto simp: group_step_def Start_begin_def split: if_splits)
    with ph begun have "g_stop (t_group s n) = Stop_Starting"
      by (cases "g_stop (t_group s n)") (auto simp: phases_ok_def)
    then show ?thesis using Call_Start on n crash
      by (simp add: tm_event_of_def tm_step_def stopper_start_def)
  next
    case Call_Stop
    then show ?thesis using step begun by (auto simp: group_step_def Stop_begin_def split: if_splits)
  next
    case (Check_Result i ready)
    moreover have "i \<in> set (g_checking (t_group s n))"
      using step Check_Result by (auto simp: group_step_def check_result_def split: if_splits)
    ultimately show ?thesis using on own crash
      by (auto simp: tm_event_of_def tm_step_def cache_check_def)
  qed (use own on crash drain in \<open>auto simp: tm_event_of_def tm_step_def drain_err_def\<close>)
qed

lemma shutdown_goes_on:
  assumes ok: "stopping_ok s" and going: "t_main s \<noteq> M_Returned"
  shows "\<exists>ev s'. tm_own ev \<and> tm_step s ev = Some s'"
proof -
  have crash: "t_crash s = None" "\<not> group_panicked s"
    using ok not_group_panicked [OF ok] by (simp_all add: stopping_ok_def)
  have pcs: "pcs_ok s" and stops: "stops_ok s" using ok by (simp_all add: stopping_ok_def tm_ok_def)
  show ?thesis
  proof (cases "t_main s = M_Shutdown")
    case True
    then show ?thesis using crash
      by (intro exI [of _ Shutdown_Begin]) (simp add: tm_step_def shutdown_begin_def)
  next
    case False
    then have main: "t_main s = M_Await_Shutdown"
      using ok going by (cases "t_main s") (auto simp: stopping_ok_def)
    then have drain: "t_drain s = D_Close \<or> t_drain s = D_Loop"
      using pcs by (cases "t_drain s") (auto simp: pcs_ok_def)
    show ?thesis
    proof (cases "t_drain s = D_Close")
      case True
      then show ?thesis using crash
        by (intro exI [of _ Drain_Close]) (simp add: tm_step_def drain_close_def Let_def)
    next
      case False
      with drain have drain: "t_drain s = D_Loop" by simp
      show ?thesis
      proof (cases "t_stopper s")
        case S_Idle
        then show ?thesis using pcs main by (simp add: pcs_ok_def)
      next
        case (S_Call n)
        then have "g_stop (t_group s n) = Not_Stopped"
          using stops by (cases n) (auto simp: stops_ok_def stop_of_def)
        then have "\<exists>s'. on_group n Call_Stop (s\<lparr>t_stopper := S_Await n\<rparr>) = Some s'"
          using calm_group(1) [OF ok] by (simp add: on_group_def group_step_def Stop_begin_def)
        then show ?thesis using crash S_Call
          by (intro exI [of _ Stopper_Call]) (simp add: tm_step_def stopper_call_def)
      next
        case (S_Await n)
        show ?thesis
        proof (cases "g_stop (t_group s n) = Stop_Done")
          case True
          then show ?thesis using crash S_Await
            by (intro exI [of _ Stopper_Done]) (simp add: tm_step_def stopper_done_def)
        next
          case False
          then obtain ev g where "own_event ev" "group_step (t_group s n) ev = Some g"
            using stop_goes_on [OF calm_group(2) [OF ok]] by blast
          then show ?thesis using stopping_group_goes_on [OF ok drain S_Await] by blast
        qed
      next
        case S_Cancel
        then show ?thesis using crash
          by (intro exI [of _ Stopper_Cancel]) (simp add: tm_step_def stopper_cancel_def)
      next
        case S_Ended
        then have "t_shutdownCtx s \<noteq> Ctx_Live" using pcs by (simp add: pcs_ok_def)
        then show ?thesis using crash main
          by (intro exI [of _ Shutdown_End]) (simp add: tm_step_def shutdown_end_def)
      qed
    qed
  qed
qed

interpretation shutdown: progressing_machine tm_step stopping_ok tm_own tm_work "\<lambda>s. t_main s = M_Returned"
proof
  show "stopping_ok s \<Longrightarrow> tm_own ev \<Longrightarrow> tm_step s ev = Some s' \<Longrightarrow> stopping_ok s'" for s ev s'
    by (rule stopping_ok_step)
  show "stopping_ok s \<Longrightarrow> tm_own ev \<Longrightarrow> tm_step s ev = Some s' \<Longrightarrow> tm_work s' < tm_work s" for s ev s'
    using tm_own_step by blast
  show "stopping_ok s \<Longrightarrow> t_main s \<noteq> M_Returned \<Longrightarrow> \<exists>ev s'. tm_own ev \<and> tm_step s ev = Some s'" for s
    by (rule shutdown_goes_on)
qed

subsection \<open>The shutdown completes\<close>

text \<open>C18: From every state of the task manager whose \<^verbatim>\<open>Start\<close> has ended or is shutting down, with the
  reader open, the timeout not expired and no call of \<^verbatim>\<open>Add\<close> in progress, the goroutines take at
  most \<open>tm_work\<close> further steps, and when they can take no more, the shutdown has returned without
  an error.\<close>

theorem shutdown_completes:
  assumes "tm_run (NewTaskManager nc) es = Some s"
    and "t_main s = M_Shutdown \<or> in_shutdown (t_main s)"
    and "t_rd s \<noteq> R_Nil" "t_crash s = None" "t_shutdownCtx s \<noteq> Ctx_Expired"
    and "\<And>n. no_adds (t_group s n)"
    and "list_all tm_own es'" "tm_run s es' = Some s'"
  shows "length es' \<le> tm_work s \<and>
    ((\<forall>ev. tm_own ev \<longrightarrow> tm_step s' ev = None) \<longrightarrow> t_main s' = M_Returned \<and> \<not> t_shutdown_err s')"
proof -
  have ok: "stopping_ok s"
    using tm_run_ok [OF assms(1)] assms(2-6) by (simp add: stopping_ok_def)
  have ok': "stopping_ok s'" by (rule shutdown.inv_run [OF ok assms(7,8)])
  have "length es' \<le> tm_work s" using shutdown.run_bounded [OF ok assms(7,8)] by simp
  moreover have "t_main s' = M_Returned \<and> \<not> t_shutdown_err s'"
    if "\<forall>ev. tm_own ev \<longrightarrow> tm_step s' ev = None"
  proof -
    have "t_main s' = M_Returned" using shutdown.stuck_finished [OF ok assms(7,8)] that by blast
    with ok' show ?thesis by (auto simp: stopping_ok_def tm_ok_def pcs_ok_def)
  qed
  ultimately show ?thesis by blast
qed

lemma tm_going_down_run: "tm_run tm_stopping going_down = Some tm_down"
  using tm_stopping_run tm_down_run
  by (simp add: run_steps_append [of tm_step "NewTaskManager True" "going_up @ signalled_down" going_down,
      unfolded append_assoc])

theorem shutdown_completes_witness:
  "length going_down \<le> tm_work tm_stopping \<and> t_main tm_down = M_Returned"
proof -
  have "length going_down \<le> tm_work tm_stopping \<and>
    ((\<forall>ev. tm_own ev \<longrightarrow> tm_step tm_down ev = None) \<longrightarrow> t_main tm_down = M_Returned \<and> \<not> t_shutdown_err tm_down)"
  proof (rule shutdown_completes [OF tm_stopping_run _ _ _ _ _ _ tm_going_down_run])
    show "t_main tm_stopping = M_Shutdown \<or> in_shutdown (t_main tm_stopping)"
      "t_rd tm_stopping \<noteq> R_Nil" "t_crash tm_stopping = None" "t_shutdownCtx tm_stopping \<noteq> Ctx_Expired"
      "list_all tm_own going_down" by code_simp+
    have "no_adds (t_group tm_stopping BpfPrograms)" "no_adds (t_group tm_stopping Caches)"
      "no_adds (t_group tm_stopping Pumps)" "no_adds (t_group tm_stopping HttpServers)" by code_simp+
    then show "no_adds (t_group tm_stopping n)" for n by (cases n) simp_all
  qed
  moreover have "t_main tm_down = M_Returned" by code_simp
  ultimately show ?thesis by blast
qed

subsection \<open>No reader\<close>

text \<open>Without a reader the goroutine that reads the errors does not get past the close.\<close>

definition unread :: "bool \<Rightarrow> tm \<Rightarrow> bool" where
  "unread nc s \<longleftrightarrow> t_nilClose s = nc \<and>
     (nc \<and> t_rd s = R_Nil \<longrightarrow> t_drain s = D_Idle \<or> t_drain s = D_Close) \<and>
     (t_main s = M_Add_Cache \<or> t_main s = M_New_Reader \<longrightarrow> t_rd s = R_Nil) \<and>
     (t_ret s = Some Reader_Failed \<longrightarrow>
        t_rd s = R_Nil \<and> (t_main s = M_Shutdown \<or> in_shutdown (t_main s)))"

definition nil_fields :: "tm \<Rightarrow> bool \<times> reader \<times> drain_pc \<times> main_pc \<times> tm_error option" where
  "nil_fields s = (t_nilClose s, t_rd s, t_drain s, t_main s, t_ret s)"

lemma unread_cong: "nil_fields s' = nil_fields s \<Longrightarrow> unread nc s \<Longrightarrow> unread nc s'"
  by (simp add: unread_def nil_fields_def)

lemma nil_on_group: "on_group n ev s = Some s' \<Longrightarrow> nil_fields s' = nil_fields s"
  by (auto dest!: on_groupD simp: nil_fields_def)

lemma nil_AddTask: "AddTask ty s = Some s' \<Longrightarrow> nil_fields s' = nil_fields s"
  by (auto simp: AddTask_def nil_fields_def dest!: on_groupD split: option.splits if_splits)

lemma nil_add_to: "add_to ty s = Some (ok, s') \<Longrightarrow> nil_fields s' = nil_fields s"
  by (auto simp: add_to_def Let_def dest!: nil_on_group nil_AddTask split: option.splits if_splits)

lemma nil_main_add:
  assumes "main_add ty pc s = Some s'"
  shows "\<exists>s1. nil_fields s1 = nil_fields s \<and>
    (s' = s1\<lparr>t_main := pc\<rparr> \<or> s' = s1\<lparr>t_ret := Some Add_Failed, t_main := M_Shutdown\<rparr>)"
proof -
  obtain ok s1 where "add_to ty s = Some (ok, s1)"
    using assms by (auto simp: main_add_def split: option.splits)
  with assms nil_add_to [OF this] show ?thesis
    by (cases ok) (auto simp: main_add_def)
qed

lemma sends_error_not_reader: "sends_error n ev \<noteq> Some Reader_Failed"
  by (cases ev) simp_all

lemmas unread_unfold = unread_def nil_fields_def

lemma unread_step:
  assumes "unread nc s" "tm_step s ev = Some s'"
  shows "unread nc s'"
proof -
  have act: "tm_act ev s = Some s'" using assms(2) by (simp add: tm_step_def split: if_splits)
  have keep: "unread nc s'" if "nil_fields s' = nil_fields s" using unread_cong [OF that assms(1)] .
  show ?thesis
  proof (cases ev)
    case Main_Add_Cache
    with act have "t_main s = M_Add_Cache" "main_add informerCache M_New_Reader s = Some s'"
      by (simp_all split: if_splits)
    moreover from this(2) obtain s1 where "nil_fields s1 = nil_fields s"
        "s' = s1\<lparr>t_main := M_New_Reader\<rparr> \<or> s' = s1\<lparr>t_ret := Some Add_Failed, t_main := M_Shutdown\<rparr>"
      by (rule nil_main_add [THEN exE]) blast
    ultimately show ?thesis using assms(1) by (elim disjE) (simp_all add: unread_unfold)
  next
    case Main_Add_Pump
    with act have "t_main s = M_Add_Pump" "main_add eventPump (M_Start Pumps) s = Some s'"
      by (simp_all split: if_splits)
    moreover from this(2) obtain s1 where "nil_fields s1 = nil_fields s"
        "s' = s1\<lparr>t_main := M_Start Pumps\<rparr> \<or> s' = s1\<lparr>t_ret := Some Add_Failed, t_main := M_Shutdown\<rparr>"
      by (rule nil_main_add [THEN exE]) blast
    ultimately show ?thesis using assms(1) by (elim disjE) (simp_all add: unread_unfold)
  next
    case Main_Call
    with act obtain n s1 where "t_main s = M_Start n" "nil_fields s1 = nil_fields s"
        "s' = s1\<lparr>t_main := M_Await n\<rparr>"
      by (auto simp: main_call_def dest: nil_on_group split: main_pc.splits option.splits if_splits)
    with assms(1) show ?thesis by (auto simp: unread_unfold)
  next
    case Main_Started
    with act obtain n where "t_main s = M_Await n"
        "s' = s\<lparr>t_ret := Some Start_Failed, t_main := M_Shutdown\<rparr> \<or> s' = s\<lparr>t_main := after_start n\<rparr>"
      by (auto simp: main_started_def split: main_pc.splits if_splits)
    with assms(1) show ?thesis by (cases n) (auto simp: unread_def)
  next
    case (Add_Task ty)
    with act show ?thesis by (auto intro: keep nil_AddTask)
  next
    case (Main_Err n e)
    with act obtain err where "sends_error n e = Some err" "t_main s = M_Select"
        "on_group n e (s\<lparr>t_ret := Some err, t_main := M_Shutdown\<rparr>) = Some s'"
      by (auto simp: main_err_def split: option.splits if_splits)
    moreover from this have "err \<noteq> Reader_Failed" using sends_error_not_reader [of n e] by auto
    ultimately show ?thesis using assms(1) by (auto simp: unread_def dest!: on_groupD)
  next
    case (Drain_Err n e)
    with act show ?thesis by (auto simp: drain_err_def intro: keep nil_on_group split: if_splits)
  next
    case Drain_Close
    with act assms(1) show ?thesis
      by (auto simp: drain_close_def unread_def Let_def split: if_splits)
  next
    case (Cache_Check i synced)
    with act have "nil_fields s' = nil_fields s"
      by (auto simp: cache_check_def nil_fields_def dest: on_groupD split: if_splits)
    then show ?thesis by (rule keep)
  next
    case Stopper_Call
    with act have "nil_fields s' = nil_fields s"
      by (auto simp: stopper_call_def nil_fields_def dest!: on_groupD split: stopper_pc.splits)
    then show ?thesis by (rule keep)
  next
    case Stopper_Start
    with act show ?thesis
      by (auto simp: stopper_start_def intro: keep nil_on_group split: if_splits stopper_pc.splits)
  next
    case (Group n e)
    with act show ?thesis by (auto intro: keep nil_on_group split: if_splits)
  next
    case (Main_New_Reader ok)
    with act assms(1) show ?thesis by (cases ok) (auto simp: unread_def split: if_splits)
  next
    case Main_Ctx_Done
    with act assms(1) show ?thesis by (auto simp: unread_def split: if_splits)
  next
    case Shutdown_Begin
    with act assms(1) show ?thesis by (auto simp: unread_def shutdown_begin_def split: if_splits)
  next
    case Shutdown_Timeout
    with act assms(1) show ?thesis by (auto simp: unread_def shutdown_timeout_def split: if_splits)
  next
    case Shutdown_End
    with act assms(1) show ?thesis by (auto simp: unread_def shutdown_end_def split: if_splits)
  next
    case Drain_End
    with act have "t_drain s = D_Loop" "s' = s\<lparr>t_drain := D_Ended\<rparr>" by (simp_all split: if_splits)
    with assms(1) show ?thesis by (simp add: unread_def)
  next
    case Stopper_Done
    with act have "nil_fields s' = nil_fields s"
      by (auto simp: stopper_done_def nil_fields_def split: if_splits stopper_pc.splits)
    then show ?thesis by (rule keep)
  next
    case Stopper_Cancel
    with act have "nil_fields s' = nil_fields s"
      by (auto simp: stopper_cancel_def nil_fields_def split: if_splits)
    then show ?thesis by (rule keep)
  next
    case Signal
    with act have "nil_fields s' = nil_fields s" by (auto simp: nil_fields_def split: if_splits)
    then show ?thesis by (rule keep)
  qed
qed

interpretation unread: machine_invariant tm_step "unread nc" "\<lambda>ev. True"
  by unfold_locales (rule unread_step)





end
