(* ===== verification/Task_Manager_Startup.thy ===== *)
theory Task_Manager_Startup
  imports Task_Manager_Progress
begin

text \<open>
  The task manager becomes ready: with a reader, informers that get in sync and no signal, its
  goroutines bring it from its creation to the wait for the signal. The events counted are
  theirs and those of calls of \<^verbatim>\<open>Add\<close> that have begun.
\<close>

fun up_event :: "tm_event \<Rightarrow> bool" where
  "up_event Main_Add_Cache = True"
| "up_event (Main_New_Reader ok) = ok"
| "up_event Main_Add_Pump = True"
| "up_event Main_Call = True"
| "up_event Main_Started = True"
| "up_event (Cache_Check i synced) = synced"
| "up_event (Group n ev) = own_event ev"
| "up_event ev = False"

text \<open>What is left of \<^verbatim>\<open>Start\<close>; adding a runnable gives its group six steps of work.\<close>

fun up_work :: "main_pc \<Rightarrow> nat" where
  "up_work M_Add_Cache = 30"
| "up_work M_New_Reader = 20"
| "up_work M_Add_Pump = 19"
| "up_work (M_Start n) = 2 * (2 - place n) + 3"
| "up_work (M_Await n) = 2 * (2 - place n) + 2"
| "up_work pc = 0"

definition up_total :: "tm \<Rightarrow> nat" where
  "up_total s = groups_work s + up_work (t_main s)"

fun early :: "main_pc \<Rightarrow> bool" where
  "early M_Add_Cache = True"
| "early M_New_Reader = True"
| "early M_Add_Pump = True"
| "early pc = False"

definition starting_ok :: "tm \<Rightarrow> bool" where
  "starting_ok s \<longleftrightarrow> tm_ok s \<and> t_crash s = None \<and> t_main s \<noteq> M_Shutdown \<and> \<not> in_shutdown (t_main s) \<and>
     (early (t_main s) \<longrightarrow> (\<forall>n. g_start (t_group s n) = Not_Started)) \<and>
     (\<forall>n. t_main s = M_Await n \<longrightarrow> g_start (t_group s n) \<noteq> Not_Started)"

lemma starting_group:
  assumes "starting_ok s"
  shows "g_panic (t_group s n) = None" "none_failed (t_group s n)" "\<not> g_stopped (t_group s n)"
    "g_stop (t_group s n) \<noteq> Stop_Done" "\<not> g_retErr (t_group s n)" "group_ok (t_group s n)"
proof -
  have pcs: "pcs_ok s" and stops: "stops_ok s" and live: "\<not> in_shutdown (t_main s)"
    and m: "member_ok (t_shutdownCtx s) n (t_group s n)"
    using assms by (simp_all add: starting_ok_def tm_ok_def)
  have idle: "t_stopper s = S_Idle" "t_shutdownCtx s = Ctx_Live"
    using pcs live by (auto simp: pcs_ok_def)
  then have st: "g_stop (t_group s n) = Not_Stopped"
    using stops m by (cases n) (auto simp: stops_ok_def stop_of_def member_ok_def new_group_fields)
  show ok: "group_ok (t_group s n)" using m by (simp add: member_ok_def)
  show "\<not> g_retErr (t_group s n)" "none_failed (t_group s n)"
    using m idle by (simp_all add: member_ok_def none_failed_def)
  show "g_stop (t_group s n) \<noteq> Stop_Done" "\<not> g_stopped (t_group s n)"
    using st ok by (auto simp: group_ok_def phases_ok_def)
  show "g_panic (t_group s n) = None"
    by (rule no_panic_before_stop_done [OF ok]) (simp add: st)
qed

lemma starting_calm: "starting_ok s \<Longrightarrow> \<not> group_panicked s"
  using starting_group(1) by (simp add: group_panicked_def)

subsection \<open>Adding before the start\<close>

text \<open>An \<^verbatim>\<open>Add\<close> on a group that has not started goes through without waiting.\<close>

lemma add_before_start:
  assumes ok: "group_ok g" and p: "g_panic g = None" and st: "g_start g = Not_Started" "\<not> g_stopped g"
  defines "i \<equiv> g_next g"
  defines "g' \<equiv> g\<lparr>g_next := Suc i, g_startQueue := g_startQueue g @ [i]\<rparr>"
  obtains g1 g2 where "group_step g Call_Add = Some g1" "group_step g1 (Add_Check_Stop i) = Some g2"
    "i \<notin> set (g_rejected g2)" "group_step g2 (Add_Check_Start i) = Some g'"
    "group_work g' = group_work g + 6"
proof -
  have fresh: "i \<notin> set (placed g)"
  proof
    assume "i \<in> set (placed g)"
    then have "i \<in># mset [0..<g_next g]"
      using ok by (simp add: group_ok_def conserved_def flip: set_mset_mset)
    then show False by (simp add: i_def)
  qed
  then have new: "i \<notin> set (g_check_stop g)" "i \<notin> set (g_check_start g)" "i \<notin> set (g_rejected g)"
    by (simp_all add: placed_def)
  let ?g1 = "g\<lparr>g_check_stop := g_check_stop g @ [i], g_next := Suc i\<rparr>"
  let ?g2 = "g\<lparr>g_next := Suc i, g_check_start := g_check_start g @ [i]\<rparr>"
  have idle: "\<not> g_started g" using ok st by (simp add: group_ok_def phases_ok_def)
  have out: "remove1 i (xs @ [i]) = xs" if "i \<notin> set xs" for xs
    using that by (simp add: remove1_append)
  have "group_step g Call_Add = Some ?g1" using p by (simp add: group_step_def i_def)
  moreover have "group_step ?g1 (Add_Check_Stop i) = Some ?g2"
    using p st new out by (simp add: group_step_def Add_check_stop_def Let_def)
  moreover have "group_step ?g2 (Add_Check_Start i) = Some g'"
    using p st idle new out by (simp add: group_step_def Add_check_start_def Let_def start_locked_def g'_def)
  moreover have "group_work g' = group_work g + 6"
    using st by (simp add: group_work_def g'_def unsent_def)
  ultimately show thesis using that new by simp
qed

lemma on_group_eq:
  "group_step (t_group s n) ev = Some g \<Longrightarrow> on_group n ev s = Some (s\<lparr>t_group := (t_group s)(n := g)\<rparr>)"
  by (simp add: on_group_def)

lemma add_to_starting:
  assumes ok: "starting_ok s" and e: "early (t_main s)" and ty: "runnables_Add ty = Some Caches"
  shows "\<exists>s'. add_to ty s = Some (True, s') \<and> groups_work s' = groups_work s + 6 \<and>
    (\<forall>n. g_start (t_group s' n) = Not_Started) \<and> t_crash s' = None"
proof -
  let ?g = "t_group s Caches" and ?i = "g_next (t_group s Caches)"
  let ?g' = "?g\<lparr>g_next := Suc ?i, g_startQueue := g_startQueue ?g @ [?i]\<rparr>"
  have st: "g_start (t_group s n) = Not_Started" for n using ok e by (simp add: starting_ok_def)
  obtain g1 g2 where g: "group_step ?g Call_Add = Some g1" "group_step g1 (Add_Check_Stop ?i) = Some g2"
    "?i \<notin> set (g_rejected g2)" "group_step g2 (Add_Check_Start ?i) = Some ?g'"
    "group_work ?g' = group_work ?g + 6"
    using add_before_start [OF starting_group(6,1) [OF ok] st starting_group(3) [OF ok]] by metis
  obtain s0 where s0: "AddTask ty s = on_group Caches Call_Add s0" "t_group s0 = t_group s"
    "t_crash s0 = t_crash s"
    using ty by (cases "\<not> implements ty bpfRunner \<and> implements ty hasCache") (auto simp: AddTask_def)
  let ?s1 = "s0\<lparr>t_group := (t_group s)(Caches := g1)\<rparr>"
  let ?s2 = "s0\<lparr>t_group := (t_group s)(Caches := g2)\<rparr>"
  let ?s3 = "s0\<lparr>t_group := (t_group s)(Caches := ?g')\<rparr>"
  have "AddTask ty s = Some ?s1" using on_group_eq [of s0 Caches Call_Add g1] g(1) s0 by simp
  moreover have "on_group Caches (Add_Check_Stop ?i) ?s1 = Some ?s2"
    using on_group_eq [of ?s1 Caches _ g2] g(2) by simp
  moreover have "on_group Caches (Add_Check_Start ?i) ?s2 = Some ?s3"
    using on_group_eq [of ?s2 Caches _ ?g'] g(4) by simp
  ultimately have "add_to ty s = Some (True, ?s3)"
    using ty g(3) by (simp add: add_to_def Let_def)
  moreover have "groups_work ?s3 = groups_work s + 6" using g(5) by (simp add: groups_work_def)
  moreover have "\<forall>n. g_start (t_group ?s3 n) = Not_Started" using st by simp
  moreover have "t_crash ?s3 = None" using ok s0(3) by (simp add: starting_ok_def)
  ultimately show ?thesis by blast
qed

subsection \<open>Steps\<close>

lemma up_on_group:
  assumes ok: "starting_ok s" and on: "on_group n ev s = Some s'" and own: "own_event ev"
    and n: "ev \<in> {Call_Add, Call_Start, Call_Stop} \<Longrightarrow> n \<noteq> HttpServers"
  shows "groups_work s' < groups_work s"
proof -
  obtain g where g: "group_step (t_group s n) ev = Some g" "s' = s\<lparr>t_group := (t_group s)(n := g)\<rparr>"
    using on_groupD [OF on] by blast
  have "n \<noteq> HttpServers"
  proof
    assume http: "n = HttpServers"
    then have "t_group s n = newRunnableGroup" using ok by (simp add: starting_ok_def tm_ok_def member_ok_def)
    then show False using idle_group [of ev] n http g(1) by auto
  qed
  moreover have "group_work g < group_work (t_group s n)"
    using group_work_rel [OF _ own _ starting_group(1) [OF ok]] group_step_rel [OF g(1)]
      starting_group(6) [OF ok, of n] by (simp add: group_ok_def)
  ultimately show ?thesis using g(2) by (cases n) (auto simp: groups_work_def)
qed

lemma start_kept_rel:
  "group_rel g ev g' \<Longrightarrow> ev \<noteq> Call_Start \<Longrightarrow> g_start g' = Not_Started \<longleftrightarrow> g_start g = Not_Started"
  by (induction rule: group_rel.induct) auto

lemma up_on_group_starting:
  assumes ok: "starting_ok s" and on: "on_group n ev s = Some s'" and ev: "ev \<noteq> Call_Start"
    and step: "tm_step s e = Some s'"
  shows "starting_ok s'"
proof -
  obtain g where g: "group_step (t_group s n) ev = Some g" "s' = s\<lparr>t_group := (t_group s)(n := g)\<rparr>"
    using on_groupD [OF on] by blast
  have "g_start g = Not_Started \<longleftrightarrow> g_start (t_group s n) = Not_Started"
    using start_kept_rel [OF _ ev] group_step_rel [OF g(1)] by blast
  then show ?thesis
    using g(2) ok tm_ok_step [OF _ step] by (auto simp: starting_ok_def)
qed

lemma up_after: "n \<noteq> HttpServers \<Longrightarrow> up_work (after_start n) < 2 * (2 - place n) + 2"
  by (cases n) auto

lemma after_start_starting:
  "after_start n \<noteq> M_Shutdown" "\<not> early (after_start n)"
  by (cases n; simp)+

lemma up_step:
  assumes ok: "starting_ok s" and up: "up_event ev" and step: "tm_step s ev = Some s'"
  shows "up_total s' < up_total s \<and> starting_ok s'"
proof -
  have act: "tm_act ev s = Some s'" using step by (simp add: tm_step_def split: if_splits)
  have tm: "tm_ok s'" using tm_ok_step [OF _ step] ok by (simp add: starting_ok_def)
  have pcs: "pcs_ok s" using ok by (simp add: starting_ok_def tm_ok_def)
  show ?thesis
  proof (cases ev)
    case Main_Add_Cache
    then have m: "t_main s = M_Add_Cache" and a: "main_add informerCache M_New_Reader s = Some s'"
      using act by (simp_all split: if_splits)
    have "runnables_Add informerCache = Some Caches" by code_simp
    from add_to_starting [OF ok _ this] obtain s1 where s1: "add_to informerCache s = Some (True, s1)"
      "groups_work s1 = groups_work s + 6" "\<forall>n. g_start (t_group s1 n) = Not_Started" "t_crash s1 = None"
      using m by auto
    then have "s' = s1\<lparr>t_main := M_New_Reader\<rparr>" using a by (simp add: main_add_def)
    then show ?thesis using s1 m tm by (simp add: up_total_def starting_ok_def groups_work_def)
  next
    case Main_Add_Pump
    then have m: "t_main s = M_Add_Pump" and a: "main_add eventPump (M_Start Pumps) s = Some s'"
      using act by (simp_all split: if_splits)
    have "runnables_Add eventPump = Some Caches" by code_simp
    from add_to_starting [OF ok _ this] obtain s1 where s1: "add_to eventPump s = Some (True, s1)"
      "groups_work s1 = groups_work s + 6" "t_crash s1 = None"
      using m by auto
    then have "s' = s1\<lparr>t_main := M_Start Pumps\<rparr>" using a by (simp add: main_add_def)
    then show ?thesis using s1 m tm by (simp add: up_total_def starting_ok_def groups_work_def)
  next
    case (Main_New_Reader b)
    then have "t_main s = M_New_Reader" "s' = s\<lparr>t_rd := R_Open, t_main := M_Add_Pump\<rparr>"
      using act up by (simp_all split: if_splits)
    then show ?thesis using ok tm by (simp add: up_total_def starting_ok_def groups_work_def)
  next
    case Main_Call
    then obtain n where n: "t_main s = M_Start n" using act by (auto simp: main_call_def split: main_pc.splits)
    then have h: "n \<noteq> HttpServers" using pcs by (auto simp: pcs_ok_def)
    show ?thesis
    proof (cases "g_start (t_group s n) = Not_Started")
      case True
      then obtain s1 where on: "on_group n Call_Start s = Some s1" and s': "s' = s1\<lparr>t_main := M_Await n\<rparr>"
        using act Main_Call n by (auto simp: main_call_def split: option.splits)
      have "groups_work s1 < groups_work s" by (rule up_on_group [OF ok on]) (use h in simp_all)
      moreover have "g_start (t_group s1 n) \<noteq> Not_Started" "t_crash s1 = t_crash s"
        using on by (auto simp: group_step_def Start_begin_def dest!: on_groupD split: if_splits)
      ultimately show ?thesis using s' n ok tm by (simp add: up_total_def starting_ok_def groups_work_def)
    next
      case False
      then have "s' = s\<lparr>t_main := M_Await n\<rparr>" using act Main_Call n by (simp add: main_call_def)
      then show ?thesis using False n ok tm by (simp add: up_total_def starting_ok_def groups_work_def)
    qed
  next
    case Main_Started
    then obtain n where n: "t_main s = M_Await n" using act by (auto simp: main_started_def split: main_pc.splits)
    then have h: "n \<noteq> HttpServers" using pcs by (auto simp: pcs_ok_def)
    have "s' = s\<lparr>t_main := after_start n\<rparr>"
      using act Main_Started n starting_group(5) [OF ok] by (simp add: main_started_def split: if_splits)
    then show ?thesis using n ok tm up_after [OF h] after_start_starting [of n]
      by (simp add: up_total_def starting_ok_def groups_work_def)
  next
    case (Cache_Check i synced)
    then have on: "on_group Caches (Check_Result i True) s = Some s'"
      using act up by (auto simp: cache_check_def split: if_splits)
    have "groups_work s' < groups_work s" by (rule up_on_group [OF ok on]) simp_all
    then show ?thesis using main_on_group [OF on] up_on_group_starting [OF ok on _ step]
      by (simp add: up_total_def)
  next
    case (Group n e)
    then have on: "on_group n e s = Some s'" and alone: "group_alone s n e"
      using act by (simp_all split: if_splits)
    then have "e \<notin> {Call_Add, Call_Start, Call_Stop}" by auto
    then have "groups_work s' < groups_work s" "e \<noteq> Call_Start"
      using up_on_group [OF ok on] up Group by auto
    then show ?thesis using main_on_group [OF on] up_on_group_starting [OF ok on _ step]
      by (simp add: up_total_def)
  qed (use up in simp_all)
qed

subsection \<open>Progress\<close>

lemma awaited_group_goes_on:
  assumes ok: "starting_ok s" and n: "t_main s = M_Await n"
    and ev: "serves_start ev" and step: "group_step (t_group s n) ev = Some g"
  shows "\<exists>e s'. up_event e \<and> tm_step s e = Some s'"
proof -
  have calm: "t_crash s = None" "\<not> group_panicked s"
    using ok starting_calm [OF ok] by (simp_all add: starting_ok_def)
  note on = on_group_eq [OF step]
  have alone: ?thesis if "group_alone s n ev"
    using that on calm serves_start_own [OF ev]
    by (intro exI [of _ "Group n ev"]) (simp add: tm_step_def)
  show ?thesis
  proof (cases ev)
    case Call_Start
    then have "g_start (t_group s n) = Not_Started"
      using step by (auto simp: group_step_def Start_begin_def split: if_splits)
    then show ?thesis using ok n by (simp add: starting_ok_def)
  next
    case Reconcile_Drop
    then obtain x where "g_reconcile (t_group s n) = Dropping x"
      using step by (auto simp: group_step_def reconcile_drop_def split: if_splits reconcile_pc.splits)
    then show ?thesis using starting_group(3,6) [OF ok, of n] by (auto simp: group_ok_def phases_ok_def)
  next
    case (Check_Result i ready)
    show ?thesis
    proof (cases "n = Caches \<and> i \<in> set (t_caches s)")
      case True
      moreover have "i \<in> set (g_checking (t_group s n))"
        using step Check_Result by (auto simp: group_step_def check_result_def split: if_splits)
      ultimately show ?thesis using on calm Check_Result ev
        by (intro exI [of _ "Cache_Check i True"]) (simp add: tm_step_def cache_check_def)
    qed (use alone Check_Result ev in simp)
  qed (use alone ev in simp_all)
qed

lemma up_goes_on:
  assumes ok: "starting_ok s" and "t_main s \<noteq> M_Select"
  shows "\<exists>ev s'. up_event ev \<and> tm_step s ev = Some s'"
proof -
  have calm: "t_crash s = None" "\<not> group_panicked s"
    using ok starting_calm [OF ok] by (simp_all add: starting_ok_def)
  have add: "\<exists>s'. main_add ty pc s = Some s'" if "early (t_main s)" "runnables_Add ty = Some Caches" for ty pc
    using add_to_starting [OF ok that] by (auto simp: main_add_def)
  show ?thesis
  proof (cases "t_main s")
    case M_Add_Cache
    moreover have "runnables_Add informerCache = Some Caches" by code_simp
    ultimately show ?thesis using add calm
      by (intro exI [of _ Main_Add_Cache]) (simp add: tm_step_def)
  next
    case M_New_Reader
    then show ?thesis using calm by (intro exI [of _ "Main_New_Reader True"]) (simp add: tm_step_def)
  next
    case M_Add_Pump
    moreover have "runnables_Add eventPump = Some Caches" by code_simp
    ultimately show ?thesis using add calm
      by (intro exI [of _ Main_Add_Pump]) (simp add: tm_step_def)
  next
    case (M_Start n)
    have "\<exists>s'. main_call s = Some s'"
      using M_Start starting_group(1) [OF ok, of n]
      by (auto simp: main_call_def on_group_def group_step_def Start_begin_def)
    then show ?thesis using calm by (intro exI [of _ Main_Call]) (simp add: tm_step_def)
  next
    case (M_Await n)
    show ?thesis
    proof (cases "g_start (t_group s n) = Start_Done")
      case True
      then show ?thesis using M_Await calm
        by (intro exI [of _ Main_Started]) (simp add: tm_step_def main_started_def)
    next
      case False
      then show ?thesis
        using start_goes_on [OF starting_group(2) [OF ok]] awaited_group_goes_on [OF ok M_Await] by blast
    qed
  qed (use assms in \<open>simp_all add: starting_ok_def\<close>)
qed

interpretation startup: progressing_machine tm_step starting_ok up_event up_total "\<lambda>s. t_main s = M_Select"
proof
  show "starting_ok s \<Longrightarrow> up_event ev \<Longrightarrow> tm_step s ev = Some s' \<Longrightarrow> starting_ok s'" for s ev s'
    using up_step by blast
  show "starting_ok s \<Longrightarrow> up_event ev \<Longrightarrow> tm_step s ev = Some s' \<Longrightarrow> up_total s' < up_total s" for s ev s'
    using up_step by blast
  show "starting_ok s \<Longrightarrow> t_main s \<noteq> M_Select \<Longrightarrow> \<exists>ev s'. up_event ev \<and> tm_step s ev = Some s'" for s
    by (rule up_goes_on)
qed

subsection \<open>Nothing is started early\<close>

definition unstarted :: "tm \<Rightarrow> bool" where
  "unstarted s \<longleftrightarrow> (\<forall>n. g_start (t_group s n) = Not_Started)"

lemma unstarted_same: "unstarted s \<Longrightarrow> t_group s' = t_group s \<Longrightarrow> unstarted s'"
  by (simp add: unstarted_def)

lemma unstarted_on_group:
  assumes "on_group n ev s1 = Some s'" "ev \<noteq> Call_Start" "t_group s1 = t_group s" "unstarted s"
  shows "unstarted s'"
proof -
  obtain g where g: "group_step (t_group s n) ev = Some g" "t_group s' = (t_group s)(n := g)"
    using on_groupD [OF assms(1)] assms(3) by auto
  then have "g_start g = Not_Started"
    using start_kept_rel [OF conjunct2 [OF group_step_rel [OF g(1)]] assms(2)] assms(4)
    by (simp add: unstarted_def)
  with g(2) assms(4) show ?thesis by (simp add: unstarted_def)
qed

lemma unstarted_AddTask: "AddTask ty s = Some s' \<Longrightarrow> unstarted s \<Longrightarrow> unstarted s'"
  by (auto simp: AddTask_def intro: unstarted_on_group split: option.splits if_splits)

lemma unstarted_add_to:
  assumes "add_to ty s = Some (ok, s')" "unstarted s"
  shows "unstarted s'"
proof (cases "runnables_Add ty")
  case None
  then show ?thesis using assms by (simp add: add_to_def)
next
  case (Some n)
  let ?i = "g_next (t_group s n)"
  obtain s1 s2 where s1: "AddTask ty s = Some s1" and s2: "on_group n (Add_Check_Stop ?i) s1 = Some s2"
    and s3: "s' = s2 \<or> on_group n (Add_Check_Start ?i) s2 = Some s'"
    using assms(1) Some by (auto simp: add_to_def Let_def split: option.splits if_splits)
  have "unstarted s2" using unstarted_on_group [OF s2 _ refl unstarted_AddTask [OF s1 assms(2)]] by simp
  then show ?thesis using s3 unstarted_on_group [of n "Add_Check_Start ?i" s2 s' s2] by auto
qed

lemma unstarted_main_add: "main_add ty pc s = Some s' \<Longrightarrow> unstarted s \<Longrightarrow> unstarted s'"
  by (auto simp: main_add_def dest!: unstarted_add_to split: option.splits if_splits
      intro: unstarted_same)

definition early_ok :: "tm \<Rightarrow> bool" where
  "early_ok s \<longleftrightarrow> pcs_ok s \<and> (early (t_main s) \<longrightarrow> unstarted s)"

lemma early_step:
  assumes pcs: "pcs_ok s" and act: "tm_act ev s = Some s'" and e: "early (t_main s')"
    and old: "early (t_main s) \<Longrightarrow> unstarted s"
  shows "unstarted s'"
proof (cases ev)
  case (Add_Task ty)
  then show ?thesis using act e old pcs_fields [OF pcs_AddTask] by (auto intro: unstarted_AddTask)
next
  case Main_Add_Cache
  then show ?thesis using act old by (auto intro: unstarted_main_add split: if_splits)
next
  case Main_Add_Pump
  then show ?thesis using act e by (auto dest!: pcs_main_add split: if_splits)
next
  case (Main_New_Reader ok)
  then have "unstarted s" "t_group s' = t_group s" using act old by (auto split: if_splits)
  then show ?thesis by (rule unstarted_same)
next
  case Main_Call
  then show ?thesis using act e by (auto simp: main_call_def split: main_pc.splits option.splits if_splits)
next
  case Main_Started
  then show ?thesis using act e after_start_starting
    by (auto simp: main_started_def split: main_pc.splits if_splits)
next
  case (Main_Err n x)
  then show ?thesis using act e
    by (auto simp: main_err_def dest!: main_on_group split: option.splits if_splits)
next
  case (Drain_Err n x)
  then have on: "on_group n x s = Some s'" and x: "x \<noteq> Call_Start"
    using act by (auto simp: drain_err_def split: if_splits)
  then show ?thesis using e old main_on_group [OF on] by (auto intro: unstarted_on_group)
next
  case Drain_Close
  then have "t_group s' = t_group s" "t_main s' = t_main s"
    using act by (auto simp: drain_close_def Let_def split: if_splits)
  then show ?thesis using e old unstarted_same by simp
next
  case Stopper_Call
  then obtain n where "t_stopper s = S_Call n" "on_group n Call_Stop (s\<lparr>t_stopper := S_Await n\<rparr>) = Some s'"
    using act by (auto simp: stopper_call_def split: stopper_pc.splits)
  then show ?thesis using e old main_on_group by (auto intro: unstarted_on_group)
next
  case Stopper_Start
  then obtain n where "t_stopper s = S_Await n" "on_group n Call_Start s = Some s'"
    using act by (auto simp: stopper_start_def split: stopper_pc.splits if_splits)
  then have "in_shutdown (t_main s')" using pcs main_on_group by (auto simp: pcs_ok_def)
  then show ?thesis using e by (cases "t_main s'") simp_all
next
  case Stopper_Done
  then have "t_group s' = t_group s" "t_main s' = t_main s"
    using act by (auto simp: stopper_done_def split: stopper_pc.splits if_splits)
  then show ?thesis using e old unstarted_same by simp
next
  case (Cache_Check i synced)
  then have "s' = s\<lparr>t_crash := Some Sync_Fatal\<rparr> \<or> on_group Caches (Check_Result i True) s = Some s'"
    using act by (auto simp: cache_check_def split: if_splits)
  then show ?thesis using e old main_on_group [of Caches _ s s'] unstarted_same [of s s']
      unstarted_on_group [of Caches "Check_Result i True" s s' s] by auto
next
  case (Group n x)
  then have on: "on_group n x s = Some s'" and x: "x \<noteq> Call_Start" using act by (auto split: if_splits)
  then show ?thesis using e old main_on_group [OF on] by (auto intro: unstarted_on_group)
qed (use act e old unstarted_same [of s s'] in \<open>auto simp: shutdown_begin_def shutdown_timeout_def
    shutdown_end_def stopper_cancel_def split: if_splits\<close>)

lemma early_ok_step: "early_ok s \<Longrightarrow> tm_step s ev = Some s' \<Longrightarrow> early_ok s'"
  using pcs_ok_step early_step by (auto simp: early_ok_def tm_step_def split: if_splits)

interpretation early: machine_invariant tm_step early_ok "\<lambda>ev. True"
  by unfold_locales (rule early_ok_step)

subsection \<open>The task manager gets ready\<close>

text \<open>C19: \<^verbatim>\<open>Start\<close> of the task manager gets ready: before its first step, with any calls of \<^verbatim>\<open>AddTask\<close>
  made or in progress, the goroutines can take at most \<open>up_total\<close> steps, and where they can take no
  more, the task manager waits for its signal.\<close>

theorem startup_completes:
  assumes "tm_run (NewTaskManager nc) es = Some s" "t_main s = M_Add_Cache" "t_crash s = None"
    and "list_all up_event es'" "tm_run s es' = Some s'"
  shows "length es' \<le> up_total s \<and>
    ((\<forall>ev. up_event ev \<longrightarrow> tm_step s' ev = None) \<longrightarrow> t_main s' = M_Select)"
proof -
  have "unstarted (NewTaskManager nc)"
    by (simp add: unstarted_def NewTaskManager_def newRunnables_def newRunnableGroup_def)
  then have "early_ok (NewTaskManager nc)" by (simp add: early_ok_def pcs_ok_init)
  then have "early_ok s" using early.inv_run [OF _ _ assms(1)] by (simp add: list_all_iff)
  then have ok: "starting_ok s"
    using tm_run_ok [OF assms(1)] assms(2,3) by (simp add: starting_ok_def early_ok_def unstarted_def)
  have "length es' \<le> up_total s" using startup.run_bounded [OF ok assms(4,5)] by simp
  then show ?thesis using startup.stuck_finished [OF ok assms(4,5)] by blast
qed

definition tm_added :: tm where
  "tm_added = the (tm_run (NewTaskManager True) (take 2 going_up))"

lemma tm_added_run: "tm_run (NewTaskManager True) (take 2 going_up) = Some tm_added"
  unfolding tm_added_def by (rule not_None_the) code_simp

lemma tm_added_up_run: "tm_run tm_added (drop 2 going_up) = Some tm_up"
  using tm_up_run tm_added_run run_steps_append [of tm_step "NewTaskManager True" "take 2 going_up" "drop 2 going_up"]
  by (simp only: append_take_drop_id option.case)

theorem startup_completes_witness:
  "length (drop 2 going_up) \<le> up_total tm_added \<and> t_main tm_up = M_Select"
proof -
  have "length (drop 2 going_up) \<le> up_total tm_added \<and>
    ((\<forall>ev. up_event ev \<longrightarrow> tm_step tm_up ev = None) \<longrightarrow> t_main tm_up = M_Select)"
  proof (rule startup_completes [OF tm_added_run _ _ _ tm_added_up_run])
    show "t_main tm_added = M_Add_Cache" "t_crash tm_added = None" "list_all up_event (drop 2 going_up)"
      by code_simp+
  qed
  moreover have "t_main tm_up = M_Select" by code_simp
  ultimately show ?thesis by blast
qed

end
