(* ===== verification/Cri_Client.thy ===== *)
theory Cri_Client
  imports Go_Tools
begin

text \<open>
  \<^verbatim>\<open>pkg/cri\<close>: which container runtime client a process gets. Each of the two files has a package
  variable that its \<^verbatim>\<open>init\<close> sets when the environment names its runtime; \<^verbatim>\<open>GetClient\<close> picks one
  of them. The clients and their connections are those of the Docker and containerd libraries:
  whether one can be created, and what it answers for a container, are arguments.
  \<^verbatim>\<open>klog.Fatal\<close> ends the process.
\<close>

text \<open>A client: the process of a container, if the runtime knows it. Docker reports an \<^verbatim>\<open>int\<close>,
  containerd a \<^verbatim>\<open>uint32\<close>.\<close>

datatype cri_client =
    DockerCRI "string \<Rightarrow> go_error + int"
  | ContainerdCRI "string \<Rightarrow> go_error + 32 word"

record cri_vars =
  dockerCRI :: "cri_client option"
  containerdCRI :: "cri_client option"

datatype fatal = Fatal string

definition init_docker ::
  "string \<Rightarrow> (string \<Rightarrow> go_error + int) option \<Rightarrow> cri_vars \<Rightarrow> fatal + cri_vars" where
  "init_docker env created v =
     (if env = Docker
      then (case created of
          None \<Rightarrow> Inl (Fatal ''unable to init a docker client'')
        | Some inspect \<Rightarrow> Inr (v\<lparr>dockerCRI := Some (DockerCRI inspect)\<rparr>))
      else Inr v)"

definition init_containerd ::
  "string \<Rightarrow> (string \<Rightarrow> go_error + 32 word) option \<Rightarrow> cri_vars \<Rightarrow> fatal + cri_vars" where
  "init_containerd env created v =
     (if env = Containerd
      then (case created of
          None \<Rightarrow> Inl (Fatal ''unable to init containerd client'')
        | Some tasks \<Rightarrow> Inr (v\<lparr>containerdCRI := Some (ContainerdCRI tasks)\<rparr>))
      else Inr v)"

definition GetDocker :: "cri_vars \<Rightarrow> fatal + cri_client" where
  "GetDocker v = (case dockerCRI v of
     None \<Rightarrow> Inl (Fatal ''uninitialized docker client'') | Some c \<Rightarrow> Inr c)"

definition GetContainerd :: "cri_vars \<Rightarrow> fatal + cri_client" where
  "GetContainerd v = (case containerdCRI v of
     None \<Rightarrow> Inl (Fatal ''uninitialized containerd client'') | Some c \<Rightarrow> Inr c)"

definition GetClient :: "string \<Rightarrow> cri_vars \<Rightarrow> fatal + cri_client" where
  "GetClient env v = (if env = Docker then GetDocker v else GetContainerd v)"

fun GetContainerPid :: "cri_client \<Rightarrow> string \<Rightarrow> go_error + int" where
  "GetContainerPid (DockerCRI inspect) iid = inspect iid"
| "GetContainerPid (ContainerdCRI tasks) iid = map_sum id uint (tasks iid)"

text \<open>The start of a process: both \<^verbatim>\<open>init\<close> functions, in the order of their files, and later the
  first use.\<close>

definition cri_start ::
  "string \<Rightarrow> (string \<Rightarrow> go_error + 32 word) option \<Rightarrow> (string \<Rightarrow> go_error + int) option \<Rightarrow>
     fatal + cri_client" where
  "cri_start env containerd docker =
     (case init_containerd env containerd \<lparr>dockerCRI = None, containerdCRI = None\<rparr> of
        Inl e \<Rightarrow> Inl e
      | Inr v \<Rightarrow> (case init_docker env docker v of
            Inl e \<Rightarrow> Inl e
          | Inr v \<Rightarrow> GetClient env v))"

text \<open>A process gets a client exactly when its environment names one of the two runtimes and that
  client could be created, and it is the client of the named runtime; with any other value, or
  none, it ends.\<close>

theorem cri_client_matches_environment:
  "cri_start env containerd docker = Inr c \<longleftrightarrow>
     (\<exists>inspect. env = Docker \<and> docker = Some inspect \<and> c = DockerCRI inspect) \<or>
     (\<exists>tasks. env = Containerd \<and> containerd = Some tasks \<and> c = ContainerdCRI tasks)"
  by (auto simp: cri_start_def init_docker_def init_containerd_def GetClient_def GetDocker_def
      GetContainerd_def Docker_def Containerd_def split: option.splits)

text \<open>A process number that containerd reports is not negative and fits the 32-bit key of the map
  \<^verbatim>\<open>clusters\<close>.\<close>

lemma containerd_pid_fits:
  "GetContainerPid (ContainerdCRI tasks) iid = Inr pid \<Longrightarrow> 0 \<le> pid \<and> uint (word_of_int pid :: 32 word) = pid"
  by (cases "tasks iid") auto

end
