(* ===== verification/Spec2Isabelle.thy ===== *)
theory Spec2Isabelle
  imports End_To_End Endian_H Helper_Defs_H Task_Manager_Startup Cri_Client
begin

text \<open>
  A verification library for eDGuard, a tool that audits the queries of MySQL servers running
  in Kubernetes pods with two eBPF probes.

  \<^bold>\<open>The program.\<close> \<^verbatim>\<open>mysqld_probe.c\<close> holds two programs that the kernel runs at the entry
  and at the return of the server's function \<^verbatim>\<open>dispatch_command\<close>. The entry probe looks the
  process up in the map \<^verbatim>\<open>clusters\<close>, fills the record of its CPU in \<^verbatim>\<open>var_holder\<close> from the
  server's memory at the offsets registered for the process, marks it as pending and stores it
  under the thread in \<^verbatim>\<open>thread_db_ctx_hash\<close>. The return probe completes a pending record with
  the results and the elapsed time, appends it to the queue \<^verbatim>\<open>db_ctx_queue\<close> and announces it on
  the perf map \<^verbatim>\<open>events\<close>. A Go program loads the probes, watches the pods of its node, registers
  and removes server processes in \<^verbatim>\<open>clusters\<close> (\<^verbatim>\<open>internal/task/bpf_runner\<close>), attaches the probes
  at the offset of the function, and prints a record of the queue for each event
  (\<^verbatim>\<open>internal/task/pump\<close>). Runner, pump and pod cache are goroutines that a task manager starts
  and stops in groups (\<^verbatim>\<open>internal/manager\<close>).

  \<^bold>\<open>Theories.\<close>
  \<^item> \<open>Prelude\<close>: byte encodings, C strings in buffers, shared lemma collections.
  \<^item> \<open>Common_H\<close>: \<^verbatim>\<open>headers/common.h\<close>, \<^verbatim>\<open>headers/mysql.h\<close>. \<open>Endian_H\<close>:
    \<^verbatim>\<open>headers/bpf_endian.h\<close>. \<open>Helpers_H\<close>: \<^verbatim>\<open>headers/bpf_helpers.h\<close>. \<open>Tracing_H\<close>:
    \<^verbatim>\<open>headers/bpf_tracing.h\<close>, one definition per branch of its conditionals.
    \<open>Helper_Defs_H\<close>: the prototypes of \<^verbatim>\<open>headers/bpf_helper_defs.h\<close> as a table, with the
    results, error codes, constants and helpers each comment names, and the calls of the
    printing macros against it.
  \<^item> \<open>Bpf_Maps\<close>: the map helpers the probes call, as those comments describe them, and the two
    interfaces (\<open>bounded_store\<close> with \<open>reliable_store\<close>, \<open>bounded_fifo\<close>) the later proofs use.
  \<^item> \<open>Mysqld_Probe\<close>: the records, maps and both probes of \<^verbatim>\<open>mysqld_probe.c\<close>, statement by
    statement; one record \<open>env\<close> holds what the kernel and the server supply to a run.
  \<^item> \<open>Probe_Facts\<close>: lemmas on one run, and the invariant \<open>state_ok\<close>. \<open>Probe_Runs\<close>: executions,
    a list of probe runs and user space operations in any order. \<open>Probe_Queue\<close>: the records
    over an execution. \<open>Probe_Content\<close>: the fields of a record. \<open>Probe_Spec\<close>: the abstract
    machine of query sessions and the proof that the maps implement it.
  \<^item> \<open>Record_Layout\<close>: the memory layout of the two structures both languages share
    (\<^verbatim>\<open>internal/generate/types.go\<close>): the bytes of a record at its C offsets with arbitrary
    padding, and the decoding by the Go declaration.
  \<^item> \<open>Go_Tools\<close>: \<^verbatim>\<open>pkg/tool\<close>. \<open>Bpf_Runner\<close>, \<open>Runner_Runs\<close>:
    \<^verbatim>\<open>internal/task/bpf_runner/mysql\<close> with \<^verbatim>\<open>internal/db\<close> and \<^verbatim>\<open>internal/bpf\<close>, and its
    executions. \<open>Go_Pump\<close>: \<^verbatim>\<open>internal/task/pump\<close>, a goroutine among the pushes of the probes
    and the end of its context, and the printing of a record.
  \<^item> \<open>Machine\<close>: runs of components whose goroutines interleave, with the interfaces
    \<open>machine_invariant\<close> and \<open>progressing_machine\<close> that carry an invariant or a measure from the
    steps to the runs. The runner, the pump, the groups and the task manager interpret them.
  \<^item> \<open>Runnable_Group\<close>: \<^verbatim>\<open>internal/manager/runnable_group.go\<close>. A state has the program counters of
    \<^verbatim>\<open>Start\<close>, \<^verbatim>\<open>reconcile\<close> and \<^verbatim>\<open>StopAndWait\<close> and, for every other kind of goroutine, the
    runnables it is at work for; one operation per stretch between two blocking points.
    \<open>Group_Facts\<close>: its invariant. \<open>Group_Runs\<close>: what holds over all interleavings.
    \<open>Group_Progress\<close>: the measure by which \<^verbatim>\<open>Start\<close> and \<^verbatim>\<open>StopAndWait\<close> return.
  \<^item> \<open>Task_Manager\<close>: \<^verbatim>\<open>runnable.go\<close> and \<^verbatim>\<open>task_manager.go\<close>: the type switch, \<^verbatim>\<open>Start\<close>,
    \<^verbatim>\<open>shutdown\<close> and its two goroutines over four groups. \<open>Task_Manager_Facts\<close>: the invariant,
    which lifts that of each group. \<open>Task_Manager_Runs\<close>, \<open>Task_Manager_Progress\<close>,
    \<open>Task_Manager_Startup\<close>: what ready means, the order and the completion of a shutdown, and
    that the task manager gets ready.
  \<^item> \<open>Cri_Client\<close>: \<^verbatim>\<open>pkg/cri\<close>, the choice of the container runtime.
  \<^item> \<open>End_To_End\<close>: from the pod to the printed record. \<open>Probe_Witnesses\<close>,
    \<open>Runner_Witnesses\<close>: concrete inputs.

  \<^bold>\<open>What is shown.\<close> For every interleaving of probe runs on any threads and CPUs with the
  operations of user space: a query of a traced process is reported once, with the data captured
  on its entry and the time until its return; nothing is reported that was not a query; records
  are neither reordered nor duplicated, and lost only when the queue of 5120 is full; every map
  stays within its bounds and every record well-formed; the maps implement a deterministic
  abstract machine exactly. For the boundary: the C layout has no gap between members, and a record
  arrives in Go, and a cluster in the kernel, field for field. For the pump: every sample prints
  one record in the order of the queue while the probes go on pushing, and it serves until its
  context ends. For the runner: its invariant, which pods it attaches, the round trip
  of a server through the map, and the situations in which its goroutines block each other. For
  the groups: no runnable is lost or started twice, \<^verbatim>\<open>Start\<close> waits for the checks of what was
  queued, \<^verbatim>\<open>StopAndWait\<close> for what runs, and both return unless a check fails. For the task
  manager: it gets ready, and only when its groups have started, it stops them one after the other,
  and its shutdown completes without the timeout and leaves nothing running. For the headers:
  argument order, register agreement, byte order, and calls that fit the prototypes.

  \<^bold>\<open>Bounds.\<close> Machine integers have the width of their C type; \<^verbatim>\<open>s64\<close> and \<^verbatim>\<open>s32\<close> values are
  words, read as signed only where they are printed. The sizes of the maps and arrays are the
  declared ones. No definition uses fuel: every recursion is structural or has a measure. The
  number of runnables, pods and goroutines is not bounded.

  \<^bold>\<open>Assumptions of the model.\<close> A run of a probe is one step. On one CPU the kernel does not
  run two programs of a probe at a time on the same per-CPU record, on two CPUs the runs touch
  different records and different threads. What a failing read leaves at each position of its
  destination, and whether the kernel refuses a store, are arguments; that a full hash map refuses
  a new key is the meaning of its \<^verbatim>\<open>max_entries\<close>. Whether \<^verbatim>\<open>Close\<close> of the perf library uses a
  nil receiver is an argument of the task manager. The layout follows the x86-64 rules. A step
  of a goroutine is the stretch between two operations that can block: the stretches of the
  source between them touch no state that another goroutine uses without the same lock. That a
  runnable returns once its context is cancelled is the contract of \<^verbatim>\<open>Runnable\<close>; what the
  scheduler picks is left open.

  \<^bold>\<open>What the model shows to go wrong.\<close> The entry probe reads the cluster name and the query
  length through kernel addresses with the helper for user addresses, so they are never
  recorded. The table of threads never shrinks, so once it is full a new thread is never
  reported. A failed registration stops the runner's loop for good, and a failed removal can
  stop loop and handler together. A restarted container stays registered. The pump prints the
  previous record again when it finds the queue empty. A group whose queued runnable fails its
  check can neither start nor stop, and the end of the context does not help; an \<^verbatim>\<open>Add\<close> that
  overlaps with \<^verbatim>\<open>StopAndWait\<close> can send on the closed channel. The pump is sorted into the group
  of caches. When the perf reader cannot be opened, the shutdown closes a nil reader.

  \<^bold>\<open>Not modelled.\<close> The Kubernetes client and the informer cache (\<^verbatim>\<open>pkg/k8s\<close>,
  \<^verbatim>\<open>internal/task/cache\<close>), the generated loader \<^verbatim>\<open>bpf_bpfel_x86.go\<close> and \<^verbatim>\<open>main.go\<close> only call
  libraries; the answers of the container runtime and the process file system are arguments of
  the runner. The attribute and section macros of \<^verbatim>\<open>bpf_helpers.h\<close> have no run-time behaviour.
\<close>

end
